(* ===== verification/Prelude.thy ===== *)
theory Prelude
  imports Complex_Main "HOL-Library.AList" "HOL-Library.Word"
begin

text \<open>
  Shared vocabulary of the development: the Python values, strings, dictionaries and
  exceptions that the runtime's code works with, the table operations that its SQL
  statements perform, and the generic lemmas on them.

  A Python \<open>str\<close> is a HOL \<open>string\<close> whose characters are the code points 0 to 255 (Latin-1);
  \<open>py_lower\<close> and \<open>py_strip\<close> are exact on that range. A \<open>dict\<close> is an association list in
  insertion order, \<open>AList.update\<close> is item assignment and \<open>AList.delete\<close> is \<open>pop\<close>. A float
  carries its exact value and its \<open>repr\<close>. A timestamp \<open>datetime.now(UTC)\<close> is an argument of
  type \<open>int\<close>, the microseconds since the epoch, and so is every \<open>uuid4()\<close>, as its string.
  Fallible code returns a sum, \<open>Inl\<close> for the raised exception.
\<close>

section \<open>Collections of simplification rules\<close>

named_theorems tbl_simps \<open>rewrite rules for table operations\<close>
named_theorems py_simps \<open>rewrite rules for Python values and strings\<close>

section \<open>Python values\<close>

datatype pyval =
    PNone
  | PBool bool
  | PInt int
  | PFloat rat string
  | PStr string
  | PList "pyval list"
  | PDict "(string \<times> pyval) list"

type_synonym pydict = "(string \<times> pyval) list"
type_synonym time = int
type_synonym uuid = string

abbreviation second :: "int" where "second \<equiv> 1000000"
abbreviation hour :: "int" where "hour \<equiv> 3600000000"
abbreviation day :: "int" where "day \<equiv> 86400000000"

fun truthy :: "pyval \<Rightarrow> bool" where
  "truthy PNone = False"
| "truthy (PBool b) = b"
| "truthy (PInt i) = (i \<noteq> 0)"
| "truthy (PFloat q _) = (q \<noteq> 0)"
| "truthy (PStr s) = (s \<noteq> [])"
| "truthy (PList xs) = (xs \<noteq> [])"
| "truthy (PDict d) = (d \<noteq> [])"

definition py_or :: "pyval \<Rightarrow> pyval \<Rightarrow> pyval" where
  "py_or a b = (if truthy a then a else b)"

definition dict_get :: "pydict \<Rightarrow> string \<Rightarrow> pyval" where
  "dict_get d k = (case map_of d k of None \<Rightarrow> PNone | Some v \<Rightarrow> v)"

definition dict_get_or :: "pydict \<Rightarrow> string \<Rightarrow> pyval \<Rightarrow> pyval" where
  "dict_get_or d k v = (case map_of d k of None \<Rightarrow> v | Some w \<Rightarrow> w)"

section \<open>Strings\<close>

definition py_space :: "char \<Rightarrow> bool" where
  "py_space c = (let n = (of_char c :: nat) in
     (9 \<le> n \<and> n \<le> 13) \<or> (28 \<le> n \<and> n \<le> 32) \<or> n = 133 \<or> n = 160)"

definition py_strip :: "string \<Rightarrow> string" where
  "py_strip s = rev (dropWhile py_space (rev (dropWhile py_space s)))"

definition lower_char :: "char \<Rightarrow> char" where
  "lower_char c = (let n = (of_char c :: nat) in
     if (65 \<le> n \<and> n \<le> 90) \<or> (192 \<le> n \<and> n \<le> 222 \<and> n \<noteq> 215) then char_of (n + 32) else c)"

definition py_lower :: "string \<Rightarrow> string" where
  "py_lower s = map lower_char s"

definition py_startswith :: "string \<Rightarrow> string \<Rightarrow> bool" where
  "py_startswith s p = (take (length p) s = p)"

fun py_contains :: "string \<Rightarrow> string \<Rightarrow> bool" where
  "py_contains p [] = (p = [])"
| "py_contains p (c # s) = (py_startswith (c # s) p \<or> py_contains p s)"

fun split_on :: "char \<Rightarrow> string \<Rightarrow> string list" where
  "split_on d [] = [[]]"
| "split_on d (c # s) =
     (if c = d then [] # split_on d s
      else (case split_on d s of [] \<Rightarrow> [[c]] | l # ls \<Rightarrow> (c # l) # ls))"

fun join_with :: "string \<Rightarrow> string list \<Rightarrow> string" where
  "join_with sep [] = []"
| "join_with sep [x] = x"
| "join_with sep (x # y # ys) = x @ sep @ join_with sep (y # ys)"

definition replace_char :: "char \<Rightarrow> char \<Rightarrow> string \<Rightarrow> string" where
  "replace_char a b s = map (\<lambda>c. if c = a then b else c) s"

definition last_n :: "nat \<Rightarrow> 'a list \<Rightarrow> 'a list" where
  "last_n n xs = drop (length xs - n) xs"

fun digits10 :: "nat \<Rightarrow> string" where
  "digits10 n = (if n < 10 then [char_of (48 + n)]
                 else digits10 (n div 10) @ [char_of (48 + n mod 10)])"

declare digits10.simps [simp del]

definition show_int :: "int \<Rightarrow> string" where
  "show_int i = (if i < 0 then ''-'' @ digits10 (nat (- i)) else digits10 (nat i))"

definition hex_digit :: "nat \<Rightarrow> char" where
  "hex_digit n = (if n < 10 then char_of (48 + n) else char_of (87 + n))"

definition repr_char :: "char \<Rightarrow> char \<Rightarrow> string" where
  "repr_char q c = (let n = (of_char c :: nat); bs = CHR 0x5C in
     if c = q \<or> c = bs then [bs, c]
     else if n = 9 then [bs, CHR ''t''] else if n = 10 then [bs, CHR ''n'']
     else if n = 13 then [bs, CHR ''r'']
     else if n < 32 \<or> (127 \<le> n \<and> n \<le> 160) \<or> n = 173
       then [bs, CHR ''x'', hex_digit (n div 16), hex_digit (n mod 16)]
     else [c])"

definition repr_str :: "string \<Rightarrow> string" where
  "repr_str s = (let q = (if CHR 0x27 \<in> set s \<and> CHR 0x22 \<notin> set s then CHR 0x22 else CHR 0x27)
     in [q] @ concat (map (repr_char q) s) @ [q])"

primrec py_repr :: "pyval \<Rightarrow> string" where
  "py_repr PNone = ''None''"
| "py_repr (PBool b) = (if b then ''True'' else ''False'')"
| "py_repr (PInt i) = show_int i"
| "py_repr (PFloat q r) = r"
| "py_repr (PStr s) = repr_str s"
| "py_repr (PList xs) = ''['' @ join_with '', '' (map py_repr xs) @ '']''"
| "py_repr (PDict d) = ''{'' @ join_with '', ''
     (map (\<lambda>(k, r). repr_str k @ '': '' @ r) (map (map_prod (\<lambda>k. k) py_repr) d)) @ ''}''"

definition py_str :: "pyval \<Rightarrow> string" where
  "py_str v = (case v of PStr s \<Rightarrow> s | _ \<Rightarrow> py_repr v)"

section \<open>Fallible computations\<close>

definition res_bind :: "'e + 'a \<Rightarrow> ('a \<Rightarrow> 'e + 'b) \<Rightarrow> 'e + 'b" where
  "res_bind m f = (case m of Inl e \<Rightarrow> Inl e | Inr x \<Rightarrow> f x)"

fun res_map :: "('a \<Rightarrow> 'e + 'b) \<Rightarrow> 'a list \<Rightarrow> 'e + 'b list" where
  "res_map f [] = Inr []"
| "res_map f (x # xs) = res_bind (f x) (\<lambda>y. res_bind (res_map f xs) (\<lambda>ys. Inr (y # ys)))"

lemma res_bind_simps [simp]: "res_bind (Inl e) f = Inl e" "res_bind (Inr x) f = f x"
  by (simp_all add: res_bind_def)

lemma res_bind_Inr_iff: "res_bind m f = Inr y \<longleftrightarrow> (\<exists>x. m = Inr x \<and> f x = Inr y)"
  by (cases m) auto

lemma res_bind_Inl_iff: "res_bind m f = Inl e \<longleftrightarrow> m = Inl e \<or> (\<exists>x. m = Inr x \<and> f x = Inl e)"
  by (cases m) auto

lemma res_map_Inr: "res_map f xs = Inr ys \<Longrightarrow> list_all2 (\<lambda>x y. f x = Inr y) xs ys"
  by (induction xs arbitrary: ys) (auto simp: res_bind_Inr_iff)

lemma res_map_mem:
  assumes "res_map f xs = Inr ys" and "y \<in> set ys"
  shows "\<exists>x\<in>set xs. f x = Inr y"
  using assms by (induction xs arbitrary: ys) (auto simp: res_bind_Inr_iff)

section \<open>UUIDs\<close>

text \<open>
  \<open>str.replace\<close> drops \<open>n\<close> characters of a match that was already rewritten. \<open>int_base16\<close> is
  \<open>int(s, 16)\<close>: surrounding white space, a sign, the prefix \<open>0x\<close> and single underscores
  between digits are accepted. \<open>py_UUID\<close> is \<open>str(UUID(s))\<close>, \<open>None\<close> where the constructor
  raises \<open>ValueError\<close>.
\<close>

fun replace_from :: "nat \<Rightarrow> string \<Rightarrow> string \<Rightarrow> string \<Rightarrow> string" where
  "replace_from n p r [] = []"
| "replace_from (Suc n) p r (c # s) = replace_from n p r s"
| "replace_from 0 p r (c # s) =
     (if py_startswith (c # s) p then r @ replace_from (length p - 1) p r s
      else c # replace_from 0 p r s)"

definition py_replace :: "string \<Rightarrow> string \<Rightarrow> string \<Rightarrow> string" where
  "py_replace p r s = replace_from 0 p r s"

definition strip_chars :: "char list \<Rightarrow> string \<Rightarrow> string" where
  "strip_chars cs s = (let P = (\<lambda>c. c \<in> set cs) in rev (dropWhile P (rev (dropWhile P s))))"

definition hex_value :: "char \<Rightarrow> nat option" where
  "hex_value c = (let n = (of_char c :: nat) in
     if 48 \<le> n \<and> n \<le> 57 then Some (n - 48)
     else if 97 \<le> n \<and> n \<le> 102 then Some (n - 87)
     else if 65 \<le> n \<and> n \<le> 70 then Some (n - 55) else None)"

fun hex_digits :: "bool \<Rightarrow> int \<Rightarrow> string \<Rightarrow> int option" where
  "hex_digits ok acc [] = (if ok then Some acc else None)"
| "hex_digits ok acc (c # s) =
     (if c = CHR ''_'' then (if ok then hex_digits False acc s else None)
      else (case hex_value c of None \<Rightarrow> None | Some v \<Rightarrow> hex_digits True (16 * acc + int v) s))"

definition int_base16 :: "string \<Rightarrow> int option" where
  "int_base16 s = (let t = py_strip s;
       neg = py_startswith t ''-'';
       u = (if neg \<or> py_startswith t ''+'' then tl t else t);
       pre = py_startswith u ''0x'' \<or> py_startswith u ''0X'';
       v = (if pre then drop 2 u else u);
       w = (if pre \<and> py_startswith v ''_'' then tl v else v)
     in map_option (\<lambda>n. if neg then - n else n) (hex_digits False 0 w))"

definition hex_pad :: "nat \<Rightarrow> int \<Rightarrow> string" where
  "hex_pad k n = rev (map (\<lambda>i. hex_digit (nat (n div 16 ^ i mod 16))) [0..<k])"

definition py_UUID :: "string \<Rightarrow> uuid option" where
  "py_UUID s = (let h = filter (\<lambda>c. c \<noteq> CHR ''-'')
        (strip_chars ''{}'' (py_replace ''uuid:'' [] (py_replace ''urn:'' [] s)))
     in if length h \<noteq> 32 then None
        else (case int_base16 h of None \<Rightarrow> None
          | Some i \<Rightarrow> if i < 0 then None else
              (let x = hex_pad 32 i in Some (take 8 x @ ''-'' @ take 4 (drop 8 x) @ ''-'' @
                 take 4 (drop 12 x) @ ''-'' @ take 4 (drop 16 x) @ ''-'' @ drop 20 x))))"

section \<open>Timestamps\<close>

text \<open>
  The proleptic Gregorian date of a day number (days since 1970-01-01), and
  \<open>datetime.isoformat()\<close> of a UTC instant given in microseconds.
\<close>

definition civil_from_days :: "int \<Rightarrow> int \<times> int \<times> int" where
  "civil_from_days z0 = (let z = z0 + 719468; era = z div 146097; doe = z mod 146097;
       yoe = (doe - doe div 1460 + doe div 36524 - doe div 146096) div 365;
       doy = doe - (365 * yoe + yoe div 4 - yoe div 100);
       mp = (5 * doy + 2) div 153; d = doy - (153 * mp + 2) div 5 + 1;
       m = (if mp < 10 then mp + 3 else mp - 9); y = yoe + era * 400
     in (if m \<le> 2 then y + 1 else y, m, d))"

definition pad_int :: "nat \<Rightarrow> int \<Rightarrow> string" where
  "pad_int k i = (let s = show_int i in replicate (k - length s) (CHR ''0'') @ s)"

definition iso_date :: "int \<Rightarrow> string" where
  "iso_date z = (case civil_from_days z of (y, m, d) \<Rightarrow>
     pad_int 4 y @ ''-'' @ pad_int 2 m @ ''-'' @ pad_int 2 d)"

definition isoformat :: "time \<Rightarrow> string" where
  "isoformat t = (let u = t mod day in
     iso_date (t div day) @ ''T'' @ pad_int 2 (u div hour) @ '':'' @
     pad_int 2 (u mod hour div 60000000) @ '':'' @ pad_int 2 (u mod 60000000 div second) @
     (if u mod second = 0 then [] else ''.'' @ pad_int 6 (u mod second)) @ ''+00:00'')"

section \<open>Table operations\<close>

text \<open>
  \<open>UPDATE ... SET f WHERE P\<close>, \<open>INSERT ... ON CONFLICT DO NOTHING\<close> and
  \<open>SELECT ... ORDER BY k LIMIT n\<close> over a table held as the list of its rows.
\<close>

definition upd_where :: "('r \<Rightarrow> bool) \<Rightarrow> ('r \<Rightarrow> 'r) \<Rightarrow> 'r list \<Rightarrow> 'r list" where
  "upd_where P f rows = map (\<lambda>r. if P r then f r else r) rows"

definition rows_matching :: "('r \<Rightarrow> bool) \<Rightarrow> 'r list \<Rightarrow> nat" where
  "rows_matching P rows = length (filter P rows)"

definition insert_ignore :: "('r \<Rightarrow> 'k) \<Rightarrow> 'r \<Rightarrow> 'r list \<Rightarrow> 'r list \<times> bool" where
  "insert_ignore key r rows =
     (if key r \<in> set (map key rows) then (rows, False) else (rows @ [r], True))"

definition order_limit :: "('r \<Rightarrow> 'k::linorder) \<Rightarrow> nat \<Rightarrow> 'r list \<Rightarrow> 'r list" where
  "order_limit k n rows = take n (sort_key k rows)"

lemma upd_where_Nil [simp, tbl_simps]: "upd_where P f [] = []"
  by (simp add: upd_where_def)

lemma upd_where_Cons [simp, tbl_simps]:
  "upd_where P f (r # rs) = (if P r then f r else r) # upd_where P f rs"
  by (simp add: upd_where_def)

lemma upd_where_append [simp, tbl_simps]:
  "upd_where P f (rs @ ss) = upd_where P f rs @ upd_where P f ss"
  by (simp add: upd_where_def)

lemma length_upd_where [simp, tbl_simps]: "length (upd_where P f rows) = length rows"
  by (simp add: upd_where_def)

lemma set_upd_where [tbl_simps]:
  "set (upd_where P f rows) = (\<lambda>r. if P r then f r else r) ` set rows"
  by (simp add: upd_where_def)

lemma map_upd_where_key:
  assumes "\<And>r. P r \<Longrightarrow> key (f r) = key r"
  shows "map key (upd_where P f rows) = map key rows"
  using assms by (simp add: upd_where_def)

lemma upd_where_no_match: "(\<And>r. r \<in> set rows \<Longrightarrow> \<not> P r) \<Longrightarrow> upd_where P f rows = rows"
  by (induction rows) auto

lemma filter_upd_where_disjoint:
  assumes "\<And>r. P r \<Longrightarrow> \<not> Q r" and "\<And>r. P r \<Longrightarrow> \<not> Q (f r)"
  shows "filter Q (upd_where P f rows) = filter Q rows"
  using assms by (induction rows) auto

lemma distinct_insert_ignore:
  assumes "distinct (map key rows)"
  shows "distinct (map key (fst (insert_ignore key r rows)))"
  using assms by (auto simp: insert_ignore_def)

lemma insert_ignore_new:
  "snd (insert_ignore key r rows) \<longleftrightarrow> key r \<notin> set (map key rows)"
  by (auto simp: insert_ignore_def)

lemma insert_ignore_mem:
  "key r \<in> set (map key (fst (insert_ignore key r rows)))"
  by (auto simp: insert_ignore_def)

lemma insert_ignore_again:
  "insert_ignore key r' (fst (insert_ignore key r rows)) =
     (fst (insert_ignore key r rows), False)" if "key r' = key r"
  using that by (auto simp: insert_ignore_def)

lemma insert_ignore_keeps:
  "set rows \<subseteq> set (fst (insert_ignore key r rows))"
  by (auto simp: insert_ignore_def)

lemma distinct_key_unique:
  assumes "distinct (map key rows)" and "r \<in> set rows" and "s \<in> set rows" and "key r = key s"
  shows "r = s"
  using assms by (auto simp: distinct_map inj_on_def)

lemma sorted_order_limit: "sorted (map k (order_limit k n rows))"
  unfolding order_limit_def by (metis sorted_sort_key sorted_wrt_take take_map)

lemma set_order_limit: "set (order_limit k n rows) \<subseteq> set rows"
  unfolding order_limit_def by (metis set_sort set_take_subset)

lemma distinct_order_limit: "distinct (map f rows) \<Longrightarrow> distinct (map f (order_limit k n rows))"
  by (simp add: order_limit_def take_map [symmetric] distinct_take distinct_map)

lemma length_order_limit: "length (order_limit k n rows) \<le> n"
  by (simp add: order_limit_def)

section \<open>Lemmas on strings and dictionaries\<close>

lemma length_last_n [py_simps]: "length (last_n n xs) = min n (length xs)"
  by (simp add: last_n_def)

lemma set_last_n: "set (last_n n xs) \<subseteq> set xs"
  by (simp add: last_n_def set_drop_subset)

lemma last_n_snoc_mem: "0 < n \<Longrightarrow> x \<in> set (last_n n (xs @ [x]))"
  by (cases n) (auto simp: last_n_def)

lemma length_py_lower [simp, py_simps]: "length (py_lower s) = length s"
  by (simp add: py_lower_def)

lemma dict_get_Nil [simp]: "dict_get [] k = PNone"
  by (simp add: dict_get_def)

lemma dict_get_Cons [simp]:
  "dict_get ((k, v) # d) k' = (if k' = k then v else dict_get d k')"
  by (simp add: dict_get_def)

lemma dict_get_or_Nil [simp]: "dict_get_or [] k v = v"
  by (simp add: dict_get_or_def)

lemma dict_get_or_Cons [simp]:
  "dict_get_or ((k, v) # d) k' w = (if k' = k then v else dict_get_or d k' w)"
  by (simp add: dict_get_or_def)

lemma py_str_simps [simp]:
  "py_str (PStr s) = s" "py_str PNone = ''None''" "py_str (PInt i) = show_int i"
  by (simp_all add: py_str_def)

lemma bit_one_zero [simp]: "bit (Suc 0) 0"
  by (simp add: bit_iff_odd)

text \<open>Rules that compute the characters of literals.\<close>

lemmas char_eval = char_of_def lower_char_def py_lower_def show_int_def digits10.simps
  hex_digit_def Let_def

lemma py_strip_Nil [simp]: "py_strip [] = []"
  by (simp add: py_strip_def)

lemma split_on_not_Nil [simp]: "split_on d s \<noteq> []"
  by (induction s) (auto split: list.splits)

lemma join_split_on: "join_with [d] (split_on d s) = s"
proof (induction s)
  case (Cons c s)
  then show ?case
    by (cases "split_on d s"; cases "tl (split_on d s)") auto
qed simp

lemma find_upd_where:
  assumes "\<And>r. Q (f r) = Q r"
  shows "find Q (upd_where P f rows) = map_option (\<lambda>r. if P r then f r else r) (find Q rows)"
  using assms by (induction rows) (auto simp: upd_where_def)

lemma filter_upd_where:
  assumes "\<And>r. Q (f r) = Q r"
  shows "filter Q (upd_where P f rows) = upd_where P f (filter Q rows)"
  using assms by (induction rows) (auto simp: upd_where_def)

lemma upd_where_filter: "upd_where (\<lambda>r. Q r \<and> P r) f (filter Q rows) = upd_where P f (filter Q rows)"
  by (auto simp: upd_where_def)

lemma find_mem: "find P xs = Some x \<Longrightarrow> x \<in> set xs \<and> P x"
  by (auto simp: find_Some_iff)

lemma find_filter: "find P xs = (case filter P xs of [] \<Rightarrow> None | x # _ \<Rightarrow> Some x)"
  by (induction xs) auto

lemma find_only:
  assumes "distinct (map f xs)" and "x \<in> set xs"
  shows "find (\<lambda>y. f y = f x) xs = Some x"
  using assms by (induction xs) (auto simp: image_iff)

lemma find_key_iff: "find (\<lambda>y. f y = k) xs = None \<longleftrightarrow> k \<notin> f ` set xs"
  by (auto simp: find_None_iff)

lemma filter_key_one: "distinct (map f xs) \<Longrightarrow> length (filter (\<lambda>y. f y = k) xs) \<le> 1"
  by (induction xs) (auto simp: filter_empty_conv image_iff)

lemma single_rev: "length xs \<le> 1 \<Longrightarrow> rev xs = xs"
  by (cases xs) auto

lemma order_limit_single: "length xs \<le> Suc 0 \<Longrightarrow> order_limit f (Suc 0) xs = xs"
  by (cases xs) (auto simp: order_limit_def)

lemma find_append:
  "find P (xs @ ys) = (case find P xs of None \<Rightarrow> find P ys | Some x \<Rightarrow> Some x)"
  by (induction xs) auto

section \<open>Canonical identifiers\<close>

lemma hex_value_digit: "n < 16 \<Longrightarrow> hex_value (hex_digit n) = Some n"
  by (auto simp: hex_value_def hex_digit_def Let_def)

lemma hex_digit_plain:
  assumes "c \<in> hex_digit ` {..<16}"
  shows "\<not> py_space c" and "c \<notin> set ''-+xXu:{}_''"
proof -
  have "c \<in> hex_digit ` set [0..<16]" using assms by auto
  also have "\<dots> = set ''0123456789abcdef''" by code_simp
  finally show "\<not> py_space c" and "c \<notin> set ''-+xXu:{}_''" by (auto simp: py_space_def)
qed

lemma hex_pad_Suc: "hex_pad (Suc k) n = hex_digit (nat (n div 16 ^ k mod 16)) # hex_pad k n"
  by (simp add: hex_pad_def)

lemma set_hex_pad: "set (hex_pad k n) \<subseteq> hex_digit ` {..<16}"
  by (auto simp: hex_pad_def nat_less_iff)

lemmas hex_pad_plain = hex_digit_plain [OF subsetD [OF set_hex_pad]]

lemma hex_digits_pad: "hex_digits True acc (hex_pad k n) = Some (acc * 16 ^ k + n mod 16 ^ k)"
proof (induction k arbitrary: acc)
  case (Suc k)
  let ?d = "nat (n div 16 ^ k mod 16)"
  have d: "?d < 16" "int ?d = n div 16 ^ k mod 16" by (simp_all add: nat_less_iff)
  have "hex_digit ?d \<noteq> CHR ''_''" using hex_digit_plain(2) [of "hex_digit ?d"] d(1) by auto
  moreover have "n mod 16 ^ Suc k = (n div 16 ^ k mod 16) * 16 ^ k + n mod 16 ^ k"
    by (metis mult.commute power_Suc2 zmod_zmult2_eq zero_le_numeral)
  ultimately show ?case
    using Suc d by (simp add: hex_pad_Suc hex_value_digit algebra_simps)
qed (simp add: hex_pad_def)

lemma hex_digits_bound:
  "hex_digits ok acc s = Some r \<Longrightarrow> 0 \<le> acc \<Longrightarrow> 0 \<le> r \<and> r < (acc + 1) * 16 ^ length s"
proof (induction ok acc s rule: hex_digits.induct)
  case (2 ok acc c s)
  show ?case
  proof (cases "c = CHR ''_''")
    case True
    then have "0 \<le> r \<and> r < (acc + 1) * 16 ^ length s" using 2 by (auto split: if_splits)
    then show ?thesis using \<open>0 \<le> acc\<close> by (simp add: order_less_le_trans [of r "(acc + 1) * 16 ^ length s"])
  next
    case False
    then obtain v where v: "hex_value c = Some v" "hex_digits True (16 * acc + int v) s = Some r" using 2(3) by (auto split: option.splits)
    then have "v < 16" by (auto simp: hex_value_def Let_def split: if_splits)
    then have le: "(16 * acc + int v + 1) * 16 ^ length s \<le> (acc + 1) * 16 * 16 ^ length s" by (intro mult_right_mono) auto
    have "0 \<le> r \<and> r < (16 * acc + int v + 1) * 16 ^ length s" using 2(2) False v 2(4) by simp
    with order_less_le_trans [OF _ le, of r] show ?thesis by (simp add: algebra_simps)
  qed
qed (auto split: if_splits)

lemma replace_from_absent:
  assumes "c \<in> set p" and "c \<notin> set s"
  shows "py_replace p r s = s"
proof -
  have "replace_from 0 p r s = s"
    using assms(2)
  proof (induction s)
    case (Cons d s)
    have "\<not> py_startswith (d # s) p"
      using assms(1) Cons.prems by (metis in_set_takeD py_startswith_def)
    then show ?case using Cons by simp
  qed simp
  then show ?thesis by (simp add: py_replace_def)
qed

lemma strip_absent: "\<forall>c\<in>set s. \<not> P c \<Longrightarrow> rev (dropWhile P (rev (dropWhile P s))) = s"
  by (metis dropWhile_eq_self_iff hd_in_set rev_rev_ident set_rev)

lemma startswith_mem: "py_startswith s p \<Longrightarrow> c \<in> set p \<Longrightarrow> c \<in> set s"
  by (metis in_set_takeD py_startswith_def)

lemma int_base16_pad:
  assumes "0 \<le> n" and "n < 16 ^ 32"
  shows "int_base16 (hex_pad 32 n) = Some n"
proof -
  let ?p = "hex_pad 32 n"
  have st: "py_strip ?p = ?p" unfolding py_strip_def by (rule strip_absent) (use hex_pad_plain(1) in blast)
  have m: "CHR ''-'' \<notin> set ?p" "CHR ''+'' \<notin> set ?p" "CHR ''x'' \<notin> set ?p" "CHR ''X'' \<notin> set ?p" "CHR ''_'' \<notin> set ?p"
    using hex_pad_plain(2) by force+
  have sw: "\<not> py_startswith ?p ''-''" "\<not> py_startswith ?p ''+''" "\<not> py_startswith ?p ''0x''" "\<not> py_startswith ?p ''0X''"
    using m startswith_mem by fastforce+
  have ne: "?p \<noteq> []" by (simp add: hex_pad_def)
  have "hex_digits False 0 ?p = hex_digits True 0 ?p" using m(5) ne by (cases ?p) auto
  then have "hex_digits False 0 ?p = Some n" using hex_digits_pad [of 0 32 n] assms by simp
  then show ?thesis by (simp add: int_base16_def st sw Let_def)
qed

lemma int_base16_bound:
  assumes "int_base16 s = Some i" and "0 \<le> i"
  shows "i < 16 ^ length s"
proof -
  have "length (py_strip s) \<le> length s" unfolding py_strip_def by (metis length_dropWhile_le length_rev le_trans)
  moreover define t where "t = py_strip s"
  moreover define u where "u = (if py_startswith t ''-'' \<or> py_startswith t ''+'' then tl t else t)"
  moreover define v where "v = (if py_startswith u ''0x'' \<or> py_startswith u ''0X'' then drop 2 u else u)"
  moreover define w where "w = (if (py_startswith u ''0x'' \<or> py_startswith u ''0X'') \<and> py_startswith v ''_'' then tl v else v)"
  ultimately have "length w \<le> length s" by (auto split: if_splits)
  moreover have "map_option (\<lambda>n. if py_startswith t ''-'' then - n else n) (hex_digits False 0 w) = Some i"
    using assms(1) by (simp only: int_base16_def Let_def w_def v_def u_def t_def)
  then obtain n where "hex_digits False 0 w = Some n" "i = n \<or> i = - n" by (auto split: if_splits)
  ultimately have w: "length w \<le> length s" "hex_digits False 0 w = Some n" "i = n \<or> i = - n" by blast+
  have "0 \<le> n \<and> n < 16 ^ length w" using hex_digits_bound [OF w(2)] by simp
  moreover have le: "(16 :: int) ^ length w \<le> 16 ^ length s" by (rule power_increasing [OF w(1)]) simp
  ultimately have "0 \<le> n \<and> n < 16 ^ length s" using order_less_le_trans [OF _ le] by blast
  then show ?thesis using w(3) assms(2) by auto
qed

text \<open>The canonical text of an identifier denotes the same identifier.\<close>

lemma py_UUID_canonical:
  assumes "py_UUID s = Some u"
  shows "py_UUID u = Some u"
proof -
  let ?h = "filter (\<lambda>c. c \<noteq> CHR ''-'') (strip_chars ''{}'' (py_replace ''uuid:'' [] (py_replace ''urn:'' [] s)))"
  obtain i where i: "int_base16 ?h = Some i" "0 \<le> i" "length ?h = 32" "u = (let x = hex_pad 32 i in take 8 x @ ''-'' @ take 4 (drop 8 x) @ ''-'' @
      take 4 (drop 12 x) @ ''-'' @ take 4 (drop 16 x) @ ''-'' @ drop 20 x)"
    using assms by (auto simp: py_UUID_def Let_def split: if_splits option.splits)
  let ?x = "hex_pad 32 i"
  have m: "CHR ''-'' \<notin> set ?x" "CHR ''u'' \<notin> set ?x" "CHR 0x7B \<notin> set ?x" "CHR 0x7D \<notin> set ?x"
    using hex_pad_plain(2) by force+
  have "set u \<subseteq> insert (CHR ''-'') (set ?x)" unfolding i(4) Let_def by (auto dest: in_set_takeD in_set_dropD)
  then have mu: "CHR ''u'' \<notin> set u" "CHR 0x7B \<notin> set u" "CHR 0x7D \<notin> set u" using m by auto
  have p1: "py_replace ''urn:'' [] u = u" "py_replace ''uuid:'' [] u = u"
    by (rule replace_from_absent [OF _ mu(1)], simp)+
  have p2: "strip_chars ''{}'' u = u" unfolding strip_chars_def Let_def by (rule strip_absent) (use mu in auto)
  have no: "filter (\<lambda>c. c \<noteq> CHR ''-'') (take a (drop b ?x)) = take a (drop b ?x)" "filter (\<lambda>c. c \<noteq> CHR ''-'') (drop b ?x) = drop b ?x"
      "filter (\<lambda>c. c \<noteq> CHR ''-'') (take a ?x) = take a ?x" for a b
    using m(1) by (auto simp: filter_id_conv dest!: in_set_takeD in_set_dropD)
  have "filter (\<lambda>c. c \<noteq> CHR ''-'') u = take 8 ?x @ take 4 (drop 8 ?x) @ take 4 (drop 12 ?x) @ take 4 (drop 16 ?x) @ drop 20 ?x"
    unfolding i(4) Let_def by (simp add: no)
  also have "\<dots> = ?x"
    using append_take_drop_id [of 4 "drop 16 ?x"] append_take_drop_id [of 4 "drop 12 ?x"] append_take_drop_id [of 4 "drop 8 ?x"] by simp
  finally have "filter (\<lambda>c. c \<noteq> CHR ''-'') u = ?x" .
  moreover have "length ?x = 32" by (simp add: hex_pad_def)
  moreover have "i < 16 ^ 32" using int_base16_bound [OF i(1,2)] i(3) by simp
  ultimately have "py_UUID u = Some (let x = ?x in take 8 x @ ''-'' @ take 4 (drop 8 x) @ ''-'' @
      take 4 (drop 12 x) @ ''-'' @ take 4 (drop 16 x) @ ''-'' @ drop 20 x)"
    using int_base16_pad [OF i(2)] i(2) unfolding py_UUID_def p1 p2 by (simp add: Let_def)
  then show ?thesis unfolding i(4) .
qed

section \<open>Keyed stores\<close>

text \<open>
  The contract of the runtime's in-process dictionaries (tenant records, tool and skill
  registries, adapter maps): a write is read back under its key and leaves the others alone.
\<close>

locale keyed_store =
  fixes get :: "'s \<Rightarrow> 'k \<Rightarrow> 'v option"
    and put :: "'k \<Rightarrow> 'v \<Rightarrow> 's \<Rightarrow> 's"
  assumes get_put: "get (put k v s) k' = (if k' = k then Some v else get s k')"
begin

lemma get_put_same [simp]: "get (put k v s) k = Some v"
  by (simp add: get_put)

lemma get_put_all:
  "get (fold (\<lambda>(k, v). put k v) kvs s) k = (case map_of (rev kvs) k of Some v \<Rightarrow> Some v | None \<Rightarrow> get s k)"
proof (induction kvs arbitrary: s)
  case (Cons kv kvs)
  then show ?case by (cases kv) (auto simp: get_put map_add_def split: option.splits)
qed simp

end

interpretation alist: keyed_store map_of AList.update
  by unfold_locales (simp add: update_conv')

end
