(* ===== verification/Hashing.thy ===== *)
theory Hashing
  imports Prelude
begin

text \<open>
  \<open>hashlib.sha256(s.encode()).hexdigest()\<close>: UTF-8 encoding of the code points, FIPS 180-4
  padding, message schedule and compression over 32-bit words, and the lower-case hex
  rendering. The runtime uses it for every opaque reference it stores.
\<close>

unbundle bit_operations_syntax

type_synonym u32 = "32 word"

definition utf8_char :: "char \<Rightarrow> nat list" where
  "utf8_char c = (let n = (of_char c :: nat) in
     if n < 128 then [n] else [192 + n div 64, 128 + n mod 64])"

definition py_encode :: "string \<Rightarrow> nat list" where
  "py_encode s = concat (map utf8_char s)"

definition sha_k :: "u32 list" where
  "sha_k = [
    1116352408, 1899447441, 3049323471, 3921009573, 961987163, 1508970993, 2453635748, 2870763221,
    3624381080, 310598401, 607225278, 1426881987, 1925078388, 2162078206, 2614888103, 3248222580,
    3835390401, 4022224774, 264347078, 604807628, 770255983, 1249150122, 1555081692, 1996064986,
    2554220882, 2821834349, 2952996808, 3210313671, 3336571891, 3584528711, 113926993, 338241895,
    666307205, 773529912, 1294757372, 1396182291, 1695183700, 1986661051, 2177026350, 2456956037,
    2730485921, 2820302411, 3259730800, 3345764771, 3516065817, 3600352804, 4094571909, 275423344,
    430227734, 506948616, 659060556, 883997877, 958139571, 1322822218, 1537002063, 1747873779,
    1955562222, 2024104815, 2227730452, 2361852424, 2428436474, 2756734187, 3204031479, 3329325298]"

record sha_state =
  sha_a :: u32
  sha_b :: u32
  sha_c :: u32
  sha_d :: u32
  sha_e :: u32
  sha_f :: u32
  sha_g :: u32
  sha_h :: u32

definition sha_init :: sha_state where
  "sha_init = \<lparr>sha_a = 0x6a09e667, sha_b = 0xbb67ae85, sha_c = 0x3c6ef372, sha_d = 0xa54ff53a,
     sha_e = 0x510e527f, sha_f = 0x9b05688c, sha_g = 0x1f83d9ab, sha_h = 0x5be0cd19\<rparr>"

definition sha_add :: "sha_state \<Rightarrow> sha_state \<Rightarrow> sha_state" where
  "sha_add s t = \<lparr>sha_a = sha_a s + sha_a t, sha_b = sha_b s + sha_b t, sha_c = sha_c s + sha_c t, sha_d = sha_d s + sha_d t,
     sha_e = sha_e s + sha_e t, sha_f = sha_f s + sha_f t, sha_g = sha_g s + sha_g t, sha_h = sha_h s + sha_h t\<rparr>"

definition sha_round :: "sha_state \<Rightarrow> u32 \<times> u32 \<Rightarrow> sha_state" where
  "sha_round s kw = (let
     s1 = word_rotr 6 (sha_e s) XOR word_rotr 11 (sha_e s) XOR word_rotr 25 (sha_e s);
     ch = (sha_e s AND sha_f s) XOR (NOT (sha_e s) AND sha_g s);
     t1 = sha_h s + s1 + ch + fst kw + snd kw;
     s0 = word_rotr 2 (sha_a s) XOR word_rotr 13 (sha_a s) XOR word_rotr 22 (sha_a s);
     maj = (sha_a s AND sha_b s) XOR (sha_a s AND sha_c s) XOR (sha_b s AND sha_c s);
     t2 = s0 + maj
   in \<lparr>sha_a = t1 + t2, sha_b = sha_a s, sha_c = sha_b s, sha_d = sha_c s, sha_e = sha_d s + t1, sha_f = sha_e s, sha_g = sha_f s,
       sha_h = sha_g s\<rparr>)"

text \<open>The message schedule, kept newest word first while it grows.\<close>

fun sha_extend :: "nat \<Rightarrow> u32 list \<Rightarrow> u32 list" where
  "sha_extend 0 ws = rev ws"
| "sha_extend (Suc n) ws = (let
     w15 = ws ! 14; w2 = ws ! 1;
     s0 = word_rotr 7 w15 XOR word_rotr 18 w15 XOR drop_bit 3 w15;
     s1 = word_rotr 17 w2 XOR word_rotr 19 w2 XOR drop_bit 10 w2
   in sha_extend n ((ws ! 15 + s0 + ws ! 6 + s1) # ws))"

definition be_word :: "nat list \<Rightarrow> u32" where
  "be_word bs = word_of_nat (foldl (\<lambda>a b. a * 256 + b) 0 bs)"

fun chunks :: "nat \<Rightarrow> nat \<Rightarrow> 'a list \<Rightarrow> 'a list list" where
  "chunks k 0 xs = []"
| "chunks k (Suc n) xs = take k xs # chunks k n (drop k xs)"

definition sha_block :: "sha_state \<Rightarrow> nat list \<Rightarrow> sha_state" where
  "sha_block s blk = sha_add s
     (foldl sha_round s (zip sha_k (sha_extend 48 (rev (map be_word (chunks 4 16 blk))))))"

definition be_bytes :: "nat \<Rightarrow> nat \<Rightarrow> nat list" where
  "be_bytes k n = rev (map (\<lambda>i. n div 256 ^ i mod 256) [0..<k])"

definition sha_pad :: "nat list \<Rightarrow> nat list" where
  "sha_pad m = m @ [128] @ replicate ((119 - length m mod 64) mod 64) 0 @ be_bytes 8 (8 * length m)"

definition hex_word :: "u32 \<Rightarrow> string" where
  "hex_word w = map (\<lambda>i. hex_digit (unat w div 16 ^ i mod 16)) (rev [0..<8])"

definition sha_words :: "sha_state \<Rightarrow> u32 list" where
  "sha_words s = [sha_a s, sha_b s, sha_c s, sha_d s, sha_e s, sha_f s, sha_g s, sha_h s]"

definition sha256_bytes :: "nat list \<Rightarrow> string" where
  "sha256_bytes m = (let p = sha_pad m in
     concat (map hex_word (sha_words (foldl sha_block sha_init (chunks 64 (length p div 64) p)))))"

definition sha256_hex :: "string \<Rightarrow> string" where
  "sha256_hex s = sha256_bytes (py_encode s)"

text \<open>A digest is sixty-four lower-case hex digits, and a prefix of it has the prefix's length.\<close>

lemma length_hex_word [simp]: "length (hex_word w) = 8"
  by (simp add: hex_word_def)

lemma length_sha256_bytes [simp]: "length (sha256_bytes m) = 64"
  by (simp add: sha256_bytes_def sha_words_def Let_def)

lemma length_sha256_hex [simp]: "length (sha256_hex s) = 64"
  by (simp add: sha256_hex_def)

lemma length_sha_pad: "length (sha_pad m) mod 64 = 0"
proof -
  define r where "r = length m mod 64"
  have r: "r < 64" by (simp add: r_def)
  have "(r + (1 + ((119 - r) mod 64 + 8))) mod 64 = 0"
  proof (cases "r \<le> 55")
    case True
    then have "(119 - r) mod 64 = 55 - r"
      by (simp add: mod_if)
    then show ?thesis using True by simp
  next
    case False
    then have "(119 - r) mod 64 = 119 - r" by simp
    then show ?thesis using r by simp
  qed
  then have "(length m + (1 + ((119 - r) mod 64 + 8))) mod 64 = 0"
    unfolding r_def by (simp only: mod_add_left_eq)
  then show ?thesis by (simp add: sha_pad_def be_bytes_def r_def)
qed

lemma hex_word_digits: "set (hex_word w) \<subseteq> hex_digit ` {..<16}"
  by (auto simp: hex_word_def)

lemma sha256_hex_digits: "set (sha256_hex s) \<subseteq> hex_digit ` {..<16}"
  using hex_word_digits by (fastforce simp: sha256_hex_def sha256_bytes_def sha_words_def Let_def)

end
