(* ===== verification/Contracts.thy ===== *)
theory Contracts
  imports Prelude Hashing
begin

text \<open>
  The data contracts of \<open>iara.contracts\<close>: the exception hierarchy (\<open>errors.py\<close>), the tenant
  identity (\<open>tenancy.py\<close>), the normalized webhook event and the eligibility decision
  (\<open>events.py\<close>), provider commands and results (\<open>provider.py\<close>) and tool requests, results and
  definitions (\<open>tools.py\<close>). A \<open>StrEnum\<close> is a datatype with the map to its value and the partial
  map back. Messages are transliterated to Latin-1 (a dash for the em dash).
\<close>

section \<open>Exceptions\<close>

datatype iara_error =
    FailClosedError string
  | CrossTenantError string
  | PolicyViolationError string "string option"
  | ReadbackFailedError string "string option"
  | ProviderError string "string option" "int option"
  | IdempotencyError string "string option"
  | LeaseConflictError string "string option"
  | EligibilityError string "string option"
  | MediaProcessingError string "string option"
  | ToolExecutionError string "string option"
  | ConfigPublishError string
  | ProductionBlockedError

fun iara_code :: "iara_error \<Rightarrow> string" where
  "iara_code (FailClosedError m) = ''FAIL_CLOSED''"
| "iara_code (CrossTenantError m) = ''CROSS_TENANT''"
| "iara_code (PolicyViolationError m p) = ''POLICY_VIOLATION''"
| "iara_code (ReadbackFailedError m r) = ''READBACK_FAILED''"
| "iara_code (ProviderError m p c) = ''PROVIDER_ERROR''"
| "iara_code (IdempotencyError m k) = ''IDEMPOTENCY_CONFLICT''"
| "iara_code (LeaseConflictError m c) = ''LEASE_CONFLICT''"
| "iara_code (EligibilityError m r) = ''ELIGIBILITY_REJECTED''"
| "iara_code (MediaProcessingError m t) = ''MEDIA_PROCESSING_ERROR''"
| "iara_code (ToolExecutionError m t) = ''TOOL_EXECUTION_ERROR''"
| "iara_code (ConfigPublishError m) = ''CONFIG_PUBLISH_ERROR''"
| "iara_code ProductionBlockedError = ''PRODUCTION_BLOCKED''"

fun iara_message :: "iara_error \<Rightarrow> string" where
  "iara_message (FailClosedError m) = m"
| "iara_message (CrossTenantError m) = m"
| "iara_message (PolicyViolationError m p) = m"
| "iara_message (ReadbackFailedError m r) = m"
| "iara_message (ProviderError m p c) = m"
| "iara_message (IdempotencyError m k) = m"
| "iara_message (LeaseConflictError m c) = m"
| "iara_message (EligibilityError m r) = m"
| "iara_message (MediaProcessingError m t) = m"
| "iara_message (ToolExecutionError m t) = m"
| "iara_message (ConfigPublishError m) = m"
| "iara_message ProductionBlockedError =
     ''Production access blocked. Set IARA_PRODUCTION_AUTHORIZED=true with explicit Digi2B authorization.''"

definition IaraError_str :: "iara_error \<Rightarrow> string" where
  "IaraError_str e = ''['' @ iara_code e @ ''] '' @ iara_message e"

text \<open>Everything a modelled function can raise: the runtime's own errors and the language's.\<close>

datatype py_exc =
    IaraExc iara_error
  | ValueError string
  | KeyError string
  | TypeError string
  | AttributeError string
  | ValidationError string
  | RuntimeError string
  | HTTPException int string
  | TimeoutException
  | ConnectError
  | HTTPStatusError int
  | OtherExc string

type_synonym 'a res = "py_exc + 'a"

abbreviation raise_iara :: "iara_error \<Rightarrow> 'a res" where
  "raise_iara e \<equiv> Inl (IaraExc e)"

text \<open>\<open>v.get(...)\<close> needs a dictionary.\<close>

definition as_dict :: "pyval \<Rightarrow> pydict res" where
  "as_dict v = (case v of PDict d \<Rightarrow> Inr d | _ \<Rightarrow> Inl (AttributeError ''get''))"

lemma as_dict_simps [simp]: "as_dict (PDict d) = Inr d"
  by (simp add: as_dict_def)

section \<open>Tenant identity\<close>

datatype TenantStatus = TS_ACTIVE | TS_SUSPENDED | TS_SANDBOX | TS_OFFBOARDED

primrec TenantStatus_value :: "TenantStatus \<Rightarrow> string" where
  "TenantStatus_value TS_ACTIVE = ''active''"
| "TenantStatus_value TS_SUSPENDED = ''suspended''"
| "TenantStatus_value TS_SANDBOX = ''sandbox''"
| "TenantStatus_value TS_OFFBOARDED = ''offboarded''"

definition TenantStatus_of :: "pyval \<Rightarrow> TenantStatus res" where
  "TenantStatus_of v = (case find (\<lambda>s. v = PStr (TenantStatus_value s))
       [TS_ACTIVE, TS_SUSPENDED, TS_SANDBOX, TS_OFFBOARDED] of
     Some s \<Rightarrow> Inr s | None \<Rightarrow> Inl (ValueError (py_repr v @ '' is not a valid TenantStatus'')))"

record TenantContext =
  tc_tenant_id :: uuid
  tc_tenant_key :: string
  tc_tenant_name :: string
  tc_status :: TenantStatus
  tc_provider_account_id :: string
  tc_provider :: string
  tc_resolved_at :: time

definition TenantContext_assert_active :: "TenantContext \<Rightarrow> unit res" where
  "TenantContext_assert_active ctx =
     (if tc_status ctx \<notin> {TS_ACTIVE, TS_SANDBOX}
      then raise_iara (FailClosedError (''Tenant '' @ repr_str (tc_tenant_key ctx) @
             '' is not active (status='' @ TenantStatus_value (tc_status ctx) @ '')''))
      else Inr ())"

definition TenantContext_verify_provider_account :: "TenantContext \<Rightarrow> string \<Rightarrow> unit res" where
  "TenantContext_verify_provider_account ctx account_id =
     (if account_id \<noteq> tc_provider_account_id ctx
      then raise_iara (CrossTenantError (''Account binding mismatch for tenant '' @
             repr_str (tc_tenant_key ctx) @ '' - refusing to execute cross-tenant operation''))
      else Inr ())"

lemma TenantStatus_of_value [simp]: "TenantStatus_of (PStr (TenantStatus_value s)) = Inr s"
  by (cases s) (simp_all add: TenantStatus_of_def)

lemma TenantStatus_of_error: "TenantStatus_of v = Inl e \<Longrightarrow> \<exists>m. e = ValueError m"
  by (auto simp: TenantStatus_of_def split: option.splits)

lemma assert_active_iff:
  "TenantContext_assert_active ctx = Inr () \<longleftrightarrow> tc_status ctx = TS_ACTIVE \<or> tc_status ctx = TS_SANDBOX"
  by (simp add: TenantContext_assert_active_def)

lemma assert_active_error:
  "TenantContext_assert_active ctx = Inl e \<Longrightarrow> \<exists>m. e = IaraExc (FailClosedError m)"
  by (auto simp: TenantContext_assert_active_def split: if_splits)

section \<open>Events\<close>

datatype EventType = MESSAGE_CREATED | MESSAGE_UPDATED | CONVERSATION_CREATED
  | CONVERSATION_UPDATED | CONVERSATION_STATUS_CHANGED | CONTACT_CREATED | CONTACT_UPDATED

primrec EventType_value :: "EventType \<Rightarrow> string" where
  "EventType_value MESSAGE_CREATED = ''message_created''"
| "EventType_value MESSAGE_UPDATED = ''message_updated''"
| "EventType_value CONVERSATION_CREATED = ''conversation_created''"
| "EventType_value CONVERSATION_UPDATED = ''conversation_updated''"
| "EventType_value CONVERSATION_STATUS_CHANGED = ''conversation_status_changed''"
| "EventType_value CONTACT_CREATED = ''contact_created''"
| "EventType_value CONTACT_UPDATED = ''contact_updated''"

definition EventType_of :: "pyval \<Rightarrow> EventType option" where
  "EventType_of v = find (\<lambda>t. v = PStr (EventType_value t))
     [MESSAGE_CREATED, MESSAGE_UPDATED, CONVERSATION_CREATED, CONVERSATION_UPDATED,
      CONVERSATION_STATUS_CHANGED, CONTACT_CREATED, CONTACT_UPDATED]"

datatype MessageType = MT_INCOMING | MT_OUTGOING | MT_ACTIVITY | MT_TEMPLATE

primrec MessageType_value :: "MessageType \<Rightarrow> string" where
  "MessageType_value MT_INCOMING = ''incoming''"
| "MessageType_value MT_OUTGOING = ''outgoing''"
| "MessageType_value MT_ACTIVITY = ''activity''"
| "MessageType_value MT_TEMPLATE = ''template''"

definition MessageType_of :: "string \<Rightarrow> MessageType option" where
  "MessageType_of s = find (\<lambda>t. s = MessageType_value t)
     [MT_INCOMING, MT_OUTGOING, MT_ACTIVITY, MT_TEMPLATE]"

datatype SenderType = ST_CONTACT | ST_AGENT_BOT | ST_USER | ST_SYSTEM

primrec SenderType_value :: "SenderType \<Rightarrow> string" where
  "SenderType_value ST_CONTACT = ''contact''"
| "SenderType_value ST_AGENT_BOT = ''agent_bot''"
| "SenderType_value ST_USER = ''user''"
| "SenderType_value ST_SYSTEM = ''system''"

definition SenderType_of :: "string \<Rightarrow> SenderType option" where
  "SenderType_of s = find (\<lambda>t. s = SenderType_value t)
     [ST_CONTACT, ST_AGENT_BOT, ST_USER, ST_SYSTEM]"

datatype AttachmentType = AT_IMAGE | AT_AUDIO | AT_VIDEO | AT_FILE | AT_LOCATION | AT_FALLBACK
  | AT_ARTICLE | AT_CONTACT

primrec AttachmentType_value :: "AttachmentType \<Rightarrow> string" where
  "AttachmentType_value AT_IMAGE = ''image''"
| "AttachmentType_value AT_AUDIO = ''audio''"
| "AttachmentType_value AT_VIDEO = ''video''"
| "AttachmentType_value AT_FILE = ''file''"
| "AttachmentType_value AT_LOCATION = ''location''"
| "AttachmentType_value AT_FALLBACK = ''fallback''"
| "AttachmentType_value AT_ARTICLE = ''article''"
| "AttachmentType_value AT_CONTACT = ''contact''"

definition AttachmentType_of :: "pyval \<Rightarrow> AttachmentType option" where
  "AttachmentType_of v = find (\<lambda>t. v = PStr (AttachmentType_value t))
     [AT_IMAGE, AT_AUDIO, AT_VIDEO, AT_FILE, AT_LOCATION, AT_FALLBACK, AT_ARTICLE, AT_CONTACT]"

datatype EligibilityReason = ER_ACCEPTED | ER_OUTGOING_MESSAGE | ER_BOT_SENDER | ER_SYSTEM_SENDER
  | ER_PRIVATE_NOTE | ER_ACCOUNT_MISMATCH | ER_INBOX_NOT_CONFIGURED | ER_TENANT_SUSPENDED
  | ER_DUPLICATE_EVENT | ER_DEBOUNCE_ACTIVE | ER_UNSUPPORTED_EVENT_TYPE
  | ER_MISSING_REQUIRED_FIELD | ER_ENRICHMENT_REQUIRED

primrec EligibilityReason_value :: "EligibilityReason \<Rightarrow> string" where
  "EligibilityReason_value ER_ACCEPTED = ''accepted''"
| "EligibilityReason_value ER_OUTGOING_MESSAGE = ''outgoing_message''"
| "EligibilityReason_value ER_BOT_SENDER = ''bot_sender''"
| "EligibilityReason_value ER_SYSTEM_SENDER = ''system_sender''"
| "EligibilityReason_value ER_PRIVATE_NOTE = ''private_note''"
| "EligibilityReason_value ER_ACCOUNT_MISMATCH = ''account_mismatch''"
| "EligibilityReason_value ER_INBOX_NOT_CONFIGURED = ''inbox_not_configured''"
| "EligibilityReason_value ER_TENANT_SUSPENDED = ''tenant_suspended''"
| "EligibilityReason_value ER_DUPLICATE_EVENT = ''duplicate_event''"
| "EligibilityReason_value ER_DEBOUNCE_ACTIVE = ''debounce_active''"
| "EligibilityReason_value ER_UNSUPPORTED_EVENT_TYPE = ''unsupported_event_type''"
| "EligibilityReason_value ER_MISSING_REQUIRED_FIELD = ''missing_required_field''"
| "EligibilityReason_value ER_ENRICHMENT_REQUIRED = ''enrichment_required''"

record RawEventRef =
  rer_raw_hash :: string
  rer_received_at :: string
  rer_source_ip_ref :: "string option"
  rer_byte_count :: nat

definition RawEventRef_from_raw_bytes ::
    "nat list \<Rightarrow> string \<Rightarrow> string option \<Rightarrow> RawEventRef" where
  "RawEventRef_from_raw_bytes raw received_at source_ip_ref =
     \<lparr>rer_raw_hash = sha256_bytes raw, rer_received_at = received_at,
      rer_source_ip_ref = source_ip_ref, rer_byte_count = length raw\<rparr>"

record CanonicalAttachment =
  att_type :: AttachmentType
  att_content_type :: "string option"
  att_file_name :: "string option"
  att_file_size_bytes :: "int option"
  att_ref :: string
  att_is_processed :: bool
  att_processing_result :: "string option"

record NormalizedChatwootEvent =
  ev_event_type :: EventType
  ev_event_id :: string
  ev_correlation_id :: string
  ev_idempotency_key :: string
  ev_raw_event_ref :: RawEventRef
  ev_account_id_ref :: string
  ev_inbox_id :: string
  ev_inbox_channel_type :: string
  ev_conversation_id :: string
  ev_message_id :: "string option"
  ev_message_type :: "MessageType option"
  ev_sender_type :: "SenderType option"
  ev_content_text :: "string option"
  ev_is_private :: bool
  ev_attachments :: "CanonicalAttachment list"
  ev_tenant_key :: string
  ev_received_at :: string

record EligibilityDecision =
  ed_eligible :: bool
  ed_reason :: EligibilityReason
  ed_details :: string
  ed_enrichment_needed :: bool
  ed_enrichment_fields :: "string list"

definition EligibilityDecision_accept :: EligibilityDecision where
  "EligibilityDecision_accept = \<lparr>ed_eligible = True, ed_reason = ER_ACCEPTED, ed_details = '''',
     ed_enrichment_needed = False, ed_enrichment_fields = []\<rparr>"

definition EligibilityDecision_reject :: "EligibilityReason \<Rightarrow> string \<Rightarrow> EligibilityDecision" where
  "EligibilityDecision_reject reason details = \<lparr>ed_eligible = False, ed_reason = reason,
     ed_details = details, ed_enrichment_needed = False, ed_enrichment_fields = []\<rparr>"

definition EligibilityDecision_needs_enrichment :: "string list \<Rightarrow> EligibilityDecision" where
  "EligibilityDecision_needs_enrichment flds = \<lparr>ed_eligible = False,
     ed_reason = ER_ENRICHMENT_REQUIRED, ed_details = '''', ed_enrichment_needed = True,
     ed_enrichment_fields = flds\<rparr>"

lemma EligibilityDecision_sel [simp]:
  "ed_eligible EligibilityDecision_accept" "ed_reason EligibilityDecision_accept = ER_ACCEPTED"
  "\<not> ed_eligible (EligibilityDecision_reject r d)" "ed_reason (EligibilityDecision_reject r d) = r"
  by (simp_all add: EligibilityDecision_accept_def EligibilityDecision_reject_def)

lemma accept_neq_reject [simp]:
  "EligibilityDecision_accept \<noteq> EligibilityDecision_reject r d"
  "EligibilityDecision_reject r d \<noteq> EligibilityDecision_accept"
  by (simp_all add: EligibilityDecision_accept_def EligibilityDecision_reject_def)

section \<open>Provider commands and results\<close>

datatype CommandStatus = CS_PENDING | CS_SENT | CS_CONFIRMED | CS_FAILED | CS_DEAD_LETTERED

primrec CommandStatus_value :: "CommandStatus \<Rightarrow> string" where
  "CommandStatus_value CS_PENDING = ''pending''"
| "CommandStatus_value CS_SENT = ''sent''"
| "CommandStatus_value CS_CONFIRMED = ''confirmed''"
| "CommandStatus_value CS_FAILED = ''failed''"
| "CommandStatus_value CS_DEAD_LETTERED = ''dead_lettered''"

datatype RiskClass = RC_READ | RC_LOW_WRITE | RC_HIGH_WRITE | RC_CRITICAL

primrec RiskClass_value :: "RiskClass \<Rightarrow> string" where
  "RiskClass_value RC_READ = ''read''"
| "RiskClass_value RC_LOW_WRITE = ''low_write''"
| "RiskClass_value RC_HIGH_WRITE = ''high_write''"
| "RiskClass_value RC_CRITICAL = ''critical''"

definition RiskClass_of :: "string \<Rightarrow> RiskClass res" where
  "RiskClass_of s = (case find (\<lambda>r. s = RiskClass_value r)
       [RC_READ, RC_LOW_WRITE, RC_HIGH_WRITE, RC_CRITICAL] of
     Some r \<Rightarrow> Inr r | None \<Rightarrow> Inl (ValueError (repr_str s @ '' is not a valid RiskClass'')))"

lemma RiskClass_of_value [simp]: "RiskClass_of (RiskClass_value r) = Inr r"
  by (cases r) (simp_all add: RiskClass_of_def)

record ProviderSecurityContext =
  psc_tenant_id :: uuid
  psc_provider :: string
  psc_account_id_ref :: string
  psc_inbox_id :: string
  psc_capability_name :: string
  psc_risk_class :: RiskClass

record CapabilityResolution =
  cap_intent :: string
  cap_resolved_tool_name :: "string option"
  cap_allowed :: bool
  cap_risk_class :: RiskClass
  cap_requires_readback :: bool
  cap_denial_reason :: "string option"

definition CapabilityResolution_denied :: "string \<Rightarrow> string \<Rightarrow> CapabilityResolution" where
  "CapabilityResolution_denied intent reason = \<lparr>cap_intent = intent, cap_resolved_tool_name = None,
     cap_allowed = False, cap_risk_class = RC_READ, cap_requires_readback = True,
     cap_denial_reason = Some reason\<rparr>"

record ProviderCommand =
  cmd_command_id :: string
  cmd_idempotency_key :: string
  cmd_tenant_id :: uuid
  cmd_provider :: string
  cmd_account_id_ref :: string
  cmd_capability_name :: string
  cmd_parameters :: pydict
  cmd_risk_class :: RiskClass
  cmd_requires_readback :: bool
  cmd_correlation_id :: string
  cmd_status :: CommandStatus
  cmd_retry_count :: int

record ProviderMutationResult =
  pmr_command_id :: string
  pmr_idempotency_key :: string
  pmr_success :: bool
  pmr_readback_confirmed :: bool
  pmr_result_ref :: "string option"
  pmr_error_code :: "string option"
  pmr_error_summary :: "string option"

section \<open>Agent tools\<close>

datatype ToolStatus = TL_DRAFT | TL_ACTIVE | TL_INACTIVE | TL_DEPRECATED | TL_SANDBOX

datatype ToolResultStatus = TR_SUCCESS | TR_PARTIAL | TR_FAILED | TR_POLICY_BLOCKED
  | TR_PENDING_HITL | TR_DRAFT_CREATED

primrec ToolResultStatus_value :: "ToolResultStatus \<Rightarrow> string" where
  "ToolResultStatus_value TR_SUCCESS = ''success''"
| "ToolResultStatus_value TR_PARTIAL = ''partial''"
| "ToolResultStatus_value TR_FAILED = ''failed''"
| "ToolResultStatus_value TR_POLICY_BLOCKED = ''policy_blocked''"
| "ToolResultStatus_value TR_PENDING_HITL = ''pending_hitl''"
| "ToolResultStatus_value TR_DRAFT_CREATED = ''draft_created''"

record ToolInvocationRequest =
  tir_invocation_id :: string
  tir_tool_name :: string
  tir_arguments :: pydict
  tir_tenant_id :: uuid
  tir_conversation_id :: string
  tir_correlation_id :: string
  tir_idempotency_key :: string
  tir_call_id :: string

record ToolInvocationResult =
  tr_invocation_id :: string
  tr_tool_name :: string
  tr_status :: ToolResultStatus
  tr_result_summary :: string
  tr_result_data :: pydict
  tr_draft_ref :: "string option"
  tr_outbox_command_id :: "string option"
  tr_error_code :: "string option"
  tr_error_summary :: "string option"
  tr_call_id :: string

record AgentToolDefinition =
  atd_tool_name :: string
  atd_display_name :: string
  atd_description :: string
  atd_parameters_schema :: pydict
  atd_status :: ToolStatus
  atd_skill_ref :: "string option"
  atd_policy_ref :: "string option"
  atd_backend_binding_ref :: "string option"
  atd_requires_policy_check :: bool
  atd_is_side_effecting :: bool
  atd_default_mode :: string

end
