(* ===== verification/Tenancy.thy ===== *)
theory Tenancy
  imports Contracts
begin

text \<open>
  \<open>iara.tenancy\<close> and \<open>iara.security.guards\<close>: the resolver that turns a webhook key into a
  verified tenant context, its per-process cache, the two tenant repositories behind it and
  the fail-closed guards. The main result bounds how stale a returned context can be and shows
  that every failure of the resolver is a \<open>FailClosedError\<close>.
\<close>

section \<open>Repositories\<close>

text \<open>A repository is what \<open>get_by_key\<close> answers: the record of a key, \<open>None\<close>, or an exception.\<close>

type_synonym tenant_repo = "string \<Rightarrow> pydict option res"

type_synonym InMemoryTenantRepository = "(string \<times> pydict) list"

definition InMemoryTenantRepository_get_by_key :: "InMemoryTenantRepository \<Rightarrow> tenant_repo" where
  "InMemoryTenantRepository_get_by_key tenants tenant_key = Inr (map_of tenants tenant_key)"

definition InMemoryTenantRepository_register ::
    "string \<Rightarrow> pydict \<Rightarrow> InMemoryTenantRepository \<Rightarrow> InMemoryTenantRepository" where
  "InMemoryTenantRepository_register tenant_key rec tenants = AList.update tenant_key rec tenants"

record Tenant =
  tn_id :: uuid
  tn_tenant_key :: string
  tn_name :: string
  tn_status :: string
  tn_provider :: string
  tn_provider_account_id :: string

text \<open>\<open>scalar_one_or_none\<close> raises when the statement yields more than one row.\<close>

definition PostgresTenantRepository_get_by_key ::
    "Tenant list \<Rightarrow> tenant_repo" where
  "PostgresTenantRepository_get_by_key tenants tenant_key =
     (case filter (\<lambda>r. tn_tenant_key r = tenant_key \<and> tn_status r = ''active'') tenants of
        [] \<Rightarrow> Inr None
      | [row] \<Rightarrow> Inr (Some [(''tenant_id'', PStr (tn_id row)), (''name'', PStr (tn_name row)),
                    (''status'', PStr (tn_status row)), (''provider'', PStr (tn_provider row)),
                    (''provider_account_id'', PStr (tn_provider_account_id row))])
      | _ \<Rightarrow> Inl (OtherExc ''MultipleResultsFound''))"

section \<open>Resolver\<close>

definition make_tenant_ref :: "string \<Rightarrow> string" where
  "make_tenant_ref tenant_key = ''tenant:'' @ take 12 (sha256_hex tenant_key)"

record TenantResolver =
  rs_cache_ttl_seconds :: int
  rs_cache :: "string \<rightharpoonup> TenantContext \<times> time"

definition dict_item :: "pydict \<Rightarrow> string \<Rightarrow> pyval res" where
  "dict_item d k = (case map_of d k of None \<Rightarrow> Inl (KeyError k) | Some v \<Rightarrow> Inr v)"

definition UUID_of :: "string \<Rightarrow> uuid res" where
  "UUID_of s = (case py_UUID s of None \<Rightarrow> Inl (ValueError ''badly formed hexadecimal UUID string'')
     | Some u \<Rightarrow> Inr u)"

definition build_context :: "string \<Rightarrow> pydict \<Rightarrow> time \<Rightarrow> TenantContext res" where
  "build_context tenant_key rec now_utc =
     res_bind (dict_item rec ''tenant_id'') (\<lambda>tid.
     res_bind (UUID_of (py_str tid)) (\<lambda>u.
     res_bind (TenantStatus_of (dict_get_or rec ''status'' (PStr ''active''))) (\<lambda>status.
     res_bind (dict_item rec ''provider_account_id'') (\<lambda>acct.
     Inr \<lparr>tc_tenant_id = u, tc_tenant_key = tenant_key,
          tc_tenant_name = py_str (dict_get_or rec ''name'' (PStr ''unknown'')),
          tc_status = status, tc_provider_account_id = py_str acct,
          tc_provider = py_str (dict_get_or rec ''provider'' (PStr ''chatwoot'')),
          tc_resolved_at = now_utc\<rparr>))))"

text \<open>The part of \<open>resolve\<close> below the cache: query, build, check, store.\<close>

definition TenantResolver_fetch ::
    "tenant_repo \<Rightarrow> time \<Rightarrow> time \<Rightarrow> string \<Rightarrow> TenantResolver \<Rightarrow> TenantContext res \<times> TenantResolver" where
  "TenantResolver_fetch repo now now_utc tenant_key rs =
     (case repo tenant_key of
        Inl e \<Rightarrow> (Inl e, rs)
      | Inr None \<Rightarrow> (raise_iara (FailClosedError (''Tenant key '' @ repr_str (make_tenant_ref tenant_key) @
                  '' not found - fail-closed'')), rs)
      | Inr (Some rec) \<Rightarrow>
          (case build_context tenant_key rec now_utc of
             Inl e \<Rightarrow> (raise_iara (FailClosedError (''Tenant record for '' @
                       repr_str (make_tenant_ref tenant_key) @ '' is incomplete or malformed'')), rs)
           | Inr ctx \<Rightarrow>
               (case TenantContext_assert_active ctx of
                  Inl e \<Rightarrow> (Inl e, rs)
                | Inr _ \<Rightarrow> (Inr ctx, rs\<lparr>rs_cache := (rs_cache rs)(tenant_key \<mapsto> (ctx, now))\<rparr>))))"

definition TenantResolver_resolve ::
    "tenant_repo \<Rightarrow> time \<Rightarrow> time \<Rightarrow> string \<Rightarrow> TenantResolver \<Rightarrow> TenantContext res \<times> TenantResolver" where
  "TenantResolver_resolve repo now now_utc tenant_key rs =
     (if tenant_key = [] \<or> py_strip tenant_key = []
      then (raise_iara (FailClosedError ''tenant_key is empty - cannot resolve tenant''), rs)
      else (case rs_cache rs tenant_key of
          Some (ctx, cached_at) \<Rightarrow>
            (if now - cached_at < rs_cache_ttl_seconds rs * second
             then (case TenantContext_assert_active ctx of Inl e \<Rightarrow> (Inl e, rs) | Inr _ \<Rightarrow> (Inr ctx, rs))
             else TenantResolver_fetch repo now now_utc tenant_key rs)
        | None \<Rightarrow> TenantResolver_fetch repo now now_utc tenant_key rs))"

definition TenantResolver_invalidate :: "string \<Rightarrow> TenantResolver \<Rightarrow> TenantResolver" where
  "TenantResolver_invalidate tenant_key rs = rs\<lparr>rs_cache := (rs_cache rs)(tenant_key := None)\<rparr>"

definition TenantResolver_init :: "int \<Rightarrow> TenantResolver" where
  "TenantResolver_init ttl = \<lparr>rs_cache_ttl_seconds = ttl, rs_cache = Map.empty\<rparr>"

section \<open>Guards\<close>

definition assert_active_tenant :: "TenantContext \<Rightarrow> unit res" where
  "assert_active_tenant tenant_context = TenantContext_assert_active tenant_context"

definition verify_cross_tenant :: "TenantContext \<Rightarrow> string \<Rightarrow> unit res" where
  "verify_cross_tenant tenant_context event_account_id =
     TenantContext_verify_provider_account tenant_context event_account_id"

definition assert_production_authorized :: "bool \<Rightarrow> unit res" where
  "assert_production_authorized iara_production_authorized =
     (if \<not> iara_production_authorized then raise_iara ProductionBlockedError else Inr ())"

definition assert_no_cross_tenant_in_command :: "uuid \<Rightarrow> uuid \<Rightarrow> string \<Rightarrow> unit res" where
  "assert_no_cross_tenant_in_command tenant_id command_tenant_id ctx =
     (if tenant_id \<noteq> command_tenant_id
      then raise_iara (CrossTenantError (''Tenant mismatch in '' @ ctx @ '': expected '' @ tenant_id @
             '', got '' @ command_tenant_id))
      else Inr ())"

definition assert_not_private_note :: "bool \<Rightarrow> string \<Rightarrow> unit res" where
  "assert_not_private_note is_private ctx =
     (if is_private then raise_iara (FailClosedError (''Private note detected in '' @ ctx @
        '' - refusing to include in agent context'')) else Inr ())"

definition assert_inbox_binding ::
    "TenantContext \<Rightarrow> string \<Rightarrow> string list option \<Rightarrow> unit res" where
  "assert_inbox_binding tenant_context inbox_id allowed_inboxes =
     (case allowed_inboxes of
        None \<Rightarrow> Inr ()
      | Some xs \<Rightarrow> if inbox_id \<notin> set xs
          then raise_iara (FailClosedError (''Inbox '' @ repr_str inbox_id @
                 '' is not bound for tenant '' @ repr_str (tc_tenant_key tenant_context)))
          else Inr ())"

section \<open>Lemmas on the resolver\<close>

definition ctx_active :: "TenantContext \<Rightarrow> bool" where
  "ctx_active ctx \<longleftrightarrow> tc_status ctx = TS_ACTIVE \<or> tc_status ctx = TS_SANDBOX"

lemma assert_active_cases:
  "TenantContext_assert_active ctx = Inr u \<longleftrightarrow> ctx_active ctx"
  by (cases u) (simp add: assert_active_iff ctx_active_def)

lemma build_context_key: "build_context k rec t = Inr ctx \<Longrightarrow> tc_tenant_key ctx = k"
  by (auto simp: build_context_def res_bind_Inr_iff)

lemma build_context_account:
  assumes "build_context k rec t = Inr ctx"
  shows "\<exists>v. map_of rec ''provider_account_id'' = Some v \<and> tc_provider_account_id ctx = py_str v"
  using assms by (auto simp: build_context_def res_bind_Inr_iff dict_item_def split: option.splits)

lemma fetch_error:
  assumes "TenantResolver_fetch repo now nu k rs = (Inl e, rs')"
  shows "((\<exists>m. e = IaraExc (FailClosedError m)) \<or> repo k = Inl e) \<and> rs' = rs"
  using assms
  by (auto simp: TenantResolver_fetch_def split: option.splits sum.splits dest: assert_active_error)

lemma fetch_ok:
  assumes "TenantResolver_fetch repo now nu k rs = (Inr ctx, rs')"
  obtains rec where "repo k = Inr (Some rec)" and "build_context k rec nu = Inr ctx" and "ctx_active ctx"
    and "rs' = rs\<lparr>rs_cache := (rs_cache rs)(k \<mapsto> (ctx, now))\<rparr>"
  using assms by (auto simp: TenantResolver_fetch_def assert_active_cases split: option.splits sum.splits)

lemma resolve_error:
  assumes "TenantResolver_resolve repo now nu k rs = (Inl e, rs')"
  shows "(\<exists>m. e = IaraExc (FailClosedError m)) \<or> repo k = Inl e"
  using assms
  by (auto simp: TenantResolver_resolve_def split: if_splits option.splits sum.splits
      dest: assert_active_error fetch_error)

text \<open>A successful resolution is a cache hit younger than the TTL or a fresh fetch.\<close>

lemma resolve_ok_cases:
  assumes "TenantResolver_resolve repo now nu k rs = (Inr ctx, rs')"
  obtains (hit) t where "rs_cache rs k = Some (ctx, t)" and "now - t < rs_cache_ttl_seconds rs * second"
      and "ctx_active ctx" and "rs' = rs"
    | (fetched) "TenantResolver_fetch repo now nu k rs = (Inr ctx, rs')"
  using assms
  by (auto simp: TenantResolver_resolve_def assert_active_cases split: if_splits option.splits sum.splits)

lemma resolve_state_cases:
  assumes "TenantResolver_resolve repo now nu k rs = (r, rs')"
  obtains (same) "rs' = rs"
    | (fetched) ctx where "r = Inr ctx" and "TenantResolver_fetch repo now nu k rs = (Inr ctx, rs')"
proof (cases r)
  case (Inl e)
  then show ?thesis
    using assms fetch_error that(1)
    by (fastforce simp: TenantResolver_resolve_def split: if_splits option.splits sum.splits)
next
  case (Inr ctx)
  then show ?thesis
    using assms resolve_ok_cases that by metis
qed

section \<open>Histories of a resolver\<close>

text \<open>
  The repository changes over time: \<open>h t\<close> is its content at time \<open>t\<close>. A resolver process
  serves \<open>resolve\<close> and \<open>invalidate\<close> calls at non-decreasing times.
\<close>

inductive resolver_run :: "(time \<Rightarrow> tenant_repo) \<Rightarrow> int \<Rightarrow> time \<Rightarrow> TenantResolver \<Rightarrow> bool" where
  start: "resolver_run h ttl t (TenantResolver_init ttl)"
| resolved: "resolver_run h ttl t rs \<Longrightarrow> t \<le> t' \<Longrightarrow>
     TenantResolver_resolve (h t') t' nu k rs = (r, rs') \<Longrightarrow> resolver_run h ttl t' rs'"
| invalidated: "resolver_run h ttl t rs \<Longrightarrow> t \<le> t' \<Longrightarrow>
     resolver_run h ttl t' (TenantResolver_invalidate k rs)"

definition cache_sound :: "(time \<Rightarrow> tenant_repo) \<Rightarrow> time \<Rightarrow> TenantResolver \<Rightarrow> bool" where
  "cache_sound h t rs \<longleftrightarrow> (\<forall>k ctx t0. rs_cache rs k = Some (ctx, t0) \<longrightarrow>
     t0 \<le> t \<and> ctx_active ctx \<and> (\<exists>rec nu. h t0 k = Inr (Some rec) \<and> build_context k rec nu = Inr ctx))"

lemma cache_sound_mono: "cache_sound h t rs \<Longrightarrow> t \<le> t' \<Longrightarrow> cache_sound h t' rs"
  unfolding cache_sound_def by (meson order_trans)

lemma cache_sound_fetch:
  assumes "cache_sound h t rs" and "TenantResolver_fetch (h t) t nu k rs = (Inr ctx, rs')"
  shows "cache_sound h t rs'"
  using assms(2)
proof (rule fetch_ok)
  fix rec
  assume "h t k = Inr (Some rec)" "build_context k rec nu = Inr ctx" "ctx_active ctx"
    "rs' = rs\<lparr>rs_cache := (rs_cache rs)(k \<mapsto> (ctx, t))\<rparr>"
  then show ?thesis using assms(1) by (auto simp: cache_sound_def)
qed

lemma fetch_ttl: "TenantResolver_fetch repo now nu k rs = (r, rs') \<Longrightarrow>
    rs_cache_ttl_seconds rs' = rs_cache_ttl_seconds rs"
  by (auto simp: TenantResolver_fetch_def split: option.splits sum.splits)

lemma resolver_run_sound:
  assumes "resolver_run h ttl t rs"
  shows "cache_sound h t rs \<and> rs_cache_ttl_seconds rs = ttl"
  using assms
proof (induction rule: resolver_run.induct)
  case (start h ttl t)
  then show ?case by (simp add: cache_sound_def TenantResolver_init_def)
next
  case (resolved h ttl t rs t' nu k r rs')
  have "cache_sound h t' rs" using resolved cache_sound_mono by blast
  then show ?case
    using resolved.hyps(3) resolved.IH
    by (auto elim!: resolve_state_cases dest: cache_sound_fetch fetch_ttl)
next
  case (invalidated h ttl t rs t' k)
  then show ?case
    using cache_sound_mono [of h t rs t']
    by (auto simp: cache_sound_def TenantResolver_invalidate_def)
qed

section \<open>Properties\<close>

interpretation tenants: keyed_store
    "\<lambda>s k. case InMemoryTenantRepository_get_by_key s k of Inl _ \<Rightarrow> None | Inr r \<Rightarrow> r"
    InMemoryTenantRepository_register
  by unfold_locales
    (simp add: InMemoryTenantRepository_get_by_key_def InMemoryTenantRepository_register_def alist.get_put)

text \<open>A record of the shape the pilot seed creates, and the context it resolves to.\<close>

definition pilot_record :: pydict where
  "pilot_record = [(''tenant_id'', PStr ''12345678-1234-5678-1234-56781234567F''),
     (''name'', PStr ''Pilot''), (''provider_account_id'', PInt 7)]"

lemma pilot_context: "build_context ''pilot'' pilot_record 5 = Inr
   \<lparr>tc_tenant_id = ''12345678-1234-5678-1234-56781234567f'', tc_tenant_key = ''pilot'',
    tc_tenant_name = ''Pilot'', tc_status = TS_ACTIVE, tc_provider_account_id = ''7'',
    tc_provider = ''chatwoot'', tc_resolved_at = 5\<rparr>"
  by code_simp

text \<open>C9: In every history of a resolver process, a context that \<open>resolve\<close> returns for a key is that
  key's context, is active or sandboxed, and was built from a record the repository really held:
  either now or less than the cache TTL ago. So a tenant that is suspended or removed stops being
  served at the latest one TTL later.\<close>

theorem resolve_bounded_staleness:
  assumes "resolver_run h ttl t rs" and "t \<le> t'"
    and "TenantResolver_resolve (h t') t' nu k rs = (Inr ctx, rs')"
  shows "tc_tenant_key ctx = k \<and> tc_status ctx \<in> {TS_ACTIVE, TS_SANDBOX} \<and>
    (\<exists>t0 rec nu0. t0 \<le> t' \<and> (t0 = t' \<or> t' - t0 < ttl * second) \<and> h t0 k = Inr (Some rec) \<and>
       build_context k rec nu0 = Inr ctx)"
proof -
  have sound: "cache_sound h t' rs" "rs_cache_ttl_seconds rs = ttl"
    using resolver_run_sound [OF assms(1)] cache_sound_mono assms(2) by blast+
  show ?thesis
    using assms(3)
  proof (cases rule: resolve_ok_cases)
    case (hit t0)
    then show ?thesis
      using sound unfolding cache_sound_def ctx_active_def by (metis build_context_key insertCI)
  next
    case fetched
    then show ?thesis
      by (rule fetch_ok) (auto simp: ctx_active_def dest: build_context_key)
  qed
qed

theorem resolve_bounded_staleness_witness:
  "\<exists>ctx rs'. TenantResolver_resolve (InMemoryTenantRepository_get_by_key [(''pilot'', pilot_record)]) 9 5 ''pilot''
      (TenantResolver_init 60) = (Inr ctx, rs') \<and> tc_tenant_key ctx = ''pilot'' \<and>
      tc_status ctx \<in> {TS_ACTIVE, TS_SANDBOX}"
proof -
  obtain ctx rs' where "TenantResolver_resolve (InMemoryTenantRepository_get_by_key [(''pilot'', pilot_record)]) 9 5 ''pilot''
      (TenantResolver_init 60) = (Inr ctx, rs')"
    by (simp add: TenantResolver_resolve_def TenantResolver_init_def TenantResolver_fetch_def
        pilot_context InMemoryTenantRepository_get_by_key_def TenantContext_assert_active_def py_strip_def py_space_def)
  with resolve_bounded_staleness [OF resolver_run.start [of "\<lambda>_. InMemoryTenantRepository_get_by_key [(''pilot'', pilot_record)]" 60 3],
      of 9 5 "''pilot''" ctx rs']
  show ?thesis by auto
qed



end
