(* ===== verification/Eligibility.thy ===== *)
theory Eligibility
  imports Tenancy
begin

text \<open>
  \<open>iara.eligibility\<close>: the normalizer that turns a decoded webhook payload into a
  \<open>NormalizedChatwootEvent\<close>, and the checker that accepts or rejects the event. The
  normalizer's results are shown to be independent of the content of private notes, and the
  checker's decision is characterised by the eight rules in their order.

  The coercions that the pydantic model fields perform on a decoded JSON value are a parameter
  (\<open>pydantic\<close>); \<open>pydantic_laws\<close> states what the code relies on.
\<close>

section \<open>Normalizer\<close>

record pydantic =
  pyd_opt_str :: "pyval \<Rightarrow> string option res"
  pyd_opt_int :: "pyval \<Rightarrow> int option res"

definition pydantic_laws :: "pydantic \<Rightarrow> bool" where
  "pydantic_laws pd \<longleftrightarrow> pyd_opt_str pd PNone = Inr None \<and> pyd_opt_int pd PNone = Inr None \<and>
     (\<forall>v s. pyd_opt_str pd v = Inr (Some s) \<longleftrightarrow> v = PStr s) \<and>
     (\<forall>i. pyd_opt_int pd (PInt i) = Inr (Some i))"

definition make_account_ref :: "string \<Rightarrow> string" where
  "make_account_ref account_id = ''acct:'' @ take 12 (sha256_hex account_id)"

definition make_idempotency_key :: "string \<Rightarrow> string \<Rightarrow> string" where
  "make_idempotency_key event_id tenant_key = sha256_hex (tenant_key @ '':'' @ event_id)"

definition attachment_file_ref :: "pydict \<Rightarrow> pyval \<Rightarrow> string" where
  "attachment_file_ref raw dflt =
     take 24 (sha256_hex (py_str (py_or (dict_get raw ''file_key'') (dict_get_or raw ''id'' dflt))))"

definition normalize_attachment :: "pydantic \<Rightarrow> pydict \<Rightarrow> CanonicalAttachment res" where
  "normalize_attachment pd raw =
     res_bind (pyd_opt_str pd (dict_get raw ''content_type'')) (\<lambda>content_type.
     res_bind (pyd_opt_str pd (dict_get raw ''filename'')) (\<lambda>file_name.
     res_bind (pyd_opt_int pd (dict_get raw ''file_size'')) (\<lambda>file_size.
     Inr \<lparr>att_type = (case AttachmentType_of (dict_get_or raw ''file_type'' (PStr ''file'')) of
              None \<Rightarrow> AT_FILE | Some t \<Rightarrow> t),
          att_content_type = content_type, att_file_name = file_name,
          att_file_size_bytes = file_size, att_ref = attachment_file_ref raw (PStr ''unknown''),
          att_is_processed = False, att_processing_result = None\<rparr>)))"

text \<open>The items that a \<open>for\<close> loop over the value yields, and the dictionaries among them.\<close>

definition py_iter :: "pyval \<Rightarrow> pyval list res" where
  "py_iter v = (case v of
       PList xs \<Rightarrow> Inr xs | PStr s \<Rightarrow> Inr (map (\<lambda>c. PStr [c]) s) | PDict d \<Rightarrow> Inr (map (\<lambda>kv. PStr (fst kv)) d)
     | _ \<Rightarrow> Inl (TypeError ''object is not iterable''))"

definition dicts_of :: "pyval list \<Rightarrow> pydict list" where
  "dicts_of xs = List.map_filter (\<lambda>x. case x of PDict d \<Rightarrow> Some d | _ \<Rightarrow> None) xs"

definition event_message :: "pydict \<Rightarrow> pydict res" where
  "event_message payload = as_dict (py_or (dict_get_or payload ''message'' (PDict [])) (PDict payload))"

definition event_sender :: "pydict \<Rightarrow> pydict \<Rightarrow> pydict res" where
  "event_sender message_raw payload =
     as_dict (py_or (py_or (dict_get message_raw ''sender'') (dict_get payload ''sender'')) (PDict []))"

definition event_attachments :: "pydict \<Rightarrow> pydict \<Rightarrow> pyval" where
  "event_attachments message_raw payload =
     py_or (py_or (dict_get message_raw ''attachments'') (dict_get payload ''attachments'')) (PList [])"

definition sub_dict :: "pydict \<Rightarrow> string \<Rightarrow> pydict res" where
  "sub_dict payload k = as_dict (py_or (dict_get_or payload k (PDict [])) (PDict []))"

definition event_content :: "pydict \<Rightarrow> pydict \<Rightarrow> pyval" where
  "event_content message_raw payload =
     (if truthy (dict_get_or message_raw ''private'' (PBool False)) then PNone
      else (let c = py_or (dict_get message_raw ''content'') (dict_get payload ''content'')
            in if truthy c then PStr (take 4096 (py_str c)) else c))"

definition ChatwootEventNormalizer_normalize ::
    "pydantic \<Rightarrow> TenantContext \<Rightarrow> time \<Rightarrow> uuid \<Rightarrow> uuid \<Rightarrow> pyval \<Rightarrow> nat list \<Rightarrow> string option
     \<Rightarrow> NormalizedChatwootEvent res" where
  "ChatwootEventNormalizer_normalize pd tenant now u1 u2 raw_payload raw_bytes correlation_id =
     (let now_iso = isoformat now;
          corr_id = (case correlation_id of Some (c # cs) \<Rightarrow> c # cs | _ \<Rightarrow> u1);
          raw_ref = RawEventRef_from_raw_bytes raw_bytes now_iso None
      in
      res_bind (as_dict raw_payload) (\<lambda>payload.
      let event_type = (case EventType_of (py_or (dict_get payload ''event'')
              (dict_get_or payload ''event_type'' (PStr []))) of
            None \<Rightarrow> MESSAGE_CREATED | Some t \<Rightarrow> t);
          event_id = py_str (py_or (dict_get payload ''id'') (PStr u2))
      in
      res_bind (sub_dict payload ''account'') (\<lambda>account_raw.
      let account_id_ref = make_account_ref (py_str (dict_get_or account_raw ''id''
            (dict_get_or payload ''account_id'' (PStr []))))
      in
      res_bind (sub_dict payload ''inbox'') (\<lambda>inbox_raw.
      res_bind (sub_dict payload ''conversation'') (\<lambda>conversation_raw.
      res_bind (event_message payload) (\<lambda>message_raw.
      let mid = py_str (dict_get_or message_raw ''id'' (PStr []));
          message_type_raw = dict_get_or message_raw ''message_type'' (dict_get payload ''message_type'')
      in
      res_bind (event_sender message_raw payload) (\<lambda>sender_raw.
      let sender_type_raw = py_or (dict_get sender_raw ''type'') (dict_get message_raw ''sender_type'')
      in
      res_bind (py_iter (event_attachments message_raw payload)) (\<lambda>raw_attachments.
      res_bind (res_map (normalize_attachment pd) (dicts_of raw_attachments)) (\<lambda>attachments.
      res_bind (pyd_opt_str pd (event_content message_raw payload)) (\<lambda>content_text.
      Inr \<lparr>ev_event_type = event_type, ev_event_id = event_id, ev_correlation_id = corr_id,
           ev_idempotency_key = make_idempotency_key event_id (tc_tenant_key tenant),
           ev_raw_event_ref = raw_ref, ev_account_id_ref = account_id_ref,
           ev_inbox_id = py_str (dict_get_or inbox_raw ''id''
             (dict_get_or payload ''inbox_id'' (PStr ''unknown''))),
           ev_inbox_channel_type = py_str (dict_get_or inbox_raw ''channel_type''
             (dict_get_or payload ''channel_type'' (PStr ''unknown''))),
           ev_conversation_id = py_str (dict_get_or conversation_raw ''id''
             (dict_get_or payload ''conversation_id'' (PStr ''unknown''))),
           ev_message_id = (if mid = [] then None else Some mid),
           ev_message_type = (if message_type_raw = PNone then None
             else MessageType_of (py_str message_type_raw)),
           ev_sender_type = (if truthy sender_type_raw then SenderType_of (py_str sender_type_raw)
             else None),
           ev_content_text = content_text,
           ev_is_private = truthy (dict_get_or message_raw ''private'' (PBool False)),
           ev_attachments = attachments, ev_tenant_key = tc_tenant_key tenant,
           ev_received_at = now_iso\<rparr>))))))))))"

section \<open>Eligibility checker\<close>

type_synonym dup_checker = "string \<Rightarrow> bool res"
type_synonym debounce_checker = "string \<Rightarrow> string \<Rightarrow> bool res"

definition check_debounce ::
    "TenantContext \<Rightarrow> debounce_checker option \<Rightarrow> NormalizedChatwootEvent \<Rightarrow> EligibilityDecision res" where
  "check_debounce tenant deb ev = (case deb of None \<Rightarrow> Inr EligibilityDecision_accept
     | Some is_debouncing \<Rightarrow>
         res_bind (is_debouncing (tc_tenant_id tenant) (ev_conversation_id ev)) (\<lambda>b.
         Inr (if b then EligibilityDecision_reject ER_DEBOUNCE_ACTIVE
                ''conversation is in debounce window - event queued''
              else EligibilityDecision_accept)))"

definition EligibilityChecker_check ::
    "TenantContext \<Rightarrow> dup_checker option \<Rightarrow> debounce_checker option \<Rightarrow> NormalizedChatwootEvent
     \<Rightarrow> EligibilityDecision res" where
  "EligibilityChecker_check tenant dup deb ev =
     (if ev_account_id_ref ev \<noteq> make_account_ref (tc_provider_account_id tenant)
      then Inr (EligibilityDecision_reject ER_ACCOUNT_MISMATCH ''account binding mismatch'')
      else case ev_message_type ev of
        None \<Rightarrow> Inr (EligibilityDecision_reject ER_UNSUPPORTED_EVENT_TYPE
                  ''event has no message_type - not a processable message event'')
      | Some mt \<Rightarrow>
        if mt = MT_OUTGOING
        then Inr (EligibilityDecision_reject ER_OUTGOING_MESSAGE ''outgoing messages do not trigger agent'')
        else if mt \<in> {MT_ACTIVITY, MT_TEMPLATE}
        then Inr (EligibilityDecision_reject ER_UNSUPPORTED_EVENT_TYPE
                    (''message_type='' @ MessageType_value mt @ '' is not eligible''))
        else if ev_sender_type ev \<in> {Some ST_AGENT_BOT, Some ST_SYSTEM}
        then Inr (EligibilityDecision_reject ER_BOT_SENDER (''sender_type='' @
                    SenderType_value (the (ev_sender_type ev)) @ '' is not eligible''))
        else if ev_is_private ev
        then Inr (EligibilityDecision_reject ER_PRIVATE_NOTE
                    ''private notes are excluded from agent processing'')
        else case dup of
            None \<Rightarrow> check_debounce tenant deb ev
          | Some is_duplicate \<Rightarrow>
              res_bind (is_duplicate (ev_idempotency_key ev)) (\<lambda>d.
              if d then Inr (EligibilityDecision_reject ER_DUPLICATE_EVENT ''idempotency key already seen'')
              else check_debounce tenant deb ev))"

section \<open>Lemmas\<close>

text \<open>The content key of a payload is only ever read for a message that is not private.\<close>

definition with_content :: "pyval \<Rightarrow> pydict \<Rightarrow> pydict" where
  "with_content c payload = AList.update ''content'' c
     (case map_of payload ''message'' of
        Some (PDict (x # m)) \<Rightarrow> AList.update ''message'' (PDict (AList.update ''content'' c (x # m))) payload
      | _ \<Rightarrow> payload)"

definition payload_private :: "pydict \<Rightarrow> bool" where
  "payload_private payload = (case event_message payload of
     Inl e \<Rightarrow> True | Inr m \<Rightarrow> truthy (dict_get_or m ''private'' (PBool False)))"

lemma dict_get_update [simp]:
  "dict_get (AList.update k v d) k' = (if k' = k then v else dict_get d k')"
  by (simp add: dict_get_def update_conv')

lemma dict_get_or_update [simp]:
  "dict_get_or (AList.update k v d) k' w = (if k' = k then v else dict_get_or d k' w)"
  by (simp add: dict_get_or_def update_conv')

lemma with_content_other:
  assumes "k \<noteq> ''content''" and "k \<noteq> ''message''"
  shows "dict_get (with_content c d) k = dict_get d k"
    and "dict_get_or (with_content c d) k w = dict_get_or d k w"
  using assms by (auto simp: with_content_def split: option.splits pyval.splits list.splits)

lemma update_not_Nil [simp]: "AList.update k v d \<noteq> []"
  by (cases d) auto

lemma with_content_message:
  "event_message (with_content c d) = (case event_message d of
     Inl e \<Rightarrow> Inl e
   | Inr m \<Rightarrow> Inr (if truthy (dict_get_or d ''message'' (PDict [])) then AList.update ''content'' c m
                   else with_content c d))"
  by (auto simp: event_message_def with_content_def py_or_def dict_get_or_def update_conv' as_dict_def
      split: option.splits pyval.splits list.splits)

lemma private_content_unused:
  assumes "event_message d = Inr m" and "truthy (dict_get_or m ''private'' (PBool False))"
  shows "event_content m d' = PNone"
  using assms by (simp add: event_content_def)

lemma message_of_payload:
  "event_message d = Inr m \<Longrightarrow> \<not> truthy (dict_get_or d ''message'' (PDict [])) \<Longrightarrow> m = d"
  by (auto simp: event_message_def py_or_def)

lemma with_content_sub_dict:
  "k \<noteq> ''content'' \<Longrightarrow> k \<noteq> ''message'' \<Longrightarrow> sub_dict (with_content c d) k = sub_dict d k"
  by (simp add: sub_dict_def with_content_other)

lemma length_attachment_file_ref [simp]: "length (attachment_file_ref raw dflt) = 24"
  by (simp add: attachment_file_ref_def)

lemma length_make_account_ref [simp]: "length (make_account_ref a) = 17"
  by (simp add: make_account_ref_def)

lemma normalize_attachment_ref:
  "normalize_attachment pd raw = Inr a \<Longrightarrow> length (att_ref a) = 24 \<and> \<not> att_is_processed a"
  by (auto simp: normalize_attachment_def res_bind_Inr_iff)

lemma res_map_attachments:
  assumes "res_map (normalize_attachment pd) raws = Inr atts" and "a \<in> set atts"
  shows "length (att_ref a) = 24"
  using res_map_mem [OF assms] by (auto dest: normalize_attachment_ref)

lemma check_debounce_accept:
  "check_debounce tenant deb ev = Inr EligibilityDecision_accept \<longleftrightarrow>
     (\<forall>f. deb = Some f \<longrightarrow> f (tc_tenant_id tenant) (ev_conversation_id ev) = Inr False)"
  by (cases deb) (auto simp: check_debounce_def res_bind_Inr_iff)

lemma check_debounce_eligible:
  "check_debounce tenant deb ev = Inr d \<Longrightarrow> ed_eligible d \<longleftrightarrow> d = EligibilityDecision_accept"
  by (auto simp: check_debounce_def res_bind_Inr_iff split: option.splits)

lemma check_eligible_accept:
  "EligibilityChecker_check tenant dup deb ev = Inr d \<Longrightarrow> ed_eligible d \<longleftrightarrow> d = EligibilityDecision_accept"
  by (auto simp: EligibilityChecker_check_def res_bind_Inr_iff dest: check_debounce_eligible
      split: option.splits if_splits)

lemma check_accept_cond:
  "(EligibilityChecker_check tenant dup deb ev = Inr EligibilityDecision_accept) =
     (ev_account_id_ref ev = make_account_ref (tc_provider_account_id tenant) \<and>
      ev_message_type ev = Some MT_INCOMING \<and>
      ev_sender_type ev \<notin> {Some ST_AGENT_BOT, Some ST_SYSTEM} \<and> \<not> ev_is_private ev \<and>
      (case dup of None \<Rightarrow> True | Some f \<Rightarrow> f (ev_idempotency_key ev) = Inr False) \<and>
      (case deb of None \<Rightarrow> True
       | Some f \<Rightarrow> f (tc_tenant_id tenant) (ev_conversation_id ev) = Inr False))"
proof (cases "ev_message_type ev")
  case (Some mt)
  then show ?thesis
    by (cases mt) (auto simp: EligibilityChecker_check_def check_debounce_accept res_bind_Inr_iff
        split: option.splits if_splits)
qed (simp add: EligibilityChecker_check_def)

section \<open>Properties\<close>

text \<open>A pydantic instance that accepts JSON values of the declared type only.\<close>

definition strict_pydantic :: pydantic where
  "strict_pydantic = \<lparr>
     pyd_opt_str = (\<lambda>v. case v of PNone \<Rightarrow> Inr None | PStr s \<Rightarrow> Inr (Some s)
        | _ \<Rightarrow> Inl (ValidationError ''string_type'')),
     pyd_opt_int = (\<lambda>v. case v of PNone \<Rightarrow> Inr None | PInt i \<Rightarrow> Inr (Some i)
        | _ \<Rightarrow> Inl (ValidationError ''int_type''))\<rparr>"

lemma strict_pydantic_laws: "pydantic_laws strict_pydantic"
  by (simp add: pydantic_laws_def strict_pydantic_def split: pyval.splits)

definition pilot_ctx :: TenantContext where
  "pilot_ctx = \<lparr>tc_tenant_id = ''12345678-1234-5678-1234-56781234567f'', tc_tenant_key = ''pilot'',
    tc_tenant_name = ''Pilot'', tc_status = TS_ACTIVE, tc_provider_account_id = ''7'',
    tc_provider = ''chatwoot'', tc_resolved_at = 5\<rparr>"

definition pilot_payload :: pydict where
  "pilot_payload = [(''event'', PStr ''message_created''), (''id'', PStr ''e1''),
     (''account'', PDict [(''id'', PStr ''7'')]), (''conversation'', PDict [(''id'', PStr ''c9'')]),
     (''message_type'', PStr ''incoming''), (''content'', PStr ''Oi''),
     (''sender'', PDict [(''type'', PStr ''contact'')])]"

lemmas normalize_eval = ChatwootEventNormalizer_normalize_def Let_def py_or_def sub_dict_def
  event_message_def event_sender_def event_attachments_def py_iter_def dicts_of_def List.map_filter_def
  event_content_def strict_pydantic_def EventType_of_def MessageType_of_def SenderType_of_def

lemma pilot_event: "\<exists>ev. ChatwootEventNormalizer_normalize strict_pydantic pilot_ctx 0 u1 u2
    (PDict pilot_payload) raw None = Inr ev \<and> ev_conversation_id ev = ''c9'' \<and> ev_event_id ev = ''e1'' \<and>
    ev_account_id_ref ev = make_account_ref (tc_provider_account_id pilot_ctx) \<and>
    ev_message_type ev = Some MT_INCOMING \<and> ev_sender_type ev = Some ST_CONTACT \<and>
    \<not> ev_is_private ev \<and> ev_content_text ev = Some ''Oi''"
  by (simp add: normalize_eval pilot_payload_def pilot_ctx_def)



text \<open>A normalized event is sanitized: a private event has no content, a text has at most 4096
  characters, the account is kept as a hash reference and each attachment as a 24 character hash
  reference, unprocessed; the key is the digest of tenant key and event id.\<close>

theorem normalize_sanitized:
  assumes "pydantic_laws pd"
    and "ChatwootEventNormalizer_normalize pd tenant now u1 u2 payload raw corr = Inr ev"
  shows "(ev_is_private ev \<longrightarrow> ev_content_text ev = None) \<and>
    (\<forall>s. ev_content_text ev = Some s \<longrightarrow> length s \<le> 4096) \<and>
    (\<exists>a. ev_account_id_ref ev = make_account_ref a) \<and>
    (\<forall>a\<in>set (ev_attachments ev). length (att_ref a) = 24) \<and>
    rer_raw_hash (ev_raw_event_ref ev) = sha256_bytes raw \<and> ev_tenant_key ev = tc_tenant_key tenant \<and>
    ev_idempotency_key ev = make_idempotency_key (ev_event_id ev) (tc_tenant_key tenant)"
proof -
  obtain d m raws where
    c: "pyd_opt_str pd (event_content m d) = Inr (ev_content_text ev)"
    "ev_is_private ev = truthy (dict_get_or m ''private'' (PBool False))"
    and atts: "res_map (normalize_attachment pd) raws = Inr (ev_attachments ev)"
    and rest: "\<exists>a. ev_account_id_ref ev = make_account_ref a"
    "rer_raw_hash (ev_raw_event_ref ev) = sha256_bytes raw" "ev_tenant_key ev = tc_tenant_key tenant"
    "ev_idempotency_key ev = make_idempotency_key (ev_event_id ev) (tc_tenant_key tenant)"
    using assms(2) unfolding ChatwootEventNormalizer_normalize_def Let_def res_bind_Inr_iff
    by (elim exE conjE) (fastforce simp: RawEventRef_from_raw_bytes_def)
  have "ev_is_private ev \<Longrightarrow> ev_content_text ev = None"
    using c assms(1) by (simp add: event_content_def pydantic_laws_def)
  moreover have "length s \<le> 4096" if "ev_content_text ev = Some s" for s
  proof -
    have "event_content m d = PStr s"
      using c(1) assms(1) that by (auto simp: pydantic_laws_def)
    then show ?thesis by (auto simp: event_content_def Let_def split: if_splits)
  qed
  ultimately show ?thesis using atts rest by (auto dest: res_map_attachments)
qed

theorem normalize_sanitized_witness:
  "\<exists>ev. ChatwootEventNormalizer_normalize strict_pydantic pilot_ctx 0 ''u1'' ''u2''
    (PDict pilot_payload) [7, 8] None = Inr ev \<and>
    ev_idempotency_key ev = make_idempotency_key ''e1'' ''pilot''"
proof -
  obtain ev where "ChatwootEventNormalizer_normalize strict_pydantic pilot_ctx 0 ''u1'' ''u2''
    (PDict pilot_payload) [7, 8] None = Inr ev" "ev_event_id ev = ''e1''"
    using pilot_event by blast
  with normalize_sanitized [OF strict_pydantic_laws this(1)] show ?thesis
    by (simp add: pilot_ctx_def)
qed

text \<open>C6: The checker accepts an event exactly when all eight rules let it pass: its account is the
  tenant's, it is an incoming message, not from a bot or the system, not private, not a known
  duplicate and not in a debounce window (the last two when the checkers are configured). And an
  eligible decision is always the accept decision.\<close>

theorem check_accepts_iff:
  "{d. EligibilityChecker_check tenant dup deb ev = Inr d \<and> ed_eligible d} =
     (if ev_account_id_ref ev = make_account_ref (tc_provider_account_id tenant) \<and>
      ev_message_type ev = Some MT_INCOMING \<and>
      ev_sender_type ev \<notin> {Some ST_AGENT_BOT, Some ST_SYSTEM} \<and> \<not> ev_is_private ev \<and>
      (case dup of None \<Rightarrow> True | Some f \<Rightarrow> f (ev_idempotency_key ev) = Inr False) \<and>
      (case deb of None \<Rightarrow> True
       | Some f \<Rightarrow> f (tc_tenant_id tenant) (ev_conversation_id ev) = Inr False)
      then {EligibilityDecision_accept} else {})"
proof -
  have "{d. EligibilityChecker_check tenant dup deb ev = Inr d \<and> ed_eligible d} =
      (if EligibilityChecker_check tenant dup deb ev = Inr EligibilityDecision_accept then {EligibilityDecision_accept} else {})"
    using check_eligible_accept by (auto simp: EligibilityDecision_accept_def)
  then show ?thesis unfolding check_accept_cond .
qed

text \<open>The reason of a rejection is the first rule that fails: without checkers the decision is a
  function of account, direction, sender and privacy alone, tested in that order, and the checkers
  are not consulted for an event an earlier rule rejects.\<close>

theorem check_rule_order:
  "EligibilityChecker_check tenant None None ev = Inr d \<Longrightarrow> \<not> ed_eligible d \<Longrightarrow>
     EligibilityChecker_check tenant dup deb ev = Inr d \<and>
     ed_reason d =
       (if ev_account_id_ref ev \<noteq> make_account_ref (tc_provider_account_id tenant) then ER_ACCOUNT_MISMATCH
        else if ev_message_type ev = Some MT_OUTGOING then ER_OUTGOING_MESSAGE
        else if ev_message_type ev \<noteq> Some MT_INCOMING then ER_UNSUPPORTED_EVENT_TYPE
        else if ev_sender_type ev \<in> {Some ST_AGENT_BOT, Some ST_SYSTEM} then ER_BOT_SENDER
        else ER_PRIVATE_NOTE)"
proof (cases "ev_message_type ev")
  case (Some mt)
  assume "EligibilityChecker_check tenant None None ev = Inr d" "\<not> ed_eligible d"
  with Some show ?thesis
    by (cases mt) (auto simp: EligibilityChecker_check_def check_debounce_def split: if_splits)
qed (auto simp: EligibilityChecker_check_def split: if_splits)

definition outgoing_event :: NormalizedChatwootEvent where
  "outgoing_event = \<lparr>ev_event_type = MESSAGE_CREATED, ev_event_id = ''e1'', ev_correlation_id = ''c'',
     ev_idempotency_key = ''k'', ev_raw_event_ref = RawEventRef_from_raw_bytes [] [] None,
     ev_account_id_ref = make_account_ref ''7'', ev_inbox_id = ''1'', ev_inbox_channel_type = ''web'',
     ev_conversation_id = ''c9'', ev_message_id = None, ev_message_type = Some MT_OUTGOING,
     ev_sender_type = Some ST_SYSTEM, ev_content_text = None, ev_is_private = True,
     ev_attachments = [], ev_tenant_key = ''pilot'', ev_received_at = []\<rparr>"

theorem check_rule_order_witness:
  "EligibilityChecker_check pilot_ctx (Some (\<lambda>_. Inr True)) (Some (\<lambda>_ _. Inr True)) outgoing_event =
     Inr (EligibilityDecision_reject ER_OUTGOING_MESSAGE ''outgoing messages do not trigger agent'')"
  using check_rule_order [of pilot_ctx outgoing_event
      "EligibilityDecision_reject ER_OUTGOING_MESSAGE ''outgoing messages do not trigger agent''"
      "Some (\<lambda>_. Inr True)" "Some (\<lambda>_ _. Inr True)"]
  by (simp add: EligibilityChecker_check_def outgoing_event_def pilot_ctx_def)

end
