(* ===== verification/Ledger.thy ===== *)
theory Ledger
  imports Contracts
begin

text \<open>
  The two tables behind webhook deduplication: the idempotency ledger
  (\<open>persistence/repositories/idempotency.py\<close>, table \<open>event_receipts\<close> with the unique constraint
  \<open>uq_event_receipt\<close> on tenant and key) and the debounce windows
  (\<open>persistence/repositories/debounce.py\<close>, \<open>uq_debounce_conversation\<close>). The contract that
  clients rely on is the locale \<open>dedup_ledger\<close>; the outbox provides it too.
\<close>

section \<open>Contract\<close>

locale dedup_ledger =
  fixes seen :: "'s \<Rightarrow> 'k \<Rightarrow> bool"
    and mark :: "'k \<Rightarrow> 's \<Rightarrow> 's \<times> bool"
  assumes mark_new: "snd (mark k s) \<longleftrightarrow> \<not> seen s k"
    and seen_mark: "seen (fst (mark k s)) k' \<longleftrightarrow> k' = k \<or> seen s k'"
begin

fun mark_all :: "'k list \<Rightarrow> 's \<Rightarrow> 's \<times> 'k list" where
  "mark_all [] s = (s, [])"
| "mark_all (k # ks) s = (case mark k s of (s', new) \<Rightarrow>
     (case mark_all ks s' of (s'', fresh) \<Rightarrow> (s'', if new then k # fresh else fresh)))"

lemma mark_all_seen: "seen (fst (mark_all ks s)) k \<longleftrightarrow> k \<in> set ks \<or> seen s k"
proof (induction ks arbitrary: s)
  case (Cons a ks)
  show ?case using Cons.IH [of "fst (mark a s)"] seen_mark [of a s k]
    by (auto split: prod.splits)
qed simp

text \<open>Whatever sequence of keys is offered, each unseen key is reported new exactly once.\<close>

lemma mark_all_fresh:
  "distinct (snd (mark_all ks s)) \<and> set (snd (mark_all ks s)) = {k \<in> set ks. \<not> seen s k}"
proof (induction ks arbitrary: s)
  case (Cons a ks)
  obtain s' new where m: "mark a s = (s', new)" by (cases "mark a s")
  then have new: "new \<longleftrightarrow> \<not> seen s a" and seen: "\<And>k. seen s' k \<longleftrightarrow> k = a \<or> seen s k"
    using mark_new [of a s] seen_mark [of a s] by simp_all
  obtain s'' fresh where r: "mark_all ks s' = (s'', fresh)" by (cases "mark_all ks s'")
  then have "distinct fresh" "set fresh = {k \<in> set ks. k \<noteq> a \<and> \<not> seen s k}"
    using Cons.IH [of s'] seen by auto
  then show ?case using m r new by auto
qed simp

end

section \<open>Idempotency ledger\<close>

record EventReceipt =
  er_id :: uuid
  er_tenant_id :: uuid
  er_idempotency_key :: string
  er_raw_hash :: string
  er_correlation_id :: string
  er_status :: string
  er_received_at :: time

type_synonym receipts = "EventReceipt list"

abbreviation er_key :: "EventReceipt \<Rightarrow> uuid \<times> string" where
  "er_key r \<equiv> (er_tenant_id r, er_idempotency_key r)"

definition IdempotencyRepository_is_duplicate :: "uuid \<Rightarrow> string \<Rightarrow> receipts \<Rightarrow> bool" where
  "IdempotencyRepository_is_duplicate tenant_id idempotency_key rows =
     (filter (\<lambda>r. er_tenant_id r = tenant_id \<and> er_idempotency_key r = idempotency_key) rows \<noteq> [])"

definition IdempotencyRepository_record ::
    "uuid \<Rightarrow> time \<Rightarrow> uuid \<Rightarrow> string \<Rightarrow> string \<Rightarrow> string \<Rightarrow> receipts \<Rightarrow> receipts \<times> bool" where
  "IdempotencyRepository_record new_id now tenant_id idempotency_key raw_hash correlation_id rows =
     insert_ignore er_key
       \<lparr>er_id = new_id, er_tenant_id = tenant_id, er_idempotency_key = idempotency_key,
        er_raw_hash = raw_hash, er_correlation_id = correlation_id, er_status = ''received'',
        er_received_at = now\<rparr> rows"

definition receipts_ok :: "receipts \<Rightarrow> bool" where
  "receipts_ok rows \<longleftrightarrow> distinct (map er_key rows)"

lemma is_duplicate_iff:
  "IdempotencyRepository_is_duplicate t k rows \<longleftrightarrow> (t, k) \<in> set (map er_key rows)"
  by (auto simp: IdempotencyRepository_is_duplicate_def filter_empty_conv)

lemma record_keys:
  "set (map er_key (fst (IdempotencyRepository_record u now t k h c rows))) =
     insert (t, k) (set (map er_key rows))"
  by (auto simp: IdempotencyRepository_record_def insert_ignore_def)

lemma receipts_ok_record:
  "receipts_ok rows \<Longrightarrow> receipts_ok (fst (IdempotencyRepository_record u now t k h c rows))"
  by (simp add: receipts_ok_def IdempotencyRepository_record_def distinct_insert_ignore)

interpretation receipts: dedup_ledger
    "\<lambda>rows tk. IdempotencyRepository_is_duplicate (fst tk) (snd tk) rows"
    "\<lambda>tk rows. IdempotencyRepository_record u now (fst tk) (snd tk) h c rows"
  for u now h c
  by unfold_locales
    (auto simp: is_duplicate_iff IdempotencyRepository_record_def insert_ignore_def)

section \<open>Debounce windows\<close>

record ConversationDebounce =
  db_id :: uuid
  db_locked_until :: time
  db_created_at :: time

type_synonym debounces = "uuid \<times> string \<rightharpoonup> ConversationDebounce"

definition DebounceRepository_is_debouncing :: "time \<Rightarrow> uuid \<Rightarrow> string \<Rightarrow> debounces \<Rightarrow> bool" where
  "DebounceRepository_is_debouncing now tenant_id conversation_id tab =
     (case tab (tenant_id, conversation_id) of None \<Rightarrow> False | Some r \<Rightarrow> db_locked_until r > now)"

definition DebounceRepository_set_debounce ::
    "int \<Rightarrow> uuid \<Rightarrow> time \<Rightarrow> time \<Rightarrow> uuid \<Rightarrow> string \<Rightarrow> debounces \<Rightarrow> debounces" where
  "DebounceRepository_set_debounce debounce_seconds new_id now now2 tenant_id conversation_id tab =
     (let locked_until = now + debounce_seconds * second in
      case tab (tenant_id, conversation_id) of
        None \<Rightarrow> tab((tenant_id, conversation_id) \<mapsto>
                  \<lparr>db_id = new_id, db_locked_until = locked_until, db_created_at = now2\<rparr>)
      | Some r \<Rightarrow> tab((tenant_id, conversation_id) \<mapsto> r\<lparr>db_locked_until := locked_until\<rparr>))"

definition DebounceRepository_clear_debounce :: "uuid \<Rightarrow> string \<Rightarrow> debounces \<Rightarrow> debounces" where
  "DebounceRepository_clear_debounce tenant_id conversation_id tab =
     tab((tenant_id, conversation_id) := None)"

text \<open>The contract of a window per conversation.\<close>

locale debounce_windows =
  fixes debouncing :: "'s \<Rightarrow> 'c \<Rightarrow> time \<Rightarrow> bool"
    and arm :: "'c \<Rightarrow> time \<Rightarrow> 's \<Rightarrow> 's"
    and clear :: "'c \<Rightarrow> 's \<Rightarrow> 's"
    and width :: int
  assumes armed: "debouncing (arm c t s) c' t' \<longleftrightarrow> (if c' = c then t' < t + width else debouncing s c' t')"
    and cleared: "debouncing (clear c s) c' t' \<longleftrightarrow> c' \<noteq> c \<and> debouncing s c' t'"
begin

lemma arm_window: "debouncing (arm c t s) c t' \<longleftrightarrow> t' - t < width"
  by (simp add: armed algebra_simps)

lemma arm_clear: "\<not> debouncing (clear c (arm c t s)) c t'"
  by (simp add: cleared)

lemma rearm: "debouncing (arm c t2 (arm c t1 s)) c t' \<longleftrightarrow> debouncing (arm c t2 s) c t'"
  by (simp add: armed)

end

interpretation windows: debounce_windows
    "\<lambda>tab c t. DebounceRepository_is_debouncing t (fst c) (snd c) tab"
    "\<lambda>c t tab. DebounceRepository_set_debounce secs u t t2 (fst c) (snd c) tab"
    "\<lambda>c tab. DebounceRepository_clear_debounce (fst c) (snd c) tab"
    "secs * second"
  for secs u t2
  by unfold_locales
    (auto simp: DebounceRepository_is_debouncing_def DebounceRepository_set_debounce_def
      DebounceRepository_clear_debounce_def Let_def split: option.splits)

section \<open>Properties\<close>


text \<open>The ledger and its query agree: \<open>record\<close> reports a new key exactly when \<open>is_duplicate\<close>
  was false, afterwards exactly that key has been added to the seen ones, the rows stay unique
  per tenant and key, and recording a key twice changes nothing the second time.\<close>

theorem record_is_duplicate:
  assumes "receipts_ok rows"
    and "IdempotencyRepository_record u now t k h c rows = (rows', new)"
  shows "new = (\<not> IdempotencyRepository_is_duplicate t k rows) \<and> receipts_ok rows' \<and>
    (\<forall>t' k'. IdempotencyRepository_is_duplicate t' k' rows' \<longleftrightarrow>
       (t', k') = (t, k) \<or> IdempotencyRepository_is_duplicate t' k' rows) \<and>
    IdempotencyRepository_record u2 now2 t k h2 c2 rows' = (rows', False)"
proof -
  have r: "rows' = fst (IdempotencyRepository_record u now t k h c rows)"
    "new = snd (IdempotencyRepository_record u now t k h c rows)"
    using assms(2) by simp_all
  have "IdempotencyRepository_record u2 now2 t k h2 c2 rows' = (rows', False)"
    using record_keys [of u now t k h c rows]
    unfolding r by (simp add: IdempotencyRepository_record_def insert_ignore_def)
  moreover have "IdempotencyRepository_is_duplicate t' k' rows' \<longleftrightarrow>
      (t', k') = (t, k) \<or> IdempotencyRepository_is_duplicate t' k' rows" for t' k'
    using receipts.seen_mark [where k = "(t, k)" and s = rows and k' = "(t', k')"] unfolding r by simp
  moreover have "new = (\<not> IdempotencyRepository_is_duplicate t k rows)"
    using receipts.mark_new [where k = "(t, k)" and s = rows] unfolding r by simp
  ultimately show ?thesis
    using assms(1) receipts_ok_record unfolding r by blast
qed

theorem record_is_duplicate_witness:
  "\<exists>rows'. IdempotencyRepository_record ''u'' 5 ''t'' ''k'' ''h'' ''c'' [] = (rows', True) \<and>
     IdempotencyRepository_is_duplicate ''t'' ''k'' rows'"
proof -
  obtain rows' new where r: "IdempotencyRepository_record ''u'' 5 ''t'' ''k'' ''h'' ''c'' [] = (rows', new)"
    by fastforce
  with record_is_duplicate [OF _ r] show ?thesis
    by (simp add: receipts_ok_def IdempotencyRepository_is_duplicate_def)
qed

end
