(* ===== verification/Webhook.thy ===== *)
theory Webhook
  imports Eligibility Ledger
begin

text \<open>
  The webhook endpoint (\<open>api/routers/webhooks.py\<close>) and the job publisher
  (\<open>messaging/publisher.py\<close>): tenant resolution, normalization, eligibility against the
  database, the transaction that records the event and arms the debounce window, and the
  background task that publishes the conversation job.

  An environment fixes what one request observes: the clock readings and fresh UUIDs in the order
  the code takes them, the JSON decoder and pydantic coercions, which database statements fail, and
  the state of the broker connection (\<open>None\<close>: no connection, \<open>Some ok\<close>: publishing succeeds or
  not). A message body is the dictionary that \<open>json.dumps\<close> encodes. Metrics and logs are left out.
\<close>

section \<open>Jobs\<close>

record ConversationJob =
  cj_tenant_id :: string
  cj_conversation_id :: string
  cj_correlation_id :: string
  cj_idempotency_key :: string
  cj_event_ref :: string
  cj_content :: "string option"
  cj_attachments :: "pydict list"
  cj_sender_type :: string
  cj_sender_ref :: string
  cj_scheduled_at :: string

definition opt_str :: "string option \<Rightarrow> pyval" where
  "opt_str s = (case s of None \<Rightarrow> PNone | Some x \<Rightarrow> PStr x)"

definition ConversationJob_to_dict :: "ConversationJob \<Rightarrow> pydict" where
  "ConversationJob_to_dict job = [
     (''tenant_id'', PStr (cj_tenant_id job)), (''conversation_id'', PStr (cj_conversation_id job)),
     (''correlation_id'', PStr (cj_correlation_id job)),
     (''idempotency_key'', PStr (cj_idempotency_key job)), (''event_ref'', PStr (cj_event_ref job)),
     (''content'', opt_str (cj_content job)), (''attachments'', PList (map PDict (cj_attachments job))),
     (''sender_type'', PStr (cj_sender_type job)), (''sender_ref'', PStr (cj_sender_ref job)),
     (''scheduled_at'', PStr (cj_scheduled_at job))]"

definition MessagePublisher_publish_conversation_job ::
    "bool \<Rightarrow> ConversationJob \<Rightarrow> pydict list \<Rightarrow> unit res \<times> pydict list" where
  "MessagePublisher_publish_conversation_job broker_ok job queue =
     (if broker_ok then (Inr (), queue @ [ConversationJob_to_dict job])
      else (Inl (OtherExc ''AMQPError''), queue))"

section \<open>State and environment\<close>

record webhook_db =
  wd_tenants :: "Tenant list"
  wd_receipts :: receipts
  wd_debounce :: debounces

record webhook_state =
  ws_resolver :: TenantResolver
  ws_db :: "webhook_db option"
  ws_published :: "pydict list"

record db_faults =
  df_tenant :: bool
  df_is_duplicate :: bool
  df_is_debouncing :: bool
  df_record :: bool
  df_set_debounce :: bool
  df_commit :: bool

record webhook_env =
  we_iara_env :: string
  we_dev_tenants :: InMemoryTenantRepository
  we_debounce_seconds :: int
  we_clock :: "nat \<Rightarrow> time"
  we_uid :: "nat \<Rightarrow> uuid"
  we_json_loads :: "nat list \<Rightarrow> pyval option"
  we_pydantic :: pydantic
  we_faults :: db_faults
  we_rabbitmq :: "bool option"

record webhook_request =
  wr_tenant_key :: string
  wr_x_request_id :: "string option"
  wr_body :: "nat list option"

definition db_stmt :: "bool \<Rightarrow> 'a \<Rightarrow> 'a res" where
  "db_stmt fails x = (if fails then Inl (OtherExc ''DBAPIError'') else Inr x)"

section \<open>The handler\<close>

definition webhook_resolve ::
    "webhook_env \<Rightarrow> string \<Rightarrow> webhook_state \<Rightarrow> TenantContext res \<times> webhook_state" where
  "webhook_resolve env tenant_key st =
     (let not_found = (\<lambda>r. case r of
          Inl (IaraExc (FailClosedError m)) \<Rightarrow> Inl (HTTPException 404 ''Tenant not found'') | _ \<Rightarrow> r)
      in case (we_iara_env env \<notin> {''development'', ''sandbox''}, ws_db st) of
        (True, Some d) \<Rightarrow>
          (not_found (fst (TenantResolver_resolve
             (\<lambda>k. res_bind (db_stmt (df_tenant (we_faults env)) ()) (\<lambda>_.
                    PostgresTenantRepository_get_by_key (wd_tenants d) k))
             (we_clock env 0) (we_clock env 1) tenant_key (TenantResolver_init 60))), st)
      | _ \<Rightarrow>
          (case TenantResolver_resolve (InMemoryTenantRepository_get_by_key (we_dev_tenants env))
               (we_clock env 0) (we_clock env 1) tenant_key (ws_resolver st) of
             (r, rs) \<Rightarrow> (not_found r, st\<lparr>ws_resolver := rs\<rparr>)))"

text \<open>The check inside the session: both repositories read the same database.\<close>

definition webhook_check ::
    "webhook_env \<Rightarrow> TenantContext \<Rightarrow> NormalizedChatwootEvent \<Rightarrow> webhook_db \<Rightarrow> EligibilityDecision res" where
  "webhook_check env ctx ev d = EligibilityChecker_check ctx
     (Some (\<lambda>k. db_stmt (df_is_duplicate (we_faults env))
        (IdempotencyRepository_is_duplicate (tc_tenant_id ctx) k (wd_receipts d))))
     (Some (\<lambda>_ c. db_stmt (df_is_debouncing (we_faults env))
        (DebounceRepository_is_debouncing (we_clock env 3) (tc_tenant_id ctx) c (wd_debounce d)))) ev"

text \<open>
  The transaction of an eligible event: record, arm the window, commit. An exception before the
  commit leaves the database as it was.
\<close>

definition webhook_commit ::
    "webhook_env \<Rightarrow> TenantContext \<Rightarrow> NormalizedChatwootEvent \<Rightarrow> string \<Rightarrow> webhook_db \<Rightarrow> webhook_db res" where
  "webhook_commit env ctx ev correlation_id d =
     res_bind (db_stmt (df_record (we_faults env))
        (fst (IdempotencyRepository_record (we_uid env 2) (we_clock env 4) (tc_tenant_id ctx)
           (ev_idempotency_key ev) (rer_raw_hash (ev_raw_event_ref ev)) correlation_id (wd_receipts d))))
       (\<lambda>rows.
     res_bind (db_stmt (df_set_debounce (we_faults env))
        (DebounceRepository_set_debounce (we_debounce_seconds env) (we_uid env 3) (we_clock env 5)
           (we_clock env 6) (tc_tenant_id ctx) (ev_conversation_id ev) (wd_debounce d)))
       (\<lambda>tab.
     db_stmt (df_commit (we_faults env)) (d\<lparr>wd_receipts := rows, wd_debounce := tab\<rparr>)))"

definition webhook_eligibility ::
    "webhook_env \<Rightarrow> TenantContext \<Rightarrow> NormalizedChatwootEvent \<Rightarrow> string \<Rightarrow> webhook_db option
     \<Rightarrow> EligibilityDecision res \<times> webhook_db option" where
  "webhook_eligibility env ctx ev correlation_id db =
     (case db of
        None \<Rightarrow> (EligibilityChecker_check ctx None None ev, None)
      | Some d \<Rightarrow>
          (case res_bind (webhook_check env ctx ev d) (\<lambda>decision.
               if ed_eligible decision
               then res_bind (webhook_commit env ctx ev correlation_id d) (\<lambda>d'. Inr (decision, d'))
               else Inr (decision, d)) of
             Inr (decision, d') \<Rightarrow> (Inr decision, Some d')
           | Inl e \<Rightarrow> (EligibilityChecker_check ctx None None ev, Some d)))"

definition attachment_job :: "nat \<Rightarrow> pyval \<Rightarrow> pydict option" where
  "attachment_job i att = (case att of
      PDict a \<Rightarrow>
        (let url = py_or (py_or (dict_get a ''data_url'') (dict_get a ''url'')) (dict_get a ''thumb_url'') in
         if \<not> truthy url then None
         else Some [(''ref'', PStr (attachment_file_ref a (PStr (''att_'' @ show_int (int i))))),
                    (''url'', url),
                    (''content_type'', py_or (dict_get a ''content_type'') (PStr ''application/octet-stream'')),
                    (''type'', dict_get_or a ''file_type'' (PStr ''file''))])
    | _ \<Rightarrow> None)"

definition attachment_jobs :: "pyval list \<Rightarrow> pydict list" where
  "attachment_jobs atts = List.map_filter (\<lambda>(i, att). attachment_job i att) (enumerate 0 atts)"

definition webhook_task ::
    "TenantContext \<Rightarrow> NormalizedChatwootEvent \<Rightarrow> string \<Rightarrow> pyval \<Rightarrow> ConversationJob res" where
  "webhook_task ctx ev correlation_id raw_payload =
     res_bind (as_dict raw_payload) (\<lambda>payload.
     res_bind (event_message payload) (\<lambda>message_raw.
     res_bind (py_iter (event_attachments message_raw payload)) (\<lambda>atts.
     res_bind (event_sender message_raw payload) (\<lambda>sender_raw.
     Inr \<lparr>cj_tenant_id = tc_tenant_id ctx, cj_conversation_id = ev_conversation_id ev,
          cj_correlation_id = correlation_id, cj_idempotency_key = ev_idempotency_key ev,
          cj_event_ref = rer_raw_hash (ev_raw_event_ref ev), cj_content = ev_content_text ev,
          cj_attachments = attachment_jobs atts,
          cj_sender_type = py_str (dict_get_or sender_raw ''type'' (PStr ''contact'')),
          cj_sender_ref = py_str (dict_get_or sender_raw ''id'' (PStr [])),
          cj_scheduled_at = []\<rparr>))))"

definition accepted_response :: "string \<Rightarrow> pydict" where
  "accepted_response correlation_id =
     [(''status'', PStr ''accepted''), (''correlation_id'', PStr correlation_id)]"

definition rejected_response :: "EligibilityDecision \<Rightarrow> string \<Rightarrow> pydict" where
  "rejected_response decision correlation_id =
     [(''status'', PStr ''rejected''), (''reason'', PStr (EligibilityReason_value (ed_reason decision))),
      (''correlation_id'', PStr correlation_id)]"

definition request_correlation_id :: "webhook_env \<Rightarrow> webhook_request \<Rightarrow> string" where
  "request_correlation_id env req =
     (case wr_x_request_id req of Some (c # cs) \<Rightarrow> c # cs | _ \<Rightarrow> we_uid env 0)"

text \<open>The response, the state after it, and the background task that was added.\<close>

definition receive_chatwoot_webhook ::
    "webhook_env \<Rightarrow> webhook_request \<Rightarrow> webhook_state \<Rightarrow> pydict res \<times> webhook_state \<times> ConversationJob option" where
  "receive_chatwoot_webhook env req st =
     (let correlation_id = request_correlation_id env req in
      case wr_body req of
        None \<Rightarrow> (Inl (HTTPException 400 ''Failed to read request body''), st, None)
      | Some [] \<Rightarrow> (Inr (accepted_response correlation_id), st, None)
      | Some raw_bytes \<Rightarrow>
        (case webhook_resolve env (wr_tenant_key req) st of
           (Inl e, st1) \<Rightarrow> (Inl e, st1, None)
         | (Inr ctx, st1) \<Rightarrow>
           (case we_json_loads env raw_bytes of
              None \<Rightarrow> (Inl (HTTPException 400 ''Invalid JSON payload''), st1, None)
            | Some payload \<Rightarrow>
              (case ChatwootEventNormalizer_normalize (we_pydantic env) ctx (we_clock env 2) (we_uid env 1)
                      (we_uid env 4) payload raw_bytes (Some correlation_id) of
                 Inl e \<Rightarrow> (Inl (HTTPException 422 ''Event normalization failed''), st1, None)
               | Inr ev \<Rightarrow>
                 (case webhook_eligibility env ctx ev correlation_id (ws_db st1) of
                    (Inl e, db) \<Rightarrow> (Inl e, st1\<lparr>ws_db := db\<rparr>, None)
                  | (Inr decision, db) \<Rightarrow>
                    if \<not> ed_eligible decision
                    then (Inr (rejected_response decision correlation_id), st1\<lparr>ws_db := db\<rparr>, None)
                    else (case webhook_task ctx ev correlation_id payload of
                        Inl e \<Rightarrow> (Inl e, st1\<lparr>ws_db := db\<rparr>, None)
                      | Inr job \<Rightarrow> (Inr (accepted_response correlation_id), st1\<lparr>ws_db := db\<rparr>, Some job)))))))"

text \<open>The background task: without a broker, or when publishing fails, the job is dropped.\<close>

definition queue_processing_job :: "webhook_env \<Rightarrow> ConversationJob \<Rightarrow> pydict list \<Rightarrow> pydict list" where
  "queue_processing_job env job queue =
     (case we_rabbitmq env of None \<Rightarrow> queue
      | Some broker_ok \<Rightarrow>
          (case MessagePublisher_publish_conversation_job broker_ok
                  (job\<lparr>cj_scheduled_at := isoformat (we_clock env 7)\<rparr>) queue of
             (Inr _, queue') \<Rightarrow> queue'
           | (Inl e, _) \<Rightarrow> queue))"

definition serve_webhook ::
    "webhook_env \<Rightarrow> webhook_request \<Rightarrow> webhook_state \<Rightarrow> pydict res \<times> webhook_state" where
  "serve_webhook env req st =
     (case receive_chatwoot_webhook env req st of
        (resp, st', None) \<Rightarrow> (resp, st')
      | (resp, st', Some job) \<Rightarrow>
          (resp, st'\<lparr>ws_published := queue_processing_job env job (ws_published st')\<rparr>))"

section \<open>Lemmas\<close>

lemma db_stmt_simps [simp]: "db_stmt False x = Inr x" "db_stmt True x = Inl (OtherExc ''DBAPIError'')"
  "db_stmt b x = Inr y \<longleftrightarrow> \<not> b \<and> x = y"
  by (auto simp: db_stmt_def)

lemma webhook_resolve_frame:
  assumes "webhook_resolve env k st = (r, st')"
  shows "ws_db st' = ws_db st" and "ws_published st' = ws_published st"
  using assms by (auto simp: webhook_resolve_def Let_def split: option.splits prod.splits bool.splits)

text \<open>Everything that holds when the handler adds a task, read off its branches.\<close>

lemma receive_task:
  assumes "receive_chatwoot_webhook env req st = (resp, st', Some job)"
  obtains ctx st1 raw payload ev decision db
  where "wr_body req = Some raw" and "webhook_resolve env (wr_tenant_key req) st = (Inr ctx, st1)"
    and "we_json_loads env raw = Some payload"
    and "ChatwootEventNormalizer_normalize (we_pydantic env) ctx (we_clock env 2) (we_uid env 1)
           (we_uid env 4) payload raw (Some (request_correlation_id env req)) = Inr ev"
    and "webhook_eligibility env ctx ev (request_correlation_id env req) (ws_db st) = (Inr decision, db)"
    and "ed_eligible decision" and "webhook_task ctx ev (request_correlation_id env req) payload = Inr job"
    and "st' = st1\<lparr>ws_db := db\<rparr>" and "resp = Inr (accepted_response (request_correlation_id env req))"
  using assms webhook_resolve_frame(1) unfolding receive_chatwoot_webhook_def Let_def
  by (fastforce split: option.splits list.splits prod.splits sum.splits if_splits)

lemma receive_no_task_published:
  assumes "receive_chatwoot_webhook env req st = (resp, st', t)"
  shows "ws_published st' = ws_published st"
  using assms webhook_resolve_frame(2) unfolding receive_chatwoot_webhook_def Let_def
  by (fastforce split: option.splits list.splits prod.splits sum.splits if_splits)

lemma eligibility_accept_base:
  assumes "webhook_eligibility env ctx ev c db = (Inr decision, db')" and "ed_eligible decision"
  shows "EligibilityChecker_check ctx None None ev = Inr EligibilityDecision_accept"
proof -
  have acc: "d = EligibilityDecision_accept \<and>
      EligibilityChecker_check ctx None None ev = Inr EligibilityDecision_accept"
    if "EligibilityChecker_check ctx dup deb ev = Inr d" "ed_eligible d" for dup deb d
    using that check_eligible_accept check_accept_cond [of ctx dup deb ev]
      check_accept_cond [of ctx None None ev] by auto
  show ?thesis
    using assms acc
    by (auto simp: webhook_eligibility_def webhook_check_def res_bind_Inr_iff
        split: option.splits sum.splits if_splits prod.splits)
qed

text \<open>With a healthy database an accepted event is new and its key is in the ledger afterwards.\<close>

definition healthy :: "webhook_env \<Rightarrow> bool" where
  "healthy env \<longleftrightarrow> we_faults env = \<lparr>df_tenant = False, df_is_duplicate = False,
     df_is_debouncing = False, df_record = False, df_set_debounce = False, df_commit = False\<rparr>"

definition ledger_keys :: "webhook_db \<Rightarrow> (uuid \<times> string) set" where
  "ledger_keys d = set (map er_key (wd_receipts d))"

lemma healthy_commit:
  assumes "healthy env" and "webhook_commit env ctx ev c d = r"
  shows "\<exists>d'. r = Inr d' \<and> ledger_keys d' = insert (tc_tenant_id ctx, ev_idempotency_key ev) (ledger_keys d)
     \<and> wd_tenants d' = wd_tenants d \<and> (receipts_ok (wd_receipts d) \<longrightarrow> receipts_ok (wd_receipts d'))"
  using assms record_keys receipts_ok_record
  by (auto simp: healthy_def webhook_commit_def ledger_keys_def simp del: set_map)

lemma healthy_check:
  assumes "healthy env" and "webhook_check env ctx ev d = r"
  shows "\<exists>x. r = Inr x \<and> (ed_eligible x \<longrightarrow> (tc_tenant_id ctx, ev_idempotency_key ev) \<notin> ledger_keys d)"
proof -
  have "webhook_check env ctx ev d \<noteq> Inl e" for e
    using assms(1) by (auto simp: healthy_def webhook_check_def EligibilityChecker_check_def
        check_debounce_def split: option.splits)
  then obtain x where x: "webhook_check env ctx ev d = Inr x"
    by (cases "webhook_check env ctx ev d") auto
  moreover have "(tc_tenant_id ctx, ev_idempotency_key ev) \<notin> ledger_keys d" if "ed_eligible x"
    using x that assms(1) check_eligible_accept [OF x [unfolded webhook_check_def]]
    unfolding webhook_check_def
    by (auto simp: check_accept_cond healthy_def is_duplicate_iff ledger_keys_def simp del: set_map)
  ultimately show ?thesis using assms(2) by auto
qed

lemma healthy_eligibility:
  assumes "healthy env" and "webhook_eligibility env ctx ev c (Some d) = (r, db')"
  shows "\<exists>x d'. r = Inr x \<and> db' = Some d' \<and>
    (if ed_eligible x
     then (tc_tenant_id ctx, ev_idempotency_key ev) \<notin> ledger_keys d \<and>
          ledger_keys d' = insert (tc_tenant_id ctx, ev_idempotency_key ev) (ledger_keys d)
     else d' = d)"
proof -
  obtain x where x: "webhook_check env ctx ev d = Inr x"
      "ed_eligible x \<longrightarrow> (tc_tenant_id ctx, ev_idempotency_key ev) \<notin> ledger_keys d"
    using healthy_check [OF assms(1) refl] by blast
  obtain d' where d': "webhook_commit env ctx ev c d = Inr d'"
      "ledger_keys d' = insert (tc_tenant_id ctx, ev_idempotency_key ev) (ledger_keys d)"
    using healthy_commit [OF assms(1) refl] by blast
  have "r = Inr x \<and> db' = Some (if ed_eligible x then d' else d)"
    using assms(2) x(1) d'(1) by (cases "ed_eligible x") (simp_all add: webhook_eligibility_def)
  then show ?thesis using x(2) d'(2) by auto
qed

lemma task_keys:
  assumes "webhook_task ctx ev c payload = Inr job"
  shows "cj_tenant_id job = tc_tenant_id ctx" "cj_idempotency_key job = ev_idempotency_key ev"
    "cj_content job = ev_content_text ev" "cj_conversation_id job = ev_conversation_id ev"
  using assms by (auto simp: webhook_task_def res_bind_Inr_iff)

lemma normalized_task:
  assumes "ChatwootEventNormalizer_normalize pd ctx now u1 u2 payload raw corr = Inr ev"
  shows "\<exists>job. webhook_task ctx ev c payload = Inr job"
proof -
  obtain d m atts snd where "as_dict payload = Inr d" "event_message d = Inr m"
    "event_sender m d = Inr snd" "py_iter (event_attachments m d) = Inr atts"
    using assms unfolding ChatwootEventNormalizer_normalize_def Let_def res_bind_Inr_iff by blast
  then show ?thesis by (simp add: webhook_task_def)
qed

definition msg_key :: "pydict \<Rightarrow> pyval \<times> pyval" where
  "msg_key m = (dict_get m ''tenant_id'', dict_get m ''idempotency_key'')"

lemma msg_key_job [simp]:
  "msg_key (ConversationJob_to_dict job) = (PStr (cj_tenant_id job), PStr (cj_idempotency_key job))"
  by (simp add: msg_key_def ConversationJob_to_dict_def)

lemma queue_job_cases:
  "queue_processing_job env job q = (if we_rabbitmq env = Some True
     then q @ [ConversationJob_to_dict (job\<lparr>cj_scheduled_at := isoformat (we_clock env 7)\<rparr>)] else q)"
  by (auto simp: queue_processing_job_def MessagePublisher_publish_conversation_job_def
      split: option.splits bool.splits)

section \<open>Sequences of requests\<close>

text \<open>Requests served one after the other, each in its own environment.\<close>

inductive webhook_run :: "webhook_state \<Rightarrow> webhook_state \<Rightarrow> bool" for st0 where
  idle: "webhook_run st0 st0"
| served: "webhook_run st0 st \<Longrightarrow> healthy env \<Longrightarrow> serve_webhook env req st = (resp, st') \<Longrightarrow>
     webhook_run st0 st'"

definition jobs_recorded :: "webhook_state \<Rightarrow> bool" where
  "jobs_recorded st \<longleftrightarrow> distinct (map msg_key (ws_published st)) \<and>
     (\<exists>d. ws_db st = Some d \<and>
        (\<forall>m\<in>set (ws_published st). \<exists>t k. msg_key m = (PStr t, PStr k) \<and> (t, k) \<in> ledger_keys d))"

lemma receive_no_task_db:
  assumes "receive_chatwoot_webhook env req st = (resp, st', None)" and "healthy env"
    and "ws_db st = Some d"
  shows "ws_db st' = Some d"
proof -
  have frame: "ws_db st1 = Some d" if "webhook_resolve env k st = (r, st1)" for k r st1
    using webhook_resolve_frame(1) [OF that] assms(3) by simp
  have task: False
    if "ChatwootEventNormalizer_normalize pd ctx now u1 u2 payload raw corr = Inr ev"
      "webhook_task ctx ev c payload = Inl e" for pd ctx now u1 u2 payload raw corr ev c e
    using normalized_task [OF that(1), of c] that(2) by simp
  have elig: "db' = Some d"
    if "webhook_eligibility env ctx ev c (Some d) = (Inr x, db')" "\<not> ed_eligible x" for ctx ev c x db'
    using healthy_eligibility [OF assms(2) that(1)] that(2) by auto
  have noerr: False if "webhook_eligibility env ctx ev c (Some d) = (Inl e, db')" for ctx ev c e db'
    using healthy_eligibility [OF assms(2) that] by auto
  show ?thesis
    using assms(1,3) unfolding receive_chatwoot_webhook_def Let_def
    by (auto split: option.splits list.splits prod.splits sum.splits if_splits
        dest!: frame dest: elig noerr task)
qed

lemma receive_task_db:
  assumes "receive_chatwoot_webhook env req st = (resp, st', Some job)" and "healthy env"
    and "ws_db st = Some d"
  shows "\<exists>d'. ws_db st' = Some d' \<and> (cj_tenant_id job, cj_idempotency_key job) \<notin> ledger_keys d \<and>
    ledger_keys d' = insert (cj_tenant_id job, cj_idempotency_key job) (ledger_keys d)"
  using assms(1)
proof (rule receive_task)
  fix ctx st1 raw payload ev decision db
  assume e: "webhook_eligibility env ctx ev (request_correlation_id env req) (ws_db st) = (Inr decision, db)"
    "ed_eligible decision" and t: "webhook_task ctx ev (request_correlation_id env req) payload = Inr job"
    and s: "st' = st1\<lparr>ws_db := db\<rparr>"
  show ?thesis
    using healthy_eligibility [OF assms(2) e(1) [unfolded assms(3)]] e(2) s task_keys(1,2) [OF t] by auto
qed

lemma jobs_recorded_serve:
  assumes "jobs_recorded st" and "healthy env" and "serve_webhook env req st = (resp, st')"
  shows "jobs_recorded st'"
proof -
  obtain d where d: "ws_db st = Some d" using assms(1) by (auto simp: jobs_recorded_def)
  obtain r st1 t where rc: "receive_chatwoot_webhook env req st = (r, st1, t)"
    by (cases "receive_chatwoot_webhook env req st") auto
  have pub: "ws_published st1 = ws_published st" by (rule receive_no_task_published [OF rc])
  show ?thesis
  proof (cases t)
    case None
    then show ?thesis
      using receive_no_task_db [OF rc [unfolded None] assms(2) d] assms(1,3) d pub rc
      by (simp add: serve_webhook_def jobs_recorded_def)
  next
    case (Some job)
    then obtain d' where d': "ws_db st1 = Some d'"
        "(cj_tenant_id job, cj_idempotency_key job) \<notin> ledger_keys d"
        "ledger_keys d' = insert (cj_tenant_id job, cj_idempotency_key job) (ledger_keys d)"
      using receive_task_db [OF rc [unfolded Some] assms(2) d] by blast
    have "st' = st1\<lparr>ws_published := queue_processing_job env job (ws_published st)\<rparr>"
      using assms(3) rc Some pub by (simp add: serve_webhook_def)
    then show ?thesis
      using assms(1) d d' pub by (fastforce simp: jobs_recorded_def queue_job_cases)
  qed
qed

section \<open>Properties\<close>

definition no_faults :: db_faults where
  "no_faults = \<lparr>df_tenant = False, df_is_duplicate = False, df_is_debouncing = False,
     df_record = False, df_set_debounce = False, df_commit = False\<rparr>"

text \<open>A development server with a database: the sample request is accepted and queued.\<close>

definition pilot_env :: "bool option \<Rightarrow> webhook_env" where
  "pilot_env rabbit = \<lparr>we_iara_env = ''sandbox'', we_dev_tenants = [(''pilot'', pilot_record)],
     we_debounce_seconds = 3, we_clock = (\<lambda>_. 5), we_uid = (\<lambda>_. ''u''),
     we_json_loads = (\<lambda>_. Some (PDict pilot_payload)), we_pydantic = strict_pydantic,
     we_faults = no_faults, we_rabbitmq = rabbit\<rparr>"

definition pilot_request :: webhook_request where
  "pilot_request = \<lparr>wr_tenant_key = ''pilot'', wr_x_request_id = Some ''r1'', wr_body = Some [123, 125]\<rparr>"

definition pilot_state :: webhook_state where
  "pilot_state = \<lparr>ws_resolver = TenantResolver_init 60,
     ws_db = Some \<lparr>wd_tenants = [], wd_receipts = [], wd_debounce = Map.empty\<rparr>, ws_published = []\<rparr>"

lemma healthy_pilot [simp]: "healthy (pilot_env rb)"
  by (simp add: healthy_def pilot_env_def no_faults_def)

lemma pilot_resolve: "\<exists>st1. webhook_resolve (pilot_env rb) ''pilot'' pilot_state = (Inr pilot_ctx, st1)"
  by (simp add: webhook_resolve_def pilot_env_def pilot_state_def TenantResolver_resolve_def
      TenantResolver_init_def TenantResolver_fetch_def InMemoryTenantRepository_get_by_key_def
      pilot_context TenantContext_assert_active_def py_strip_def py_space_def pilot_ctx_def)

lemma pilot_normalize:
  "\<exists>ev. ChatwootEventNormalizer_normalize strict_pydantic pilot_ctx 5 ''u'' ''u'' (PDict pilot_payload)
      [123, 125] (Some ''r1'') = Inr ev \<and> ev_conversation_id ev = ''c9'' \<and>
    ev_account_id_ref ev = make_account_ref (tc_provider_account_id pilot_ctx) \<and>
    ev_message_type ev = Some MT_INCOMING \<and> ev_sender_type ev = Some ST_CONTACT \<and> \<not> ev_is_private ev"
  by (simp add: normalize_eval pilot_payload_def pilot_ctx_def)

lemma pilot_receive:
  "\<exists>st' job. receive_chatwoot_webhook (pilot_env rb) pilot_request pilot_state =
     (Inr (accepted_response ''r1''), st', Some job)"
proof -
  obtain st1 where r: "webhook_resolve (pilot_env rb) ''pilot'' pilot_state = (Inr pilot_ctx, st1)"
    using pilot_resolve by blast
  obtain ev where ev: "ChatwootEventNormalizer_normalize strict_pydantic pilot_ctx 5 ''u'' ''u''
      (PDict pilot_payload) [123, 125] (Some ''r1'') = Inr ev" "ev_conversation_id ev = ''c9''"
    "ev_account_id_ref ev = make_account_ref (tc_provider_account_id pilot_ctx)"
    "ev_message_type ev = Some MT_INCOMING" "ev_sender_type ev = Some ST_CONTACT" "\<not> ev_is_private ev"
    using pilot_normalize by blast
  have db: "ws_db st1 = Some \<lparr>wd_tenants = [], wd_receipts = [], wd_debounce = Map.empty\<rparr>"
    using webhook_resolve_frame(1) [OF r] by (simp add: pilot_state_def)
  have "webhook_check (pilot_env rb) pilot_ctx ev \<lparr>wd_tenants = [], wd_receipts = [], wd_debounce = Map.empty\<rparr>
      = Inr EligibilityDecision_accept"
    using ev by (simp add: webhook_check_def check_accept_cond pilot_env_def no_faults_def
        is_duplicate_iff DebounceRepository_is_debouncing_def)
  moreover obtain job where "webhook_task pilot_ctx ev ''r1'' (PDict pilot_payload) = Inr job"
    using normalized_task [OF ev(1)] by blast
  ultimately show ?thesis
    using r ev db healthy_commit [OF healthy_pilot refl, of rb pilot_ctx ev "''r1''"
        "\<lparr>wd_tenants = [], wd_receipts = [], wd_debounce = Map.empty\<rparr>"]
    by (auto simp: receive_chatwoot_webhook_def pilot_request_def request_correlation_id_def
        webhook_eligibility_def Let_def pilot_env_def)
qed





text \<open>The recording of an event does not guard its publication. If two deliveries of one event
  are checked before either is recorded, both transactions succeed and both requests go on to queue
  their job, although the second \<open>record\<close> reports a duplicate: its result is not looked at.\<close>

theorem concurrent_deliveries_both_accepted:
  assumes "healthy env1" and "healthy env2"
    and "webhook_check env1 ctx ev d = Inr dec1" and "ed_eligible dec1"
    and "webhook_check env2 ctx ev d = Inr dec2" and "ed_eligible dec2"
  shows "\<exists>d1 d2. webhook_commit env1 ctx ev c1 d = Inr d1 \<and> webhook_commit env2 ctx ev c2 d1 = Inr d2 \<and>
    wd_receipts d2 = wd_receipts d1 \<and>
    \<not> snd (IdempotencyRepository_record u now (tc_tenant_id ctx) (ev_idempotency_key ev) h c2 (wd_receipts d1)) \<and>
    \<not> IdempotencyRepository_is_duplicate (tc_tenant_id ctx) (ev_idempotency_key ev) (wd_receipts d)"
proof -
  obtain d1 where d1: "webhook_commit env1 ctx ev c1 d = Inr d1"
    "(tc_tenant_id ctx, ev_idempotency_key ev) \<in> ledger_keys d1"
    using healthy_commit [OF assms(1) refl] by blast
  obtain d2 where d2: "webhook_commit env2 ctx ev c2 d1 = Inr d2"
    using healthy_commit [OF assms(2) refl] by blast
  have "wd_receipts d2 = wd_receipts d1"
    using d2 d1(2) assms(2)
    by (auto simp: webhook_commit_def healthy_def IdempotencyRepository_record_def insert_ignore_def
        ledger_keys_def)
  moreover have "(tc_tenant_id ctx, ev_idempotency_key ev) \<notin> ledger_keys d"
    using healthy_check [OF assms(1) assms(3)] assms(4) by auto
  ultimately show ?thesis
    using d1 d2
    by (auto simp: is_duplicate_iff ledger_keys_def IdempotencyRepository_record_def insert_ignore_def
        simp del: set_map)
qed

lemma pilot_check: "\<exists>ev. webhook_check (pilot_env rb) pilot_ctx ev
    \<lparr>wd_tenants = [], wd_receipts = [], wd_debounce = Map.empty\<rparr> = Inr EligibilityDecision_accept"
proof -
  obtain ev :: NormalizedChatwootEvent where ev: "ev_account_id_ref ev = make_account_ref (tc_provider_account_id pilot_ctx)"
    "ev_message_type ev = Some MT_INCOMING" "ev_sender_type ev = Some ST_CONTACT" "\<not> ev_is_private ev"
    using pilot_normalize by blast
  then have "webhook_check (pilot_env rb) pilot_ctx ev
      \<lparr>wd_tenants = [], wd_receipts = [], wd_debounce = Map.empty\<rparr> = Inr EligibilityDecision_accept"
    by (simp add: webhook_check_def check_accept_cond pilot_env_def no_faults_def
        is_duplicate_iff DebounceRepository_is_debouncing_def)
  then show ?thesis by blast
qed

theorem concurrent_deliveries_both_accepted_witness:
  "\<exists>ev d1 d2. webhook_commit (pilot_env None) pilot_ctx ev ''a''
       \<lparr>wd_tenants = [], wd_receipts = [], wd_debounce = Map.empty\<rparr> = Inr d1 \<and>
     webhook_commit (pilot_env None) pilot_ctx ev ''b'' d1 = Inr d2 \<and> wd_receipts d2 = wd_receipts d1"
proof -
  obtain ev where "webhook_check (pilot_env None) pilot_ctx ev
    \<lparr>wd_tenants = [], wd_receipts = [], wd_debounce = Map.empty\<rparr> = Inr EligibilityDecision_accept"
    using pilot_check by blast
  from concurrent_deliveries_both_accepted [OF healthy_pilot healthy_pilot this _ this]
  show ?thesis by (metis EligibilityDecision_sel(1))
qed

text \<open>An accepted event whose job cannot be published is lost: the response still says accepted,
  nothing is published, and the committed ledger entry makes every later delivery of the event a
  duplicate.\<close>

theorem unpublished_event_lost:
  assumes "healthy env" and "healthy env'" and "ws_db st = Some d"
    and "receive_chatwoot_webhook env req st = (resp, st', Some job)"
    and "we_rabbitmq env \<noteq> Some True"
  shows "\<exists>d'. ws_db (snd (serve_webhook env req st)) = Some d' \<and>
    ws_published (snd (serve_webhook env req st)) = ws_published st \<and>
    fst (serve_webhook env req st) = Inr (accepted_response (request_correlation_id env req)) \<and>
    (\<forall>ctx ev x. tc_tenant_id ctx = cj_tenant_id job \<longrightarrow> ev_idempotency_key ev = cj_idempotency_key job \<longrightarrow>
       webhook_check env' ctx ev d' = Inr x \<longrightarrow> \<not> ed_eligible x)"
proof -
  obtain d' where d': "ws_db st' = Some d'" "(cj_tenant_id job, cj_idempotency_key job) \<in> ledger_keys d'"
    using receive_task_db [OF assms(4,1,3)] by blast
  have "resp = Inr (accepted_response (request_correlation_id env req))"
    using assms(4) by (rule receive_task)
  moreover have "ws_published st' = ws_published st"
    by (rule receive_no_task_published [OF assms(4)])
  moreover have "\<not> ed_eligible x" if "tc_tenant_id ctx = cj_tenant_id job"
      "ev_idempotency_key ev = cj_idempotency_key job" "webhook_check env' ctx ev d' = Inr x" for ctx ev x
    using healthy_check [OF assms(2) that(3)] that(1,2) d'(2) by auto
  ultimately show ?thesis
    using d'(1) assms(4,5) by (simp add: serve_webhook_def queue_job_cases)
qed

theorem unpublished_event_lost_witness:
  "ws_published (snd (serve_webhook (pilot_env None) pilot_request pilot_state)) = [] \<and>
   fst (serve_webhook (pilot_env None) pilot_request pilot_state) = Inr (accepted_response ''r1'')"
proof -
  obtain st' job where r: "receive_chatwoot_webhook (pilot_env None) pilot_request pilot_state =
     (Inr (accepted_response ''r1''), st', Some job)"
    using pilot_receive by blast
  have "ws_db pilot_state = Some \<lparr>wd_tenants = [], wd_receipts = [], wd_debounce = Map.empty\<rparr>"
    by (simp add: pilot_state_def)
  moreover have "we_rabbitmq (pilot_env None) \<noteq> Some True"
    by (simp add: pilot_env_def)
  moreover have "request_correlation_id (pilot_env None) pilot_request = ''r1''" "ws_published pilot_state = []"
    by (simp_all add: request_correlation_id_def pilot_request_def pilot_state_def)
  ultimately show ?thesis
    using unpublished_event_lost [OF healthy_pilot [of None] healthy_pilot [of None] _ r] by auto
qed

end
