(* ===== verification/Outbox.thy ===== *)
theory Outbox
  imports Ledger Tenancy
begin

text \<open>
  The provider command outbox: \<open>persistence/repositories/outbox.py\<close> and
  \<open>persistence/services/outbox_service.py\<close>. The table is the list of its rows in insertion order,
  unique in tenant and idempotency key (\<open>uq_outbox_idempotency\<close>); the status column holds the values
  of \<open>CommandStatus\<close>. Every \<open>mark\<close> operation updates all rows with the given command id, as the
  SQL does.
\<close>

section \<open>Repository\<close>

record ProviderCommandOutbox =
  ob_id :: uuid
  ob_tenant_id :: uuid
  ob_command_id :: string
  ob_idempotency_key :: string
  ob_correlation_id :: string
  ob_provider :: string
  ob_capability_name :: string
  ob_parameters :: pydict
  ob_risk_class :: string
  ob_status :: CommandStatus
  ob_retry_count :: nat
  ob_scheduled_at :: time
  ob_sent_at :: "time option"
  ob_confirmed_at :: "time option"

type_synonym outbox = "ProviderCommandOutbox list"

abbreviation ob_key :: "ProviderCommandOutbox \<Rightarrow> uuid \<times> string" where
  "ob_key r \<equiv> (ob_tenant_id r, ob_idempotency_key r)"

definition OutboxRepository_enqueue ::
    "uuid \<Rightarrow> time \<Rightarrow> ProviderCommand \<Rightarrow> outbox \<Rightarrow> outbox \<times> bool" where
  "OutboxRepository_enqueue new_id now command rows =
     insert_ignore ob_key
       \<lparr>ob_id = new_id, ob_tenant_id = cmd_tenant_id command, ob_command_id = cmd_command_id command,
        ob_idempotency_key = cmd_idempotency_key command, ob_correlation_id = cmd_correlation_id command,
        ob_provider = cmd_provider command, ob_capability_name = cmd_capability_name command,
        ob_parameters = cmd_parameters command, ob_risk_class = RiskClass_value (cmd_risk_class command),
        ob_status = CS_PENDING, ob_retry_count = 0, ob_scheduled_at = now, ob_sent_at = None,
        ob_confirmed_at = None\<rparr> rows"

definition OutboxRepository_fetch_pending :: "uuid \<Rightarrow> nat \<Rightarrow> outbox \<Rightarrow> outbox" where
  "OutboxRepository_fetch_pending tenant_id limit rows = order_limit ob_scheduled_at limit
     (filter (\<lambda>r. ob_tenant_id r = tenant_id \<and> ob_status r = CS_PENDING) rows)"

definition OutboxRepository_fetch_pending_all :: "time \<Rightarrow> nat \<Rightarrow> outbox \<Rightarrow> outbox" where
  "OutboxRepository_fetch_pending_all now limit rows = order_limit ob_scheduled_at limit
     (filter (\<lambda>r. ob_status r = CS_PENDING \<and> ob_scheduled_at r \<le> now) rows)"

definition OutboxRepository_mark_sent :: "time \<Rightarrow> string \<Rightarrow> outbox \<Rightarrow> outbox" where
  "OutboxRepository_mark_sent now command_id rows = upd_where (\<lambda>r. ob_command_id r = command_id)
     (\<lambda>r. r\<lparr>ob_status := CS_SENT, ob_sent_at := Some now\<rparr>) rows"

definition OutboxRepository_mark_confirmed :: "time \<Rightarrow> string \<Rightarrow> outbox \<Rightarrow> outbox" where
  "OutboxRepository_mark_confirmed now command_id rows = upd_where (\<lambda>r. ob_command_id r = command_id)
     (\<lambda>r. r\<lparr>ob_status := CS_CONFIRMED, ob_confirmed_at := Some now\<rparr>) rows"

definition OutboxRepository_mark_failed :: "string \<Rightarrow> bool \<Rightarrow> outbox \<Rightarrow> outbox" where
  "OutboxRepository_mark_failed command_id increment_retry rows =
     (if increment_retry
      then upd_where (\<lambda>r. ob_command_id r = command_id)
             (\<lambda>r. r\<lparr>ob_status := CS_FAILED, ob_retry_count := ob_retry_count r + 1\<rparr>) rows
      else upd_where (\<lambda>r. ob_command_id r = command_id) (\<lambda>r. r\<lparr>ob_status := CS_FAILED\<rparr>) rows)"

definition OutboxRepository_mark_failed_for_retry :: "time \<Rightarrow> string \<Rightarrow> int \<Rightarrow> outbox \<Rightarrow> outbox" where
  "OutboxRepository_mark_failed_for_retry now command_id retry_delay_seconds rows =
     (let next_at = now + retry_delay_seconds * second in
      upd_where (\<lambda>r. ob_command_id r = command_id)
        (\<lambda>r. r\<lparr>ob_status := CS_PENDING, ob_retry_count := ob_retry_count r + 1,
               ob_scheduled_at := next_at\<rparr>) rows)"

definition OutboxRepository_mark_dead_lettered :: "string \<Rightarrow> outbox \<Rightarrow> outbox" where
  "OutboxRepository_mark_dead_lettered command_id rows = upd_where (\<lambda>r. ob_command_id r = command_id)
     (\<lambda>r. r\<lparr>ob_status := CS_DEAD_LETTERED\<rparr>) rows"

section \<open>Service\<close>

definition outbox_command ::
    "uuid \<Rightarrow> string \<Rightarrow> string \<Rightarrow> string \<Rightarrow> pydict \<Rightarrow> string \<Rightarrow> ProviderCommand" where
  "outbox_command tenant_uuid command_id idempotency_key capability_name parameters correlation_id =
     \<lparr>cmd_command_id = command_id, cmd_idempotency_key = idempotency_key, cmd_tenant_id = tenant_uuid,
      cmd_provider = ''chatwoot'', cmd_account_id_ref = [], cmd_capability_name = capability_name,
      cmd_parameters = parameters, cmd_risk_class = RC_LOW_WRITE, cmd_requires_readback = True,
      cmd_correlation_id = correlation_id, cmd_status = CS_PENDING, cmd_retry_count = 0\<rparr>"

definition OutboxService_enqueue ::
    "uuid \<Rightarrow> time \<Rightarrow> string \<Rightarrow> string \<Rightarrow> string \<Rightarrow> string \<Rightarrow> pydict \<Rightarrow> string \<Rightarrow> string \<Rightarrow> outbox
     \<Rightarrow> unit res \<times> outbox" where
  "OutboxService_enqueue new_id now command_id tenant_id conversation_id capability_name parameters
       correlation_id idempotency_key rows =
     (case UUID_of tenant_id of
        Inl e \<Rightarrow> (Inl e, rows)
      | Inr u \<Rightarrow> (Inr (), fst (OutboxRepository_enqueue new_id now
            (outbox_command u command_id idempotency_key capability_name parameters correlation_id) rows)))"

definition OutboxService_enqueue_tool_command ::
    "uuid \<Rightarrow> time \<Rightarrow> string \<Rightarrow> string \<Rightarrow> pydict \<Rightarrow> string \<Rightarrow> string \<Rightarrow> string \<Rightarrow> outbox \<Rightarrow> unit res \<times> outbox" where
  "OutboxService_enqueue_tool_command new_id now command_id tool_name arguments tenant_id
       idempotency_key correlation_id rows =
     (case UUID_of tenant_id of
        Inl e \<Rightarrow> (Inl e, rows)
      | Inr u \<Rightarrow> (Inr (), fst (OutboxRepository_enqueue new_id now
            (outbox_command u command_id idempotency_key tool_name arguments correlation_id) rows)))"

section \<open>Lemmas\<close>

definition outbox_ok :: "outbox \<Rightarrow> bool" where
  "outbox_ok rows \<longleftrightarrow> distinct (map ob_key rows)"

lemmas outbox_marks = OutboxRepository_mark_sent_def OutboxRepository_mark_confirmed_def
  OutboxRepository_mark_failed_def OutboxRepository_mark_failed_for_retry_def
  OutboxRepository_mark_dead_lettered_def

lemma enqueue_keys:
  "set (map ob_key (fst (OutboxRepository_enqueue u now c rows))) =
     insert (cmd_tenant_id c, cmd_idempotency_key c) (set (map ob_key rows))"
  by (auto simp: OutboxRepository_enqueue_def insert_ignore_def)

lemma mark_keys [simp]:
  "map ob_key (OutboxRepository_mark_sent now cid rows) = map ob_key rows"
  "map ob_key (OutboxRepository_mark_confirmed now cid rows) = map ob_key rows"
  "map ob_key (OutboxRepository_mark_failed cid inc rows) = map ob_key rows"
  "map ob_key (OutboxRepository_mark_failed_for_retry now cid d rows) = map ob_key rows"
  "map ob_key (OutboxRepository_mark_dead_lettered cid rows) = map ob_key rows"
  by (simp_all add: outbox_marks map_upd_where_key Let_def)

lemma outbox_ok_enqueue: "outbox_ok rows \<Longrightarrow> outbox_ok (fst (OutboxRepository_enqueue u now c rows))"
  by (simp add: outbox_ok_def OutboxRepository_enqueue_def distinct_insert_ignore)

lemma fetch_pending_all_sub:
  "r \<in> set (OutboxRepository_fetch_pending_all now n rows) \<Longrightarrow>
     r \<in> set rows \<and> ob_status r = CS_PENDING \<and> ob_scheduled_at r \<le> now"
  unfolding OutboxRepository_fetch_pending_all_def
  using set_order_limit by fastforce

interpretation outbox: dedup_ledger
    "\<lambda>rows k. k \<in> set (map ob_key rows)"
    "\<lambda>k rows. OutboxRepository_enqueue u now
       (outbox_command (fst k) cid (snd k) cap params corr) rows"
  for u now cid cap params corr
  by unfold_locales (auto simp: OutboxRepository_enqueue_def insert_ignore_def outbox_command_def)

section \<open>Properties\<close>

text \<open>C13: Enqueueing is idempotent: a command whose tenant and idempotency key are in the outbox, in
  whatever state its row is, changes no row; otherwise exactly one pending row is appended that
  carries the command. Keys stay unique either way, so re-running a graph node or tool never
  queues a side effect twice.\<close>

theorem enqueue_idempotent:
  assumes "outbox_ok rows" and "OutboxRepository_enqueue u now c rows = (rows', new)"
  shows "outbox_ok rows' \<and>
    (if \<exists>r\<in>set rows. ob_tenant_id r = cmd_tenant_id c \<and> ob_idempotency_key r = cmd_idempotency_key c
     then rows' = rows \<and> \<not> new
     else new \<and> (\<exists>r. rows' = rows @ [r] \<and> ob_status r = CS_PENDING \<and> ob_retry_count r = 0 \<and>
       ob_tenant_id r = cmd_tenant_id c \<and> ob_idempotency_key r = cmd_idempotency_key c \<and>
       ob_capability_name r = cmd_capability_name c \<and> ob_parameters r = cmd_parameters c \<and>
       ob_command_id r = cmd_command_id c \<and> RiskClass_of (ob_risk_class r) = Inr (cmd_risk_class c)))"
proof -
  have "(\<exists>r\<in>set rows. ob_tenant_id r = cmd_tenant_id c \<and> ob_idempotency_key r = cmd_idempotency_key c) \<longleftrightarrow>
      (cmd_tenant_id c, cmd_idempotency_key c) \<in> set (map ob_key rows)"
    by force
  moreover have "outbox_ok rows'"
    using outbox_ok_enqueue [OF assms(1), of u now c] assms(2) by simp
  ultimately show ?thesis
    using assms(2) by (auto simp: OutboxRepository_enqueue_def insert_ignore_def)
qed

definition sample_command :: "string \<Rightarrow> ProviderCommand" where
  "sample_command k = outbox_command ''t'' ''cmd1'' k ''send_message'' [(''content'', PStr ''Oi'')] ''r''"

theorem enqueue_idempotent_witness:
  "OutboxRepository_enqueue ''u2'' 7 (sample_command ''k'') (fst (OutboxRepository_enqueue ''u'' 5 (sample_command ''k'') []))
     = (fst (OutboxRepository_enqueue ''u'' 5 (sample_command ''k'') []), False)"
proof -
  obtain rows' new where e: "OutboxRepository_enqueue ''u2'' 7 (sample_command ''k'')
      (fst (OutboxRepository_enqueue ''u'' 5 (sample_command ''k'') [])) = (rows', new)"
    by fastforce
  with enqueue_idempotent [OF _ e] show ?thesis
    by (simp add: OutboxRepository_enqueue_def insert_ignore_def outbox_ok_def sample_command_def outbox_command_def)
qed

text \<open>The batch the drainer fetches is at most the limit, in schedule order, and holds only
  pending commands that are due; when fewer than the limit are due it holds all of them.\<close>

theorem fetch_pending_all_correct:
  "length (OutboxRepository_fetch_pending_all now n rows) \<le> n \<and>
   sorted (map ob_scheduled_at (OutboxRepository_fetch_pending_all now n rows)) \<and>
   (\<forall>r\<in>set (OutboxRepository_fetch_pending_all now n rows).
      r \<in> set rows \<and> ob_status r = CS_PENDING \<and> ob_scheduled_at r \<le> now) \<and>
   (rows_matching (\<lambda>r. ob_status r = CS_PENDING \<and> ob_scheduled_at r \<le> now) rows \<le> n \<longrightarrow>
      (\<forall>r\<in>set rows. ob_status r = CS_PENDING \<and> ob_scheduled_at r \<le> now \<longrightarrow>
         r \<in> set (OutboxRepository_fetch_pending_all now n rows)))"
proof -
  have all: "set (OutboxRepository_fetch_pending_all now n rows) =
      set (filter (\<lambda>r. ob_status r = CS_PENDING \<and> ob_scheduled_at r \<le> now) rows)"
    if "rows_matching (\<lambda>r. ob_status r = CS_PENDING \<and> ob_scheduled_at r \<le> now) rows \<le> n"
    using that by (simp add: OutboxRepository_fetch_pending_all_def order_limit_def rows_matching_def)
  show ?thesis
  proof (intro conjI)
    show "\<forall>r\<in>set (OutboxRepository_fetch_pending_all now n rows).
        r \<in> set rows \<and> ob_status r = CS_PENDING \<and> ob_scheduled_at r \<le> now"
      using fetch_pending_all_sub by blast
    show "rows_matching (\<lambda>r. ob_status r = CS_PENDING \<and> ob_scheduled_at r \<le> now) rows \<le> n \<longrightarrow>
        (\<forall>r\<in>set rows. ob_status r = CS_PENDING \<and> ob_scheduled_at r \<le> now \<longrightarrow>
           r \<in> set (OutboxRepository_fetch_pending_all now n rows))"
      using all by auto
  qed (simp_all add: OutboxRepository_fetch_pending_all_def length_order_limit sorted_order_limit)
qed

theorem fetch_pending_all_correct_witness:
  "length (OutboxRepository_fetch_pending_all 9 1 (fst (OutboxRepository_enqueue ''u'' 5 (sample_command ''k'') []))) = 1 \<and>
   map ob_status (OutboxRepository_fetch_pending_all 9 1 (fst (OutboxRepository_enqueue ''u'' 5 (sample_command ''k'') [])))
     = [CS_PENDING]"
  using fetch_pending_all_correct [of 9 1 "fst (OutboxRepository_enqueue ''u'' 5 (sample_command ''k'') [])"]
  by (simp add: OutboxRepository_enqueue_def insert_ignore_def OutboxRepository_fetch_pending_all_def order_limit_def)

end
