(* ===== verification/FollowUp.thy ===== *)
theory FollowUp
  imports Outbox
begin

text \<open>
  Scheduled follow-ups: quiet hours and the payload builders (\<open>tools/catalog/followup.py\<close>), the queue
  (\<open>persistence/repositories/follow_up.py\<close>) and the worker that promotes due items to the outbox
  (\<open>workers/follow_up_scheduler.py\<close>).

  An aware \<open>datetime\<close> is its wall-clock reading and its UTC offset, both in microseconds; comparisons
  of two values with the same offset compare the readings. Payload dictionaries are records; the
  timestamp they carry as ISO text is kept as the \<open>datetime\<close> itself. The parser
  \<open>datetime.fromisoformat\<close> is an argument (\<open>None\<close> where it raises \<open>ValueError\<close>), a delay in hours is its
  length in microseconds. Which database statements of a promotion fail is the record
  \<open>promote_faults\<close>.
\<close>

section \<open>Quiet hours\<close>

record datetime =
  dt_local :: int
  dt_offset :: int

definition dt_instant :: "datetime \<Rightarrow> time" where
  "dt_instant dt = dt_local dt - dt_offset dt"

definition dt_hour :: "datetime \<Rightarrow> int" where
  "dt_hour dt = dt_local dt mod day div hour"

abbreviation QUIET_HOURS_START :: int where "QUIET_HOURS_START \<equiv> 22"
abbreviation QUIET_HOURS_END :: int where "QUIET_HOURS_END \<equiv> 8"

definition is_quiet_hour :: "datetime \<Rightarrow> bool" where
  "is_quiet_hour dt = (let h = dt_hour dt in
     if QUIET_HOURS_START > QUIET_HOURS_END then h \<ge> QUIET_HOURS_START \<or> h < QUIET_HOURS_END
     else QUIET_HOURS_START \<le> h \<and> h < QUIET_HOURS_END)"

definition next_non_quiet_time :: "datetime \<Rightarrow> datetime" where
  "next_non_quiet_time trigger_at =
     (if \<not> is_quiet_hour trigger_at then trigger_at
      else (let candidate = trigger_at\<lparr>dt_local := dt_local trigger_at div day * day + QUIET_HOURS_END * hour\<rparr>
            in if dt_local candidate \<le> dt_local trigger_at
               then candidate\<lparr>dt_local := dt_local candidate + day\<rparr> else candidate))"

section \<open>Payloads\<close>

record schedule_args =
  sa_message :: string
  sa_reason :: string
  sa_opted_out :: bool
  sa_contact_ref :: string
  sa_trigger_at_iso :: string
  sa_delay :: "int option"
  sa_max_attempts :: int

record follow_up_payload =
  fp_tenant_id :: string
  fp_conversation_id :: string
  fp_contact_ref :: string
  fp_message_ref :: string
  fp_message_length :: int
  fp_reason_ref :: string
  fp_trigger_at :: "datetime option"
  fp_max_attempts :: int
  fp_opted_out :: bool
  fp_correlation_id :: string
  fp_idempotency_key :: string

definition short_ref :: "string \<Rightarrow> string" where
  "short_ref s = take 16 (sha256_hex s)"

definition schedule_trigger ::
    "(string \<Rightarrow> (int \<times> int option) option) \<Rightarrow> time \<Rightarrow> schedule_args \<Rightarrow> datetime" where
  "schedule_trigger fromisoformat now args =
     (if sa_trigger_at_iso args \<noteq> []
      then (case fromisoformat (sa_trigger_at_iso args) of
              Some (reading, Some off) \<Rightarrow> \<lparr>dt_local = reading, dt_offset = off\<rparr>
            | Some (reading, None) \<Rightarrow> \<lparr>dt_local = reading, dt_offset = 0\<rparr>
            | None \<Rightarrow> \<lparr>dt_local = now + hour, dt_offset = 0\<rparr>)
      else \<lparr>dt_local = now + max 0 (case sa_delay args of None \<Rightarrow> hour | Some d \<Rightarrow> d), dt_offset = 0\<rparr>)"

text \<open>\<open>None\<close> is the payload with status \<open>skipped\<close>.\<close>

definition build_followup_schedule_payload ::
    "(string \<Rightarrow> (int \<times> int option) option) \<Rightarrow> time \<Rightarrow> schedule_args \<Rightarrow> string \<Rightarrow> string \<Rightarrow> string \<Rightarrow> string
     \<Rightarrow> follow_up_payload option" where
  "build_followup_schedule_payload fromisoformat now args tenant_id conversation_id idempotency_key correlation_id =
     (let trigger_at = next_non_quiet_time (schedule_trigger fromisoformat now args) in
      if sa_opted_out args then None
      else Some \<lparr>fp_tenant_id = tenant_id, fp_conversation_id = conversation_id,
        fp_contact_ref = sa_contact_ref args, fp_message_ref = ''msg:'' @ short_ref (sa_message args),
        fp_message_length = int (length (sa_message args)),
        fp_reason_ref = (if sa_reason args \<noteq> [] then short_ref (sa_reason args) else []),
        fp_trigger_at = Some trigger_at, fp_max_attempts = sa_max_attempts args, fp_opted_out = False,
        fp_correlation_id = correlation_id, fp_idempotency_key = idempotency_key\<rparr>)"

section \<open>Queue\<close>

datatype FollowUpStatus = FU_PENDING | FU_SENT | FU_SKIPPED | FU_FAILED

record FollowUpQueueItem =
  fu_id :: uuid
  fu_tenant_id :: uuid
  fu_conversation_id :: string
  fu_contact_ref :: string
  fu_message_ref :: string
  fu_message_length :: int
  fu_reason_ref :: string
  fu_trigger_at :: time
  fu_status :: FollowUpStatus
  fu_attempt_count :: int
  fu_max_attempts :: int
  fu_opted_out :: bool
  fu_correlation_id :: string
  fu_idempotency_key :: string
  fu_sent_at :: "time option"
  fu_skip_reason :: "string option"

type_synonym follow_ups = "FollowUpQueueItem list"

definition FollowUpRepository_enqueue_raw ::
    "uuid \<Rightarrow> time \<Rightarrow> follow_up_payload \<Rightarrow> follow_ups \<Rightarrow> string res \<times> follow_ups" where
  "FollowUpRepository_enqueue_raw item_id now payload rows =
     (case UUID_of (fp_tenant_id payload) of
        Inl e \<Rightarrow> (Inl e, rows)
      | Inr u \<Rightarrow> (Inr item_id, fst (insert_ignore fu_idempotency_key
          \<lparr>fu_id = item_id, fu_tenant_id = u, fu_conversation_id = fp_conversation_id payload,
           fu_contact_ref = fp_contact_ref payload, fu_message_ref = fp_message_ref payload,
           fu_message_length = fp_message_length payload, fu_reason_ref = fp_reason_ref payload,
           fu_trigger_at = (case fp_trigger_at payload of Some dt \<Rightarrow> dt_instant dt | None \<Rightarrow> now + hour),
           fu_status = FU_PENDING, fu_attempt_count = 0, fu_max_attempts = fp_max_attempts payload,
           fu_opted_out = fp_opted_out payload, fu_correlation_id = fp_correlation_id payload,
           fu_idempotency_key = fp_idempotency_key payload, fu_sent_at = None, fu_skip_reason = None\<rparr> rows)))"

definition FollowUpRepository_fetch_due :: "time \<Rightarrow> nat \<Rightarrow> follow_ups \<Rightarrow> follow_ups" where
  "FollowUpRepository_fetch_due now batch_size rows = order_limit fu_trigger_at batch_size
     (filter (\<lambda>r. fu_status r = FU_PENDING \<and> fu_trigger_at r \<le> now) rows)"

definition FollowUpRepository_mark_sent :: "time \<Rightarrow> uuid \<Rightarrow> follow_ups \<Rightarrow> follow_ups" where
  "FollowUpRepository_mark_sent now item_id rows = upd_where (\<lambda>r. fu_id r = item_id)
     (\<lambda>r. r\<lparr>fu_status := FU_SENT, fu_sent_at := Some now\<rparr>) rows"

definition FollowUpRepository_mark_skipped :: "uuid \<Rightarrow> string \<Rightarrow> follow_ups \<Rightarrow> follow_ups" where
  "FollowUpRepository_mark_skipped item_id reason rows = upd_where (\<lambda>r. fu_id r = item_id)
     (\<lambda>r. r\<lparr>fu_status := FU_SKIPPED, fu_skip_reason := Some (take 256 reason)\<rparr>) rows"

definition FollowUpRepository_mark_failed :: "uuid \<Rightarrow> string \<Rightarrow> follow_ups \<Rightarrow> follow_ups" where
  "FollowUpRepository_mark_failed item_id err rows = upd_where (\<lambda>r. fu_id r = item_id)
     (\<lambda>r. r\<lparr>fu_status := FU_FAILED, fu_skip_reason := Some (take 256 err)\<rparr>) rows"

definition FollowUpRepository_increment_attempt :: "uuid \<Rightarrow> follow_ups \<Rightarrow> int \<times> follow_ups" where
  "FollowUpRepository_increment_attempt item_id rows =
     (let rows' = upd_where (\<lambda>r. fu_id r = item_id) (\<lambda>r. r\<lparr>fu_attempt_count := fu_attempt_count r + 1\<rparr>) rows
      in (case find (\<lambda>r. fu_id r = item_id) rows' of None \<Rightarrow> 0 | Some r \<Rightarrow> fu_attempt_count r, rows'))"

definition FollowUpRepository_mark_opted_out ::
    "string \<Rightarrow> string \<Rightarrow> follow_ups \<Rightarrow> nat res \<times> follow_ups" where
  "FollowUpRepository_mark_opted_out conversation_id tenant_id rows =
     (case UUID_of tenant_id of
        Inl e \<Rightarrow> (Inl e, rows)
      | Inr u \<Rightarrow> (let P = (\<lambda>r. fu_conversation_id r = conversation_id \<and> fu_tenant_id r = u \<and> fu_status r = FU_PENDING)
          in (Inr (rows_matching P rows), upd_where P (\<lambda>r. r\<lparr>fu_opted_out := True\<rparr>) rows)))"

section \<open>Scheduler\<close>

record promote_faults =
  pf_mark_skipped :: bool
  pf_increment :: bool
  pf_enqueue :: bool
  pf_mark_sent :: bool
  pf_mark_failed :: bool

record follow_up_state =
  fs_queue :: follow_ups
  fs_outbox :: outbox

text \<open>\<open>str(UUID(h))\<close> of 32 hexadecimal digits.\<close>

definition uuid_of_hex :: "string \<Rightarrow> uuid" where
  "uuid_of_hex h = take 8 h @ ''-'' @ take 4 (drop 8 h) @ ''-'' @ take 4 (drop 12 h) @ ''-'' @
     take 4 (drop 16 h) @ ''-'' @ drop 20 h"

definition follow_up_command :: "FollowUpQueueItem \<Rightarrow> int \<Rightarrow> ProviderCommand" where
  "follow_up_command item new_count =
     \<lparr>cmd_command_id = uuid_of_hex (take 32 (sha256_hex (''followup:'' @ fu_idempotency_key item @ '':'' @
        show_int new_count))),
      cmd_idempotency_key = fu_idempotency_key item @ '':attempt:'' @ show_int new_count,
      cmd_tenant_id = fu_tenant_id item, cmd_provider = ''chatwoot'', cmd_account_id_ref = [],
      cmd_capability_name = ''followup_reengage_conversation'',
      cmd_parameters = [(''conversation_id'', PStr (fu_conversation_id item)),
        (''message_ref'', PStr (fu_message_ref item)), (''message_length'', PInt (fu_message_length item)),
        (''reason_ref'', PStr (fu_reason_ref item)), (''follow_up_item_id'', PStr (fu_id item))],
      cmd_risk_class = RC_LOW_WRITE, cmd_requires_readback = True,
      cmd_correlation_id = fu_correlation_id item, cmd_status = CS_PENDING, cmd_retry_count = 0\<rparr>"

definition db_error :: py_exc where
  "db_error = OtherExc ''DBAPIError''"

text \<open>\<open>int(item.max_attempts or 3)\<close>\<close>

definition item_max_attempts :: "FollowUpQueueItem \<Rightarrow> int" where
  "item_max_attempts item = (if fu_max_attempts item = 0 then 3 else fu_max_attempts item)"

definition skip_item :: "promote_faults \<Rightarrow> FollowUpQueueItem \<Rightarrow> string \<Rightarrow> follow_up_state \<Rightarrow> unit res \<times> follow_up_state" where
  "skip_item pf item reason st =
     (if pf_mark_skipped pf then (Inl db_error, st)
      else (Inr (), st\<lparr>fs_queue := FollowUpRepository_mark_skipped (fu_id item) reason (fs_queue st)\<rparr>))"

definition FollowUpSchedulerWorker_promote_item ::
    "promote_faults \<Rightarrow> uuid \<Rightarrow> time \<Rightarrow> FollowUpQueueItem \<Rightarrow> follow_up_state \<Rightarrow> unit res \<times> follow_up_state" where
  "FollowUpSchedulerWorker_promote_item pf new_id now item st =
     (if fu_opted_out item then skip_item pf item ''opted_out'' st
      else if fu_attempt_count item \<ge> item_max_attempts item then skip_item pf item ''max_attempts'' st
      else if pf_increment pf then (Inl db_error, st)
      else (case FollowUpRepository_increment_attempt (fu_id item) (fs_queue st) of
        (new_count, queue1) \<Rightarrow>
          (let st1 = st\<lparr>fs_queue := queue1\<rparr>;
               command = follow_up_command item new_count;
               failed = (\<lambda>s. if new_count \<ge> item_max_attempts item
                 then (if pf_mark_failed pf then (Inl db_error, s)
                       else (Inr (), s\<lparr>fs_queue := FollowUpRepository_mark_failed (fu_id item) (''DBAPIError'') (fs_queue s)\<rparr>))
                 else (Inr (), s))
           in if pf_enqueue pf then failed st1
              else (let st2 = st1\<lparr>fs_outbox := fst (OutboxRepository_enqueue new_id now command (fs_outbox st1))\<rparr>
                    in if pf_mark_sent pf then failed st2
                       else (Inr (), st2\<lparr>fs_queue := FollowUpRepository_mark_sent now (fu_id item) (fs_queue st2)\<rparr>)))))"

text \<open>An exception that leaves a promotion ends the batch; the poll loop logs it.\<close>

fun promote_all :: "(FollowUpQueueItem \<Rightarrow> promote_faults \<times> uuid) \<Rightarrow> time \<Rightarrow> follow_ups \<Rightarrow> follow_up_state
    \<Rightarrow> unit res \<times> follow_up_state" where
  "promote_all env now [] st = (Inr (), st)"
| "promote_all env now (item # items) st =
     (case FollowUpSchedulerWorker_promote_item (fst (env item)) (snd (env item)) now item st of
        (Inl e, st') \<Rightarrow> (Inl e, st') | (Inr _, st') \<Rightarrow> promote_all env now items st')"

definition FollowUpSchedulerWorker_process_batch ::
    "(FollowUpQueueItem \<Rightarrow> promote_faults \<times> uuid) \<Rightarrow> time \<Rightarrow> follow_up_state \<Rightarrow> unit res \<times> follow_up_state" where
  "FollowUpSchedulerWorker_process_batch env now st =
     promote_all env now (FollowUpRepository_fetch_due now 50 (fs_queue st)) st"

section \<open>Lemmas\<close>

lemma quiet_iff: "is_quiet_hour dt \<longleftrightarrow> 22 * hour \<le> dt_local dt mod day \<or> dt_local dt mod day < 8 * hour"
  by (simp add: is_quiet_hour_def dt_hour_def Let_def) linarith

lemma next_non_quiet_local:
  "dt_local (next_non_quiet_time t) = (let r = dt_local t mod day; q = dt_local t div day * day in
     if 22 * hour \<le> r then q + day + 8 * hour else if r < 8 * hour then q + 8 * hour else dt_local t)"
proof -
  define q r where "q = dt_local t div day * day" and "r = dt_local t mod day"
  have t: "dt_local t = q + r" "0 \<le> r" "r < day"
    unfolding q_def r_def by (simp_all add: div_mult_mod_eq)
  show ?thesis
    unfolding next_non_quiet_time_def quiet_iff Let_def q_def [symmetric] r_def [symmetric]
    using t by auto
qed

lemma next_non_quiet_offset [simp]: "dt_offset (next_non_quiet_time t) = dt_offset t"
  by (simp add: next_non_quiet_time_def Let_def)

definition other_rows :: "uuid \<Rightarrow> follow_ups \<Rightarrow> follow_ups" where
  "other_rows i rows = filter (\<lambda>r. fu_id r \<noteq> i) rows"

lemma upd_item_frame:
  assumes "\<And>r. fu_id (f r) = fu_id r"
  shows "other_rows i (upd_where (\<lambda>r. fu_id r = i) f rows) = other_rows i rows"
    and "map fu_id (upd_where (\<lambda>r. fu_id r = i) f rows) = map fu_id rows"
  using assms by (auto simp: other_rows_def intro: filter_upd_where_disjoint map_upd_where_key)

lemmas follow_up_updates = FollowUpRepository_mark_sent_def FollowUpRepository_mark_skipped_def
  FollowUpRepository_mark_failed_def FollowUpRepository_increment_attempt_def

lemma promote_frame:
  assumes "FollowUpSchedulerWorker_promote_item pf u now item st = (r, st')"
  shows "other_rows (fu_id item) (fs_queue st') = other_rows (fu_id item) (fs_queue st)"
    and "map fu_id (fs_queue st') = map fu_id (fs_queue st)"
  using assms
  by (auto simp: FollowUpSchedulerWorker_promote_item_def skip_item_def follow_up_updates Let_def
      upd_item_frame split: if_splits)

text \<open>A row's attempts stay within its limit when the promoted snapshot is the row itself.\<close>

definition attempts_ok :: "follow_ups \<Rightarrow> bool" where
  "attempts_ok rows \<longleftrightarrow> (\<forall>r\<in>set rows. fu_attempt_count r \<le> max 0 (item_max_attempts r))"

lemma item_max_attempts_count [simp]:
  "item_max_attempts (r\<lparr>fu_attempt_count := n\<rparr>) = item_max_attempts r"
  by (simp add: item_max_attempts_def)

lemma attempts_ok_upd:
  assumes "attempts_ok rows" and "\<And>r. fu_attempt_count (f r) = fu_attempt_count r"
    and "\<And>r. fu_max_attempts (f r) = fu_max_attempts r"
  shows "attempts_ok (upd_where P f rows)"
  using assms by (auto simp: attempts_ok_def set_upd_where item_max_attempts_def)

lemma attempts_ok_increment:
  assumes "attempts_ok rows" and "item \<in> set rows" and "distinct (map fu_id rows)"
    and "fu_attempt_count item < item_max_attempts item"
  shows "attempts_ok (upd_where (\<lambda>r. fu_id r = fu_id item) (\<lambda>r. r\<lparr>fu_attempt_count := fu_attempt_count r + 1\<rparr>) rows)"
proof -
  have "fu_attempt_count r + 1 \<le> max 0 (item_max_attempts r)" if "r \<in> set rows" "fu_id r = fu_id item" for r
    using distinct_key_unique [OF assms(3) that(1) assms(2) that(2)] assms(4) by simp
  then show ?thesis
    using assms(1) by (fastforce simp: attempts_ok_def set_upd_where)
qed

lemma promote_attempts_ok:
  assumes "attempts_ok (fs_queue st)" and "item \<in> set (fs_queue st)" and "distinct (map fu_id (fs_queue st))"
    and "FollowUpSchedulerWorker_promote_item pf u now item st = (r, st')"
  shows "attempts_ok (fs_queue st')"
  using assms attempts_ok_increment [OF assms(1-3)]
  by (auto simp: FollowUpSchedulerWorker_promote_item_def skip_item_def follow_up_updates Let_def
      intro!: attempts_ok_upd split: if_splits)

lemma mem_other_rows: "r \<in> set rows \<Longrightarrow> fu_id r \<noteq> i \<Longrightarrow> other_rows i rows = other_rows i rows' \<Longrightarrow> r \<in> set rows'"
  unfolding other_rows_def by (metis (mono_tags, lifting) mem_Collect_eq set_filter)

lemma promote_all_attempts_ok:
  assumes "attempts_ok (fs_queue st)" and "set items \<subseteq> set (fs_queue st)" and "distinct (map fu_id items)"
    and "distinct (map fu_id (fs_queue st))" and "promote_all env now items st = (r, st')"
  shows "attempts_ok (fs_queue st') \<and> map fu_id (fs_queue st') = map fu_id (fs_queue st)"
  using assms
proof (induction items arbitrary: st)
  case (Cons item items)
  obtain x st1 where p: "FollowUpSchedulerWorker_promote_item (fst (env item)) (snd (env item)) now item st = (x, st1)"
    by fastforce
  have ok: "attempts_ok (fs_queue st1)"
    using promote_attempts_ok [OF Cons.prems(1) _ Cons.prems(4) p] Cons.prems(2) by simp
  have frame: "other_rows (fu_id item) (fs_queue st) = other_rows (fu_id item) (fs_queue st1)"
    and ids: "map fu_id (fs_queue st1) = map fu_id (fs_queue st)"
    using promote_frame [OF p] by simp_all
  have sub: "set items \<subseteq> set (fs_queue st1)"
  proof
    fix x
    assume x: "x \<in> set items"
    then have "fu_id x \<noteq> fu_id item" using Cons.prems(3) by (metis distinct.simps(2) image_eqI list.simps(9) set_map)
    then show "x \<in> set (fs_queue st1)" using mem_other_rows [OF _ _ frame] x Cons.prems(2) by auto
  qed
  show ?case
  proof (cases x)
    case (Inl e)
    then show ?thesis using Cons.prems(5) p ok ids by simp
  next
    case (Inr y)
    then show ?thesis using Cons.IH [OF ok sub] Cons.prems p ids by simp
  qed
qed simp

lemma fetch_due_sub:
  "r \<in> set (FollowUpRepository_fetch_due now n rows) \<Longrightarrow> r \<in> set rows \<and> fu_status r = FU_PENDING \<and> fu_trigger_at r \<le> now"
  unfolding FollowUpRepository_fetch_due_def by (auto dest!: subsetD [OF set_order_limit])

lemma sublist_distinct_fetch:
  assumes "distinct (map fu_id rows)"
  shows "distinct (map fu_id (FollowUpRepository_fetch_due now n rows))"
  unfolding FollowUpRepository_fetch_due_def
  by (rule distinct_order_limit, rule distinct_map_filter, rule assms)

inductive follow_up_run :: "follow_up_state \<Rightarrow> follow_up_state \<Rightarrow> bool" for st0 where
  start: "follow_up_run st0 st0"
| batch: "follow_up_run st0 st \<Longrightarrow> FollowUpSchedulerWorker_process_batch env now st = (r, st') \<Longrightarrow>
     follow_up_run st0 st'"

lemma next_non_quiet_mod:
  "dt_local (next_non_quiet_time t) mod day =
     (if is_quiet_hour t then 8 * hour else dt_local t mod day)"
proof -
  have "(x div day * day + 8 * hour) mod day = 8 * hour" "(x div day * day + day + 8 * hour) mod day = 8 * hour"
    for x :: int
    by (simp_all add: mod_add_eq [symmetric] add.assoc) 
  then show ?thesis
    unfolding next_non_quiet_local quiet_iff Let_def by auto
qed

section \<open>Properties\<close>



definition sample_item :: FollowUpQueueItem where
  "sample_item = \<lparr>fu_id = ''i1'', fu_tenant_id = ''t'', fu_conversation_id = ''9'', fu_contact_ref = [],
     fu_message_ref = ''msg:ab'', fu_message_length = 20, fu_reason_ref = [], fu_trigger_at = 5,
     fu_status = FU_PENDING, fu_attempt_count = 0, fu_max_attempts = 3, fu_opted_out = False,
     fu_correlation_id = ''r'', fu_idempotency_key = ''k'', fu_sent_at = None, fu_skip_reason = None\<rparr>"

definition no_promote_faults :: promote_faults where
  "no_promote_faults = \<lparr>pf_mark_skipped = False, pf_increment = False, pf_enqueue = False,
     pf_mark_sent = False, pf_mark_failed = False\<rparr>"


text \<open>Opted-out and exhausted items never reach the outbox: promoting one leaves the outbox as it
  was, and when the update succeeds the row is marked skipped, so it is not fetched again.\<close>

theorem suppressed_item_not_promoted:
  assumes "fu_opted_out item \<or> item_max_attempts item \<le> fu_attempt_count item"
    and "FollowUpSchedulerWorker_promote_item pf u now item st = (r, st')"
  shows "fs_outbox st' = fs_outbox st \<and>
    (r = Inr () \<longrightarrow> (\<forall>x\<in>set (FollowUpRepository_fetch_due now' n (fs_queue st')). fu_id x \<noteq> fu_id item))"
proof -
  have "fs_outbox st' = fs_outbox st \<and> (r = Inr () \<longrightarrow>
      (\<exists>reason. fs_queue st' = FollowUpRepository_mark_skipped (fu_id item) reason (fs_queue st)))"
    using assms by (auto simp: FollowUpSchedulerWorker_promote_item_def skip_item_def split: if_splits)
  moreover have "fu_id x \<noteq> fu_id item"
    if "x \<in> set (FollowUpRepository_fetch_due now' n (FollowUpRepository_mark_skipped (fu_id item) reason rows))"
    for x reason rows
  proof -
    have "x \<in> set (FollowUpRepository_mark_skipped (fu_id item) reason rows)" "fu_status x = FU_PENDING"
      using fetch_due_sub [OF that] by simp_all
    then show ?thesis by (auto simp: FollowUpRepository_mark_skipped_def set_upd_where split: if_splits)
  qed
  ultimately show ?thesis by auto
qed

theorem suppressed_item_not_promoted_witness:
  "fs_outbox (snd (FollowUpSchedulerWorker_promote_item no_promote_faults ''u'' 9 (sample_item\<lparr>fu_opted_out := True\<rparr>)
     \<lparr>fs_queue = [sample_item\<lparr>fu_opted_out := True\<rparr>], fs_outbox = []\<rparr>)) = []"
proof -
  obtain r st' where p: "FollowUpSchedulerWorker_promote_item no_promote_faults ''u'' 9
      (sample_item\<lparr>fu_opted_out := True\<rparr>) \<lparr>fs_queue = [sample_item\<lparr>fu_opted_out := True\<rparr>], fs_outbox = []\<rparr> = (r, st')"
    by fastforce
  from suppressed_item_not_promoted [OF _ p] p show ?thesis by simp
qed

text \<open>A promotion is not idempotent: when the outbox insert succeeds but marking the item sent
  fails, the next batch promotes it again under a new attempt number, hence under a new command
  and idempotency key, and the same follow-up is queued twice.\<close>

theorem promote_retry_duplicates:
  assumes "fu_attempt_count item = 0" and "\<not> fu_opted_out item" and "2 \<le> item_max_attempts item"
    and "fu_status item = FU_PENDING"
    and "FollowUpSchedulerWorker_promote_item (no_promote_faults\<lparr>pf_mark_sent := True\<rparr>) u1 t1 item
      \<lparr>fs_queue = [item], fs_outbox = []\<rparr> = (r1, st1)"
    and "FollowUpSchedulerWorker_promote_item no_promote_faults u2 t2 (hd (fs_queue st1)) st1 = (r2, st2)"
  shows "length (fs_outbox st2) = 2 \<and>
    (\<forall>c\<in>set (fs_outbox st2). ob_status c = CS_PENDING \<and> ob_tenant_id c = fu_tenant_id item \<and>
       dict_get (ob_parameters c) ''follow_up_item_id'' = PStr (fu_id item))"
proof -
  let ?item1 = "item\<lparr>fu_attempt_count := 1\<rparr>"
  have s1: "st1 = \<lparr>fs_queue = [?item1], fs_outbox = fst (OutboxRepository_enqueue u1 t1 (follow_up_command item 1) [])\<rparr>"
    using assms(1-3,5) by (auto simp: FollowUpSchedulerWorker_promote_item_def no_promote_faults_def
        FollowUpRepository_increment_attempt_def Let_def)
  have "fs_outbox st2 = fst (OutboxRepository_enqueue u2 t2 (follow_up_command ?item1 2) (fs_outbox st1))"
    using assms(2,3,6) by (auto simp: s1 FollowUpSchedulerWorker_promote_item_def no_promote_faults_def
        FollowUpRepository_increment_attempt_def Let_def)
  moreover have "show_int 1 \<noteq> show_int 2"
    by (simp add: char_eval)
  ultimately show ?thesis
    by (simp add: s1 OutboxRepository_enqueue_def insert_ignore_def follow_up_command_def)
qed

theorem promote_retry_duplicates_witness:
  "\<exists>st1 st2 r1 r2. FollowUpSchedulerWorker_promote_item (no_promote_faults\<lparr>pf_mark_sent := True\<rparr>) ''u'' 9 sample_item
      \<lparr>fs_queue = [sample_item], fs_outbox = []\<rparr> = (r1, st1) \<and>
    FollowUpSchedulerWorker_promote_item no_promote_faults ''v'' 99 (hd (fs_queue st1)) st1 = (r2, st2) \<and>
    length (fs_outbox st2) = 2"
proof -
  obtain r1 st1 where p1: "FollowUpSchedulerWorker_promote_item (no_promote_faults\<lparr>pf_mark_sent := True\<rparr>) ''u'' 9 sample_item
      \<lparr>fs_queue = [sample_item], fs_outbox = []\<rparr> = (r1, st1)" by fastforce
  obtain r2 st2 where p2: "FollowUpSchedulerWorker_promote_item no_promote_faults ''v'' 99 (hd (fs_queue st1)) st1 = (r2, st2)"
    by fastforce
  from promote_retry_duplicates [OF _ _ _ _ p1 p2] p1 p2 show ?thesis
    by (fastforce simp: sample_item_def item_max_attempts_def)
qed

end
