(* ===== verification/Provider.thy ===== *)
theory Provider
  imports Contracts
begin

text \<open>
  The provider layer below the outbox: the sanitizing error mapper (\<open>provider/error_mapper.py\<close>), the
  capability registry (\<open>provider/chatwoot/mcp_registry.py\<close>, \<open>provider/capability.py\<close>) and the
  contract of \<open>provider/adapter.py\<close>, stated as the locale \<open>provider_adapter\<close> that every adapter
  interprets.
\<close>

section \<open>Error mapper\<close>

fun exc_name :: "py_exc \<Rightarrow> string" where
  "exc_name (IaraExc (FailClosedError m)) = ''FailClosedError''"
| "exc_name (IaraExc (CrossTenantError m)) = ''CrossTenantError''"
| "exc_name (IaraExc (PolicyViolationError m p)) = ''PolicyViolationError''"
| "exc_name (IaraExc (ReadbackFailedError m r)) = ''ReadbackFailedError''"
| "exc_name (IaraExc (ProviderError m p c)) = ''ProviderError''"
| "exc_name (IaraExc (IdempotencyError m k)) = ''IdempotencyError''"
| "exc_name (IaraExc (LeaseConflictError m c)) = ''LeaseConflictError''"
| "exc_name (IaraExc (EligibilityError m r)) = ''EligibilityError''"
| "exc_name (IaraExc (MediaProcessingError m t)) = ''MediaProcessingError''"
| "exc_name (IaraExc (ToolExecutionError m t)) = ''ToolExecutionError''"
| "exc_name (IaraExc (ConfigPublishError m)) = ''ConfigPublishError''"
| "exc_name (IaraExc ProductionBlockedError) = ''ProductionBlockedError''"
| "exc_name (ValueError m) = ''ValueError''"
| "exc_name (KeyError m) = ''KeyError''"
| "exc_name (TypeError m) = ''TypeError''"
| "exc_name (AttributeError m) = ''AttributeError''"
| "exc_name (ValidationError m) = ''ValidationError''"
| "exc_name (RuntimeError m) = ''RuntimeError''"
| "exc_name (HTTPException c m) = ''HTTPException''"
| "exc_name TimeoutException = ''TimeoutException''"
| "exc_name ConnectError = ''ConnectError''"
| "exc_name (HTTPStatusError c) = ''HTTPStatusError''"
| "exc_name (OtherExc m) = m"

definition sanitize_summary :: "string \<Rightarrow> int \<Rightarrow> string" where
  "sanitize_summary prov status_code =
     ''Provider '' @ repr_str prov @
     (case map_of [(400, '' rejected the request (invalid input)''), (401, '' authentication failed''),
          (403, '' authorization failed''), (404, '' resource not found''), (409, '' reported a conflict''),
          (422, '' validation failed''), (429, '' rate limit exceeded''), (500, '' internal error''),
          (502, '' unavailable (bad gateway)''), (503, '' unavailable''), (504, '' timeout'')] status_code of
        Some t \<Rightarrow> t | None \<Rightarrow> '' error (status '' @ show_int status_code @ '')'')"

definition ProviderErrorMapper_map_http_error :: "string \<Rightarrow> int \<Rightarrow> string option \<Rightarrow> iara_error" where
  "ProviderErrorMapper_map_http_error prov status_code raw_message =
     ProviderError (sanitize_summary prov status_code) (Some prov) (Some status_code)"

definition ProviderErrorMapper_map_exception :: "string \<Rightarrow> py_exc \<Rightarrow> iara_error" where
  "ProviderErrorMapper_map_exception prov exc =
     ProviderError (''Provider '' @ repr_str prov @ '' operation failed ('' @ exc_name exc @ '')'')
       (Some prov) None"

section \<open>Capability registry\<close>

datatype McpCapabilityStatus = MC_ACTIVE | MC_INACTIVE | MC_SANDBOX

record McpCapabilityEntry =
  mc_intent :: string
  mc_mcp_tool_name :: string
  mc_risk_class :: RiskClass
  mc_requires_readback :: bool
  mc_status :: McpCapabilityStatus
  mc_allowed_accounts :: "string list"
  mc_denied_accounts :: "string list"

definition capability :: "string \<Rightarrow> string \<Rightarrow> RiskClass \<Rightarrow> bool \<Rightarrow> McpCapabilityEntry" where
  "capability intent tool risk readback = \<lparr>mc_intent = intent, mc_mcp_tool_name = tool,
     mc_risk_class = risk, mc_requires_readback = readback, mc_status = MC_ACTIVE,
     mc_allowed_accounts = [], mc_denied_accounts = []\<rparr>"

definition DEFAULT_CHATWOOT_CAPABILITIES :: "McpCapabilityEntry list" where
  "DEFAULT_CHATWOOT_CAPABILITIES = [
     capability ''get_account_info'' ''account_context'' RC_READ False,
     capability ''read_conversation'' ''conversations_get'' RC_READ False,
     capability ''list_messages'' ''messages_list'' RC_READ False,
     capability ''list_labels'' ''conversations_get_labels'' RC_READ False,
     capability ''get_contact'' ''contacts_get'' RC_READ False,
     capability ''send_message'' ''conversation_message_send'' RC_LOW_WRITE True,
     capability ''followup_reengage_conversation'' ''conversation_message_send'' RC_LOW_WRITE True,
     capability ''kanban_comment'' ''conversation_message_send'' RC_LOW_WRITE True,
     capability ''label_conversation'' ''conversations_set_labels'' RC_LOW_WRITE True,
     capability ''assign_conversation'' ''conversation_assignments_assign'' RC_LOW_WRITE True,
     capability ''close_conversation'' ''conversations_toggle_status'' RC_HIGH_WRITE True,
     capability ''update_contact'' ''contacts_update'' RC_HIGH_WRITE True,
     capability ''list_kanban_boards'' ''kanban_boards_list'' RC_READ False,
     capability ''list_kanban_steps'' ''kanban_steps_list'' RC_READ False,
     capability ''list_kanban_tasks'' ''kanban_tasks_list'' RC_READ False,
     capability ''kanban_update_status'' ''kanban_tasks_move'' RC_LOW_WRITE True,
     capability ''create_kanban_task'' ''kanban_tasks_create'' RC_LOW_WRITE True]"

record ChatwootMcpRegistry =
  rg_tenant_id :: string
  rg_account_id_ref :: string
  rg_global_denylist :: "string list"
  rg_by_intent :: "(string \<times> McpCapabilityEntry) list"

text \<open>The dictionary comprehension keeps the last entry of an intent.\<close>

definition ChatwootMcpRegistry_init ::
    "string \<Rightarrow> string \<Rightarrow> McpCapabilityEntry list option \<Rightarrow> string list option \<Rightarrow> ChatwootMcpRegistry" where
  "ChatwootMcpRegistry_init tenant_id account_id_ref capabilities global_denylist =
     \<lparr>rg_tenant_id = tenant_id, rg_account_id_ref = account_id_ref,
      rg_global_denylist = (case global_denylist of None \<Rightarrow> [] | Some d \<Rightarrow> d),
      rg_by_intent = fold (\<lambda>cap. AList.update (mc_intent cap) cap)
        (case capabilities of None \<Rightarrow> DEFAULT_CHATWOOT_CAPABILITIES | Some cs \<Rightarrow> cs) []\<rparr>"

definition ChatwootMcpRegistry_resolve_intent ::
    "ChatwootMcpRegistry \<Rightarrow> string \<Rightarrow> string \<Rightarrow> string \<Rightarrow> CapabilityResolution res" where
  "ChatwootMcpRegistry_resolve_intent rg intent tenant_id account_id_ref =
     (if py_strip intent = []
      then raise_iara (FailClosedError ''Intent must not be empty or blank'')
      else if tenant_id \<noteq> rg_tenant_id rg
      then raise_iara (FailClosedError
             ''Registry tenant mismatch - cannot resolve intent for different tenant'')
      else if account_id_ref \<noteq> rg_account_id_ref rg
      then raise_iara (FailClosedError
             ''Registry account mismatch - cannot resolve intent for different account'')
      else if intent \<in> set (rg_global_denylist rg)
      then Inr (CapabilityResolution_denied intent (''intent '' @ repr_str intent @ '' is globally denied''))
      else case map_of (rg_by_intent rg) intent of
        None \<Rightarrow> Inr (CapabilityResolution_denied intent (''intent '' @ repr_str intent @ '' is not registered''))
      | Some cap \<Rightarrow>
          if mc_status cap = MC_INACTIVE
          then Inr (CapabilityResolution_denied intent (''capability for '' @ repr_str intent @ '' is inactive''))
          else if account_id_ref \<in> set (mc_denied_accounts cap)
          then Inr (CapabilityResolution_denied intent
                 (''capability for '' @ repr_str intent @ '' is denied for this account''))
          else if mc_allowed_accounts cap \<noteq> [] \<and> account_id_ref \<notin> set (mc_allowed_accounts cap)
          then Inr (CapabilityResolution_denied intent
                 (''capability for '' @ repr_str intent @ '' is not allowed for this account''))
          else Inr \<lparr>cap_intent = intent, cap_resolved_tool_name = Some (mc_mcp_tool_name cap),
                    cap_allowed = True, cap_risk_class = mc_risk_class cap,
                    cap_requires_readback = mc_requires_readback cap, cap_denial_reason = None\<rparr>)"

definition ChatwootMcpRegistry_list_active_intents :: "ChatwootMcpRegistry \<Rightarrow> string list" where
  "ChatwootMcpRegistry_list_active_intents rg = map fst (filter (\<lambda>(intent, cap).
     mc_status cap = MC_ACTIVE \<and> intent \<notin> set (rg_global_denylist rg)) (rg_by_intent rg))"

definition CapabilityResolver_resolve ::
    "ChatwootMcpRegistry \<Rightarrow> string \<Rightarrow> string \<Rightarrow> string \<Rightarrow> CapabilityResolution res" where
  "CapabilityResolver_resolve rg intent tenant_id account_id_ref =
     (if py_strip intent = [] then raise_iara (FailClosedError ''intent is empty - cannot resolve capability'')
      else ChatwootMcpRegistry_resolve_intent rg intent tenant_id account_id_ref)"

section \<open>Risk of intents\<close>

primrec risk_rank :: "RiskClass \<Rightarrow> nat" where
  "risk_rank RC_READ = 0"
| "risk_rank RC_LOW_WRITE = 1"
| "risk_rank RC_HIGH_WRITE = 2"
| "risk_rank RC_CRITICAL = 3"

lemma risk_rank_inj: "risk_rank r = risk_rank r' \<longleftrightarrow> r = r'"
  by (cases r; cases r') auto

instantiation RiskClass :: linorder
begin

definition less_eq_RiskClass :: "RiskClass \<Rightarrow> RiskClass \<Rightarrow> bool" where
  "less_eq_RiskClass r r' \<longleftrightarrow> risk_rank r \<le> risk_rank r'"

definition less_RiskClass :: "RiskClass \<Rightarrow> RiskClass \<Rightarrow> bool" where
  "less_RiskClass r r' \<longleftrightarrow> risk_rank r < risk_rank r'"

instance
  by standard (auto simp: less_eq_RiskClass_def less_RiskClass_def risk_rank_inj)

end

definition INTENT_RISK_MAP :: "(string \<times> RiskClass) list" where
  "INTENT_RISK_MAP = [
     (''read_conversation'', RC_READ), (''list_messages'', RC_READ), (''get_account_info'', RC_READ), (''list_labels'', RC_READ),
     (''get_contact'', RC_READ), (''send_message'', RC_LOW_WRITE), (''add_label'', RC_LOW_WRITE), (''remove_label'', RC_LOW_WRITE),
     (''add_private_note'', RC_LOW_WRITE), (''assign_conversation'', RC_LOW_WRITE), (''close_conversation'', RC_HIGH_WRITE),
     (''assign_team'', RC_HIGH_WRITE), (''update_contact'', RC_HIGH_WRITE), (''bulk_action'', RC_CRITICAL),
     (''delete_contact'', RC_CRITICAL)]"

section \<open>Contract of an adapter\<close>

text \<open>
  \<open>exec\<close> runs one command in an adapter state; \<open>effects\<close> is what the outside world saw of it. A
  tenant or account mismatch must raise \<open>CrossTenantError\<close> before anything happens outside, and a
  result names the command it belongs to.
\<close>

definition is_cross_tenant :: "'a res \<Rightarrow> bool" where
  "is_cross_tenant r \<longleftrightarrow> (\<exists>m. r = raise_iara (CrossTenantError m))"

locale provider_adapter =
  fixes exec :: "ProviderCommand \<Rightarrow> ProviderSecurityContext \<Rightarrow> 's \<Rightarrow> ProviderMutationResult res \<times> 's"
    and effects :: "'s \<Rightarrow> 'e list"
  assumes cross_tenant: "cmd_tenant_id c \<noteq> psc_tenant_id sc \<or> cmd_account_id_ref c \<noteq> psc_account_id_ref sc \<Longrightarrow>
      exec c sc s = (r, s') \<Longrightarrow> is_cross_tenant r \<and> s' = s"
    and result_of: "exec c sc s = (Inr res, s') \<Longrightarrow>
      pmr_command_id res = cmd_command_id c \<and> pmr_idempotency_key res = cmd_idempotency_key c"
begin

fun exec_all :: "(ProviderCommand \<times> ProviderSecurityContext) list \<Rightarrow> 's \<Rightarrow> 's" where
  "exec_all [] s = s"
| "exec_all ((c, sc) # cs) s = exec_all cs (snd (exec c sc s))"

text \<open>Commands of other tenants never leave a trace, wherever they stand in a batch.\<close>

lemma foreign_commands_no_effect:
  assumes "\<And>c sc. (c, sc) \<in> set cs \<Longrightarrow> psc_tenant_id sc = t"
  shows "exec_all cs s = exec_all (filter (\<lambda>(c, sc). cmd_tenant_id c = t) cs) s"
  using assms
proof (induction cs arbitrary: s)
  case (Cons x cs)
  obtain c sc where x: "x = (c, sc)" by (cases x)
  have ih: "exec_all cs s = exec_all (filter (\<lambda>(c, sc). cmd_tenant_id c = t) cs) s" for s
    using Cons.IH Cons.prems by (meson list.set_intros(2))
  show ?case
  proof (cases "cmd_tenant_id c = t")
    case False
    then have "snd (exec c sc s) = s"
      using cross_tenant [of c sc s] Cons.prems [of c sc] x by (cases "exec c sc s") auto
    then show ?thesis using ih x False by simp
  qed (use ih x in simp)
qed simp

lemma foreign_batch_effects:
  assumes "\<And>c sc. (c, sc) \<in> set cs \<Longrightarrow> cmd_tenant_id c \<noteq> psc_tenant_id sc"
  shows "effects (exec_all cs s) = effects s"
  using assms
proof (induction cs arbitrary: s)
  case (Cons x cs)
  obtain c sc where x: "x = (c, sc)" by (cases x)
  then have "snd (exec c sc s) = s"
    using cross_tenant [of c sc s] Cons.prems [of c sc] by (cases "exec c sc s") auto
  then show ?case using Cons x by simp
qed simp

end

section \<open>Properties\<close>

lemma map_of_registry:
  "map_of (fold (\<lambda>cap. AList.update (mc_intent cap) cap) caps kvs) k =
     (case find (\<lambda>c. mc_intent c = k) (rev caps) of Some c \<Rightarrow> Some c | None \<Rightarrow> map_of kvs k)"
proof (induction caps arbitrary: kvs)
  case (Cons a caps)
  then show ?case by (auto simp: update_conv' find_append split: option.splits)
qed simp

text \<open>The registry allows an intent exactly when it is asked by its own tenant and account, is
  registered, not inactive, on no denylist and, where an allowlist exists, on it; then it resolves
  to the registered tool. A wrong tenant or account raises \<open>FailClosedError\<close>; every other refusal is
  a denial without a tool name.\<close>

theorem resolve_intent_exact:
  "((\<exists>res. ChatwootMcpRegistry_resolve_intent rg intent t a = Inr res \<and> cap_allowed res) \<longleftrightarrow>
     py_strip intent \<noteq> [] \<and> t = rg_tenant_id rg \<and> a = rg_account_id_ref rg \<and>
     intent \<notin> set (rg_global_denylist rg) \<and>
     (\<exists>cap. map_of (rg_by_intent rg) intent = Some cap \<and> mc_status cap \<noteq> MC_INACTIVE \<and>
        a \<notin> set (mc_denied_accounts cap) \<and>
        (mc_allowed_accounts cap = [] \<or> a \<in> set (mc_allowed_accounts cap)))) \<and>
   ((\<exists>m. ChatwootMcpRegistry_resolve_intent rg intent t a = raise_iara (FailClosedError m)) \<longleftrightarrow>
     py_strip intent = [] \<or> t \<noteq> rg_tenant_id rg \<or> a \<noteq> rg_account_id_ref rg) \<and>
   (\<forall>res. ChatwootMcpRegistry_resolve_intent rg intent t a = Inr res \<longrightarrow>
      cap_resolved_tool_name res = (if cap_allowed res
        then map_option mc_mcp_tool_name (map_of (rg_by_intent rg) intent) else None))"
  unfolding ChatwootMcpRegistry_resolve_intent_def
  by (auto simp: CapabilityResolution_denied_def split: option.splits)

theorem resolve_intent_exact_witness:
  "\<exists>res. ChatwootMcpRegistry_resolve_intent (ChatwootMcpRegistry_init ''t'' ''a'' None None)
     ''send_message'' ''t'' ''a'' = Inr res \<and>
     cap_resolved_tool_name res = Some ''conversation_message_send''"
proof -
  let ?rg = "ChatwootMcpRegistry_init ''t'' ''a'' None None"
  have m: "map_of (rg_by_intent ?rg) ''send_message'' =
      Some (capability ''send_message'' ''conversation_message_send'' RC_LOW_WRITE True)"
    by (simp add: ChatwootMcpRegistry_init_def map_of_registry DEFAULT_CHATWOOT_CAPABILITIES_def capability_def)
  have "\<exists>res. ChatwootMcpRegistry_resolve_intent ?rg ''send_message'' ''t'' ''a'' = Inr res \<and> cap_allowed res"
    using resolve_intent_exact [of ?rg "''send_message''" "''t''" "''a''"] m
    by (simp add: capability_def ChatwootMcpRegistry_init_def py_strip_def py_space_def)
  then show ?thesis
    using resolve_intent_exact [of ?rg "''send_message''" "''t''" "''a''"] m by (auto simp: capability_def)
qed

section \<open>Ratings\<close>

text \<open>The default registry rates the intents as the map of known intents does, grants no critical one, and asks for a
  readback of exactly what writes.\<close>

definition rated :: "string \<Rightarrow> McpCapabilityEntry \<Rightarrow> bool" where
  "rated intent cap \<longleftrightarrow> (mc_requires_readback cap \<longleftrightarrow> RC_READ < mc_risk_class cap) \<and> mc_risk_class cap < RC_CRITICAL \<and>
     map_of INTENT_RISK_MAP intent \<in> {None, Some (mc_risk_class cap)}"

lemma default_registry_rated:
  "list_all (\<lambda>(intent, cap). rated intent cap) (rg_by_intent (ChatwootMcpRegistry_init t a None deny))"
proof -
  have "list_all (\<lambda>(intent, cap). rated intent cap) (rg_by_intent (ChatwootMcpRegistry_init [] [] None None))" by code_simp
  then show ?thesis by (simp add: ChatwootMcpRegistry_init_def)
qed

lemma default_resolution_rated:
  assumes "CapabilityResolver_resolve (ChatwootMcpRegistry_init t a None deny) intent tenant account = Inr c" and "cap_allowed c"
  shows "(cap_requires_readback c \<longleftrightarrow> RC_READ < cap_risk_class c) \<and> cap_risk_class c < RC_CRITICAL \<and>
    map_of INTENT_RISK_MAP intent \<in> {None, Some (cap_risk_class c)}"
proof -
  obtain cap where m: "map_of (rg_by_intent (ChatwootMcpRegistry_init t a None deny)) intent = Some cap"
    and c: "cap_requires_readback c = mc_requires_readback cap" "cap_risk_class c = mc_risk_class cap"
    using assms by (auto simp: CapabilityResolver_resolve_def ChatwootMcpRegistry_resolve_intent_def CapabilityResolution_denied_def
        split: if_splits option.splits)
  have "rated intent cap" using default_registry_rated [of t a deny] map_of_SomeD [OF m] by (auto simp: list_all_iff)
  then show ?thesis by (simp add: rated_def c)
qed


end
