(* ===== verification/ChatwootAdapter.thy ===== *)
theory ChatwootAdapter
  imports Provider
begin

text \<open>
  The two Chatwoot adapters (\<open>provider/chatwoot/mcp_adapter.py\<close>, \<open>provider/chatwoot/fake_mcp.py\<close>) and the
  readback service (\<open>provider/readback.py\<close>). The HTTP transport is an argument \<open>net\<close>: what the server
  answers, or the exception the client raises, given the requests made so far and the new one. The
  state of the MCP adapter is the log of its requests. Back-off sleeps have no effect on the state.
\<close>

section \<open>Requests with retry\<close>

datatype net_reply =
    Net_raise py_exc
  | Net_reply int "nat list" "pyval option"

type_synonym http_log = "(string \<times> pydict) list"
type_synonym transport = "http_log \<Rightarrow> string \<Rightarrow> pydict \<Rightarrow> net_reply"

definition RETRYABLE_STATUS_CODES :: "int list" where
  "RETRYABLE_STATUS_CODES = [429, 500, 502, 503, 504]"

record ChatwootMcpAdapter =
  cw_registry :: ChatwootMcpRegistry
  cw_mcp_base_url :: string
  cw_account_id :: string
  cw_mcp_slug :: string
  cw_max_retries :: nat

definition rstrip_slash :: "string \<Rightarrow> string" where
  "rstrip_slash s = rev (dropWhile (\<lambda>c. c = CHR ''/'') (rev s))"

definition ChatwootMcpAdapter_init ::
    "ChatwootMcpRegistry \<Rightarrow> string \<Rightarrow> string \<Rightarrow> string \<Rightarrow> nat \<Rightarrow> ChatwootMcpAdapter" where
  "ChatwootMcpAdapter_init registry mcp_base_url account_id mcp_slug max_retries =
     \<lparr>cw_registry = registry, cw_mcp_base_url = rstrip_slash mcp_base_url, cw_account_id = account_id,
      cw_mcp_slug = mcp_slug, cw_max_retries = max 1 max_retries\<rparr>"

definition mcp_endpoint :: "ChatwootMcpAdapter \<Rightarrow> string" where
  "mcp_endpoint ad = cw_mcp_base_url ad @ ''/mcp/'' @ cw_account_id ad @ ''/'' @ cw_mcp_slug ad"

definition rpc_payload :: "string \<Rightarrow> pydict \<Rightarrow> pydict" where
  "rpc_payload tool_name arguments = [(''jsonrpc'', PStr ''2.0''), (''id'', PInt 1),
     (''method'', PStr ''tools/call''),
     (''params'', PDict [(''name'', PStr tool_name), (''arguments'', PDict arguments)])]"

text \<open>The first 200 characters of the error text of a tool; indexing and slicing as Python does.\<close>

definition tool_error_text :: "pyval \<Rightarrow> string res" where
  "tool_error_text content =
     (if \<not> truthy content then Inr (take 200 ''tool error'')
      else case content of
        PList (PDict d # _) \<Rightarrow>
          (case dict_get_or d ''text'' (PStr ''tool error'') of
             PStr m \<Rightarrow> Inr (take 200 m)
           | PList xs \<Rightarrow> Inr (py_str (PList (take 200 xs)))
           | PDict _ \<Rightarrow> Inl (KeyError ''slice'')
           | _ \<Rightarrow> Inl (TypeError ''not subscriptable''))
      | PList _ \<Rightarrow> Inl (AttributeError ''get'')
      | PStr _ \<Rightarrow> Inl (AttributeError ''get'')
      | PDict _ \<Rightarrow> Inl (KeyError ''0'')
      | _ \<Rightarrow> Inl (TypeError ''not subscriptable''))"

text \<open>The application-level check of a JSON-RPC response; \<open>None\<close> is a body that is not JSON.\<close>

definition rpc_check :: "string \<Rightarrow> pyval option \<Rightarrow> unit res" where
  "rpc_check tool_name body =
     (case body of None \<Rightarrow> Inl (ValueError ''not JSON'')
      | Some v \<Rightarrow>
          res_bind (as_dict v) (\<lambda>rpc.
          if truthy (dict_get rpc ''error'')
          then res_bind (as_dict (dict_get rpc ''error'')) (\<lambda>err.
                 raise_iara (ProviderError (''MCP error '' @ py_str (dict_get_or err ''code'' (PStr ''unknown'')) @
                   '': '' @ take 200 (py_str (dict_get_or err ''message'' (PStr [])))) (Some ''chatwoot'') None))
          else res_bind (as_dict (dict_get_or rpc ''result'' (PDict []))) (\<lambda>result.
            if truthy (dict_get_or result ''isError'' (PBool False))
            then res_bind (tool_error_text (dict_get_or result ''content'' (PList [PDict []]))) (\<lambda>msg.
                   raise_iara (ProviderError (''MCP tool '' @ repr_str tool_name @
                     '' returned isError=true: '' @ msg) (Some ''chatwoot'') None))
            else Inr ())))"

definition chatwoot_exc :: "py_exc \<Rightarrow> py_exc" where
  "chatwoot_exc e = IaraExc (ProviderErrorMapper_map_exception ''chatwoot'' e)"

definition post_outcome :: "string \<Rightarrow> nat list \<Rightarrow> pyval option \<Rightarrow> string res" where
  "post_outcome tool_name content body =
     (case rpc_check tool_name body of
        Inr _ \<Rightarrow> Inr (take 24 (sha256_bytes content))
      | Inl (ValueError _) \<Rightarrow> Inr (take 24 (sha256_bytes content))
      | Inl (KeyError _) \<Rightarrow> Inr (take 24 (sha256_bytes content))
      | Inl (IaraExc (ProviderError m p c)) \<Rightarrow> raise_iara (ProviderError m p c)
      | Inl e \<Rightarrow> Inl (chatwoot_exc e))"

fun post_loop :: "transport \<Rightarrow> string \<Rightarrow> string \<Rightarrow> pydict \<Rightarrow> nat \<Rightarrow> py_exc option \<Rightarrow> http_log
    \<Rightarrow> string res \<times> http_log" where
  "post_loop net endpoint tool_name payload 0 last_exc reqs =
     (Inl (chatwoot_exc (case last_exc of Some e \<Rightarrow> e | None \<Rightarrow> RuntimeError ''all retries exhausted'')), reqs)"
| "post_loop net endpoint tool_name payload (Suc n) last_exc reqs =
     (let reqs' = reqs @ [(endpoint, payload)] in
      case net reqs endpoint payload of
        Net_raise e \<Rightarrow>
          if e \<in> {TimeoutException, ConnectError} then post_loop net endpoint tool_name payload n (Some e) reqs'
          else (Inl (chatwoot_exc e), reqs')
      | Net_reply status content body \<Rightarrow>
          if status \<in> set RETRYABLE_STATUS_CODES then post_loop net endpoint tool_name payload n last_exc reqs'
          else if status \<ge> 400
          then (raise_iara (ProviderErrorMapper_map_http_error ''chatwoot'' status None), reqs')
          else (post_outcome tool_name content body, reqs'))"

definition ChatwootMcpAdapter_call_tool ::
    "transport \<Rightarrow> ChatwootMcpAdapter \<Rightarrow> string \<Rightarrow> pydict \<Rightarrow> http_log \<Rightarrow> string res \<times> http_log" where
  "ChatwootMcpAdapter_call_tool net ad tool_name arguments reqs =
     post_loop net (mcp_endpoint ad) tool_name (rpc_payload tool_name arguments) (cw_max_retries ad) None reqs"

section \<open>Command execution\<close>

definition build_mcp_arguments :: "string \<Rightarrow> string \<Rightarrow> pydict \<Rightarrow> pydict" where
  "build_mcp_arguments intent tool_name p =
     (let conv_id = dict_get_or p ''conversation_id'' (PStr []); e = PDict [] in
      if tool_name = ''conversation_message_send'' then
        [(''conversation_id'', conv_id), (''content'', dict_get_or p ''content'' (PStr [])),
         (''message_type'', dict_get_or p ''message_type'' (PStr ''outgoing'')),
         (''private'', if intent = ''kanban_comment'' then PBool True else dict_get_or p ''private'' (PBool False)),
         (''content_type'', PStr ''text''), (''content_attributes'', e),
         (''media_urls'', dict_get_or p ''media_urls'' (PList [])),
         (''signed_ids'', dict_get_or p ''signed_ids'' (PList []))]
      else if tool_name = ''conversations_set_labels'' then
        (let label = dict_get_or p ''label'' (PStr []) in
         [(''id'', conv_id), (''query'', e), (''body'', PDict [(''labels'',
            dict_get_or p ''labels'' (if truthy label then PList [label] else PList []))])])
      else if tool_name \<in> {''conversations_get'', ''conversations_toggle_status''} then
        [(''id'', py_or conv_id (dict_get_or p ''id'' (PStr []))), (''query'', e),
         (''body'', dict_get_or p ''body'' e)]
      else if tool_name = ''conversation_assignments_assign'' then
        [(''conversation_id'', conv_id), (''query'', e),
         (''body'', PDict [(''assignee_id'', dict_get_or p ''assignee_id'' (PStr []))])]
      else if tool_name = ''contacts_update'' then
        [(''id'', dict_get_or p ''contact_id'' (dict_get_or p ''id'' (PStr []))), (''query'', e),
         (''body'', dict_get_or p ''body'' (PDict p))]
      else if tool_name = ''contacts_get'' then
        [(''id'', dict_get_or p ''contact_id'' (dict_get_or p ''id'' (PStr []))), (''query'', e), (''body'', e)]
      else if tool_name = ''kanban_tasks_move'' then
        [(''id'', dict_get_or p ''task_id'' (PStr [])), (''query'', e),
         (''body'', PDict [(''step_id'', dict_get_or p ''step_id'' (PStr [])),
            (''stage'', dict_get_or p ''stage'' (PStr []))])]
      else if tool_name = ''kanban_tasks_create'' then
        [(''query'', e), (''body'', PDict [(''conversation_id'', conv_id),
            (''board_id'', dict_get_or p ''board_id'' (PStr [])), (''step_id'', dict_get_or p ''step_id'' (PStr [])),
            (''title'', dict_get_or p ''title'' (PStr []))])]
      else if tool_name \<in> {''messages_list'', ''conversations_get_labels''} then
        [(''conversation_id'', conv_id), (''query'', e), (''body'', e)]
      else [(''query'', dict_get_or p ''query'' e), (''body'', dict_get_or p ''body'' (PDict p))])"

text \<open>The labels that are read back are only logged: the arguments come back as they were.\<close>

definition merge_labels :: "transport \<Rightarrow> ChatwootMcpAdapter \<Rightarrow> pydict \<Rightarrow> http_log \<Rightarrow> pydict \<times> http_log" where
  "merge_labels net ad arguments reqs =
     (let conv_id = dict_get_or arguments ''id'' (PStr []) in
      if \<not> truthy conv_id then (arguments, reqs)
      else (arguments, snd (ChatwootMcpAdapter_call_tool net ad ''conversations_get_labels''
              [(''conversation_id'', conv_id), (''query'', PDict []), (''body'', PDict [])] reqs)))"

definition verify_readback ::
    "transport \<Rightarrow> ChatwootMcpAdapter \<Rightarrow> ProviderCommand \<Rightarrow> string \<Rightarrow> http_log \<Rightarrow> bool \<times> http_log" where
  "verify_readback net ad command tool_name reqs =
     (let conversation_id = dict_get_or (cmd_parameters command) ''conversation_id'' (PStr []) in
      if tool_name \<notin> {''conversation_message_send'', ''conversations_set_labels''} then (True, reqs)
      else if \<not> truthy conversation_id then (True, reqs)
      else (case ChatwootMcpAdapter_call_tool net ad ''conversations_get''
                 [(''id'', conversation_id), (''query'', PDict []), (''body'', PDict [])] reqs of
              (Inr _, reqs') \<Rightarrow> (True, reqs') | (Inl _, reqs') \<Rightarrow> (False, reqs')))"

text \<open>The part of \<open>execute_command\<close> after the capability was resolved to a tool.\<close>

definition execute_resolved ::
    "transport \<Rightarrow> ChatwootMcpAdapter \<Rightarrow> ProviderCommand \<Rightarrow> bool \<Rightarrow> string \<Rightarrow> http_log
     \<Rightarrow> ProviderMutationResult res \<times> http_log" where
  "execute_resolved net ad command requires_readback tool reqs =
     (let args = build_mcp_arguments (cmd_capability_name command) tool (cmd_parameters command);
          pre = (if tool = ''conversations_set_labels'' then merge_labels net ad args reqs else (args, reqs))
      in case ChatwootMcpAdapter_call_tool net ad tool (fst pre) (snd pre) of
           (Inl e, reqs2) \<Rightarrow> (Inl e, reqs2)
         | (Inr result_ref, reqs2) \<Rightarrow>
             (let rb = (if requires_readback then verify_readback net ad command tool reqs2 else (True, reqs2))
              in (Inr \<lparr>pmr_command_id = cmd_command_id command,
                       pmr_idempotency_key = cmd_idempotency_key command, pmr_success = True,
                       pmr_readback_confirmed = fst rb, pmr_result_ref = Some result_ref,
                       pmr_error_code = None, pmr_error_summary = None\<rparr>, snd rb)))"

definition ChatwootMcpAdapter_execute_command ::
    "transport \<Rightarrow> ChatwootMcpAdapter \<Rightarrow> ProviderCommand \<Rightarrow> ProviderSecurityContext \<Rightarrow> http_log
     \<Rightarrow> ProviderMutationResult res \<times> http_log" where
  "ChatwootMcpAdapter_execute_command net ad command sec reqs =
     (if cmd_tenant_id command \<noteq> psc_tenant_id sec
      then (raise_iara (CrossTenantError (''Command tenant '' @ cmd_tenant_id command @
              '' does not match security context '' @ psc_tenant_id sec)), reqs)
      else if cmd_account_id_ref command \<noteq> psc_account_id_ref sec
      then (raise_iara (CrossTenantError
              ''Command account_id_ref does not match security context - refusing execution''), reqs)
      else case ChatwootMcpRegistry_resolve_intent (cw_registry ad) (cmd_capability_name command)
                  (cmd_tenant_id command) (cmd_account_id_ref command) of
        Inl e \<Rightarrow> (Inl e, reqs)
      | Inr resolution \<Rightarrow>
        (case (cap_allowed resolution, cap_resolved_tool_name resolution) of
           (True, Some (t # ts)) \<Rightarrow>
             execute_resolved net ad command (cap_requires_readback resolution) (t # ts) reqs
         | _ \<Rightarrow> (raise_iara (FailClosedError (''Capability '' @ repr_str (cmd_capability_name command) @
                  '' is not allowed: '' @ (case cap_denial_reason resolution of None \<Rightarrow> ''None'' | Some d \<Rightarrow> d))), reqs)))"

definition ChatwootMcpAdapter_read_conversation_context ::
    "transport \<Rightarrow> ChatwootMcpAdapter \<Rightarrow> string \<Rightarrow> string \<Rightarrow> ProviderSecurityContext \<Rightarrow> http_log
     \<Rightarrow> pydict res \<times> http_log" where
  "ChatwootMcpAdapter_read_conversation_context net ad tenant_id conversation_id sec reqs =
     (if tenant_id \<noteq> psc_tenant_id sec
      then (raise_iara (CrossTenantError ''Tenant mismatch in read_conversation_context''), reqs)
      else case ChatwootMcpRegistry_resolve_intent (cw_registry ad) ''read_conversation'' tenant_id
                  (psc_account_id_ref sec) of
        Inl e \<Rightarrow> (Inl e, reqs)
      | Inr resolution \<Rightarrow>
          if \<not> cap_allowed resolution
          then (raise_iara (FailClosedError (''Read conversation not allowed: '' @
                  (case cap_denial_reason resolution of None \<Rightarrow> ''None'' | Some d \<Rightarrow> d))), reqs)
          else (case ChatwootMcpAdapter_call_tool net ad ''conversations_get''
                     [(''id'', PStr conversation_id), (''query'', PDict []), (''body'', PDict [])] reqs of
                  (Inl e, reqs') \<Rightarrow> (Inl e, reqs')
                | (Inr raw_ref, reqs') \<Rightarrow>
                    (Inr [(''conversation_ref'', PStr (take 16 (sha256_hex conversation_id))),
                          (''result_ref'', PStr raw_ref), (''status'', PStr ''ok'')], reqs')))"

section \<open>Fake adapter\<close>

record fake_conversation =
  fc_messages :: "string list"
  fc_labels :: "string list"
  fc_status :: string
  fc_kanban_stage :: "pyval option"

record FakeChatwootAdapter =
  fk_conversations :: "pyval \<Rightarrow> fake_conversation"
  fk_executed_commands :: "pydict list"

definition fake_new_conversation :: fake_conversation where
  "fake_new_conversation = \<lparr>fc_messages = [], fc_labels = [], fc_status = ''open'', fc_kanban_stage = None\<rparr>"

definition FakeChatwootAdapter_reset :: FakeChatwootAdapter where
  "FakeChatwootAdapter_reset = \<lparr>fk_conversations = (\<lambda>_. fake_new_conversation), fk_executed_commands = []\<rparr>"

definition fake_record :: "ProviderCommand \<Rightarrow> pydict" where
  "fake_record command = [(''command_id'', PStr (cmd_command_id command)),
     (''idempotency_key'', PStr (cmd_idempotency_key command)),
     (''capability_name'', PStr (cmd_capability_name command)), (''tenant_id'', PStr (cmd_tenant_id command))]"

definition command_ref :: "ProviderCommand \<Rightarrow> string" where
  "command_ref command = take 24 (sha256_hex (cmd_command_id command))"

definition hashable :: "pyval \<Rightarrow> bool" where
  "hashable v = (case v of PList _ \<Rightarrow> False | PDict _ \<Rightarrow> False | _ \<Rightarrow> True)"

definition fake_apply :: "ProviderCommand \<Rightarrow> FakeChatwootAdapter \<Rightarrow> unit res \<times> FakeChatwootAdapter" where
  "fake_apply command fk =
     (let cid = dict_get_or (cmd_parameters command) ''conversation_id'' (PStr ''unknown'');
          conv = fk_conversations fk cid;
          put = (\<lambda>c. fk\<lparr>fk_conversations := (fk_conversations fk)(cid := c)\<rparr>);
          cap = cmd_capability_name command
      in
      if cap \<in> {''send_message'', ''followup_reengage_conversation'', ''kanban_comment''} then
        (if hashable cid then (Inr (), put (conv\<lparr>fc_messages := fc_messages conv @ [command_ref command]\<rparr>))
         else (Inl (TypeError ''unhashable type''), fk))
      else if cap = ''label_conversation'' then
        (if \<not> hashable cid then (Inl (TypeError ''unhashable type''), fk)
         else case dict_get_or (cmd_parameters command) ''label'' (PStr ''unknown'') of
             PStr label \<Rightarrow> (Inr (), put (conv\<lparr>fc_labels := fc_labels conv @ [take 16 (sha256_hex label)]\<rparr>))
           | _ \<Rightarrow> (Inl (AttributeError ''encode''), fk))
      else if cap = ''kanban_update_status'' then
        (if hashable cid then (Inr (), put (conv\<lparr>fc_kanban_stage :=
             Some (dict_get_or (cmd_parameters command) ''stage'' (PStr ''unknown''))\<rparr>))
         else (Inl (TypeError ''unhashable type''), fk))
      else (Inr (), fk))"

definition FakeChatwootAdapter_execute_command ::
    "ChatwootMcpRegistry \<Rightarrow> ProviderCommand \<Rightarrow> ProviderSecurityContext \<Rightarrow> FakeChatwootAdapter
     \<Rightarrow> ProviderMutationResult res \<times> FakeChatwootAdapter" where
  "FakeChatwootAdapter_execute_command rg command sec fk =
     (if cmd_tenant_id command \<noteq> psc_tenant_id sec
      then (raise_iara (CrossTenantError ''FakeChatwootAdapter: tenant mismatch - fail-closed''), fk)
      else if cmd_account_id_ref command \<noteq> psc_account_id_ref sec
      then (raise_iara (CrossTenantError ''FakeChatwootAdapter: account mismatch - fail-closed''), fk)
      else case ChatwootMcpRegistry_resolve_intent rg (cmd_capability_name command)
                  (cmd_tenant_id command) (cmd_account_id_ref command) of
        Inl e \<Rightarrow> (Inl e, fk)
      | Inr resolution \<Rightarrow>
          if \<not> cap_allowed resolution
          then (raise_iara (FailClosedError (''FakeChatwootAdapter: capability '' @
                  repr_str (cmd_capability_name command) @ '' not allowed'')), fk)
          else if cmd_parameters command = []
          then (raise_iara (ProviderError (''FakeChatwootAdapter: command '' @
                  repr_str (cmd_capability_name command) @ '' requires parameters'') (Some ''chatwoot'') None), fk)
          else (case fake_apply command
                     (fk\<lparr>fk_executed_commands := fk_executed_commands fk @ [fake_record command]\<rparr>) of
                  (Inl e, fk') \<Rightarrow> (Inl e, fk')
                | (Inr _, fk') \<Rightarrow>
                    (Inr \<lparr>pmr_command_id = cmd_command_id command,
                          pmr_idempotency_key = cmd_idempotency_key command, pmr_success = True,
                          pmr_readback_confirmed = True, pmr_result_ref = Some (command_ref command),
                          pmr_error_code = None, pmr_error_summary = None\<rparr>, fk')))"

definition FakeChatwootAdapter_read_conversation_context ::
    "string \<Rightarrow> string \<Rightarrow> ProviderSecurityContext \<Rightarrow> FakeChatwootAdapter \<Rightarrow> pydict res" where
  "FakeChatwootAdapter_read_conversation_context tenant_id conversation_id sec fk =
     (if tenant_id \<noteq> psc_tenant_id sec
      then raise_iara (CrossTenantError ''FakeChatwootAdapter: tenant mismatch in read'')
      else (let conv = fk_conversations fk (PStr conversation_id) in
        Inr [(''conversation_ref'', PStr (take 16 (sha256_hex conversation_id))),
             (''message_count'', PInt (int (length (fc_messages conv)))),
             (''message_refs'', PList (map PStr (fc_messages conv))),
             (''label_refs'', PList (map PStr (fc_labels conv))),
             (''status'', PStr (fc_status conv))]))"

section \<open>Readback service\<close>

text \<open>
  \<open>ReadbackService\<close> polls \<open>read\<close>, the adapter's \<open>read_conversation_context\<close> at successive attempts.
  Membership of a string in a value that is neither list, string nor dictionary raises; the
  exception is swallowed like the others.
\<close>

definition value_contains :: "string \<Rightarrow> pyval \<Rightarrow> bool res" where
  "value_contains s v = (case v of
      PList xs \<Rightarrow> Inr (PStr s \<in> set xs) | PStr t \<Rightarrow> Inr (py_contains s t)
    | PDict d \<Rightarrow> Inr (s \<in> set (map fst d)) | _ \<Rightarrow> Inl (TypeError ''not iterable''))"

fun confirm_loop :: "string \<Rightarrow> string \<Rightarrow> (nat \<Rightarrow> pydict res) \<Rightarrow> nat \<Rightarrow> nat \<Rightarrow> bool" where
  "confirm_loop field expected_ref read attempt 0 = False"
| "confirm_loop field expected_ref read attempt (Suc n) =
     (case res_bind (read attempt) (\<lambda>ctx. value_contains expected_ref (dict_get_or ctx field (PList []))) of
        Inr True \<Rightarrow> True
      | _ \<Rightarrow> confirm_loop field expected_ref read (Suc attempt) n)"

definition ReadbackService_confirm_message_sent ::
    "nat \<Rightarrow> (string \<Rightarrow> string \<Rightarrow> ProviderSecurityContext \<Rightarrow> nat \<Rightarrow> pydict res) \<Rightarrow> string \<Rightarrow> string
     \<Rightarrow> ProviderSecurityContext \<Rightarrow> bool" where
  "ReadbackService_confirm_message_sent max_retries read conversation_id expected_message_ref sec =
     confirm_loop ''message_refs'' expected_message_ref (read (psc_tenant_id sec) conversation_id sec) 0 max_retries"

definition ReadbackService_confirm_label_applied ::
    "nat \<Rightarrow> (string \<Rightarrow> string \<Rightarrow> ProviderSecurityContext \<Rightarrow> nat \<Rightarrow> pydict res) \<Rightarrow> string \<Rightarrow> string
     \<Rightarrow> ProviderSecurityContext \<Rightarrow> bool" where
  "ReadbackService_confirm_label_applied max_retries read conversation_id expected_label_ref sec =
     confirm_loop ''label_refs'' expected_label_ref (read (psc_tenant_id sec) conversation_id sec) 0 max_retries"

section \<open>Lemmas\<close>

definition is_provider_error :: "py_exc \<Rightarrow> bool" where
  "is_provider_error e \<longleftrightarrow> (\<exists>m p c. e = IaraExc (ProviderError m p c))"

lemma chatwoot_exc_provider [simp]: "is_provider_error (chatwoot_exc e)"
  by (simp add: chatwoot_exc_def ProviderErrorMapper_map_exception_def is_provider_error_def)

lemma post_outcome_error: "post_outcome tool content body = Inl e \<Longrightarrow> is_provider_error e"
  by (auto simp: post_outcome_def is_provider_error_def chatwoot_exc_def
      ProviderErrorMapper_map_exception_def split: sum.splits py_exc.splits iara_error.splits)

lemma post_outcome_ok: "post_outcome tool content body = Inr ref \<Longrightarrow> ref = take 24 (sha256_bytes content)"
  by (auto simp: post_outcome_def split: sum.splits py_exc.splits iara_error.splits)

lemma post_loop_requests:
  "post_loop net ep tool pl n l reqs = (r, reqs') \<Longrightarrow> \<exists>k\<le>n. reqs' = reqs @ replicate k (ep, pl)"
proof (induction n arbitrary: l reqs)
  case (Suc n)
  have again: "\<exists>k\<le>Suc n. reqs' = reqs @ replicate k (ep, pl)"
    if p: "post_loop net ep tool pl n l' (reqs @ [(ep, pl)]) = (r, reqs')" for l'
  proof -
    obtain k where "k \<le> n" "reqs' = (reqs @ [(ep, pl)]) @ replicate k (ep, pl)"
      using Suc.IH [OF p] by blast
    then show ?thesis by (intro exI [of _ "Suc k"]) simp
  qed
  have one: "\<exists>k\<le>Suc n. reqs @ [(ep, pl)] = reqs @ replicate k (ep, pl)"
    by (rule exI [of _ 1]) simp
  show ?case
  proof (cases "net reqs ep pl")
    case (Net_raise e)
    then show ?thesis
      using Suc.prems again one by (cases "e \<in> {TimeoutException, ConnectError}") (auto simp: Let_def)
  next
    case (Net_reply status content body)
    then show ?thesis
      using Suc.prems again one
      by (cases "status \<in> set RETRYABLE_STATUS_CODES"; cases "400 \<le> status") (auto simp: Let_def)
  qed
qed simp

lemma post_loop_error:
  "post_loop net ep tool pl n l reqs = (Inl e, reqs') \<Longrightarrow> is_provider_error e"
proof (induction n arbitrary: l reqs)
  case (Suc n)
  then show ?case
    by (auto simp: Let_def ProviderErrorMapper_map_http_error_def is_provider_error_def
        split: net_reply.splits if_splits
        dest: post_outcome_error [unfolded is_provider_error_def])
      (metis chatwoot_exc_provider is_provider_error_def)
qed auto

lemma post_loop_ok:
  "post_loop net ep tool pl n l reqs = (Inr ref, reqs') \<Longrightarrow>
    \<exists>k status content body. k < n \<and> reqs' = reqs @ replicate (Suc k) (ep, pl) \<and>
      net (reqs @ replicate k (ep, pl)) ep pl = Net_reply status content body \<and> status < 400 \<and>
      post_outcome tool content body = Inr ref"
proof (induction n arbitrary: l reqs)
  case (Suc n)
  let ?P = "\<lambda>k status content body. k < Suc n \<and> reqs' = reqs @ replicate (Suc k) (ep, pl) \<and>
      net (reqs @ replicate k (ep, pl)) ep pl = Net_reply status content body \<and> status < 400 \<and>
      post_outcome tool content body = Inr ref"
  have again: "\<exists>k status content body. ?P k status content body"
    if p: "post_loop net ep tool pl n l' (reqs @ [(ep, pl)]) = (Inr ref, reqs')" for l'
  proof -
    obtain k status content body where "k < n" "reqs' = (reqs @ [(ep, pl)]) @ replicate (Suc k) (ep, pl)"
      "net ((reqs @ [(ep, pl)]) @ replicate k (ep, pl)) ep pl = Net_reply status content body"
      "status < 400" "post_outcome tool content body = Inr ref"
      using Suc.IH [OF p] by blast
    then have "?P (Suc k) status content body" by simp
    then show ?thesis by blast
  qed
  show ?case
  proof (cases "net reqs ep pl")
    case (Net_raise e)
    then show ?thesis using Suc.prems again by (auto simp: Let_def split: if_splits)
  next
    case (Net_reply status content body)
    then show ?thesis
    proof (cases "status \<in> set RETRYABLE_STATUS_CODES")
      case True
      then show ?thesis using Suc.prems again Net_reply by (simp add: Let_def)
    next
      case False
      then have "?P 0 status content body"
        using Suc.prems Net_reply by (auto simp: Let_def split: if_splits)
      then show ?thesis by blast
    qed
  qed
qed simp

text \<open>Every request of a tool call goes to the adapter's own endpoint.\<close>

definition bounded_requests :: "ChatwootMcpAdapter \<Rightarrow> nat \<Rightarrow> http_log \<Rightarrow> http_log \<Rightarrow> bool" where
  "bounded_requests ad n reqs reqs' \<longleftrightarrow> (\<exists>new. reqs' = reqs @ new \<and> length new \<le> n \<and>
     (\<forall>q\<in>set new. fst q = mcp_endpoint ad))"

lemma bounded_refl [simp]: "bounded_requests ad n reqs reqs"
  by (simp add: bounded_requests_def)

lemma bounded_trans:
  "bounded_requests ad n a b \<Longrightarrow> bounded_requests ad m b c \<Longrightarrow> bounded_requests ad (n + m) a c"
  by (fastforce simp: bounded_requests_def)

lemma bounded_call:
  "ChatwootMcpAdapter_call_tool net ad tool args reqs = (r, reqs') \<Longrightarrow>
     bounded_requests ad (cw_max_retries ad) reqs reqs'"
  unfolding ChatwootMcpAdapter_call_tool_def bounded_requests_def
  using post_loop_requests by (metis fst_conv in_set_replicate length_replicate)

lemma bounded_merge:
  "merge_labels net ad args reqs = (args', reqs') \<Longrightarrow>
     bounded_requests ad (cw_max_retries ad) reqs reqs' \<and> args' = args"
  by (cases "ChatwootMcpAdapter_call_tool net ad ''conversations_get_labels''
      [(''conversation_id'', dict_get_or args ''id'' (PStr [])), (''query'', PDict []), (''body'', PDict [])] reqs")
    (auto simp: merge_labels_def Let_def dest: bounded_call split: if_splits)

lemma bounded_readback:
  "verify_readback net ad c tool reqs = (ok, reqs') \<Longrightarrow> bounded_requests ad (cw_max_retries ad) reqs reqs'"
  by (auto simp: verify_readback_def Let_def dest: bounded_call split: if_splits sum.splits prod.splits)

lemma bounded_execute_resolved:
  "execute_resolved net ad c b tool reqs = (r, reqs') \<Longrightarrow>
     bounded_requests ad (cw_max_retries ad + (cw_max_retries ad + cw_max_retries ad)) reqs reqs'"
proof -
  let ?m = "cw_max_retries ad"
  assume e: "execute_resolved net ad c b tool reqs = (r, reqs')"
  define args where "args = build_mcp_arguments (cmd_capability_name c) tool (cmd_parameters c)"
  obtain args1 reqs1 where pre: "(if tool = ''conversations_set_labels'' then merge_labels net ad args reqs
      else (args, reqs)) = (args1, reqs1)" by fastforce
  obtain x reqs2 where call: "ChatwootMcpAdapter_call_tool net ad tool args1 reqs1 = (x, reqs2)" by fastforce
  have "bounded_requests ad ?m reqs reqs1" using pre bounded_merge by (auto split: if_splits)
  moreover have "bounded_requests ad ?m reqs1 reqs2" by (rule bounded_call [OF call])
  moreover have "reqs' = reqs2 \<or> verify_readback net ad c tool reqs2 = (fst (verify_readback net ad c tool reqs2), reqs')"
    using e pre call by (cases x) (auto simp: execute_resolved_def Let_def args_def split: if_splits)
  then have "bounded_requests ad ?m reqs2 reqs'" using bounded_readback by auto
  ultimately show ?thesis using bounded_trans by blast
qed

interpretation chatwoot: provider_adapter "ChatwootMcpAdapter_execute_command net ad" "\<lambda>reqs. reqs"
  for net ad
proof (unfold_locales, goal_cases)
  case (1 c sc s r s')
  then show ?case by (auto simp: ChatwootMcpAdapter_execute_command_def is_cross_tenant_def split: if_splits)
next
  case (2 c sc s res s')
  then show ?case
    by (auto simp: ChatwootMcpAdapter_execute_command_def execute_resolved_def Let_def
        split: if_splits sum.splits prod.splits bool.splits option.splits list.splits)
qed

lemma fake_apply_frame: "fake_apply c fk = (r, fk') \<Longrightarrow> fk_executed_commands fk' = fk_executed_commands fk"
  by (auto simp: fake_apply_def Let_def split: if_splits pyval.splits)

interpretation fake: provider_adapter "FakeChatwootAdapter_execute_command rg" fk_executed_commands
  for rg
proof (unfold_locales, goal_cases)
  case (1 c sc s r s')
  then show ?case by (auto simp: FakeChatwootAdapter_execute_command_def is_cross_tenant_def split: if_splits)
next
  case (2 c sc s res s')
  then show ?case
    by (auto simp: FakeChatwootAdapter_execute_command_def split: if_splits sum.splits prod.splits)
qed

lemma confirm_loop_true:
  "res_bind (read a) (\<lambda>ctx. value_contains ref (dict_get_or ctx f (PList []))) = Inr True \<Longrightarrow>
   confirm_loop f ref read a (Suc n)"
  by simp

lemma confirm_loop_false:
  assumes "\<And>a. res_bind (read a) (\<lambda>ctx. value_contains ref (dict_get_or ctx f (PList []))) \<noteq> Inr True"
  shows "\<not> confirm_loop f ref read a n"
  using assms by (induction n arbitrary: a) (auto split: sum.splits bool.splits)

section \<open>Properties\<close>

text \<open>A tool call makes at most \<open>max_retries\<close> identical requests to the adapter's
  endpoint; it succeeds only after a reply with a status below 400 that is no JSON-RPC error, and
  then returns a digest prefix of the body; every failure is a sanitized \<open>ProviderError\<close>.\<close>

theorem call_tool_retry_correct:
  assumes "ChatwootMcpAdapter_call_tool net ad tool args reqs = (r, reqs')"
  shows "(\<exists>k\<le>cw_max_retries ad. reqs' = reqs @ replicate k (mcp_endpoint ad, rpc_payload tool args)) \<and>
    (\<forall>e. r = Inl e \<longrightarrow> (\<exists>m p c. e = IaraExc (ProviderError m p c))) \<and>
    (\<forall>ref. r = Inr ref \<longrightarrow> (\<exists>before status content body. reqs' = before @ [(mcp_endpoint ad, rpc_payload tool args)] \<and>
       net before (mcp_endpoint ad) (rpc_payload tool args) = Net_reply status content body \<and> status < 400 \<and>
       (\<forall>m p c. rpc_check tool body \<noteq> raise_iara (ProviderError m p c)) \<and> ref = take 24 (sha256_bytes content)))"
proof (intro conjI allI impI)
  let ?ep = "mcp_endpoint ad" and ?pl = "rpc_payload tool args"
  have l: "post_loop net ?ep tool ?pl (cw_max_retries ad) None reqs = (r, reqs')"
    using assms by (simp add: ChatwootMcpAdapter_call_tool_def)
  show "\<exists>k\<le>cw_max_retries ad. reqs' = reqs @ replicate k (?ep, ?pl)"
    by (rule post_loop_requests [OF l])
  show "\<exists>m p c. e = IaraExc (ProviderError m p c)" if "r = Inl e" for e
    using post_loop_error l that unfolding is_provider_error_def by metis
  show "\<exists>before status content body. reqs' = before @ [(?ep, ?pl)] \<and>
       net before ?ep ?pl = Net_reply status content body \<and> status < 400 \<and>
       (\<forall>m p c. rpc_check tool body \<noteq> raise_iara (ProviderError m p c)) \<and> ref = take 24 (sha256_bytes content)"
    if ref: "r = Inr ref" for ref
  proof -
    obtain k status content body where k: "reqs' = reqs @ replicate (Suc k) (?ep, ?pl)"
      "net (reqs @ replicate k (?ep, ?pl)) ?ep ?pl = Net_reply status content body" "status < 400"
      "post_outcome tool content body = Inr ref"
      using post_loop_ok [OF l [unfolded ref]] by blast
    have "reqs' = (reqs @ replicate k (?ep, ?pl)) @ [(?ep, ?pl)]"
      using k(1) by (simp add: replicate_append_same)
    moreover have "\<forall>m p c. rpc_check tool body \<noteq> raise_iara (ProviderError m p c)"
      using k(4) by (auto simp: post_outcome_def)
    ultimately show ?thesis using k(2,3) post_outcome_ok [OF k(4)] by blast
  qed
qed

definition sample_adapter :: ChatwootMcpAdapter where
  "sample_adapter = ChatwootMcpAdapter_init (ChatwootMcpRegistry_init ''t'' [] None None)
     ''https://app.example.com/'' ''59'' ''mcp-suporte'' 3"

definition ok_transport :: transport where
  "ok_transport reqs endpoint payload = (if reqs = [] then Net_reply 503 [] None
     else Net_reply 200 [123, 125] (Some (PDict [])))"

definition sample_sec :: "string \<Rightarrow> ProviderSecurityContext" where
  "sample_sec t = \<lparr>psc_tenant_id = t, psc_provider = ''chatwoot'', psc_account_id_ref = [], psc_inbox_id = [],
     psc_capability_name = ''send_message'', psc_risk_class = RC_LOW_WRITE\<rparr>"

definition sample_send :: ProviderCommand where
  "sample_send = \<lparr>cmd_command_id = ''c1'', cmd_idempotency_key = ''k'', cmd_tenant_id = ''t'',
     cmd_provider = ''chatwoot'', cmd_account_id_ref = [], cmd_capability_name = ''send_message'',
     cmd_parameters = [(''conversation_id'', PStr ''9''), (''content'', PStr ''Oi'')],
     cmd_risk_class = RC_LOW_WRITE, cmd_requires_readback = True, cmd_correlation_id = ''r'',
     cmd_status = CS_PENDING, cmd_retry_count = 0\<rparr>"

lemma sample_call: "\<exists>ref reqs'. ChatwootMcpAdapter_call_tool ok_transport sample_adapter tool args [] =
    (Inr ref, reqs') \<and> length reqs' = 2"
  by (simp add: ChatwootMcpAdapter_call_tool_def sample_adapter_def ChatwootMcpAdapter_init_def
      ok_transport_def RETRYABLE_STATUS_CODES_def post_outcome_def rpc_check_def numeral_3_eq_3 Let_def)

theorem call_tool_retry_correct_witness:
  "\<exists>ref reqs'. ChatwootMcpAdapter_call_tool ok_transport sample_adapter ''account_context'' [] [] = (Inr ref, reqs') \<and>
     ref = take 24 (sha256_bytes [123, 125])"
proof -
  obtain ref reqs' where c: "ChatwootMcpAdapter_call_tool ok_transport sample_adapter ''account_context'' [] [] =
      (Inr ref, reqs')" "length reqs' = 2"
    using sample_call by blast
  obtain before status content body where b: "reqs' = before @ [(mcp_endpoint sample_adapter, rpc_payload ''account_context'' [])]"
    "ok_transport before (mcp_endpoint sample_adapter) (rpc_payload ''account_context'' []) = Net_reply status content body"
    "ref = take 24 (sha256_bytes content)"
    using call_tool_retry_correct [OF c(1)] by blast
  then have "content = [123, 125]" using c(2) by (auto simp: ok_transport_def split: if_splits)
  with b c show ?thesis by blast
qed

text \<open>No adapter touches the outside for a foreign command (INV-02): for the MCP adapter and the
  fake alike, a command whose tenant or account reference differs from the security context
  raises \<open>CrossTenantError\<close> and leaves the request log, or the fake's state, as it was.\<close>

theorem cross_tenant_no_effect:
  assumes "cmd_tenant_id c \<noteq> psc_tenant_id sec \<or> cmd_account_id_ref c \<noteq> psc_account_id_ref sec"
  shows "(\<exists>m. ChatwootMcpAdapter_execute_command net ad c sec reqs = (raise_iara (CrossTenantError m), reqs)) \<and>
    (\<exists>m. FakeChatwootAdapter_execute_command rg c sec fk = (raise_iara (CrossTenantError m), fk))"
  using chatwoot.cross_tenant [OF assms] fake.cross_tenant [OF assms]
  unfolding is_cross_tenant_def by (metis surj_pair)

theorem cross_tenant_no_effect_witness:
  "\<exists>m. ChatwootMcpAdapter_execute_command ok_transport sample_adapter sample_send (sample_sec ''other'') [] =
     (raise_iara (CrossTenantError m), [])"
  using cross_tenant_no_effect [of sample_send "sample_sec ''other''" ok_transport sample_adapter "[]"
      "cw_registry sample_adapter" FakeChatwootAdapter_reset]
  by (simp add: sample_send_def sample_sec_def)

text \<open>Executing a command makes at most three tool calls, each retried at most \<open>max_retries\<close> times,
  all to the adapter's own account endpoint; a capability that the registry denies makes none.\<close>

theorem execute_command_bounded:
  assumes "ChatwootMcpAdapter_execute_command net ad c sec reqs = (r, reqs')"
  shows "(\<exists>new. reqs' = reqs @ new \<and> length new \<le> 3 * cw_max_retries ad \<and>
      (\<forall>q\<in>set new. fst q = mcp_endpoint ad)) \<and>
    ((\<forall>res. ChatwootMcpRegistry_resolve_intent (cw_registry ad) (cmd_capability_name c) (cmd_tenant_id c)
        (cmd_account_id_ref c) = Inr res \<longrightarrow> \<not> cap_allowed res) \<longrightarrow> reqs' = reqs)"
proof -
  let ?m = "cw_max_retries ad"
  have "bounded_requests ad (?m + (?m + ?m)) reqs reqs'"
    using assms bounded_execute_resolved unfolding ChatwootMcpAdapter_execute_command_def
    by (auto split: if_splits sum.splits bool.splits option.splits list.splits)
  moreover have "reqs' = reqs"
    if "\<forall>res. ChatwootMcpRegistry_resolve_intent (cw_registry ad) (cmd_capability_name c) (cmd_tenant_id c)
        (cmd_account_id_ref c) = Inr res \<longrightarrow> \<not> cap_allowed res"
    using that assms by (auto simp: ChatwootMcpAdapter_execute_command_def split: if_splits sum.splits)
  ultimately show ?thesis by (auto simp: bounded_requests_def)
qed

theorem execute_command_bounded_witness:
  "snd (ChatwootMcpAdapter_execute_command ok_transport sample_adapter
     (sample_send\<lparr>cmd_capability_name := ''bulk_action''\<rparr>) (sample_sec ''t'') []) = []"
proof -
  obtain r reqs' where e: "ChatwootMcpAdapter_execute_command ok_transport sample_adapter
     (sample_send\<lparr>cmd_capability_name := ''bulk_action''\<rparr>) (sample_sec ''t'') [] = (r, reqs')"
    by fastforce
  have "map_of (rg_by_intent (cw_registry sample_adapter)) ''bulk_action'' = None"
    by (simp add: sample_adapter_def ChatwootMcpAdapter_init_def ChatwootMcpRegistry_init_def map_of_registry
        DEFAULT_CHATWOOT_CAPABILITIES_def capability_def)
  then show ?thesis
    using execute_command_bounded [OF e] e
    by (simp add: sample_send_def ChatwootMcpRegistry_resolve_intent_def CapabilityResolution_denied_def)
qed

text \<open>Readback round trip of the fake adapter: after a message command succeeded, the readback
  service confirms its result reference on the conversation at the first attempt.\<close>

theorem fake_readback_roundtrip:
  assumes "FakeChatwootAdapter_execute_command rg c sec fk = (Inr res, fk')"
    and "cmd_capability_name c \<in> {''send_message'', ''followup_reengage_conversation'', ''kanban_comment''}"
    and "map_of (cmd_parameters c) ''conversation_id'' = Some (PStr cid)" and "0 < n"
  shows "\<exists>ref. pmr_result_ref res = Some ref \<and> pmr_success res \<and>
    ReadbackService_confirm_message_sent n
      (\<lambda>t v s _. FakeChatwootAdapter_read_conversation_context t v s fk') cid ref sec"
proof -
  have "fake_apply c (fk\<lparr>fk_executed_commands := fk_executed_commands fk @ [fake_record c]\<rparr>) = (Inr (), fk')
      \<and> pmr_result_ref res = Some (command_ref c) \<and> pmr_success res"
    using assms(1) by (auto simp: FakeChatwootAdapter_execute_command_def split: if_splits sum.splits prod.splits)
  moreover obtain m where "n = Suc m" using assms(4) gr0_implies_Suc by blast
  ultimately show ?thesis
    using assms(2,3)
    by (auto simp: ReadbackService_confirm_message_sent_def FakeChatwootAdapter_read_conversation_context_def
        fake_apply_def Let_def dict_get_or_def hashable_def value_contains_def)
qed

theorem fake_readback_roundtrip_witness:
  "\<exists>res fk'. FakeChatwootAdapter_execute_command (cw_registry sample_adapter) sample_send (sample_sec ''t'')
     FakeChatwootAdapter_reset = (Inr res, fk') \<and> pmr_success res"
proof -
  have m: "map_of (rg_by_intent (cw_registry sample_adapter)) ''send_message'' =
      Some (capability ''send_message'' ''conversation_message_send'' RC_LOW_WRITE True)"
    by (simp add: sample_adapter_def ChatwootMcpAdapter_init_def ChatwootMcpRegistry_init_def map_of_registry
        DEFAULT_CHATWOOT_CAPABILITIES_def capability_def)
  obtain res fk' where e: "FakeChatwootAdapter_execute_command (cw_registry sample_adapter) sample_send
      (sample_sec ''t'') FakeChatwootAdapter_reset = (Inr res, fk')"
    using m by (simp add: FakeChatwootAdapter_execute_command_def sample_send_def sample_sec_def
        ChatwootMcpRegistry_resolve_intent_def capability_def sample_adapter_def ChatwootMcpAdapter_init_def
        ChatwootMcpRegistry_init_def py_strip_def py_space_def fake_apply_def hashable_def Let_def)
  have "pmr_success res"
    using fake_readback_roundtrip [OF e, of "''9''" 1] by (simp add: sample_send_def) blast
  with e show ?thesis by blast
qed

text \<open>With the MCP adapter the readback service can never confirm anything: the context that
  adapter reads carries no message or label references, so both polls end in \<open>False\<close> whatever the
  server answers.\<close>

theorem mcp_readback_never_confirms:
  "\<not> ReadbackService_confirm_message_sent n
      (\<lambda>t v s i. fst (ChatwootMcpAdapter_read_conversation_context net ad t v s (reqs i))) cid ref sec \<and>
   \<not> ReadbackService_confirm_label_applied n
      (\<lambda>t v s i. fst (ChatwootMcpAdapter_read_conversation_context net ad t v s (reqs i))) cid ref sec"
  unfolding ReadbackService_confirm_message_sent_def ReadbackService_confirm_label_applied_def
  by (intro conjI confirm_loop_false)
    (auto simp: ChatwootMcpAdapter_read_conversation_context_def value_contains_def
      split: if_splits sum.splits prod.splits)

end
