(* ===== verification/Drainer.thy ===== *)
theory Drainer
  imports FollowUp ChatwootAdapter
begin

text \<open>
  The outbox drainer (\<open>workers/outbox_drainer.py\<close>): batch selection, routing to the adapter of the
  command's provider, retry with exponential back-off, dead-lettering, and the hook that queues a
  confirmation follow-up after an appointment was scheduled. Adapters are functions on a state \<open>'w\<close>
  of the outside world, keyed by provider name; \<open>drain_faults\<close> says which database updates fail.
\<close>

section \<open>State\<close>

type_synonym 'w adapter = "ProviderCommand \<Rightarrow> ProviderSecurityContext \<Rightarrow> 'w \<Rightarrow> ProviderMutationResult res \<times> 'w"

record 'w drain_state =
  ds_outbox :: outbox
  ds_follow_ups :: follow_ups
  ds_world :: 'w

record drain_faults =
  dl_pre_dead_letter :: bool
  dl_mark_sent :: bool
  dl_failure_update :: bool
  dl_hook :: bool

record 'w drain_env =
  dr_max_retries :: nat
  dr_adapters :: "(string \<times> 'w adapter) list"
  dr_fromisoformat :: "string \<Rightarrow> (int \<times> int option) option"

section \<open>Processing a command\<close>

definition row_risk :: "ProviderCommandOutbox \<Rightarrow> RiskClass" where
  "row_risk r = (case RiskClass_of (ob_risk_class r) of Inr k \<Rightarrow> k | Inl _ \<Rightarrow> RC_LOW_WRITE)"

definition row_command :: "ProviderCommandOutbox \<Rightarrow> ProviderCommand" where
  "row_command r = \<lparr>cmd_command_id = ob_command_id r, cmd_idempotency_key = ob_idempotency_key r,
     cmd_tenant_id = ob_tenant_id r, cmd_provider = ob_provider r, cmd_account_id_ref = [],
     cmd_capability_name = ob_capability_name r, cmd_parameters = ob_parameters r,
     cmd_risk_class = row_risk r, cmd_requires_readback = True, cmd_correlation_id = ob_correlation_id r,
     cmd_status = CS_PENDING, cmd_retry_count = int (ob_retry_count r)\<rparr>"

definition row_security :: "ProviderCommandOutbox \<Rightarrow> ProviderSecurityContext" where
  "row_security r = \<lparr>psc_tenant_id = ob_tenant_id r, psc_provider = ob_provider r, psc_account_id_ref = [],
     psc_inbox_id = [], psc_capability_name = ob_capability_name r, psc_risk_class = row_risk r\<rparr>"

definition row_provider :: "ProviderCommandOutbox \<Rightarrow> string" where
  "row_provider r = (if ob_provider r = [] then ''chatwoot'' else ob_provider r)"

text \<open>The appointment time of a command: text of \<open>datetime_iso\<close>, else of \<open>start.dateTime\<close>.\<close>

definition appointment_text :: "pydict \<Rightarrow> pyval res" where
  "appointment_text params =
     (let iso = dict_get_or params ''datetime_iso'' (PStr []) in
      if truthy iso then Inr iso
      else res_bind (as_dict (dict_get_or params ''start'' (PDict []))) (\<lambda>start.
             Inr (dict_get_or start ''dateTime'' (PStr []))))"

definition confirmation_payload :: "ProviderCommand \<Rightarrow> datetime \<Rightarrow> follow_up_payload" where
  "confirmation_payload command appointment_dt =
     (let params = cmd_parameters command in
      \<lparr>fp_tenant_id = cmd_tenant_id command,
       fp_conversation_id = py_str (dict_get_or params ''conversation_id'' (PStr [])),
       fp_contact_ref = py_str (dict_get_or params ''contact_ref'' (PStr [])),
       fp_message_ref = ''msg:'' @ short_ref (''appointment_reminder:'' @ cmd_command_id command),
       fp_message_length = 80, fp_reason_ref = short_ref ''appointment_confirmation'',
       fp_trigger_at = Some (appointment_dt\<lparr>dt_local := dt_local appointment_dt - hour\<rparr>),
       fp_max_attempts = 1, fp_opted_out = False, fp_correlation_id = cmd_correlation_id command,
       fp_idempotency_key = ''confirmation:'' @ short_ref (cmd_command_id command)\<rparr>)"

text \<open>Every exception of the hook is swallowed.\<close>

definition post_schedule_hook ::
    "'w drain_env \<Rightarrow> drain_faults \<Rightarrow> uuid \<Rightarrow> time \<Rightarrow> ProviderCommand \<Rightarrow> follow_ups \<Rightarrow> follow_ups" where
  "post_schedule_hook env df new_id now command rows =
     (case appointment_text (cmd_parameters command) of
        Inr (PStr s) \<Rightarrow>
          (case (if s = [] then None else dr_fromisoformat env s) of
             None \<Rightarrow> rows
           | Some (reading, off) \<Rightarrow>
               if dl_hook df then rows
               else snd (FollowUpRepository_enqueue_raw new_id now (confirmation_payload command
                      \<lparr>dt_local = reading, dt_offset = (case off of None \<Rightarrow> 0 | Some x \<Rightarrow> x)\<rparr>) rows))
      | _ \<Rightarrow> rows)"

text \<open>The handler of an exception of the attempt: dead-letter at the limit, else back off.\<close>

definition attempt_failed ::
    "'w drain_env \<Rightarrow> drain_faults \<Rightarrow> time \<Rightarrow> ProviderCommandOutbox \<Rightarrow> 'w drain_state \<Rightarrow> unit res \<times> 'w drain_state" where
  "attempt_failed env df now command st =
     (if dl_failure_update df then (Inl db_error, st)
      else if ob_retry_count command + 1 \<ge> dr_max_retries env
      then (Inr (), st\<lparr>ds_outbox := OutboxRepository_mark_dead_lettered (ob_command_id command) (ds_outbox st)\<rparr>)
      else (Inr (), st\<lparr>ds_outbox := OutboxRepository_mark_failed_for_retry now (ob_command_id command)
              (30 * 2 ^ ob_retry_count command) (ds_outbox st)\<rparr>))"

definition OutboxDrainerWorker_process_command ::
    "'w drain_env \<Rightarrow> drain_faults \<Rightarrow> uuid \<Rightarrow> time \<Rightarrow> ProviderCommandOutbox \<Rightarrow> 'w drain_state
     \<Rightarrow> unit res \<times> 'w drain_state" where
  "OutboxDrainerWorker_process_command env df new_id now command st =
     (if ob_retry_count command \<ge> dr_max_retries env
      then (if dl_pre_dead_letter df then (Inl db_error, st)
            else (Inr (), st\<lparr>ds_outbox := OutboxRepository_mark_dead_lettered (ob_command_id command) (ds_outbox st)\<rparr>))
      else case map_of (dr_adapters env) (row_provider command) of
        None \<Rightarrow> (Inr (), st)
      | Some execute_command \<Rightarrow>
          (case execute_command (row_command command) (row_security command) (ds_world st) of
             (Inl e, w) \<Rightarrow> attempt_failed env df now command (st\<lparr>ds_world := w\<rparr>)
           | (Inr result, w) \<Rightarrow>
               if dl_mark_sent df then attempt_failed env df now command (st\<lparr>ds_world := w\<rparr>)
               else (Inr (), st\<lparr>ds_world := w,
                  ds_outbox := OutboxRepository_mark_sent now (ob_command_id command) (ds_outbox st),
                  ds_follow_ups := (if ob_capability_name command = ''schedule_appointment''
                    then post_schedule_hook env df new_id now (row_command command) (ds_follow_ups st)
                    else ds_follow_ups st)\<rparr>)))"

fun drain_all ::
    "'w drain_env \<Rightarrow> (ProviderCommandOutbox \<Rightarrow> drain_faults \<times> uuid) \<Rightarrow> time \<Rightarrow> outbox \<Rightarrow> 'w drain_state
     \<Rightarrow> unit res \<times> 'w drain_state" where
  "drain_all env faults now [] st = (Inr (), st)"
| "drain_all env faults now (command # commands) st =
     (case OutboxDrainerWorker_process_command env (fst (faults command)) (snd (faults command)) now command st of
        (Inl e, st') \<Rightarrow> (Inl e, st') | (Inr _, st') \<Rightarrow> drain_all env faults now commands st')"

definition OutboxDrainerWorker_drain_batch ::
    "'w drain_env \<Rightarrow> (ProviderCommandOutbox \<Rightarrow> drain_faults \<times> uuid) \<Rightarrow> time \<Rightarrow> 'w drain_state
     \<Rightarrow> unit res \<times> 'w drain_state" where
  "OutboxDrainerWorker_drain_batch env faults now st =
     (if dr_adapters env = [] then (Inr (), st)
      else drain_all env faults now (OutboxRepository_fetch_pending_all now 50 (ds_outbox st)) st)"

section \<open>Lemmas\<close>

definition no_drain_faults :: drain_faults where
  "no_drain_faults = \<lparr>dl_pre_dead_letter = False, dl_mark_sent = False, dl_failure_update = False, dl_hook = False\<rparr>"

definition row_after ::
    "'w drain_env \<Rightarrow> time \<Rightarrow> bool \<Rightarrow> ProviderCommandOutbox \<Rightarrow> ProviderCommandOutbox" where
  "row_after env now ok r =
     (if ok then r\<lparr>ob_status := CS_SENT, ob_sent_at := Some now\<rparr>
      else if ob_retry_count r + 1 \<ge> dr_max_retries env then r\<lparr>ob_status := CS_DEAD_LETTERED\<rparr>
      else r\<lparr>ob_status := CS_PENDING, ob_retry_count := ob_retry_count r + 1,
             ob_scheduled_at := now + 30 * 2 ^ ob_retry_count r * second\<rparr>)"

lemma upd_unique_row:
  assumes "distinct (map ob_command_id rows)" and "command \<in> set rows"
  shows "upd_where (\<lambda>r. ob_command_id r = ob_command_id command) f rows =
    map (\<lambda>r. if r = command then f command else r) rows"
  unfolding upd_where_def
  using distinct_key_unique [OF assms(1) _ assms(2)] by (intro map_cong) auto

lemma process_outbox:
  assumes "distinct (map ob_command_id (ds_outbox st))" and "command \<in> set (ds_outbox st)"
    and "ob_retry_count command < dr_max_retries env"
    and "map_of (dr_adapters env) (row_provider command) = Some exec"
    and "exec (row_command command) (row_security command) (ds_world st) = (res, w)"
    and "OutboxDrainerWorker_process_command env no_drain_faults u now command st = (r, st')"
  shows "r = Inr ()" and "ds_world st' = w"
    and "ds_outbox st' = map (\<lambda>x. if x = command then row_after env now (\<exists>v. res = Inr v) command else x) (ds_outbox st)"
  using assms upd_unique_row [OF assms(1,2)]
  by (auto simp: OutboxDrainerWorker_process_command_def attempt_failed_def no_drain_faults_def row_after_def
      outbox_marks Let_def split: sum.splits if_splits)

text \<open>The statuses a drainer ever writes.\<close>

lemma process_status:
  assumes "OutboxDrainerWorker_process_command env df u now command st = (r, st')"
    and "x \<in> set (ds_outbox st')" and "ob_status x = CS_CONFIRMED"
  shows "\<exists>y\<in>set (ds_outbox st). ob_status y = CS_CONFIRMED"
  using assms
  by (auto simp: OutboxDrainerWorker_process_command_def attempt_failed_def outbox_marks set_upd_where Let_def
      split: if_splits option.splits sum.splits prod.splits)

lemma drain_all_status:
  assumes "drain_all env faults now cs st = (r, st')"
    and "\<forall>y\<in>set (ds_outbox st). ob_status y \<noteq> CS_CONFIRMED"
  shows "\<forall>y\<in>set (ds_outbox st'). ob_status y \<noteq> CS_CONFIRMED"
  using assms
proof (induction cs arbitrary: st)
  case (Cons c cs)
  obtain x st1 where p: "OutboxDrainerWorker_process_command env (fst (faults c)) (snd (faults c)) now c st = (x, st1)"
    by fastforce
  then have "\<forall>y\<in>set (ds_outbox st1). ob_status y \<noteq> CS_CONFIRMED"
    using process_status [OF p] Cons.prems(2) by blast
  then show ?case using Cons p by (cases x) auto
qed simp

text \<open>A failing provider, attempt after attempt, always on the current row.\<close>

fun failing_attempts :: "'w drain_env \<Rightarrow> (nat \<Rightarrow> time) \<Rightarrow> nat \<Rightarrow> 'w drain_state \<Rightarrow> 'w drain_state" where
  "failing_attempts env clk 0 st = st"
| "failing_attempts env clk (Suc n) st =
     (let st' = failing_attempts env clk n st in
      snd (OutboxDrainerWorker_process_command env no_drain_faults [] (clk n) (hd (ds_outbox st')) st'))"

lemma failing_attempts_row:
  assumes "0 < dr_max_retries env" and "k \<le> dr_max_retries env"
    and "\<And>x w. \<exists>e. exec (row_command x) (row_security x) w = (Inl e, step w)"
    and "map_of (dr_adapters env) (row_provider row) = Some exec"
    and "ds_outbox st = [row]" and "ob_status row = CS_PENDING" and "ob_retry_count row = 0"
  shows "ds_world (failing_attempts env clk k st) = (step ^^ k) (ds_world st) \<and>
    (\<exists>row'. ds_outbox (failing_attempts env clk k st) = [row'] \<and> row_provider row' = row_provider row \<and>
    (if k < dr_max_retries env
     then ob_status row' = CS_PENDING \<and> ob_retry_count row' = k \<and>
       (0 < k \<longrightarrow> ob_scheduled_at row' = clk (k - 1) + 30 * 2 ^ (k - 1) * second)
     else ob_status row' = CS_DEAD_LETTERED))"
  using assms(2)
proof (induction k)
  case 0
  then show ?case using assms(1,5,6,7) by auto
next
  case (Suc k)
  let ?st = "failing_attempts env clk k st"
  obtain row' where row': "ds_outbox ?st = [row']" "row_provider row' = row_provider row"
    "ob_status row' = CS_PENDING" "ob_retry_count row' = k" "ds_world ?st = (step ^^ k) (ds_world st)"
    using Suc by auto
  obtain e where x: "exec (row_command row') (row_security row') (ds_world ?st) = (Inl e, step (ds_world ?st))"
    using assms(3) by blast
  obtain r st' where p: "OutboxDrainerWorker_process_command env no_drain_faults [] (clk k) row' ?st = (r, st')"
    by fastforce
  have "ds_outbox st' = [row_after env (clk k) False row']" "ds_world st' = step (ds_world ?st)"
    using process_outbox [of ?st row' env exec "Inl e" "step (ds_world ?st)" "[]" "clk k" r st'] x p row' Suc.prems assms(4)
    by simp_all
  moreover have "failing_attempts env clk (Suc k) st = st'"
    using p row' by (simp add: Let_def)
  ultimately show ?case
    using row' Suc.prems by (auto simp: row_after_def row_provider_def)
qed

section \<open>Properties\<close>

text \<open>C14: One drain attempt, completely: with unique command ids, a registered adapter and a working
  database, processing a pending command below the retry limit executes the adapter exactly once on
  the command built from its row; the row becomes sent when the adapter returned, is rescheduled
  with one more retry and a back-off of \<open>30 * 2 ^ retries\<close> seconds when it raised, and is
  dead-lettered when that was the last attempt; no other row changes.\<close>

theorem drain_command_outcome:
  assumes "distinct (map ob_command_id (ds_outbox st))" and "command \<in> set (ds_outbox st)"
    and "ob_retry_count command < dr_max_retries env"
    and "map_of (dr_adapters env) (row_provider command) = Some exec"
    and "exec (row_command command) (row_security command) (ds_world st) = (res, w)"
  shows "\<exists>st'. OutboxDrainerWorker_process_command env no_drain_faults u now command st = (Inr (), st') \<and>
    ds_world st' = w \<and>
    ds_outbox st' = map (\<lambda>x. if x \<noteq> command then x else case res of
       Inr _ \<Rightarrow> command\<lparr>ob_status := CS_SENT, ob_sent_at := Some now\<rparr>
     | Inl _ \<Rightarrow> if dr_max_retries env \<le> ob_retry_count command + 1
         then command\<lparr>ob_status := CS_DEAD_LETTERED\<rparr>
         else command\<lparr>ob_status := CS_PENDING, ob_retry_count := ob_retry_count command + 1,
                ob_scheduled_at := now + 30 * 2 ^ ob_retry_count command * second\<rparr>) (ds_outbox st)"
proof -
  obtain r st' where p: "OutboxDrainerWorker_process_command env no_drain_faults u now command st = (r, st')"
    by fastforce
  show ?thesis
    using process_outbox [OF assms p] p by (cases res) (auto simp: row_after_def intro!: map_cong)
qed

definition sample_row :: ProviderCommandOutbox where
  "sample_row = \<lparr>ob_id = ''1'', ob_tenant_id = ''t'', ob_command_id = ''c1'', ob_idempotency_key = ''k'',
     ob_correlation_id = ''r'', ob_provider = ''chatwoot'', ob_capability_name = ''send_message'',
     ob_parameters = [(''conversation_id'', PStr ''9''), (''content'', PStr ''Oi'')],
     ob_risk_class = ''low_write'', ob_status = CS_PENDING, ob_retry_count = 0, ob_scheduled_at = 5,
     ob_sent_at = None, ob_confirmed_at = None\<rparr>"

text \<open>A provider that always times out, counting its calls.\<close>

definition down_env :: "nat drain_env" where
  "down_env = \<lparr>dr_max_retries = 3, dr_adapters = [(''chatwoot'', \<lambda>c sc w. (Inl TimeoutException, Suc w))],
     dr_fromisoformat = (\<lambda>_. None)\<rparr>"

definition sample_drain :: "nat drain_state" where
  "sample_drain = \<lparr>ds_outbox = [sample_row], ds_follow_ups = [], ds_world = 0\<rparr>"

theorem drain_command_outcome_witness:
  "\<exists>st'. OutboxDrainerWorker_process_command down_env no_drain_faults ''u'' 9 sample_row sample_drain = (Inr (), st') \<and>
     ds_world st' = 1 \<and> ds_outbox st' = [sample_row\<lparr>ob_retry_count := 1, ob_scheduled_at := 9 + 30 * second\<rparr>]"
  using drain_command_outcome [of sample_drain sample_row down_env "\<lambda>c sc w. (Inl TimeoutException, Suc w)"
      "Inl TimeoutException" 1 "''u''" 9]
  by (simp add: sample_drain_def down_env_def row_provider_def sample_row_def)



text \<open>The drainer never confirms a command: from an outbox without confirmed rows no batch, whatever
  its adapters answer or raise and whichever updates fail, produces one; and a result that reports
  failure or a failed readback is marked sent like any other.\<close>

theorem drainer_never_confirms:
  assumes "\<forall>y\<in>set (ds_outbox st). ob_status y \<noteq> CS_CONFIRMED"
    and "OutboxDrainerWorker_drain_batch env faults now st = (r, st')"
  shows "(\<forall>y\<in>set (ds_outbox st'). ob_status y \<noteq> CS_CONFIRMED) \<and>
    (\<forall>result command exec w. ob_retry_count command < dr_max_retries env \<longrightarrow>
       map_of (dr_adapters env) (row_provider command) = Some exec \<longrightarrow>
       exec (row_command command) (row_security command) (ds_world st) = (Inr result, w) \<longrightarrow>
       ds_outbox (snd (OutboxDrainerWorker_process_command env no_drain_faults u now command st)) =
         OutboxRepository_mark_sent now (ob_command_id command) (ds_outbox st))"
proof -
  have "\<forall>y\<in>set (ds_outbox st'). ob_status y \<noteq> CS_CONFIRMED"
  proof (cases "dr_adapters env = []")
    case False
    then have "drain_all env faults now (OutboxRepository_fetch_pending_all now 50 (ds_outbox st)) st = (r, st')"
      using assms(2) by (simp add: OutboxDrainerWorker_drain_batch_def)
    then show ?thesis using assms(1) by (rule drain_all_status)
  qed (use assms in \<open>simp add: OutboxDrainerWorker_drain_batch_def\<close>)
  moreover have "ds_outbox (snd (OutboxDrainerWorker_process_command env no_drain_faults u now command st)) =
      OutboxRepository_mark_sent now (ob_command_id command) (ds_outbox st)"
    if "ob_retry_count command < dr_max_retries env" "map_of (dr_adapters env) (row_provider command) = Some exec"
      "exec (row_command command) (row_security command) (ds_world st) = (Inr result, w)" for result command exec w
    using that by (simp add: OutboxDrainerWorker_process_command_def no_drain_faults_def)
  ultimately show ?thesis by blast
qed

theorem drainer_never_confirms_witness:
  "CS_CONFIRMED \<notin> ob_status ` set (ds_outbox (snd
     (OutboxDrainerWorker_drain_batch down_env (\<lambda>_. (no_drain_faults, ''u'')) 9 sample_drain)))"
proof -
  obtain r st' where b: "OutboxDrainerWorker_drain_batch down_env (\<lambda>_. (no_drain_faults, ''u'')) 9 sample_drain = (r, st')"
    by fastforce
  have "\<forall>y\<in>set (ds_outbox sample_drain). ob_status y \<noteq> CS_CONFIRMED"
    by (simp add: sample_drain_def sample_row_def)
  from conjunct1 [OF drainer_never_confirms [OF this b]] b show ?thesis by force
qed

text \<open>C39: The account check on the drain path is vacuous and the registry check behind it always fails:
  the command and the security context that the drainer derives from a row agree on tenant and on an
  empty account, so the adapter's comparison passes, but a registry bound to a non-empty account
  refuses the empty one. A pending Chatwoot command is therefore never sent: after \<open>max_retries\<close>
  attempts it is dead-lettered and no HTTP request was made.\<close>

theorem drained_chatwoot_never_sent:
  assumes "rg_account_id_ref (cw_registry ad) \<noteq> []" and "0 < dr_max_retries env"
    and "map_of (dr_adapters env) ''chatwoot'' = Some (ChatwootMcpAdapter_execute_command net ad)"
    and "ds_outbox st = [row]" and "ob_status row = CS_PENDING" and "ob_retry_count row = 0"
    and "ob_provider row = ''chatwoot''"
  shows "cmd_account_id_ref (row_command row) = psc_account_id_ref (row_security row) \<and>
    ds_world (failing_attempts env clk (dr_max_retries env) st) = ds_world st \<and>
    (\<exists>row'. ds_outbox (failing_attempts env clk (dr_max_retries env) st) = [row'] \<and>
       ob_status row' = CS_DEAD_LETTERED)"
proof -
  let ?exec = "ChatwootMcpAdapter_execute_command net ad"
  have e: "\<exists>e. ?exec (row_command x) (row_security x) w = (Inl e, id w)" for x w
    using assms(1)
    by (simp add: ChatwootMcpAdapter_execute_command_def row_command_def row_security_def
        ChatwootMcpRegistry_resolve_intent_def)
  have "map_of (dr_adapters env) (row_provider row) = Some ?exec"
    using assms(3,7) by (simp add: row_provider_def)
  from failing_attempts_row [OF assms(2) order_refl e this assms(4-6), of clk]
  have "ds_world (failing_attempts env clk (dr_max_retries env) st) = ds_world st \<and>
    (\<exists>row'. ds_outbox (failing_attempts env clk (dr_max_retries env) st) = [row'] \<and> ob_status row' = CS_DEAD_LETTERED)"
    by (auto simp flip: id_def)
  then show ?thesis by (simp add: row_command_def row_security_def)
qed

definition bound_env :: "http_log drain_env" where
  "bound_env = \<lparr>dr_max_retries = 3,
     dr_adapters = [(''chatwoot'', ChatwootMcpAdapter_execute_command ok_transport
       (sample_adapter\<lparr>cw_registry := ChatwootMcpRegistry_init ''t'' ''acct_1'' None None\<rparr>))],
     dr_fromisoformat = (\<lambda>_. None)\<rparr>"

theorem drained_chatwoot_never_sent_witness:
  "ds_world (failing_attempts bound_env (\<lambda>k. int k * day) 3
      \<lparr>ds_outbox = [sample_row], ds_follow_ups = [], ds_world = []\<rparr>) = []"
  using drained_chatwoot_never_sent [of "sample_adapter\<lparr>cw_registry := ChatwootMcpRegistry_init ''t'' ''acct_1'' None None\<rparr>"
      bound_env ok_transport "\<lparr>ds_outbox = [sample_row], ds_follow_ups = [], ds_world = []\<rparr>" sample_row "\<lambda>k. int k * day"]
  by (simp add: bound_env_def sample_row_def ChatwootMcpRegistry_init_def)

text \<open>Delivery is at least once: when the adapter succeeded but the row could not be marked sent, the
  command goes back to pending (below the limit) although its effect has happened, so the next due
  batch executes it again.\<close>

theorem lost_sent_mark_reexecutes:
  assumes "distinct (map ob_command_id (ds_outbox st))" and "command \<in> set (ds_outbox st)"
    and "ob_retry_count command + 1 < dr_max_retries env"
    and "map_of (dr_adapters env) (row_provider command) = Some exec"
    and "exec (row_command command) (row_security command) (ds_world st) = (Inr result, w)"
    and "OutboxDrainerWorker_process_command env (no_drain_faults\<lparr>dl_mark_sent := True\<rparr>) u now command st = (r, st')"
  shows "ds_world st' = w \<and> (\<exists>again\<in>set (ds_outbox st'). ob_status again = CS_PENDING \<and>
    ob_command_id again = ob_command_id command \<and> ob_retry_count again = ob_retry_count command + 1 \<and>
    row_command again = (row_command command)\<lparr>cmd_retry_count := int (ob_retry_count command) + 1\<rparr>)"
proof -
  have "st' = st\<lparr>ds_world := w, ds_outbox := OutboxRepository_mark_failed_for_retry now (ob_command_id command)
      (30 * 2 ^ ob_retry_count command) (ds_outbox st)\<rparr>"
    using assms by (auto simp: OutboxDrainerWorker_process_command_def attempt_failed_def no_drain_faults_def)
  moreover have "row_after env now False command \<in> set (OutboxRepository_mark_failed_for_retry now (ob_command_id command)
      (30 * 2 ^ ob_retry_count command) (ds_outbox st))"
    using assms(2,3) unfolding OutboxRepository_mark_failed_for_retry_def upd_unique_row [OF assms(1,2)] Let_def
    by (force simp: row_after_def)
  ultimately show ?thesis
    using assms(3)
    by (auto intro!: bexI [of _ "row_after env now False command"] simp: row_after_def row_command_def row_risk_def)
qed

theorem lost_sent_mark_reexecutes_witness:
  "ds_world (snd (OutboxDrainerWorker_process_command (down_env\<lparr>dr_adapters := [(''chatwoot'', \<lambda>c sc w. (Inr
      \<lparr>pmr_command_id = ''c1'', pmr_idempotency_key = ''k'', pmr_success = True, pmr_readback_confirmed = True,
       pmr_result_ref = None, pmr_error_code = None, pmr_error_summary = None\<rparr>, Suc w))]\<rparr>)
      (no_drain_faults\<lparr>dl_mark_sent := True\<rparr>) ''u'' 9 sample_row sample_drain)) = 1"
proof -
  let ?env = "down_env\<lparr>dr_adapters := [(''chatwoot'', \<lambda>c sc w. (Inr
      \<lparr>pmr_command_id = ''c1'', pmr_idempotency_key = ''k'', pmr_success = True, pmr_readback_confirmed = True,
       pmr_result_ref = None, pmr_error_code = None, pmr_error_summary = None\<rparr>, Suc w))]\<rparr>"
  obtain r st' where p: "OutboxDrainerWorker_process_command ?env (no_drain_faults\<lparr>dl_mark_sent := True\<rparr>)
      ''u'' 9 sample_row sample_drain = (r, st')" by fastforce
  from lost_sent_mark_reexecutes [OF _ _ _ _ _ p] p show ?thesis
    by (simp add: down_env_def sample_drain_def row_provider_def sample_row_def)
qed

end
