(* ===== verification/ToolRegistry.thy ===== *)
theory ToolRegistry
  imports Contracts
begin

text \<open>
  The catalog of agent tools: \<open>tools/registry.py\<close> with the twenty default definitions, and the usage
  skills of \<open>tools/skill_resolver.py\<close>. The tool dictionary is an association list keyed by tool name;
  its lookup laws are those of the locale \<open>keyed_store\<close>.
\<close>

section \<open>Registry\<close>

record AgentToolRegistry =
  reg_tenant_id :: string
  reg_tools :: "(string \<times> AgentToolDefinition) list"

definition AgentToolRegistry_init :: "string \<Rightarrow> AgentToolRegistry" where
  "AgentToolRegistry_init tenant_id = \<lparr>reg_tenant_id = tenant_id, reg_tools = []\<rparr>"

definition AgentToolRegistry_register :: "AgentToolDefinition \<Rightarrow> AgentToolRegistry \<Rightarrow> AgentToolRegistry" where
  "AgentToolRegistry_register tool rg = rg\<lparr>reg_tools := AList.update (atd_tool_name tool) tool (reg_tools rg)\<rparr>"

definition AgentToolRegistry_get_active_tools :: "AgentToolRegistry \<Rightarrow> AgentToolDefinition list" where
  "AgentToolRegistry_get_active_tools rg = filter (\<lambda>t. atd_status t = TL_ACTIVE) (map snd (reg_tools rg))"

definition AgentToolRegistry_get_tool :: "AgentToolRegistry \<Rightarrow> string \<Rightarrow> AgentToolDefinition option" where
  "AgentToolRegistry_get_tool rg tool_name = map_of (reg_tools rg) tool_name"

definition AgentToolRegistry_is_active :: "AgentToolRegistry \<Rightarrow> string \<Rightarrow> bool" where
  "AgentToolRegistry_is_active rg tool_name = (case map_of (reg_tools rg) tool_name of
     None \<Rightarrow> False | Some tool \<Rightarrow> atd_status tool = TL_ACTIVE)"

definition AgentToolRegistry_get_tool_names_for_prompt :: "AgentToolRegistry \<Rightarrow> string list" where
  "AgentToolRegistry_get_tool_names_for_prompt rg = map atd_tool_name (AgentToolRegistry_get_active_tools rg)"

definition active_tool ::
    "string \<Rightarrow> string \<Rightarrow> string \<Rightarrow> pydict \<Rightarrow> bool \<Rightarrow> bool \<Rightarrow> string \<Rightarrow> AgentToolDefinition" where
  "active_tool tool_name display_name description schema policy_check side_effecting mode =
     \<lparr>atd_tool_name = tool_name, atd_display_name = display_name, atd_description = description,
      atd_parameters_schema = schema, atd_status = TL_ACTIVE, atd_skill_ref = None, atd_policy_ref = None,
      atd_backend_binding_ref = None, atd_requires_policy_check = policy_check,
      atd_is_side_effecting = side_effecting, atd_default_mode = mode\<rparr>"

text \<open>The default tools, in the order of the source.\<close>

definition scheduling_tools :: "AgentToolDefinition list" where
  "scheduling_tools = [
     active_tool ''availability'' ''Check Availability'' ''Check available appointment slots. Call this before scheduling.''
        [(''type'', PStr ''object''), (''properties'', PDict [(''date_range_start'', PDict [(''type'', PStr ''string''),
         (''description'', PStr ''ISO date start'')]), (''date_range_end'', PDict [(''type'', PStr ''string''),
         (''description'', PStr ''ISO date end'')]), (''service_type'', PDict [(''type'', PStr ''string'')])]),
         (''required'', PList [PStr ''date_range_start''])] True False ''read_only'',
     active_tool ''schedule'' ''Schedule Appointment'' ''Schedule an appointment. Always check availability first.''
        [(''type'', PStr ''object''), (''properties'', PDict [(''datetime_iso'', PDict [(''type'', PStr ''string'')]),
         (''service_type'', PDict [(''type'', PStr ''string'')]), (''notes'', PDict [(''type'', PStr
         ''string'')])]), (''required'', PList [PStr ''datetime_iso''])] True True ''draft_only'',
     active_tool ''cancel'' ''Cancel Appointment'' ''Cancel an existing appointment.''
        [(''type'', PStr ''object''), (''properties'', PDict [(''appointment_ref'', PDict [(''type'', PStr
         ''string'')]), (''reason'', PDict [(''type'', PStr ''string'')])]), (''required'', PList [PStr
         ''appointment_ref''])] True True ''draft_only'',
     active_tool ''reschedule'' ''Reschedule Appointment'' ''Reschedule an existing appointment to a new time.''
        [(''type'', PStr ''object''), (''properties'', PDict [(''appointment_ref'', PDict [(''type'', PStr
         ''string'')]), (''new_datetime_iso'', PDict [(''type'', PStr ''string'')])]), (''required'', PList
         [PStr ''appointment_ref'', PStr ''new_datetime_iso''])] True True ''draft_only'']"

definition qualification_tools :: "AgentToolDefinition list" where
  "qualification_tools = [
     active_tool ''qualify'' ''Qualify Lead'' ''Mark a lead as qualified with a label, private note, and optional notification.''
        [(''type'', PStr ''object''), (''properties'', PDict [(''qualification_note'', PDict [(''type'', PStr
         ''string'')]), (''label'', PDict [(''type'', PStr ''string'')])]), (''required'', PList [])] True True
         ''draft_only'',
     active_tool ''disqualify'' ''Disqualify Lead'' ''Mark a lead as disqualified with a reason.''
        [(''type'', PStr ''object''), (''properties'', PDict [(''reason'', PDict [(''type'', PStr ''string'')]),
         (''label'', PDict [(''type'', PStr ''string'')])]), (''required'', PList [PStr ''reason''])] True True
         ''draft_only'']"

definition kanban_tools :: "AgentToolDefinition list" where
  "kanban_tools = [
     active_tool ''kanban_analyze_conversation'' ''Analyze Conversation Kanban Stage'' ''Analyze the current conversation to suggest a kanban stage.''
        [(''type'', PStr ''object''), (''properties'', PDict [(''include_history'', PDict [(''type'', PStr ''boolean''),
         (''default'', PBool False)])])] True False ''suggest_only'',
     active_tool ''kanban_update_status'' ''Update Kanban Status'' (''Update the conversation'' @ [CHR 0x27] @ ''s kanban stage (requires policy).'')
        [(''type'', PStr ''object''), (''properties'', PDict [(''stage'', PDict [(''type'', PStr ''string'')]),
         (''reason'', PDict [(''type'', PStr ''string'')])]), (''required'', PList [PStr ''stage''])] True True
         ''suggest_only'',
     active_tool ''kanban_comment'' ''Add Kanban Comment'' ''Add a private note to the conversation for kanban tracking.''
        [(''type'', PStr ''object''), (''properties'', PDict [(''comment'', PDict [(''type'', PStr ''string'')])]),
         (''required'', PList [PStr ''comment''])] True True ''suggest_only'']"

definition history_tools :: "AgentToolDefinition list" where
  "history_tools = [
     active_tool ''lead_search'' ''Search Lead'' ''Search for lead information (read-only).''
        [(''type'', PStr ''object''), (''properties'', PDict [(''search_terms'', PDict [(''type'', PStr ''array''),
         (''items'', PDict [(''type'', PStr ''string'')])])]), (''required'', PList [PStr ''search_terms''])]
         True False ''read_only'',
     active_tool ''history_analyze_conversations'' ''Analyze Conversation History'' ''Analyze historical conversations (read-only, produces drafts).''
        [(''type'', PStr ''object''), (''properties'', PDict [(''limit'', PDict [(''type'', PStr ''integer''),
         (''default'', PInt 10), (''maximum'', PInt 50)]), (''focus'', PDict [(''type'', PStr ''string'')])])]
         True False ''read_only'']"

definition followup_tools :: "AgentToolDefinition list" where
  "followup_tools = [
     active_tool ''followup_reengage_conversation'' ''Follow Up on Conversation'' ''Schedule a deferred follow-up message to re-engage a conversation. The message is sent at trigger_at (or delay_hours from now). Opt-out and quiet hours are enforced automatically.''
        [(''type'', PStr ''object''), (''properties'', PDict [(''message'', PDict [(''type'', PStr ''string''),
         (''description'', PStr ''Message to send.'')]), (''reason'', PDict [(''type'', PStr ''string''),
         (''description'', PStr ''Reason for the follow-up.'')]), (''delay_hours'', PDict [(''type'', PStr
         ''number''), (''description'', PStr ''Hours from now to send (default 1.0). Quiet hours apply.'')]),
         (''trigger_at_iso'', PDict [(''type'', PStr ''string''), (''description'', PStr ''ISO-8601 UTC datetime to send (alternative to delay_hours).'')]),
         (''opted_out'', PDict [(''type'', PStr ''boolean''), (''description'', PStr ''Pass true to skip if the contact has opted out.'')])]),
         (''required'', PList [PStr ''message''])] True True ''draft_only'']"

definition campaign_tools :: "AgentToolDefinition list" where
  "campaign_tools = [
     active_tool ''campaign_create_draft'' ''Create Campaign Draft'' ''Create a campaign message draft (draft_only - no messages sent).''
        [(''type'', PStr ''object''), (''properties'', PDict [(''campaign_name'', PDict [(''type'', PStr ''string'')]),
         (''message_template'', PDict [(''type'', PStr ''string'')]), (''target_description'', PDict [(''type'',
         PStr ''string'')])]), (''required'', PList [PStr ''campaign_name'', PStr ''message_template''])] True
         False ''draft_only'',
     active_tool ''campaign_validate_audience'' ''Validate Campaign Audience'' ''Validate a campaign audience (count only - no contact list exposed).''
        [(''type'', PStr ''object''), (''properties'', PDict [(''campaign_draft_ref'', PDict [(''type'', PStr
         ''string'')])]), (''required'', PList [PStr ''campaign_draft_ref''])] True False ''read_only'',
     active_tool ''campaign_request_approval'' ''Request Campaign Approval'' ''Request human approval to send a campaign.''
        [(''type'', PStr ''object''), (''properties'', PDict [(''campaign_draft_ref'', PDict [(''type'', PStr
         ''string'')]), (''approver_ref'', PDict [(''type'', PStr ''string'')])]), (''required'', PList [PStr
         ''campaign_draft_ref''])] True True ''draft_only'',
     active_tool ''campaign_dispatch_batch'' ''Dispatch Campaign Batch'' ''Send an approved campaign batch (requires approved_send policy).''
        [(''type'', PStr ''object''), (''properties'', PDict [(''campaign_run_ref'', PDict [(''type'', PStr
         ''string'')]), (''batch_size'', PDict [(''type'', PStr ''integer''), (''default'', PInt 10)])]),
         (''required'', PList [PStr ''campaign_run_ref''])] True True ''draft_only'',
     active_tool ''campaign_status'' ''Campaign Status'' ''Check the status of a campaign run.''
        [(''type'', PStr ''object''), (''properties'', PDict [(''campaign_run_ref'', PDict [(''type'', PStr
         ''string'')])]), (''required'', PList [PStr ''campaign_run_ref''])] True False ''read_only'',
     active_tool ''campaign_cancel_pending'' ''Cancel Pending Campaign'' ''Cancel pending messages in a campaign run.''
        [(''type'', PStr ''object''), (''properties'', PDict [(''campaign_run_ref'', PDict [(''type'', PStr
         ''string'')]), (''reason'', PDict [(''type'', PStr ''string'')])]), (''required'', PList [PStr
         ''campaign_run_ref''])] True True ''draft_only'']"

definition content_tools :: "AgentToolDefinition list" where
  "content_tools = [
     active_tool ''kb_suggest_update'' ''Suggest KB Update'' ''Suggest an update to the knowledge base (creates draft - never publishes directly).''
        [(''type'', PStr ''object''), (''properties'', PDict [(''topic'', PDict [(''type'', PStr ''string'')]),
         (''suggested_content'', PDict [(''type'', PStr ''string'')]), (''rationale'', PDict [(''type'', PStr
         ''string'')])]), (''required'', PList [PStr ''topic'', PStr ''suggested_content''])] True False
         ''draft_only'',
     active_tool ''voice_respond_audio'' ''Respond with Audio'' ''Generate an audio response (requires voice_output_policy; fallback to text).''
        [(''type'', PStr ''object''), (''properties'', PDict [(''text_content'', PDict [(''type'', PStr ''string'')]),
         (''voice_ref'', PDict [(''type'', PStr ''string'')])]), (''required'', PList [PStr ''text_content''])]
         True True ''draft_only'']"

definition DEFAULT_TOOLS :: "AgentToolDefinition list" where
  "DEFAULT_TOOLS = scheduling_tools @ qualification_tools @ kanban_tools @ history_tools @ followup_tools @ campaign_tools @ content_tools"

lemmas default_tools_defs = DEFAULT_TOOLS_def scheduling_tools_def qualification_tools_def kanban_tools_def history_tools_def followup_tools_def campaign_tools_def content_tools_def

definition AgentToolRegistry_build_default :: "string \<Rightarrow> AgentToolRegistry" where
  "AgentToolRegistry_build_default tenant_id =
     fold AgentToolRegistry_register DEFAULT_TOOLS (AgentToolRegistry_init tenant_id)"

section \<open>Skills\<close>

definition TOOL_SKILLS :: "(string \<times> string) list" where
  "TOOL_SKILLS = [
     (''availability'', ''Use this tool BEFORE scheduling to check available time slots. Always check availability before offering or confirming an appointment.''),
     (''schedule'', ''Use after checking availability. Provide the exact datetime in ISO format. Confirm details with the lead before scheduling.''),
     (''cancel'', ''Use to cancel an existing appointment. Always confirm the cancellation with the lead. Require an appointment reference.''),
     (''reschedule'', ''Use to move an appointment. Always check availability for the new time first.''),
     (''qualify'', ''Use to mark a lead as qualified. Include a brief qualification note and the appropriate label. This is a composite operation.''),
     (''disqualify'', ''Use to mark a lead as not meeting qualification criteria. Always provide a reason for disqualification.''),
     (''kanban_analyze_conversation'', ''Use to analyze where in the pipeline this conversation belongs. Returns a suggestion only - does not change anything.''),
     (''kanban_update_status'', (''Updates the conversation'' @ [CHR 0x27] @ ''s kanban stage. Requires active kanban policy.'')),
     (''kanban_comment'', ''Adds a private note for kanban tracking. Never sends a public message. Requires kanban write policy.''),
     (''lead_search'', ''Search for lead information. Returns sanitized results only. Use for context gathering, not for displaying raw lead data to contacts.''),
     (''history_analyze_conversations'', ''Analyze past conversations for patterns. Read-only. Results are drafts for human review.''),
     (''followup_reengage_conversation'', ''Send a follow-up message. Check opt-out status, quiet hours, and maximum attempt count before using.''),
     (''campaign_create_draft'', ''Create a campaign draft. No messages are sent. Always creates a draft for human review.''),
     (''campaign_validate_audience'', ''Validate campaign audience size and eligibility. Returns count only - never exposes the contact list.''),
     (''campaign_request_approval'', ''Request human approval for a campaign. Required before any campaign send.''),
     (''campaign_dispatch_batch'', ''Dispatch a pre-approved campaign batch. Requires approved_send policy. Sends per-recipient with idempotency.''),
     (''campaign_status'', ''Check the status and metrics of a campaign run. Returns counts and status only - no contact details.''),
     (''campaign_cancel_pending'', ''Cancel pending messages in a campaign run. Cannot cancel already-sent messages.''),
     (''kb_suggest_update'', ''Suggest a knowledge base update based on this conversation. Creates a draft for human review. Never publishes directly.''),
     (''voice_respond_audio'', ''Generate an audio response. Requires voice policy. Text fallback is always available if voice generation fails.'')]"

text \<open>\<open>dict.update\<close> keeps the position of a key that is there and appends the others.\<close>

definition ToolSkillResolver_init :: "(string \<times> string) list option \<Rightarrow> (string \<times> string) list" where
  "ToolSkillResolver_init custom_skills = (case custom_skills of None \<Rightarrow> TOOL_SKILLS
     | Some cs \<Rightarrow> fold (\<lambda>(k, v). AList.update k v) cs TOOL_SKILLS)"

definition ToolSkillResolver_get_skill :: "(string \<times> string) list \<Rightarrow> string \<Rightarrow> string option" where
  "ToolSkillResolver_get_skill skills tool_name = map_of skills tool_name"

definition ToolSkillResolver_get_skills_for_tools ::
    "(string \<times> string) list \<Rightarrow> string list \<Rightarrow> (string \<times> string) list" where
  "ToolSkillResolver_get_skills_for_tools skills tool_names = filter (\<lambda>(name, skill). name \<in> set tool_names) skills"

definition ToolSkillResolver_build_tool_guidance_section ::
    "(string \<times> string) list \<Rightarrow> string list \<Rightarrow> string" where
  "ToolSkillResolver_build_tool_guidance_section skills tool_names =
     (let chosen = ToolSkillResolver_get_skills_for_tools skills tool_names in
      if chosen = [] then []
      else join_with [CHR 0x0A] (''Tool usage guidance:'' # map (\<lambda>(name, skill). ''- '' @ name @ '': '' @ skill) chosen))"

section \<open>Lemmas\<close>

text \<open>A registry built by registrations: every key is the name of its definition, keys are unique.\<close>

definition registry_ok :: "AgentToolRegistry \<Rightarrow> bool" where
  "registry_ok rg \<longleftrightarrow> distinct (map fst (reg_tools rg)) \<and> (\<forall>(k, t)\<in>set (reg_tools rg). atd_tool_name t = k)"

lemma registry_ok_init: "registry_ok (AgentToolRegistry_init t)"
  by (simp add: registry_ok_def AgentToolRegistry_init_def)

lemma registry_ok_register:
  assumes "registry_ok rg"
  shows "registry_ok (AgentToolRegistry_register tool rg)"
proof -
  have "set (AList.update k v xs) \<subseteq> insert (k, v) (set xs)" for k v and xs :: "(string \<times> AgentToolDefinition) list"
    by (induction xs) auto
  with assms show ?thesis
    by (fastforce simp: registry_ok_def AgentToolRegistry_register_def distinct_update)
qed

lemma registry_ok_fold: "registry_ok rg \<Longrightarrow> registry_ok (fold AgentToolRegistry_register tools rg)"
  by (induction tools arbitrary: rg) (auto simp: registry_ok_register)

lemma registry_ok_default: "registry_ok (AgentToolRegistry_build_default t)"
  unfolding AgentToolRegistry_build_default_def by (rule registry_ok_fold [OF registry_ok_init])

lemma get_tool_name: "registry_ok rg \<Longrightarrow> AgentToolRegistry_get_tool rg n = Some t \<Longrightarrow> atd_tool_name t = n"
  by (auto simp: registry_ok_def AgentToolRegistry_get_tool_def dest!: map_of_SomeD)

lemma get_tool_register:
  "AgentToolRegistry_get_tool (AgentToolRegistry_register t rg) n =
     (if n = atd_tool_name t then Some t else AgentToolRegistry_get_tool rg n)"
  by (simp add: AgentToolRegistry_get_tool_def AgentToolRegistry_register_def alist.get_put)

lemma active_tools_iff:
  assumes "registry_ok rg"
  shows "t \<in> set (AgentToolRegistry_get_active_tools rg) \<longleftrightarrow>
    AgentToolRegistry_get_tool rg (atd_tool_name t) = Some t \<and> AgentToolRegistry_is_active rg (atd_tool_name t)"
  using assms
  by (force simp: registry_ok_def AgentToolRegistry_get_active_tools_def AgentToolRegistry_get_tool_def
      AgentToolRegistry_is_active_def dest: map_of_SomeD)

end
