(* ===== verification/Tools.thy ===== *)
theory Tools
  imports ToolRegistry FollowUp
begin

text \<open>
  Tool invocation: the policy guard (\<open>tools/policy_guard.py\<close>), the executor with its read handlers
  (\<open>tools/executor.py\<close>, \<open>tools/catalog/\<close>) and the gateway (\<open>tools/gateway.py\<close>). The tables the executor
  writes are the record \<open>tool_world\<close>. The scheduling backend, the parsers of ISO timestamps and of
  floating point texts, the clock and the generated identifiers are arguments, and so is whether a
  database write fails.
\<close>

section \<open>Policy guard\<close>

datatype OperationMode = OM_READ_ONLY | OM_DRAFT_ONLY | OM_DRY_RUN | OM_SUGGEST_ONLY | OM_SANDBOX
  | OM_APPROVED_SEND | OM_WRITE_CONFIRMED

primrec OperationMode_value :: "OperationMode \<Rightarrow> string" where
  "OperationMode_value OM_READ_ONLY = ''read_only''"
| "OperationMode_value OM_DRAFT_ONLY = ''draft_only''"
| "OperationMode_value OM_DRY_RUN = ''dry_run''"
| "OperationMode_value OM_SUGGEST_ONLY = ''suggest_only''"
| "OperationMode_value OM_SANDBOX = ''sandbox''"
| "OperationMode_value OM_APPROVED_SEND = ''approved_send''"
| "OperationMode_value OM_WRITE_CONFIRMED = ''write_confirmed''"

primrec OperationMode_name :: "OperationMode \<Rightarrow> string" where
  "OperationMode_name OM_READ_ONLY = ''READ_ONLY''"
| "OperationMode_name OM_DRAFT_ONLY = ''DRAFT_ONLY''"
| "OperationMode_name OM_DRY_RUN = ''DRY_RUN''"
| "OperationMode_name OM_SUGGEST_ONLY = ''SUGGEST_ONLY''"
| "OperationMode_name OM_SANDBOX = ''SANDBOX''"
| "OperationMode_name OM_APPROVED_SEND = ''APPROVED_SEND''"
| "OperationMode_name OM_WRITE_CONFIRMED = ''WRITE_CONFIRMED''"

definition OperationMode_repr :: "OperationMode \<Rightarrow> string" where
  "OperationMode_repr m = ''<OperationMode.'' @ OperationMode_name m @ '': '' @ repr_str (OperationMode_value m) @ ''>''"

definition OperationMode_of :: "string \<Rightarrow> OperationMode option" where
  "OperationMode_of s = find (\<lambda>m. OperationMode_value m = s)
     [OM_READ_ONLY, OM_DRAFT_ONLY, OM_DRY_RUN, OM_SUGGEST_ONLY, OM_SANDBOX, OM_APPROVED_SEND, OM_WRITE_CONFIRMED]"

definition HIGH_RISK_TOOLS :: "string list" where
  "HIGH_RISK_TOOLS = [''campaign_dispatch_batch'', ''campaign_request_approval'', ''kanban_update_status'',
     ''kanban_comment'', ''followup_reengage_conversation'', ''voice_respond_audio'']"

definition DRAFT_SAFE_TOOLS :: "string list" where
  "DRAFT_SAFE_TOOLS = [''schedule'', ''cancel'', ''reschedule'', ''qualify'', ''disqualify'',
     ''campaign_create_draft'', ''campaign_validate_audience'', ''kb_suggest_update'']"

record PolicyCheckResult =
  pcr_approved :: bool
  pcr_mode :: OperationMode
  pcr_reason :: string
  pcr_produces_draft :: bool

definition PolicyCheckResult_allow :: "OperationMode \<Rightarrow> bool \<Rightarrow> PolicyCheckResult" where
  "PolicyCheckResult_allow mode produces_draft =
     \<lparr>pcr_approved = True, pcr_mode = mode, pcr_reason = [], pcr_produces_draft = produces_draft\<rparr>"

definition PolicyCheckResult_deny :: "string \<Rightarrow> OperationMode \<Rightarrow> PolicyCheckResult" where
  "PolicyCheckResult_deny reason mode =
     \<lparr>pcr_approved = False, pcr_mode = mode, pcr_reason = reason, pcr_produces_draft = False\<rparr>"

record ToolPolicyGuard =
  tpg_tenant_id :: string
  tpg_kanban_mode :: OperationMode
  tpg_campaign_mode :: OperationMode

primrec ToolStatus_value :: "ToolStatus \<Rightarrow> string" where
  "ToolStatus_value TL_DRAFT = ''draft''"
| "ToolStatus_value TL_ACTIVE = ''active''"
| "ToolStatus_value TL_INACTIVE = ''inactive''"
| "ToolStatus_value TL_DEPRECATED = ''deprecated''"
| "ToolStatus_value TL_SANDBOX = ''sandbox''"

definition check_kanban :: "ToolPolicyGuard \<Rightarrow> AgentToolDefinition \<Rightarrow> PolicyCheckResult" where
  "check_kanban guard tool =
     (let mode = tpg_kanban_mode guard in
      if mode = OM_SUGGEST_ONLY then PolicyCheckResult_allow OM_SUGGEST_ONLY True
      else if mode = OM_WRITE_CONFIRMED \<or> mode = OM_SANDBOX then PolicyCheckResult_allow mode False
      else PolicyCheckResult_deny (''kanban tool '' @ repr_str (atd_tool_name tool) @ '' not allowed in mode '' @
             OperationMode_value mode) mode)"

definition check_campaign :: "ToolPolicyGuard \<Rightarrow> AgentToolDefinition \<Rightarrow> PolicyCheckResult" where
  "check_campaign guard tool =
     (let mode = tpg_campaign_mode guard in
      if mode = OM_DRAFT_ONLY then
        (if atd_tool_name tool = ''campaign_dispatch_batch''
         then PolicyCheckResult_deny ''Campaign dispatch blocked in draft_only mode - create a draft first'' OM_DRAFT_ONLY
         else PolicyCheckResult_allow OM_DRAFT_ONLY True)
      else if mode = OM_DRY_RUN then PolicyCheckResult_allow OM_DRY_RUN True
      else if mode = OM_APPROVED_SEND then PolicyCheckResult_allow OM_APPROVED_SEND False
      else PolicyCheckResult_deny (''campaign mode '' @ OperationMode_repr mode @ '' does not permit '' @
             repr_str (atd_tool_name tool)) mode)"

definition check_high_risk :: "AgentToolDefinition \<Rightarrow> PolicyCheckResult" where
  "check_high_risk tool =
     (if atd_tool_name tool = ''voice_respond_audio'' then PolicyCheckResult_allow OM_DRAFT_ONLY True
      else if atd_tool_name tool = ''followup_reengage_conversation'' then PolicyCheckResult_allow OM_DRAFT_ONLY True
      else PolicyCheckResult_allow OM_DRAFT_ONLY True)"

definition ToolPolicyGuard_check ::
    "ToolPolicyGuard \<Rightarrow> AgentToolDefinition \<Rightarrow> pydict \<Rightarrow> PolicyCheckResult res" where
  "ToolPolicyGuard_check guard tool arguments =
     (if atd_status tool \<noteq> TL_ACTIVE
      then raise_iara (FailClosedError (''Tool '' @ repr_str (atd_tool_name tool) @ '' is not active (status='' @
             ToolStatus_value (atd_status tool) @ '') - fail-closed''))
      else if py_startswith (atd_tool_name tool) ''kanban_'' \<and> atd_is_side_effecting tool
      then Inr (check_kanban guard tool)
      else if py_startswith (atd_tool_name tool) ''campaign_'' \<and> atd_is_side_effecting tool
      then Inr (check_campaign guard tool)
      else if atd_tool_name tool \<in> set HIGH_RISK_TOOLS then Inr (check_high_risk tool)
      else if \<not> atd_is_side_effecting tool then Inr (PolicyCheckResult_allow OM_READ_ONLY False)
      else if atd_tool_name tool \<in> set DRAFT_SAFE_TOOLS then Inr (PolicyCheckResult_allow OM_DRAFT_ONLY True)
      else Inr (PolicyCheckResult_allow OM_DRAFT_ONLY True))"

section \<open>Conversions\<close>

text \<open>The conversions \<open>int(v)\<close> and \<open>float(v)\<close> of the argument values, and slices and lengths of them.\<close>

fun dec_digits :: "bool \<Rightarrow> int \<Rightarrow> string \<Rightarrow> int option" where
  "dec_digits ok acc [] = (if ok then Some acc else None)"
| "dec_digits ok acc (c # s) =
     (if c = CHR ''_'' then (if ok then dec_digits False acc s else None)
      else (let n = int (of_char c) in if 48 \<le> n \<and> n \<le> 57 then dec_digits True (10 * acc + (n - 48)) s else None))"

definition int_base10 :: "string \<Rightarrow> int option" where
  "int_base10 s = (let t = py_strip s; neg = py_startswith t ''-'';
       u = (if neg \<or> py_startswith t ''+'' then tl t else t)
     in map_option (\<lambda>n. if neg then - n else n) (dec_digits False 0 u))"

definition py_int :: "pyval \<Rightarrow> int res" where
  "py_int v = (case v of PInt i \<Rightarrow> Inr i | PBool b \<Rightarrow> Inr (if b then 1 else 0)
     | PFloat q r \<Rightarrow> Inr (if 0 \<le> q then \<lfloor>q\<rfloor> else \<lceil>q\<rceil>)
     | PStr s \<Rightarrow> (case int_base10 s of Some i \<Rightarrow> Inr i | None \<Rightarrow> Inl (ValueError ''invalid literal for int()''))
     | _ \<Rightarrow> Inl (TypeError ''int() argument''))"

definition py_float :: "(string \<Rightarrow> rat option) \<Rightarrow> pyval \<Rightarrow> rat res" where
  "py_float text v = (case v of PInt i \<Rightarrow> Inr (of_int i) | PBool b \<Rightarrow> Inr (if b then 1 else 0) | PFloat q r \<Rightarrow> Inr q
     | PStr s \<Rightarrow> (case text s of Some q \<Rightarrow> Inr q | None \<Rightarrow> Inl (ValueError ''could not convert string to float''))
     | _ \<Rightarrow> Inl (TypeError ''float() argument''))"

text \<open>\<open>timedelta(hours=q)\<close> in microseconds, ties to even.\<close>

definition hours_delta :: "rat \<Rightarrow> int" where
  "hours_delta q = (let x = q * 3600000000; n = \<lfloor>x\<rfloor>; d = x - of_int n in
     if d < 1 / 2 then n else if d > 1 / 2 then n + 1 else if even n then n else n + 1)"

definition py_len :: "pyval \<Rightarrow> int res" where
  "py_len v = (case v of PStr s \<Rightarrow> Inr (int (length s)) | PList xs \<Rightarrow> Inr (int (length xs))
     | PDict d \<Rightarrow> Inr (int (length d)) | _ \<Rightarrow> Inl (TypeError ''len()''))"

definition py_prefix :: "nat \<Rightarrow> pyval \<Rightarrow> pyval res" where
  "py_prefix n v = (case v of PStr s \<Rightarrow> Inr (PStr (take n s)) | PList xs \<Rightarrow> Inr (PList (take n xs))
     | _ \<Rightarrow> Inl (TypeError ''subscript''))"

definition str_attr :: "pyval \<Rightarrow> string res" where
  "str_attr v = (case v of PStr s \<Rightarrow> Inr s | _ \<Rightarrow> Inl (AttributeError ''encode''))"

text \<open>\<open>datetime.isoformat()\<close> of an aware value: the reading, then its offset.\<close>

definition offset_text :: "int \<Rightarrow> string" where
  "offset_text off = (let a = abs off in
     (if off < 0 then ''-'' else ''+'') @ pad_int 2 (a div hour) @ '':'' @ pad_int 2 (a mod hour div 60000000) @
     (if a mod 60000000 = 0 then [] else '':'' @ pad_int 2 (a mod 60000000 div second) @
        (if a mod second = 0 then [] else ''.'' @ pad_int 6 (a mod second))))"

definition dt_isoformat :: "datetime \<Rightarrow> string" where
  "dt_isoformat dt = (let s = isoformat (dt_local dt) in take (length s - 6) s @ offset_text (dt_offset dt))"

section \<open>Executor\<close>

record tool_world =
  tw_outbox :: outbox
  tw_follow_ups :: follow_ups

record tool_env =
  te_tenant_id :: string
  te_has_outbox :: bool
  te_has_follow_up_repo :: bool
  te_check_availability :: "pyval \<Rightarrow> pyval \<Rightarrow> pyval \<Rightarrow> pyval \<Rightarrow> pyval \<Rightarrow> pydict res"
  te_fromisoformat :: "string \<Rightarrow> (int \<times> int option) option"
  te_float_text :: "string \<Rightarrow> rat option"
  te_now :: time
  te_uid :: "nat \<Rightarrow> uuid"
  te_outbox_fails :: bool
  te_follow_up_fails :: bool

definition handle_availability :: "tool_env \<Rightarrow> pydict \<Rightarrow> pydict res" where
  "handle_availability env arguments = te_check_availability env
     (dict_get_or arguments ''tenant_id'' (PStr [])) (dict_get_or arguments ''date_range_start'' (PStr []))
     (dict_get_or arguments ''date_range_end'' (PStr [])) (dict_get_or arguments ''service_type'' (PStr ''general''))
     (dict_get_or arguments ''calendar_id'' (PStr ''primary''))"

definition handle_kanban_analyze :: "pydict \<Rightarrow> pydict res" where
  "handle_kanban_analyze arguments = Inr [(''suggested_stage'', PStr ''nurturing''),
     (''confidence'', PFloat (3242591731706757 / 4503599627370496) ''0.72''),
     (''rationale'', PStr ''Conversation indicates interest but no clear buying signal yet.''),
     (''mode'', PStr ''suggest_only''),
     (''note'', PStr ''This is a suggestion - human review required before update.'')]"

definition handle_lead_search :: "pydict \<Rightarrow> pydict res" where
  "handle_lead_search arguments =
     (let search_terms = (case dict_get_or arguments ''search_terms'' (PList []) of PList xs \<Rightarrow> xs | v \<Rightarrow> [PStr (py_str v)]);
          capped = map (\<lambda>t. take 100 (py_str t)) (take 10 search_terms)
      in Inr [(''results_count'', PInt 0), (''search_term_count'', PInt (int (length capped))),
           (''stage_distribution'', PDict [(''new_lead'', PInt 0), (''nurturing'', PInt 0), (''qualified'', PInt 0),
              (''won'', PInt 0), (''lost'', PInt 0)]),
           (''note'', PStr (''Lead search - stub implementation. Connect CRM MCP for real results. '' @
              ''Result set capped at '' @ show_int 20 @ '' items.'')),
           (''pii_redacted'', PBool True)])"

definition handle_history_analyze :: "tool_env \<Rightarrow> pydict \<Rightarrow> pydict res" where
  "handle_history_analyze env arguments =
     res_bind (py_int (dict_get_or arguments ''limit'' (PInt 10))) (\<lambda>l.
       Inr [(''analyzed_count'', PInt 0), (''limit_applied'', PInt (min l 50)),
            (''focus'', dict_get_or arguments ''focus'' (PStr ''general'')),
            (''draft_ref'', PStr (''history_draft:'' @ take 8 (te_uid env 0))),
            (''pattern_summary'', PDict [(''avg_conversation_length_turns'', PInt 0), (''common_topics_count'', PInt 0),
               (''resolution_rate'', PFloat 0 ''0.0''), (''escalation_rate'', PFloat 0 ''0.0'')]),
            (''note'', PStr (''History analysis - stub implementation. '' @
               ''Connect conversation history store for real analysis. '' @
               ''Draft created for human review before any action.'')),
            (''pii_redacted'', PBool True)])"

definition handle_campaign_status :: "pydict \<Rightarrow> pydict res" where
  "handle_campaign_status arguments = Inr [
     (''campaign_run_ref'', dict_get_or arguments ''campaign_run_ref'' (PStr [])), (''status'', PStr ''draft''),
     (''sent_count'', PInt 0), (''failed_count'', PInt 0), (''pending_count'', PInt 0),
     (''note'', PStr ''Connect campaign management service for real data.'')]"

definition handle_campaign_validate_audience :: "pydict \<Rightarrow> pydict res" where
  "handle_campaign_validate_audience arguments = Inr [
     (''campaign_draft_ref'', dict_get_or arguments ''campaign_draft_ref'' (PStr [])), (''eligible_count'', PInt 0),
     (''opted_out_count'', PInt 0), (''invalid_count'', PInt 0),
     (''note'', PStr ''Audience validation - stub implementation.'')]"

definition handle_kb_suggest :: "tool_env \<Rightarrow> pydict \<Rightarrow> pydict res" where
  "handle_kb_suggest env arguments =
     (let topic = dict_get_or arguments ''topic'' (PStr []) in
      res_bind (py_prefix 30 topic) (\<lambda>_.
      res_bind (py_len (dict_get_or arguments ''suggested_content'' (PStr []))) (\<lambda>n.
      res_bind (py_prefix 50 topic) (\<lambda>preview.
        Inr [(''draft_ref'', PStr (''kb_draft:'' @ take 8 (te_uid env 0))), (''topic_preview'', preview),
             (''content_length'', PInt n), (''status'', PStr ''draft''),
             (''note'', PStr ''KB suggestion created as draft. Human review required before publishing.'')]))))"

definition dispatch_read_tool :: "tool_env \<Rightarrow> string \<Rightarrow> pydict \<Rightarrow> pydict res" where
  "dispatch_read_tool env tool_name arguments =
     (if tool_name = ''availability'' then handle_availability env arguments
      else if tool_name = ''kanban_analyze_conversation'' then handle_kanban_analyze arguments
      else if tool_name = ''lead_search'' then handle_lead_search arguments
      else if tool_name = ''history_analyze_conversations'' then handle_history_analyze env arguments
      else if tool_name = ''campaign_status'' then handle_campaign_status arguments
      else if tool_name = ''campaign_validate_audience'' then handle_campaign_validate_audience arguments
      else if tool_name = ''kb_suggest'' then handle_kb_suggest env arguments
      else Inr [(''status'', PStr ''not_implemented''), (''tool_name'', PStr tool_name),
                (''message'', PStr ''This read capability has no registered handler.'')])"

definition tool_result :: "ToolInvocationRequest \<Rightarrow> ToolResultStatus \<Rightarrow> string \<Rightarrow> pydict \<Rightarrow> ToolInvocationResult" where
  "tool_result request status summary data =
     \<lparr>tr_invocation_id = tir_invocation_id request, tr_tool_name = tir_tool_name request, tr_status = status,
      tr_result_summary = summary, tr_result_data = data, tr_draft_ref = None, tr_outbox_command_id = None,
      tr_error_code = None, tr_error_summary = None, tr_call_id = tir_call_id request\<rparr>"

definition execute_read :: "tool_env \<Rightarrow> ToolInvocationRequest \<Rightarrow> ToolInvocationResult res" where
  "execute_read env request =
     res_bind (dispatch_read_tool env (tir_tool_name request) (tir_arguments request)) (\<lambda>data.
       Inr (tool_result request TR_SUCCESS (''Tool '' @ repr_str (tir_tool_name request) @
         '' completed successfully with '' @ show_int (int (length data)) @ '' result fields.'') data))"

definition execute_draft ::
    "tool_env \<Rightarrow> ToolInvocationRequest \<Rightarrow> PolicyCheckResult \<Rightarrow> ToolInvocationResult" where
  "execute_draft env request policy =
     (let draft_ref = ''draft:'' @ take 8 (te_uid env 0); mode = OperationMode_value (pcr_mode policy) in
      (tool_result request TR_DRAFT_CREATED (''Draft created for '' @ repr_str (tir_tool_name request) @ '' (mode='' @ mode @
          ''). Human review required before execution.'')
        [(''draft_ref'', PStr draft_ref), (''mode'', PStr mode), (''tool_name'', PStr (tir_tool_name request)),
         (''arguments_received'', PList (map (\<lambda>(k, v). PStr k) (tir_arguments request)))])
      \<lparr>tr_draft_ref := Some draft_ref\<rparr>)"

definition execute_with_outbox ::
    "tool_env \<Rightarrow> ToolInvocationRequest \<Rightarrow> PolicyCheckResult \<Rightarrow> tool_world \<Rightarrow> ToolInvocationResult res \<times> tool_world" where
  "execute_with_outbox env request policy w =
     (let command_id = te_uid env 0;
          result = tool_result request TR_SUCCESS (''Tool '' @ repr_str (tir_tool_name request) @ '' queued for execution.'')
            [(''command_id'', PStr command_id), (''mode'', PStr (OperationMode_value (pcr_mode policy)))]
      in if \<not> te_has_outbox env then (Inr result, w)
         else case OutboxService_enqueue_tool_command (te_uid env 1) (te_now env) command_id (tir_tool_name request)
                (tir_arguments request) (te_tenant_id env) (tir_idempotency_key request) (tir_correlation_id request)
                (tw_outbox w) of
           (Inl e, _) \<Rightarrow> (Inl e, w)
         | (Inr _, rows) \<Rightarrow> if te_outbox_fails env then (Inl db_error, w)
             else (Inr (result\<lparr>tr_outbox_command_id := Some command_id\<rparr>), w\<lparr>tw_outbox := rows\<rparr>))"

text \<open>The arguments of \<open>build_followup_schedule_payload\<close>; \<open>int(max_attempts)\<close> is evaluated last.\<close>

definition schedule_args_of :: "tool_env \<Rightarrow> pydict \<Rightarrow> schedule_args res" where
  "schedule_args_of env arguments =
     (let reason = dict_get_or arguments ''reason'' (PStr []);
          iso = dict_get_or arguments ''trigger_at_iso'' (PStr []);
          opted_out = truthy (dict_get_or arguments ''opted_out'' (PBool False)) in
      res_bind (str_attr (dict_get_or arguments ''message'' (PStr []))) (\<lambda>message.
      res_bind (if truthy reason then str_attr reason else Inr []) (\<lambda>reason_text.
      res_bind (if \<not> truthy iso then Inr [] else case iso of PStr s \<Rightarrow> Inr s | _ \<Rightarrow> Inl (TypeError ''fromisoformat'')) (\<lambda>iso_text.
      res_bind (if truthy iso then Inr None
                else res_bind (py_float (te_float_text env) (dict_get_or arguments ''delay_hours'' (PFloat 1 ''1.0'')))
                       (\<lambda>q. Inr (Some (hours_delta q)))) (\<lambda>delay.
      res_bind (if opted_out then Inr 3 else py_int (dict_get_or arguments ''max_attempts'' (PInt 3))) (\<lambda>attempts.
        Inr \<lparr>sa_message = message, sa_reason = reason_text, sa_opted_out = opted_out,
             sa_contact_ref = py_str (dict_get_or arguments ''contact_ref'' (PStr [])), sa_trigger_at_iso = iso_text,
             sa_delay = delay, sa_max_attempts = attempts\<rparr>))))))"

definition execute_follow_up ::
    "tool_env \<Rightarrow> ToolInvocationRequest \<Rightarrow> tool_world \<Rightarrow> ToolInvocationResult res \<times> tool_world" where
  "execute_follow_up env request w =
     (case schedule_args_of env (tir_arguments request) of
        Inl e \<Rightarrow> (Inl e, w)
      | Inr args \<Rightarrow>
          (case build_followup_schedule_payload (te_fromisoformat env) (te_now env) args (te_tenant_id env)
                  (py_str (dict_get_or (tir_arguments request) ''conversation_id'' (PStr [])))
                  (tir_idempotency_key request) (tir_correlation_id request) of
             None \<Rightarrow> (Inr (tool_result request TR_SUCCESS ''Follow-up skipped (opted-out or quiet hours).''
                 [(''status'', PStr ''skipped''), (''skip_reason'', PStr ''opted_out''),
                  (''idempotency_key'', PStr (tir_idempotency_key request))]), w)
           | Some payload \<Rightarrow>
               (let trigger = (case fp_trigger_at payload of Some dt \<Rightarrow> dt_isoformat dt | None \<Rightarrow> ''unknown time'') in
                (Inr (tool_result request TR_SUCCESS (''Follow-up scheduled for '' @ trigger @ ''.'')
                   [(''trigger_at'', PStr trigger), (''message_ref'', PStr (fp_message_ref payload)), (''status'', PStr ''scheduled'')]),
                 if te_has_follow_up_repo env \<and> \<not> te_follow_up_fails env
                 then w\<lparr>tw_follow_ups := snd (FollowUpRepository_enqueue_raw (te_uid env 1) (te_now env) payload (tw_follow_ups w))\<rparr>
                 else w))))"

definition ToolExecutor_execute ::
    "tool_env \<Rightarrow> ToolInvocationRequest \<Rightarrow> AgentToolDefinition \<Rightarrow> PolicyCheckResult \<Rightarrow> tool_world
     \<Rightarrow> ToolInvocationResult res \<times> tool_world" where
  "ToolExecutor_execute env request tool policy w =
     (if tir_tool_name request = ''followup_reengage_conversation'' then execute_follow_up env request w
      else if \<not> atd_is_side_effecting tool then (execute_read env request, w)
      else if pcr_produces_draft policy \<or> pcr_mode policy \<in> {OM_DRAFT_ONLY, OM_SUGGEST_ONLY, OM_DRY_RUN}
      then (Inr (execute_draft env request policy), w)
      else execute_with_outbox env request policy w)"

section \<open>Gateway\<close>

record tool_gateway =
  gw_registry :: AgentToolRegistry
  gw_policy_guard :: ToolPolicyGuard
  gw_executor :: tool_env

definition blocked_result :: "ToolInvocationRequest \<Rightarrow> string \<Rightarrow> string \<Rightarrow> string option \<Rightarrow> ToolInvocationResult" where
  "blocked_result request summary code err =
     (tool_result request TR_POLICY_BLOCKED summary [])\<lparr>tr_error_code := Some code, tr_error_summary := err\<rparr>"

definition AgentToolMcpGateway_invoke ::
    "tool_gateway \<Rightarrow> ToolInvocationRequest \<Rightarrow> tool_world \<Rightarrow> ToolInvocationResult res \<times> tool_world" where
  "AgentToolMcpGateway_invoke gw request w =
     (let name = tir_tool_name request in
      case AgentToolRegistry_get_tool (gw_registry gw) name of
        None \<Rightarrow> (Inr ((tool_result request TR_FAILED (''Tool '' @ repr_str name @ '' is not registered'') [])
            \<lparr>tr_error_code := Some ''TOOL_NOT_FOUND'',
             tr_error_summary := Some (''Tool '' @ repr_str name @ '' is not registered'')\<rparr>), w)
      | Some tool \<Rightarrow>
          if \<not> AgentToolRegistry_is_active (gw_registry gw) name
          then (Inr (blocked_result request (''Tool '' @ repr_str name @ '' is not active'') ''TOOL_INACTIVE'' None), w)
          else (case ToolPolicyGuard_check (gw_policy_guard gw) tool (tir_arguments request) of
              Inl (IaraExc e) \<Rightarrow> (Inr (blocked_result request (''Tool blocked by policy: '' @ iara_code e) (iara_code e)
                  (Some (iara_message e))), w)
            | Inl e \<Rightarrow> (Inl e, w)
            | Inr policy \<Rightarrow>
                if \<not> pcr_approved policy
                then (Inr (blocked_result request (''Tool blocked by policy: '' @ pcr_reason policy) ''POLICY_BLOCKED''
                    (Some (pcr_reason policy))), w)
                else ToolExecutor_execute (gw_executor gw) request tool policy w))"

section \<open>Lemmas\<close>

text \<open>The cases in which the guard approves a real execution.\<close>

definition real_execution :: "ToolPolicyGuard \<Rightarrow> AgentToolDefinition \<Rightarrow> bool" where
  "real_execution guard tool \<longleftrightarrow> atd_is_side_effecting tool \<and>
     (py_startswith (atd_tool_name tool) ''kanban_'' \<and> tpg_kanban_mode guard \<in> {OM_WRITE_CONFIRMED, OM_SANDBOX} \<or>
      py_startswith (atd_tool_name tool) ''campaign_'' \<and> tpg_campaign_mode guard = OM_APPROVED_SEND)"

lemma startswith_disjoint:
  "py_startswith s ''kanban_'' \<Longrightarrow> \<not> py_startswith s ''campaign_''"
  by (cases s) (auto simp: py_startswith_def)

lemma guard_real_execution:
  assumes "ToolPolicyGuard_check guard tool args = Inr policy"
  shows "pcr_approved policy \<and> \<not> pcr_produces_draft policy \<and> atd_is_side_effecting tool \<longleftrightarrow> real_execution guard tool"
    and "pcr_approved policy \<and> \<not> pcr_produces_draft policy \<and> atd_is_side_effecting tool \<Longrightarrow>
      pcr_mode policy \<in> {OM_WRITE_CONFIRMED, OM_SANDBOX, OM_APPROVED_SEND}"
  using assms startswith_disjoint [of "atd_tool_name tool"]
  by (auto simp: ToolPolicyGuard_check_def check_kanban_def check_campaign_def check_high_risk_def real_execution_def
      PolicyCheckResult_allow_def PolicyCheckResult_deny_def Let_def split: if_splits)

lemma enqueue_tool_command_rows:
  assumes "OutboxService_enqueue_tool_command i now c n args t k r rows = (Inr x, rows')" and "rows' \<noteq> rows"
  shows "\<exists>u row. UUID_of t = Inr u \<and> rows' = rows @ [row] \<and> ob_tenant_id row = u \<and> ob_command_id row = c \<and>
    ob_capability_name row = n \<and> ob_parameters row = args \<and> ob_idempotency_key row = k \<and> ob_status row = CS_PENDING"
  using assms
  by (auto simp: OutboxService_enqueue_tool_command_def OutboxRepository_enqueue_def insert_ignore_def outbox_command_def
      split: sum.splits if_splits)

lemma follow_up_outbox: "tw_outbox (snd (execute_follow_up env request w)) = tw_outbox w"
  by (auto simp: execute_follow_up_def Let_def split: sum.splits option.splits)

text \<open>An invocation that reaches the executor.\<close>

lemma invoke_cases:
  assumes "AgentToolMcpGateway_invoke gw request w = (r, w')" and "w' \<noteq> w"
  shows "\<exists>tool policy. AgentToolRegistry_get_tool (gw_registry gw) (tir_tool_name request) = Some tool \<and>
    AgentToolRegistry_is_active (gw_registry gw) (tir_tool_name request) \<and>
    ToolPolicyGuard_check (gw_policy_guard gw) tool (tir_arguments request) = Inr policy \<and> pcr_approved policy \<and>
    ToolExecutor_execute (gw_executor gw) request tool policy w = (r, w')"
  using assms
  by (auto simp: AgentToolMcpGateway_invoke_def Let_def split: option.splits if_splits sum.splits py_exc.splits)

lemma execute_outbox:
  assumes "ToolExecutor_execute env request tool policy w = (r, w')" and "tw_outbox w' \<noteq> tw_outbox w"
  shows "atd_is_side_effecting tool \<and> \<not> pcr_produces_draft policy \<and>
    tir_tool_name request \<noteq> ''followup_reengage_conversation'' \<and> execute_with_outbox env request policy w = (r, w')"
  using assms follow_up_outbox [of env request w]
  by (auto simp: ToolExecutor_execute_def split: if_splits)

lemma execute_with_outbox_row:
  assumes "execute_with_outbox env request policy w = (r, w')" and "tw_outbox w' \<noteq> tw_outbox w"
  shows "\<exists>res u row. r = Inr res \<and> UUID_of (te_tenant_id env) = Inr u \<and> tw_outbox w' = tw_outbox w @ [row] \<and>
    tw_follow_ups w' = tw_follow_ups w \<and> ob_tenant_id row = u \<and> ob_capability_name row = tir_tool_name request \<and>
    ob_parameters row = tir_arguments request \<and> ob_idempotency_key row = tir_idempotency_key request \<and>
    ob_status row = CS_PENDING \<and> tr_status res = TR_SUCCESS \<and> tr_outbox_command_id res = Some (ob_command_id row)"
proof -
  obtain x rows where e: "OutboxService_enqueue_tool_command (te_uid env 1) (te_now env) (te_uid env 0) (tir_tool_name request)
      (tir_arguments request) (te_tenant_id env) (tir_idempotency_key request) (tir_correlation_id request)
      (tw_outbox w) = (Inr x, rows)" and w': "w' = w\<lparr>tw_outbox := rows\<rparr>"
    and r: "\<exists>res. r = Inr res \<and> tr_status res = TR_SUCCESS \<and> tr_outbox_command_id res = Some (te_uid env 0)"
    using assms by (auto simp: execute_with_outbox_def tool_result_def Let_def split: prod.splits sum.splits if_splits)
  from enqueue_tool_command_rows [OF e] assms(2) w' r show ?thesis by fastforce
qed

section \<open>Properties\<close>

text \<open>C8: A tool call writes to the outbox only behind every gate: the tool is registered and active, it
  is a side-effecting kanban tool in a confirmed or sandbox mode or a side-effecting campaign tool in
  the approved-send mode, and it is not the follow-up tool; then exactly one pending command with the
  tool's name, arguments and idempotency key is appended for the executor's tenant and its id is
  returned. Every other tool call leaves the outbox as it was.\<close>

theorem tool_outbox_gated:
  assumes "registry_ok (gw_registry gw)" and "AgentToolMcpGateway_invoke gw request w = (r, w')"
    and "tw_outbox w' \<noteq> tw_outbox w"
  shows "\<exists>tool res u row. AgentToolRegistry_get_tool (gw_registry gw) (tir_tool_name request) = Some tool \<and>
    atd_tool_name tool = tir_tool_name request \<and> atd_status tool = TL_ACTIVE \<and>
    real_execution (gw_policy_guard gw) tool \<and> tir_tool_name request \<noteq> ''followup_reengage_conversation'' \<and>
    r = Inr res \<and> tr_status res = TR_SUCCESS \<and> tr_outbox_command_id res = Some (ob_command_id row) \<and>
    UUID_of (te_tenant_id (gw_executor gw)) = Inr u \<and> tw_outbox w' = tw_outbox w @ [row] \<and> ob_tenant_id row = u \<and>
    ob_capability_name row = tir_tool_name request \<and> ob_parameters row = tir_arguments request \<and>
    ob_idempotency_key row = tir_idempotency_key request \<and> ob_status row = CS_PENDING"
proof -
  from assms(3) have "w' \<noteq> w" by blast
  from invoke_cases [OF assms(2) this] obtain tool policy where
    tool: "AgentToolRegistry_get_tool (gw_registry gw) (tir_tool_name request) = Some tool"
      "AgentToolRegistry_is_active (gw_registry gw) (tir_tool_name request)"
    and policy: "ToolPolicyGuard_check (gw_policy_guard gw) tool (tir_arguments request) = Inr policy" "pcr_approved policy"
    and ex: "ToolExecutor_execute (gw_executor gw) request tool policy w = (r, w')" by blast
  note ex' = execute_outbox [OF ex assms(3)]
  then have "real_execution (gw_policy_guard gw) tool"
    using guard_real_execution(1) [OF policy(1)] policy(2) by blast
  moreover have "atd_status tool = TL_ACTIVE"
    using tool by (simp add: AgentToolRegistry_get_tool_def AgentToolRegistry_is_active_def)
  moreover have "execute_with_outbox (gw_executor gw) request policy w = (r, w')" using ex' by blast
  from execute_with_outbox_row [OF this assms(3)] obtain res u row where
    "r = Inr res" "UUID_of (te_tenant_id (gw_executor gw)) = Inr u" "tw_outbox w' = tw_outbox w @ [row]"
    "ob_tenant_id row = u" "ob_capability_name row = tir_tool_name request" "ob_parameters row = tir_arguments request"
    "ob_idempotency_key row = tir_idempotency_key request" "ob_status row = CS_PENDING" "tr_status res = TR_SUCCESS"
    "tr_outbox_command_id res = Some (ob_command_id row)" by blast
  ultimately show ?thesis using tool(1) ex' get_tool_name [OF assms(1) tool(1)] by blast
qed

definition sample_executor :: "string \<Rightarrow> tool_env" where
  "sample_executor tenant = \<lparr>te_tenant_id = tenant, te_has_outbox = True, te_has_follow_up_repo = True,
     te_check_availability = (\<lambda>_ _ _ _ _. Inr []), te_fromisoformat = (\<lambda>_. None), te_float_text = (\<lambda>_. None),
     te_now = 0, te_uid = (\<lambda>n. if n = 0 then ''c1'' else ''r1''), te_outbox_fails = False, te_follow_up_fails = False\<rparr>"

definition sample_gateway :: "string \<Rightarrow> OperationMode \<Rightarrow> tool_gateway" where
  "sample_gateway tenant mode = \<lparr>gw_registry = AgentToolRegistry_build_default tenant,
     gw_policy_guard = \<lparr>tpg_tenant_id = tenant, tpg_kanban_mode = mode, tpg_campaign_mode = OM_DRAFT_ONLY\<rparr>,
     gw_executor = sample_executor tenant\<rparr>"

definition sample_request :: "string \<Rightarrow> pydict \<Rightarrow> ToolInvocationRequest" where
  "sample_request name args = \<lparr>tir_invocation_id = ''i'', tir_tool_name = name, tir_arguments = args,
     tir_tenant_id = ''t'', tir_conversation_id = ''9'', tir_correlation_id = ''k'', tir_idempotency_key = ''run:1'',
     tir_call_id = ''1''\<rparr>"

lemma sample_uuid_ok: "UUID_of ''00000000-0000-4000-8000-000000000001'' = Inr ''00000000-0000-4000-8000-000000000001''"
  by code_simp

lemma get_tool_default:
  "AgentToolRegistry_get_tool (AgentToolRegistry_build_default t) n = find (\<lambda>d. atd_tool_name d = n) (rev DEFAULT_TOOLS)"
proof -
  have "AgentToolRegistry_get_tool (fold AgentToolRegistry_register tools rg) n =
      (case find (\<lambda>d. atd_tool_name d = n) (rev tools) of Some d \<Rightarrow> Some d | None \<Rightarrow> AgentToolRegistry_get_tool rg n)"
    for tools rg
    by (induction tools arbitrary: rg)
      (auto simp: get_tool_register find_append split: option.splits)
  then show ?thesis
    by (auto simp: AgentToolRegistry_build_default_def AgentToolRegistry_init_def AgentToolRegistry_get_tool_def
        split: option.splits)
qed

lemma kanban_update_tool:
  "\<exists>d. AgentToolRegistry_get_tool (AgentToolRegistry_build_default t) ''kanban_update_status'' = Some d \<and>
     atd_tool_name d = ''kanban_update_status'' \<and> atd_status d = TL_ACTIVE \<and> atd_is_side_effecting d"
  by (simp add: get_tool_default default_tools_defs active_tool_def)

lemma follow_up_tool:
  "\<exists>d. AgentToolRegistry_get_tool (AgentToolRegistry_build_default t) ''followup_reengage_conversation'' = Some d \<and>
     atd_tool_name d = ''followup_reengage_conversation'' \<and> atd_status d = TL_ACTIVE \<and> atd_is_side_effecting d"
  by (simp add: get_tool_default default_tools_defs active_tool_def)

lemma sample_kanban_call:
  "\<exists>w'. AgentToolMcpGateway_invoke (sample_gateway ''00000000-0000-4000-8000-000000000001'' OM_WRITE_CONFIRMED)
      (sample_request ''kanban_update_status'' [(''stage'', PStr ''won'')]) \<lparr>tw_outbox = [], tw_follow_ups = []\<rparr> =
      (Inr (tool_result (sample_request ''kanban_update_status'' [(''stage'', PStr ''won'')]) TR_SUCCESS
        (''Tool '' @ repr_str ''kanban_update_status'' @ '' queued for execution.'')
        [(''command_id'', PStr ''c1''), (''mode'', PStr ''write_confirmed'')]\<lparr>tr_outbox_command_id := Some ''c1''\<rparr>), w') \<and>
     tw_outbox w' \<noteq> []"
proof -
  obtain d where d: "AgentToolRegistry_get_tool (AgentToolRegistry_build_default ''00000000-0000-4000-8000-000000000001'')
      ''kanban_update_status'' = Some d" "atd_tool_name d = ''kanban_update_status''" "atd_status d = TL_ACTIVE"
      "atd_is_side_effecting d" using kanban_update_tool by blast
  then have "AgentToolRegistry_is_active (AgentToolRegistry_build_default ''00000000-0000-4000-8000-000000000001'')
      ''kanban_update_status''" by (simp add: AgentToolRegistry_is_active_def AgentToolRegistry_get_tool_def)
  with d show ?thesis
    by (simp add: AgentToolMcpGateway_invoke_def sample_gateway_def sample_executor_def sample_request_def
        ToolPolicyGuard_check_def py_startswith_def check_kanban_def PolicyCheckResult_allow_def
        ToolExecutor_execute_def execute_with_outbox_def OutboxService_enqueue_tool_command_def sample_uuid_ok
        OutboxRepository_enqueue_def insert_ignore_def tool_result_def Let_def)
qed

theorem tool_outbox_gated_witness:
  "\<exists>row w'. snd (AgentToolMcpGateway_invoke (sample_gateway ''00000000-0000-4000-8000-000000000001'' OM_WRITE_CONFIRMED)
      (sample_request ''kanban_update_status'' [(''stage'', PStr ''won'')]) \<lparr>tw_outbox = [], tw_follow_ups = []\<rparr>) = w' \<and>
     tw_outbox w' = [row] \<and> ob_capability_name row = ''kanban_update_status''"
proof -
  obtain r w' where c: "AgentToolMcpGateway_invoke (sample_gateway ''00000000-0000-4000-8000-000000000001'' OM_WRITE_CONFIRMED)
      (sample_request ''kanban_update_status'' [(''stage'', PStr ''won'')]) \<lparr>tw_outbox = [], tw_follow_ups = []\<rparr> = (r, w')"
    and n: "tw_outbox w' \<noteq> []" using sample_kanban_call by blast
  have "registry_ok (gw_registry (sample_gateway ''00000000-0000-4000-8000-000000000001'' OM_WRITE_CONFIRMED))"
    by (simp add: sample_gateway_def registry_ok_default)
  from tool_outbox_gated [OF this c] n c show ?thesis by (auto simp: sample_request_def)
qed

text \<open>An executor whose tenant id is no UUID persists nothing.\<close>

lemma invoke_without_uuid:
  assumes "te_tenant_id (gw_executor gw) = ''__production__''"
  shows "snd (AgentToolMcpGateway_invoke gw request w) = w"
proof (rule ccontr)
  have "py_UUID ''__production__'' = None" by code_simp
  then have u: "\<exists>e. UUID_of ''__production__'' = Inl e" by (simp add: UUID_of_def)
  have fu: "snd (execute_follow_up (gw_executor gw) request w) = w"
    using u assms
    by (auto simp: execute_follow_up_def build_followup_schedule_payload_def FollowUpRepository_enqueue_raw_def Let_def
        split: sum.splits if_splits)
  have ob: "snd (execute_with_outbox (gw_executor gw) request policy w) = w" for policy
    using u assms by (auto simp: execute_with_outbox_def OutboxService_enqueue_tool_command_def Let_def)
  assume "snd (AgentToolMcpGateway_invoke gw request w) \<noteq> w"
  from invoke_cases [OF prod.collapse [symmetric] this] obtain tool policy where
    "ToolExecutor_execute (gw_executor gw) request tool policy w = AgentToolMcpGateway_invoke gw request w" by auto
  moreover have "snd (ToolExecutor_execute (gw_executor gw) request tool policy w) = w"
    using fu ob by (simp add: ToolExecutor_execute_def)
  ultimately show False using \<open>snd (AgentToolMcpGateway_invoke gw request w) \<noteq> w\<close> by simp
qed

text \<open>The production wiring gives the executor the tenant \<open>__production__\<close>, which is no UUID: no tool
  call of any gateway with that executor ever writes to the outbox or to the follow-up queue. A
  follow-up whose arguments are well formed and that is not opted out is nevertheless reported as
  scheduled.\<close>

theorem production_tools_no_effect:
  assumes "te_tenant_id (gw_executor gw) = ''__production__''"
  shows "snd (AgentToolMcpGateway_invoke gw request w) = w \<and>
    (\<forall>tool policy args. tir_tool_name request = ''followup_reengage_conversation'' \<longrightarrow>
       AgentToolRegistry_get_tool (gw_registry gw) (tir_tool_name request) = Some tool \<longrightarrow>
       AgentToolRegistry_is_active (gw_registry gw) (tir_tool_name request) \<longrightarrow>
       ToolPolicyGuard_check (gw_policy_guard gw) tool (tir_arguments request) = Inr policy \<longrightarrow> pcr_approved policy \<longrightarrow>
       schedule_args_of (gw_executor gw) (tir_arguments request) = Inr args \<longrightarrow> \<not> sa_opted_out args \<longrightarrow>
       (\<exists>res. fst (AgentToolMcpGateway_invoke gw request w) = Inr res \<and> tr_status res = TR_SUCCESS \<and>
          map_of (tr_result_data res) ''status'' = Some (PStr ''scheduled'')))"
proof -
  have "snd (AgentToolMcpGateway_invoke gw request w) = w" by (rule invoke_without_uuid [OF assms])
  moreover have "\<exists>res. fst (AgentToolMcpGateway_invoke gw request w) = Inr res \<and> tr_status res = TR_SUCCESS \<and>
      map_of (tr_result_data res) ''status'' = Some (PStr ''scheduled'')"
    if "tir_tool_name request = ''followup_reengage_conversation''"
      "AgentToolRegistry_get_tool (gw_registry gw) (tir_tool_name request) = Some tool"
      "AgentToolRegistry_is_active (gw_registry gw) (tir_tool_name request)"
      "ToolPolicyGuard_check (gw_policy_guard gw) tool (tir_arguments request) = Inr policy" "pcr_approved policy"
      "schedule_args_of (gw_executor gw) (tir_arguments request) = Inr args" "\<not> sa_opted_out args" for tool policy args
    using that
    by (simp add: AgentToolMcpGateway_invoke_def ToolExecutor_execute_def execute_follow_up_def
        build_followup_schedule_payload_def tool_result_def Let_def)
  ultimately show ?thesis by blast
qed

theorem production_tools_no_effect_witness:
  "snd (AgentToolMcpGateway_invoke (sample_gateway ''__production__'' OM_WRITE_CONFIRMED)
     (sample_request ''kanban_update_status'' [(''stage'', PStr ''won'')]) \<lparr>tw_outbox = [], tw_follow_ups = []\<rparr>) =
     \<lparr>tw_outbox = [], tw_follow_ups = []\<rparr>"
  using production_tools_no_effect [of "sample_gateway ''__production__'' OM_WRITE_CONFIRMED"
      "sample_request ''kanban_update_status'' [(''stage'', PStr ''won'')]" "\<lparr>tw_outbox = [], tw_follow_ups = []\<rparr>"]
  by (simp add: sample_gateway_def sample_executor_def)

end
