(* ===== verification/Scheduling.thy ===== *)
theory Scheduling
  imports Drainer Tools
begin

text \<open>
  The scheduling providers (\<open>provider/scheduling/\<close>): free slots of a calendar, the adapters that read
  availability, the adapters that write appointments, and the factory that chooses them. The HTTP transport, the environment variables, the parsers of JSON and of ISO
  timestamps and the signing of the token request are arguments. A parsed timestamp is its reading in
  microseconds and its offset, \<open>None\<close> for a naive one; comparing a naive with an aware one raises.
\<close>

section \<open>Timestamps\<close>

type_synonym moment = "int \<times> int option"
type_synonym iso_parser = "string \<Rightarrow> moment option"

lemma res_bind_cong [fundef_cong]:
  "m = m' \<Longrightarrow> (\<And>x. m' = Inr x \<Longrightarrow> f x = g x) \<Longrightarrow> res_bind m f = res_bind m' g"
  by (cases m') auto

definition moment_key :: "moment \<Rightarrow> int" where
  "moment_key m = fst m - (case snd m of None \<Rightarrow> 0 | Some off \<Rightarrow> off)"

definition same_kind :: "moment \<Rightarrow> moment \<Rightarrow> bool" where
  "same_kind a b = ((snd a = None) = (snd b = None))"

definition moment_less :: "moment \<Rightarrow> moment \<Rightarrow> bool res" where
  "moment_less a b = (if same_kind a b then Inr (moment_key a < moment_key b)
     else Inl (TypeError ''offset-naive and offset-aware datetimes''))"

definition moment_le :: "moment \<Rightarrow> moment \<Rightarrow> bool res" where
  "moment_le a b = (if same_kind a b then Inr (moment_key a \<le> moment_key b)
     else Inl (TypeError ''offset-naive and offset-aware datetimes''))"

text \<open>\<open>datetime + timedelta\<close> stays between the years 1 and 9999.\<close>

definition moment_add :: "moment \<Rightarrow> int \<Rightarrow> moment res" where
  "moment_add m d = (let r = fst m + d in
     if - 719162 * day \<le> r \<and> r < 2932897 * day then Inr (r, snd m) else Inl (OtherExc ''OverflowError''))"

definition moment_isoformat :: "moment \<Rightarrow> string" where
  "moment_isoformat m = (case snd m of
       None \<Rightarrow> (let s = isoformat (fst m) in take (length s - 6) s)
     | Some off \<Rightarrow> dt_isoformat \<lparr>dt_local = fst m, dt_offset = off\<rparr>)"

definition parse_moment :: "iso_parser \<Rightarrow> pyval \<Rightarrow> moment res" where
  "parse_moment parse v = (case v of
       PStr s \<Rightarrow> (case parse (py_replace ''Z'' ''+00:00'' s) of None \<Rightarrow> Inl (ValueError ''Invalid isoformat string'') | Some m \<Rightarrow> Inr m)
     | _ \<Rightarrow> Inl (AttributeError ''replace''))"

definition iter_values :: "pyval \<Rightarrow> pyval list res" where
  "iter_values v = (case v of PList xs \<Rightarrow> Inr xs | PDict d \<Rightarrow> Inr (map (\<lambda>(k, _). PStr k) d)
     | PStr s \<Rightarrow> Inr (map (\<lambda>c. PStr [c]) s) | _ \<Rightarrow> Inl (TypeError ''not iterable''))"

definition item_of :: "pyval \<Rightarrow> string \<Rightarrow> pyval res" where
  "item_of v k = (case v of PDict d \<Rightarrow> (case map_of d k of None \<Rightarrow> Inl (KeyError k) | Some x \<Rightarrow> Inr x)
     | _ \<Rightarrow> Inl (TypeError ''indices''))"

definition has_item :: "string \<Rightarrow> pyval \<Rightarrow> bool res" where
  "has_item k v = (case v of PDict d \<Rightarrow> Inr (k \<in> fst ` set d) | PList xs \<Rightarrow> Inr (PStr k \<in> set xs)
     | PStr s \<Rightarrow> Inr (py_contains k s) | _ \<Rightarrow> Inl (TypeError ''not iterable''))"

section \<open>Free slots\<close>

abbreviation slot_step :: int where
  "slot_step \<equiv> 30 * 60 * second"

type_synonym busy_periods = "(moment \<times> moment) list"

definition period_of :: "iso_parser \<Rightarrow> pyval \<Rightarrow> (moment \<times> moment) res" where
  "period_of parse p = res_bind (item_of p ''start'') (\<lambda>s. res_bind (parse_moment parse s) (\<lambda>bs.
     res_bind (item_of p ''end'') (\<lambda>e. res_bind (parse_moment parse e) (\<lambda>be. Inr (bs, be)))))"

text \<open>Periods without a field or with a malformed timestamp are skipped.\<close>

fun known_periods :: "iso_parser \<Rightarrow> pyval list \<Rightarrow> busy_periods res" where
  "known_periods parse [] = Inr []"
| "known_periods parse (p # ps) = (case period_of parse p of
       Inr b \<Rightarrow> res_bind (known_periods parse ps) (\<lambda>bs. Inr (b # bs))
     | Inl (KeyError _) \<Rightarrow> known_periods parse ps
     | Inl (ValueError _) \<Rightarrow> known_periods parse ps
     | Inl e \<Rightarrow> Inl e)"

fun any_overlap :: "moment \<Rightarrow> moment \<Rightarrow> busy_periods \<Rightarrow> bool res" where
  "any_overlap cursor slot_end [] = Inr False"
| "any_overlap cursor slot_end ((bs, be) # busy) = res_bind (moment_less bs slot_end) (\<lambda>before.
     if before then res_bind (moment_less cursor be) (\<lambda>after. if after then Inr True else any_overlap cursor slot_end busy)
     else any_overlap cursor slot_end busy)"

lemma moment_add_key: "moment_add m d = Inr m' \<Longrightarrow> moment_key m' = moment_key m + d \<and> snd m' = snd m"
  by (auto simp: moment_add_def moment_key_def Let_def split: if_splits)

function free_loop :: "busy_periods \<Rightarrow> moment \<Rightarrow> int \<Rightarrow> moment \<Rightarrow> int res" where
  "free_loop busy until free_count cursor =
     res_bind (moment_add cursor slot_step) (\<lambda>slot_end.
     res_bind (moment_le slot_end until) (\<lambda>more.
     if \<not> more then Inr free_count
     else res_bind (any_overlap cursor slot_end busy) (\<lambda>taken.
          free_loop busy until (if taken then free_count else free_count + 1) slot_end)))"
  by pat_completeness auto
termination
  by (relation "measure (\<lambda>(busy, until, free_count, cursor). nat (moment_key until - moment_key cursor))")
    (auto dest!: moment_add_key simp: moment_le_def split: if_splits)

declare free_loop.simps [simp del]

definition count_free_slots :: "iso_parser \<Rightarrow> pyval \<Rightarrow> pyval \<Rightarrow> pyval \<Rightarrow> int res" where
  "count_free_slots parse range_start range_end periods =
     (case res_bind (parse_moment parse range_start) (\<lambda>s. res_bind (parse_moment parse range_end) (\<lambda>e. Inr (s, e))) of
        Inl (ValueError _) \<Rightarrow> Inr 0
      | Inl e \<Rightarrow> Inl e
      | Inr (start, until) \<Rightarrow> res_bind (iter_values periods) (\<lambda>ps.
          res_bind (known_periods parse ps) (\<lambda>busy. free_loop busy until 0 start)))"

fun listed_periods :: "iso_parser \<Rightarrow> pyval list \<Rightarrow> busy_periods res" where
  "listed_periods parse [] = Inr []"
| "listed_periods parse (p # ps) =
     res_bind (has_item ''start'' p) (\<lambda>a. res_bind (if a then has_item ''end'' p else Inr False) (\<lambda>b.
     if b then res_bind (period_of parse p) (\<lambda>x. res_bind (listed_periods parse ps) (\<lambda>xs. Inr (x # xs)))
     else listed_periods parse ps))"

text \<open>\<open>sorted\<close> by start compares every element with another one: naive and aware starts do not mix.\<close>

definition sorted_periods :: "busy_periods \<Rightarrow> busy_periods res" where
  "sorted_periods busy = (if \<forall>a\<in>set busy. \<forall>b\<in>set busy. same_kind (fst a) (fst b)
     then Inr (sort_key (\<lambda>p. moment_key (fst p)) busy) else Inl (TypeError ''offset-naive and offset-aware datetimes''))"

fun next_free :: "moment \<Rightarrow> busy_periods \<Rightarrow> moment res" where
  "next_free cursor [] = Inr cursor"
| "next_free cursor ((bs, be) # busy) =
     res_bind (moment_add cursor slot_step) (\<lambda>slot_end.
     res_bind (moment_le slot_end bs) (\<lambda>free.
     if free then Inr cursor
     else res_bind (moment_less cursor be) (\<lambda>inside. next_free (if inside then be else cursor) busy)))"

definition find_next_free_start :: "iso_parser \<Rightarrow> pyval \<Rightarrow> pyval \<Rightarrow> string option res" where
  "find_next_free_start parse range_start periods =
     (case parse_moment parse range_start of
        Inl (ValueError _) \<Rightarrow> Inr None
      | Inl e \<Rightarrow> Inl e
      | Inr cursor \<Rightarrow> res_bind (iter_values periods) (\<lambda>ps. res_bind (listed_periods parse ps) (\<lambda>busy.
          res_bind (sorted_periods busy) (\<lambda>busy. res_bind (next_free cursor busy) (\<lambda>m. Inr (Some (moment_isoformat m)))))))"

section \<open>Reading availability\<close>

record http_request =
  hr_method :: string
  hr_url :: string
  hr_auth :: string
  hr_body :: pydict

type_synonym sched_net = "http_request list \<Rightarrow> http_request \<Rightarrow> net_reply"

text \<open>\<open>raise_for_status\<close> and \<open>json\<close> of a response.\<close>

definition checked_json :: "net_reply \<Rightarrow> pyval res" where
  "checked_json reply = (case reply of Net_raise e \<Rightarrow> Inl e
     | Net_reply status _ body \<Rightarrow>
         if 200 \<le> status \<and> status \<le> 299
         then (case body of None \<Rightarrow> Inl (OtherExc ''JSONDecodeError'') | Some v \<Rightarrow> Inr v)
         else Inl (HTTPStatusError status))"

definition availability_result :: "int \<Rightarrow> pyval \<Rightarrow> pyval \<Rightarrow> string \<Rightarrow> bool \<Rightarrow> string option \<Rightarrow> pydict" where
  "availability_result slot_count next_slot service_type provider_name is_configured error =
     [(''available_slots_count'', PInt slot_count), (''next_available_slot'', next_slot), (''service_type'', service_type),
      (''provider'', PStr provider_name), (''configured'', PBool is_configured)] @
     (case error of None \<Rightarrow> [] | Some e \<Rightarrow> [(''error'', PStr e)])"

text \<open>\<open>tenant_id[:8]\<close> in the log calls.\<close>

definition tenant_prefix :: "pyval \<Rightarrow> unit res" where
  "tenant_prefix v = (case v of PStr _ \<Rightarrow> Inr () | PList _ \<Rightarrow> Inr () | PDict _ \<Rightarrow> Inl (KeyError ''slice'')
     | _ \<Rightarrow> Inl (TypeError ''not subscriptable''))"

definition NullSchedulingAdapter_check_availability :: "pyval \<Rightarrow> pyval \<Rightarrow> pyval \<Rightarrow> pyval \<Rightarrow> pyval \<Rightarrow> pydict res" where
  "NullSchedulingAdapter_check_availability tenant_id date_range_start date_range_end service_type calendar_id =
     Inr (availability_result 0 PNone service_type ''null'' False None @ [(''message'', PStr (
       ''Servi'' @ [CHR 0xE7] @ ''o de agendamento n'' @ [CHR 0xE3] @ ''o est'' @ [CHR 0xE1] @ '' configurado. '' @
       ''Entre em contato com a equipe de suporte para verificar disponibilidade.''))])"

subsection \<open>Google Calendar\<close>

definition GOOGLE_TOKEN_URL :: string where
  "GOOGLE_TOKEN_URL = ''https://oauth2.googleapis.com/token''"

definition FREEBUSY_URL :: string where
  "FREEBUSY_URL = ''https://www.googleapis.com/calendar/v3/freeBusy''"

definition SCOPE :: string where
  "SCOPE = ''https://www.googleapis.com/auth/calendar.readonly''"

record GoogleCalendarAdapter =
  ga_sa :: pyval
  ga_token_cache :: "(pyval \<times> rat) option"
  ga_log :: "http_request list"

text \<open>
  The transport, the clock of \<open>_get_access_token\<close> in seconds, the one of \<open>_fetch_token\<close>, the encoding
  and signing of a token request from header, claims and private key, and the ISO parser.
\<close>

record calendar_env =
  ce_net :: sched_net
  ce_now :: rat
  ce_iat :: int
  ce_sign :: "pydict \<Rightarrow> pydict \<Rightarrow> pyval \<Rightarrow> string res"
  ce_parse :: iso_parser

definition GoogleCalendarAdapter_init :: "pyval \<Rightarrow> GoogleCalendarAdapter" where
  "GoogleCalendarAdapter_init service_account_json = \<lparr>ga_sa = service_account_json, ga_token_cache = None, ga_log = []\<rparr>"

definition GoogleCalendarAdapter_is_configured :: "GoogleCalendarAdapter \<Rightarrow> bool res" where
  "GoogleCalendarAdapter_is_configured ga = res_bind (as_dict (ga_sa ga)) (\<lambda>sa.
     Inr (truthy (dict_get sa ''private_key'') \<and> truthy (dict_get sa ''client_email'')))"

definition token_claims :: "pyval \<Rightarrow> int \<Rightarrow> pydict" where
  "token_claims email now = [(''iss'', email), (''sub'', email), (''aud'', PStr GOOGLE_TOKEN_URL), (''scope'', PStr SCOPE),
     (''iat'', PInt now), (''exp'', PInt (now + 3600))]"

text \<open>\<open>dict(v)\<close> of a decoded body; a list of pairs is not treated.\<close>

definition dict_of :: "pyval \<Rightarrow> pydict res" where
  "dict_of v = (case v of PDict d \<Rightarrow> Inr d | PList [] \<Rightarrow> Inr [] | PStr [] \<Rightarrow> Inr []
     | PStr _ \<Rightarrow> Inl (ValueError ''dictionary update sequence'') | _ \<Rightarrow> Inl (TypeError ''not iterable''))"

definition GoogleCalendarAdapter_fetch_token :: "calendar_env \<Rightarrow> GoogleCalendarAdapter \<Rightarrow> pydict res \<times> GoogleCalendarAdapter" where
  "GoogleCalendarAdapter_fetch_token env ga =
     (case res_bind (item_of (ga_sa ga) ''client_email'') (\<lambda>email. res_bind (item_of (ga_sa ga) ''private_key'') (\<lambda>key.
             ce_sign env [(''alg'', PStr ''RS256''), (''typ'', PStr ''JWT'')] (token_claims email (ce_iat env)) key)) of
        Inl e \<Rightarrow> (Inl e, ga)
      | Inr jwt_token \<Rightarrow>
          (let req = \<lparr>hr_method = ''POST'', hr_url = GOOGLE_TOKEN_URL, hr_auth = [],
                 hr_body = [(''grant_type'', PStr ''urn:ietf:params:oauth:grant-type:jwt-bearer''), (''assertion'', PStr jwt_token)]\<rparr>
           in (res_bind (checked_json (ce_net env (ga_log ga) req)) dict_of, ga\<lparr>ga_log := ga_log ga @ [req]\<rparr>)))"

definition number_of :: "pyval \<Rightarrow> rat res" where
  "number_of v = (case v of PInt i \<Rightarrow> Inr (of_int i) | PBool b \<Rightarrow> Inr (if b then 1 else 0) | PFloat q _ \<Rightarrow> Inr q
     | _ \<Rightarrow> Inl (TypeError ''unsupported operand''))"

definition GoogleCalendarAdapter_get_access_token :: "calendar_env \<Rightarrow> GoogleCalendarAdapter \<Rightarrow> pyval res \<times> GoogleCalendarAdapter" where
  "GoogleCalendarAdapter_get_access_token env ga =
     (let fresh = (case GoogleCalendarAdapter_fetch_token env ga of
            (Inl e, ga') \<Rightarrow> (Inl e, ga')
          | (Inr token, ga') \<Rightarrow>
              (case res_bind (item_of (PDict token) ''access_token'') (\<lambda>access.
                      res_bind (number_of (dict_get_or token ''expires_in'' (PInt 3600))) (\<lambda>secs. Inr (access, ce_now env + secs))) of
                 Inl e \<Rightarrow> (Inl e, ga')
               | Inr cache \<Rightarrow> (Inr (fst cache), ga'\<lparr>ga_token_cache := Some cache\<rparr>)))
      in case ga_token_cache ga of
           Some (token, expiry) \<Rightarrow> if expiry > ce_now env + 60 then (Inr token, ga) else fresh
         | None \<Rightarrow> fresh)"

text \<open>\<open>d.get(key, {})\<close> for a key that need not be text.\<close>

definition get_dict_at :: "pydict \<Rightarrow> pyval \<Rightarrow> pyval res" where
  "get_dict_at d key = (case key of PStr k \<Rightarrow> Inr (dict_get_or d k (PDict []))
     | PList _ \<Rightarrow> Inl (TypeError ''unhashable'') | PDict _ \<Rightarrow> Inl (TypeError ''unhashable'') | _ \<Rightarrow> Inr (PDict []))"

definition busy_of :: "pyval \<Rightarrow> pyval \<Rightarrow> pyval res" where
  "busy_of data calendar_id = res_bind (as_dict data) (\<lambda>d. res_bind (as_dict (dict_get_or d ''calendars'' (PDict []))) (\<lambda>cs.
     res_bind (get_dict_at cs calendar_id) (\<lambda>c. res_bind (as_dict c) (\<lambda>cal. Inr (dict_get_or cal ''busy'' (PList []))))))"

definition freebusy_request :: "pyval \<Rightarrow> pyval \<Rightarrow> pyval \<Rightarrow> pyval \<Rightarrow> http_request" where
  "freebusy_request access_token date_range_start date_range_end calendar_id =
     \<lparr>hr_method = ''POST'', hr_url = FREEBUSY_URL, hr_auth = ''Bearer '' @ py_str access_token,
      hr_body = [(''timeMin'', date_range_start), (''timeMax'', date_range_end), (''items'', PList [PDict [(''id'', calendar_id)]])]\<rparr>"

definition GoogleCalendarAdapter_check_availability ::
    "calendar_env \<Rightarrow> pyval \<Rightarrow> pyval \<Rightarrow> pyval \<Rightarrow> pyval \<Rightarrow> pyval \<Rightarrow> GoogleCalendarAdapter \<Rightarrow> pydict res \<times> GoogleCalendarAdapter" where
  "GoogleCalendarAdapter_check_availability env tenant_id date_range_start date_range_end service_type calendar_id ga =
     (case GoogleCalendarAdapter_is_configured ga of
        Inl e \<Rightarrow> (Inl e, ga)
      | Inr False \<Rightarrow> (Inr (availability_result 0 PNone service_type ''google_calendar'' False (Some ''service_account_missing'')), ga)
      | Inr True \<Rightarrow>
          (let (answer, ga') = (case GoogleCalendarAdapter_get_access_token env ga of
                 (Inl e, ga') \<Rightarrow> (Inl e, ga')
               | (Inr access_token, ga') \<Rightarrow>
                   (let req = freebusy_request access_token date_range_start date_range_end calendar_id
                    in (res_bind (checked_json (ce_net env (ga_log ga') req)) (\<lambda>data.
                        res_bind (busy_of data calendar_id) (\<lambda>busy_periods.
                        res_bind (count_free_slots (ce_parse env) date_range_start date_range_end busy_periods) (\<lambda>slot_count.
                        res_bind (find_next_free_start (ce_parse env) date_range_start busy_periods) (\<lambda>next_slot.
                        res_bind (tenant_prefix tenant_id) (\<lambda>_.
                          Inr (availability_result slot_count (case next_slot of None \<Rightarrow> PNone | Some s \<Rightarrow> PStr s)
                                 service_type ''google_calendar'' True None)))))),
                        ga'\<lparr>ga_log := ga_log ga' @ [req]\<rparr>)))
           in case answer of
                Inr r \<Rightarrow> (Inr r, ga')
              | Inl e \<Rightarrow> (res_bind (tenant_prefix tenant_id) (\<lambda>_.
                  Inr (availability_result 0 PNone service_type ''google_calendar'' True (Some (exc_name e)))), ga')))"

subsection \<open>Clinicorp\<close>

definition AVAILABILITY_PATH :: string where
  "AVAILABILITY_PATH = ''/v1/appointments/availability''"

record ClinicorpAdapter =
  ca_base_url :: string
  ca_api_key :: string
  ca_log :: "http_request list"

definition ClinicorpAdapter_init :: "string \<Rightarrow> string \<Rightarrow> ClinicorpAdapter" where
  "ClinicorpAdapter_init base_url api_key = \<lparr>ca_base_url = rstrip_slash base_url, ca_api_key = api_key, ca_log = []\<rparr>"

definition unresolved :: "string \<Rightarrow> bool" where
  "unresolved credential = py_startswith credential ''secret://''"

definition ClinicorpAdapter_is_configured :: "ClinicorpAdapter \<Rightarrow> bool" where
  "ClinicorpAdapter_is_configured ca = (ca_api_key ca \<noteq> [] \<and> \<not> unresolved (ca_api_key ca))"

definition availability_request :: "ClinicorpAdapter \<Rightarrow> pyval \<Rightarrow> pyval \<Rightarrow> pyval \<Rightarrow> pyval \<Rightarrow> http_request" where
  "availability_request ca date_range_start date_range_end service_type calendar_id =
     \<lparr>hr_method = ''GET'', hr_url = ca_base_url ca @ AVAILABILITY_PATH, hr_auth = ''Bearer '' @ ca_api_key ca,
      hr_body = [(''start_date'', date_range_start), (''end_date'', date_range_end), (''service_type'', service_type),
        (''resource_id'', calendar_id), (''limit'', PInt 50)]\<rparr>"

text \<open>The number of slots of a reply and the start of the first one.\<close>

definition slots_of :: "pyval \<Rightarrow> (int \<times> pyval) res" where
  "slots_of data = res_bind (as_dict data) (\<lambda>d.
     case py_or (py_or (dict_get d ''slots'') (dict_get d ''available_slots'')) (PList []) of
       PList [] \<Rightarrow> Inr (0, PNone)
     | PList (s # ss) \<Rightarrow> res_bind (as_dict s) (\<lambda>slot. Inr (int (length (s # ss)), dict_get slot ''start''))
     | PStr _ \<Rightarrow> Inl (AttributeError ''get'')
     | PDict _ \<Rightarrow> Inl (KeyError ''0'')
     | _ \<Rightarrow> Inl (TypeError ''len''))"

definition ClinicorpAdapter_check_availability ::
    "sched_net \<Rightarrow> pyval \<Rightarrow> pyval \<Rightarrow> pyval \<Rightarrow> pyval \<Rightarrow> pyval \<Rightarrow> ClinicorpAdapter \<Rightarrow> pydict res \<times> ClinicorpAdapter" where
  "ClinicorpAdapter_check_availability net tenant_id date_range_start date_range_end service_type calendar_id ca =
     (if \<not> ClinicorpAdapter_is_configured ca
      then (Inr (availability_result 0 PNone service_type ''clinicorp'' False (Some ''api_key_missing'')), ca)
      else
        (let req = availability_request ca date_range_start date_range_end service_type calendar_id;
             answer = res_bind (checked_json (net (ca_log ca) req)) (\<lambda>data. res_bind (slots_of data) (\<lambda>slots.
               res_bind (tenant_prefix tenant_id) (\<lambda>_. Inr (availability_result (fst slots) (snd slots) service_type ''clinicorp'' True None))))
         in (case answer of
               Inr r \<Rightarrow> Inr r
             | Inl e \<Rightarrow> res_bind (tenant_prefix tenant_id) (\<lambda>_.
                 Inr (availability_result 0 PNone service_type ''clinicorp'' True (Some (exc_name e)))),
             ca\<lparr>ca_log := ca_log ca @ [req]\<rparr>)))"

section \<open>Writing appointments\<close>

type_synonym os_environ = "string \<Rightarrow> string option"

text \<open>\<open>str.upper\<close>; the letters whose capital is no Latin-1 character stay as they are.\<close>

definition upper_char :: "char \<Rightarrow> string" where
  "upper_char c = (let n = (of_char c :: nat) in
     if n = 223 then ''SS''
     else if (97 \<le> n \<and> n \<le> 122) \<or> (224 \<le> n \<and> n \<le> 254 \<and> n \<noteq> 247) then [char_of (n - 32)] else [c])"

definition env_key :: "string \<Rightarrow> string" where
  "env_key credential_ref = concat (map upper_char (py_replace ''/'' ''_'' (drop (length ''secret://'') credential_ref)))"

fun first_set :: "os_environ \<Rightarrow> string list \<Rightarrow> string option" where
  "first_set environ [] = None"
| "first_set environ (k # ks) = (case environ k of Some v \<Rightarrow> if v \<noteq> [] then Some v else first_set environ ks
     | None \<Rightarrow> first_set environ ks)"

definition write_credential :: "string list \<Rightarrow> os_environ \<Rightarrow> string \<Rightarrow> string" where
  "write_credential fallbacks environ credential_ref =
     (if \<not> unresolved credential_ref then credential_ref
      else case first_set environ (env_key credential_ref # fallbacks) of Some v \<Rightarrow> v | None \<Rightarrow> credential_ref)"

definition gcal_resolve_credential :: "os_environ \<Rightarrow> string \<Rightarrow> string" where
  "gcal_resolve_credential = write_credential [''GOOGLE_CALENDAR_CREDENTIALS'', ''GOOGLE_SERVICE_ACCOUNT_JSON'']"

definition clinicorp_resolve_credential :: "os_environ \<Rightarrow> string \<Rightarrow> string" where
  "clinicorp_resolve_credential = write_credential [''CLINICORP_API_KEY'', ''CLINICORP_TOKEN'']"

text \<open>The client of a write adapter keeps the credential it was created with; \<open>wa_log\<close> are the requests made.\<close>

record writer_state =
  wa_client :: "string option"
  wa_log :: "http_request list"

definition with_client :: "string \<Rightarrow> writer_state \<Rightarrow> writer_state" where
  "with_client auth st = (case wa_client st of None \<Rightarrow> st\<lparr>wa_client := Some auth\<rparr> | Some _ \<Rightarrow> st)"

definition client_auth :: "writer_state \<Rightarrow> string" where
  "client_auth st = (case wa_client st of None \<Rightarrow> [] | Some a \<Rightarrow> a)"

text \<open>The request loop of both adapters; \<open>label\<close> is the provider in the messages.\<close>

fun api_loop :: "string \<Rightarrow> string \<Rightarrow> sched_net \<Rightarrow> http_request \<Rightarrow> nat \<Rightarrow> writer_state \<Rightarrow> pyval res \<times> writer_state" where
  "api_loop label provider net req 0 st =
     (raise_iara (ProviderError (label @ '' API: all retries exhausted'') (Some provider) None), st)"
| "api_loop label provider net req (Suc n) st =
     (let st' = st\<lparr>wa_log := wa_log st @ [req]\<rparr> in
      case net (wa_log st) req of
        Net_raise e \<Rightarrow>
          if e \<in> {TimeoutException, ConnectError} then api_loop label provider net req n st'
          else (case e of IaraExc (ProviderError m p c) \<Rightarrow> (Inl e, st')
             | _ \<Rightarrow> (raise_iara (ProviderError (label @ '' unexpected error: '' @ exc_name e) (Some provider) None), st'))
      | Net_reply status _ body \<Rightarrow>
          if status \<in> set RETRYABLE_STATUS_CODES then api_loop label provider net req n st'
          else if status \<ge> 400
          then (raise_iara (ProviderError (label @ '' API error '' @ show_int status) (Some provider) (Some status)), st')
          else (Inr (case body of Some v \<Rightarrow> v | None \<Rightarrow> PDict [(''status'', PStr ''ok'')]), st'))"

definition written :: "string \<Rightarrow> ProviderCommand \<Rightarrow> pyval \<Rightarrow> ProviderMutationResult" where
  "written prefix command result_data = \<lparr>pmr_command_id = cmd_command_id command,
     pmr_idempotency_key = cmd_idempotency_key command, pmr_success = True, pmr_readback_confirmed = True,
     pmr_result_ref = Some (prefix @ take 16 (sha256_hex (py_str result_data))), pmr_error_code = None, pmr_error_summary = None\<rparr>"

definition tenant_mismatch :: "ProviderCommand \<Rightarrow> ProviderSecurityContext \<Rightarrow> string" where
  "tenant_mismatch command sc = ''Scheduling command tenant '' @ cmd_tenant_id command @
     '' does not match security context '' @ psc_tenant_id sc"

subsection \<open>Google Calendar\<close>

record GoogleCalendarWriteAdapter =
  gw_credentials_ref :: string
  gw_calendar_id :: string
  gw_max_retries :: nat

definition GoogleCalendarWriteAdapter_init :: "string \<Rightarrow> string \<Rightarrow> nat \<Rightarrow> GoogleCalendarWriteAdapter" where
  "GoogleCalendarWriteAdapter_init credentials_ref calendar_id max_retries =
     \<lparr>gw_credentials_ref = credentials_ref, gw_calendar_id = calendar_id, gw_max_retries = max 1 max_retries\<rparr>"

definition gcal_CAPABILITY_MAP :: "(string \<times> string) list" where
  "gcal_CAPABILITY_MAP = [(''schedule_appointment'', ''events.insert''), (''cancel_appointment'', ''events.delete''),
     (''reschedule_appointment'', ''events.patch'')]"

definition ical_uid :: "string \<Rightarrow> string" where
  "ical_uid command_id = take 32 (sha256_hex command_id)"

definition gcal_build_payload :: "string \<Rightarrow> pydict \<Rightarrow> string \<Rightarrow> pydict" where
  "gcal_build_payload cap p command_id =
     (let param = (\<lambda>k. dict_get_or p k (PStr [])) in
      if cap = ''schedule_appointment'' then
        [(''iCalUID'', PStr (ical_uid command_id)), (''summary'', PStr ''Appointment''),
         (''start'', PDict [(''dateTime'', param ''datetime_iso'')]), (''end'', PDict [(''dateTime'', param ''datetime_iso'')]),
         (''description'', param ''notes_ref''), (''extendedProperties'', PDict [(''private'',
            PDict [(''command_id'', PStr command_id), (''service_type'', param ''service_type'')])])]
      else if cap = ''cancel_appointment'' then
        [(''event_id'', param ''appointment_ref''), (''command_id'', PStr command_id)]
      else if cap = ''reschedule_appointment'' then
        [(''event_id'', param ''appointment_ref''), (''start'', PDict [(''dateTime'', param ''new_datetime_iso'')]),
         (''end'', PDict [(''dateTime'', param ''new_datetime_iso'')]), (''command_id'', PStr command_id)]
      else [])"

definition gcal_request :: "GoogleCalendarWriteAdapter \<Rightarrow> string \<Rightarrow> string \<Rightarrow> pydict \<Rightarrow> http_request" where
  "gcal_request ad auth api_method payload =
     (let events = ''https://www.googleapis.com/calendar/v3/calendars/'' @ gw_calendar_id ad @ ''/events'';
          event = events @ ''/'' @ py_str (dict_get_or payload ''event_id'' (PStr [])) in
      if api_method = ''events.insert'' then \<lparr>hr_method = ''POST'', hr_url = events, hr_auth = auth, hr_body = payload\<rparr>
      else if api_method = ''events.delete'' then \<lparr>hr_method = ''DELETE'', hr_url = event, hr_auth = auth, hr_body = []\<rparr>
      else \<lparr>hr_method = ''PATCH'', hr_url = event, hr_auth = auth, hr_body = payload\<rparr>)"

definition GoogleCalendarWriteAdapter_call_gcal_api ::
    "os_environ \<Rightarrow> sched_net \<Rightarrow> GoogleCalendarWriteAdapter \<Rightarrow> string \<Rightarrow> pydict \<Rightarrow> writer_state \<Rightarrow> pyval res \<times> writer_state" where
  "GoogleCalendarWriteAdapter_call_gcal_api environ net ad api_method payload st =
     (let st' = with_client (''Bearer '' @ gcal_resolve_credential environ (gw_credentials_ref ad)) st
      in api_loop ''Google Calendar'' ''google_calendar'' net (gcal_request ad (client_auth st') api_method payload) (gw_max_retries ad) st')"

definition GoogleCalendarWriteAdapter_execute_command ::
    "os_environ \<Rightarrow> sched_net \<Rightarrow> GoogleCalendarWriteAdapter \<Rightarrow> ProviderCommand \<Rightarrow> ProviderSecurityContext \<Rightarrow> writer_state
     \<Rightarrow> ProviderMutationResult res \<times> writer_state" where
  "GoogleCalendarWriteAdapter_execute_command environ net ad command sc st =
     (if cmd_tenant_id command \<noteq> psc_tenant_id sc then (raise_iara (CrossTenantError (tenant_mismatch command sc)), st)
      else case map_of gcal_CAPABILITY_MAP (cmd_capability_name command) of
        None \<Rightarrow> (raise_iara (FailClosedError (''Unregistered scheduling capability: '' @ repr_str (cmd_capability_name command))), st)
      | Some gcal_method \<Rightarrow>
          (case GoogleCalendarWriteAdapter_call_gcal_api environ net ad gcal_method
                  (gcal_build_payload (cmd_capability_name command) (cmd_parameters command) (cmd_command_id command)) st of
             (r, st') \<Rightarrow> (res_bind r (\<lambda>data. Inr (written ''gcal:'' command data)), st')))"

definition GoogleCalendarWriteAdapter_health_check :: "os_environ \<Rightarrow> GoogleCalendarWriteAdapter \<Rightarrow> bool" where
  "GoogleCalendarWriteAdapter_health_check environ ad =
     (let token = gcal_resolve_credential environ (gw_credentials_ref ad) in \<not> (token = [] \<or> unresolved token))"

subsection \<open>Clinicorp\<close>

record ClinicorpWriteAdapter =
  cc_api_key_ref :: string
  cc_base_url :: string
  cc_max_retries :: nat

definition ClinicorpWriteAdapter_init :: "string \<Rightarrow> string \<Rightarrow> nat \<Rightarrow> ClinicorpWriteAdapter" where
  "ClinicorpWriteAdapter_init api_key_ref base_url max_retries =
     \<lparr>cc_api_key_ref = api_key_ref, cc_base_url = rstrip_slash base_url, cc_max_retries = max 1 max_retries\<rparr>"

definition clinicorp_CAPABILITY_MAP :: "(string \<times> string) list" where
  "clinicorp_CAPABILITY_MAP = [(''schedule_appointment'', ''appointments.create''), (''cancel_appointment'', ''appointments.cancel''),
     (''reschedule_appointment'', ''appointments.reschedule'')]"

definition clinicorp_build_payload :: "string \<Rightarrow> pydict \<Rightarrow> string \<Rightarrow> pydict" where
  "clinicorp_build_payload cap p command_id =
     (let param = (\<lambda>k. dict_get_or p k (PStr [])) in
      if cap = ''schedule_appointment'' then
        [(''external_id'', PStr command_id), (''datetime'', param ''datetime_iso''),
         (''service_type'', dict_get_or p ''service_type'' (PStr ''general'')), (''notes_ref'', param ''notes_ref'')]
      else if cap = ''cancel_appointment'' then
        [(''appointment_id'', param ''appointment_ref''), (''reason_ref'', param ''reason_ref''), (''external_id'', PStr command_id)]
      else if cap = ''reschedule_appointment'' then
        [(''appointment_id'', param ''appointment_ref''), (''new_datetime'', param ''new_datetime_iso''), (''external_id'', PStr command_id)]
      else [])"

definition clinicorp_path :: "string \<Rightarrow> string" where
  "clinicorp_path api_method = (case map_of [(''appointments.create'', ''/v1/appointments''),
     (''appointments.cancel'', ''/v1/appointments/cancel''), (''appointments.reschedule'', ''/v1/appointments/reschedule'')] api_method of
       Some p \<Rightarrow> p | None \<Rightarrow> ''/v1/appointments'')"

definition ClinicorpWriteAdapter_call_clinicorp_api ::
    "os_environ \<Rightarrow> sched_net \<Rightarrow> ClinicorpWriteAdapter \<Rightarrow> string \<Rightarrow> pydict \<Rightarrow> writer_state \<Rightarrow> pyval res \<times> writer_state" where
  "ClinicorpWriteAdapter_call_clinicorp_api environ net ad api_method payload st =
     (let st' = with_client (clinicorp_resolve_credential environ (cc_api_key_ref ad)) st
      in api_loop ''Clinicorp'' ''clinicorp'' net \<lparr>hr_method = ''POST'', hr_url = cc_base_url ad @ clinicorp_path api_method,
           hr_auth = client_auth st', hr_body = payload\<rparr> (cc_max_retries ad) st')"

definition ClinicorpWriteAdapter_execute_command ::
    "os_environ \<Rightarrow> sched_net \<Rightarrow> ClinicorpWriteAdapter \<Rightarrow> ProviderCommand \<Rightarrow> ProviderSecurityContext \<Rightarrow> writer_state
     \<Rightarrow> ProviderMutationResult res \<times> writer_state" where
  "ClinicorpWriteAdapter_execute_command environ net ad command sc st =
     (if cmd_tenant_id command \<noteq> psc_tenant_id sc then (raise_iara (CrossTenantError (tenant_mismatch command sc)), st)
      else case map_of clinicorp_CAPABILITY_MAP (cmd_capability_name command) of
        None \<Rightarrow> (raise_iara (FailClosedError (''Unregistered Clinicorp capability: '' @ repr_str (cmd_capability_name command))), st)
      | Some clinicorp_method \<Rightarrow>
          (case ClinicorpWriteAdapter_call_clinicorp_api environ net ad clinicorp_method
                  (clinicorp_build_payload (cmd_capability_name command) (cmd_parameters command) (cmd_command_id command)) st of
             (r, st') \<Rightarrow> (res_bind r (\<lambda>data. Inr (written ''clinicorp:'' command data)), st')))"

definition ClinicorpWriteAdapter_health_check :: "os_environ \<Rightarrow> ClinicorpWriteAdapter \<Rightarrow> bool" where
  "ClinicorpWriteAdapter_health_check environ ad =
     (let api_key = clinicorp_resolve_credential environ (cc_api_key_ref ad) in api_key \<noteq> [] \<and> \<not> unresolved api_key)"

subsection \<open>No provider\<close>

definition NullSchedulingWriteAdapter_execute_command ::
    "ProviderCommand \<Rightarrow> ProviderSecurityContext \<Rightarrow> writer_state \<Rightarrow> ProviderMutationResult res \<times> writer_state" where
  "NullSchedulingWriteAdapter_execute_command command sc st =
     (if cmd_tenant_id command \<noteq> psc_tenant_id sc then (raise_iara (FailClosedError (tenant_mismatch command sc)), st)
      else (Inr \<lparr>pmr_command_id = cmd_command_id command, pmr_idempotency_key = cmd_idempotency_key command,
              pmr_success = True, pmr_readback_confirmed = False, pmr_result_ref = Some (''skipped:'' @ cmd_command_id command),
              pmr_error_code = None, pmr_error_summary = None\<rparr>, st))"

section \<open>Factory\<close>

record scheduling_settings =
  st_google_calendar_enabled :: bool
  st_google_calendar_credential_ref :: string
  st_clinicorp_enabled :: bool
  st_clinicorp_credential_ref :: string
  st_clinicorp_base_url :: string

definition factory_resolve_credential :: "os_environ \<Rightarrow> string \<Rightarrow> string" where
  "factory_resolve_credential environ credential_ref =
     (if \<not> unresolved credential_ref then credential_ref
      else case environ (env_key credential_ref) of Some v \<Rightarrow> v | None \<Rightarrow> credential_ref)"

datatype write_adapter = Null_write | Google_write GoogleCalendarWriteAdapter | Clinicorp_write ClinicorpWriteAdapter

datatype read_adapter = Null_read | Google_read GoogleCalendarAdapter | Clinicorp_read ClinicorpAdapter

definition build_google_calendar_write_adapter :: "os_environ \<Rightarrow> scheduling_settings \<Rightarrow> write_adapter" where
  "build_google_calendar_write_adapter environ settings =
     (if st_google_calendar_enabled settings \<and> \<not> unresolved (factory_resolve_credential environ (st_google_calendar_credential_ref settings))
      then Google_write (GoogleCalendarWriteAdapter_init (st_google_calendar_credential_ref settings) ''primary'' 3)
      else Null_write)"

definition build_clinicorp_write_adapter :: "os_environ \<Rightarrow> scheduling_settings \<Rightarrow> write_adapter" where
  "build_clinicorp_write_adapter environ settings =
     (if st_clinicorp_enabled settings \<and> \<not> unresolved (factory_resolve_credential environ (st_clinicorp_credential_ref settings))
      then Clinicorp_write (ClinicorpWriteAdapter_init (st_clinicorp_credential_ref settings) (st_clinicorp_base_url settings) 3)
      else Null_write)"

definition build_scheduling_write_adapter :: "os_environ \<Rightarrow> scheduling_settings \<Rightarrow> write_adapter" where
  "build_scheduling_write_adapter environ settings =
     (if st_clinicorp_enabled settings \<and> \<not> unresolved (factory_resolve_credential environ (st_clinicorp_credential_ref settings))
      then build_clinicorp_write_adapter environ settings
      else if st_google_calendar_enabled settings \<and> \<not> unresolved (factory_resolve_credential environ (st_google_calendar_credential_ref settings))
      then build_google_calendar_write_adapter environ settings
      else Null_write)"

definition try_clinicorp :: "os_environ \<Rightarrow> scheduling_settings \<Rightarrow> read_adapter option" where
  "try_clinicorp environ settings =
     (let api_key = factory_resolve_credential environ (st_clinicorp_credential_ref settings) in
      if unresolved api_key then None else Some (Clinicorp_read (ClinicorpAdapter_init (st_clinicorp_base_url settings) api_key)))"

text \<open>\<open>json_loads\<close> is \<open>None\<close> where the text is not JSON.\<close>

definition try_google_calendar :: "(string \<Rightarrow> pyval option) \<Rightarrow> os_environ \<Rightarrow> scheduling_settings \<Rightarrow> read_adapter option" where
  "try_google_calendar json_loads environ settings =
     (let sa_json_raw = factory_resolve_credential environ (st_google_calendar_credential_ref settings) in
      if unresolved sa_json_raw then None
      else map_option (\<lambda>sa_json. Google_read (GoogleCalendarAdapter_init sa_json)) (json_loads sa_json_raw))"

definition build_scheduling_adapter :: "(string \<Rightarrow> pyval option) \<Rightarrow> os_environ \<Rightarrow> scheduling_settings \<Rightarrow> read_adapter" where
  "build_scheduling_adapter json_loads environ settings =
     (case (if st_clinicorp_enabled settings then try_clinicorp environ settings else None) of
        Some adapter \<Rightarrow> adapter
      | None \<Rightarrow>
          (case (if st_google_calendar_enabled settings then try_google_calendar json_loads environ settings else None) of
             Some adapter \<Rightarrow> adapter | None \<Rightarrow> Null_read))"

section \<open>Lemmas on free slots\<close>

definition slot_free :: "busy_periods \<Rightarrow> int \<Rightarrow> bool" where
  "slot_free busy t = (\<forall>(bs, be)\<in>set busy. \<not> (moment_key bs < t + slot_step \<and> t < moment_key be))"

lemma slot_free_simps [simp]:
  "slot_free [] t"
  "slot_free ((bs, be) # busy) t \<longleftrightarrow> \<not> (moment_key bs < t + slot_step \<and> t < moment_key be) \<and> slot_free busy t"
  by (auto simp: slot_free_def)

lemma any_overlap_iff:
  assumes "any_overlap cursor slot_end busy = Inr taken" and "moment_key slot_end = moment_key cursor + slot_step"
  shows "taken \<longleftrightarrow> \<not> slot_free busy (moment_key cursor)"
  using assms
  by (induction busy) (auto simp: res_bind_Inr_iff moment_less_def split: if_splits)

text \<open>The whole slots between two instants, and the free ones among them.\<close>

definition whole_slots :: "int \<Rightarrow> int \<Rightarrow> nat" where
  "whole_slots a b = nat ((b - a) div slot_step)"

definition free_slots :: "busy_periods \<Rightarrow> int \<Rightarrow> int \<Rightarrow> int list" where
  "free_slots busy a b = filter (slot_free busy) (map (\<lambda>i. a + int i * slot_step) [0..<whole_slots a b])"

lemma whole_slots_step:
  "whole_slots a b = (if a + slot_step \<le> b then Suc (whole_slots (a + slot_step) b) else 0)"
proof (cases "a + slot_step \<le> b")
  case True
  have "(b - a) div slot_step = (b - (a + slot_step)) div slot_step + 1"
    using div_add_self2 [of slot_step "b - (a + slot_step)"] by simp
  moreover have "0 \<le> (b - (a + slot_step)) div slot_step" using True by (intro pos_imp_zdiv_nonneg_iff [THEN iffD2]) simp_all
  ultimately show ?thesis using True by (simp add: whole_slots_def nat_add_distrib)
next
  case False
  then have "(b - a) div slot_step \<le> 0" using zdiv_mono1 [of "b - a" "slot_step - 1" slot_step] by simp
  then show ?thesis using False by (simp add: whole_slots_def)
qed

lemma free_slots_step:
  assumes "a + slot_step \<le> b"
  shows "free_slots busy a b = (if slot_free busy a then [a] else []) @ free_slots busy (a + slot_step) b"
proof -
  have "map (\<lambda>i. a + int i * slot_step) [0..<Suc n] = a # map (\<lambda>i. a + slot_step + int i * slot_step) [0..<n]" for n
    by (simp add: upt_conv_Cons map_Suc_upt [symmetric] algebra_simps del: upt_Suc)
  then show ?thesis using assms by (simp add: free_slots_def whole_slots_step [of a] del: upt_Suc)
qed

lemma free_loop_count:
  "free_loop busy until free_count cursor = Inr k \<Longrightarrow>
     k = free_count + int (length (free_slots busy (moment_key cursor) (moment_key until)))"
proof (induction busy until free_count cursor rule: free_loop.induct)
  case (1 busy until free_count cursor)
  from "1.prems" obtain slot_end more where s: "moment_add cursor slot_step = Inr slot_end" "moment_le slot_end until = Inr more"
    and rest: "(if \<not> more then Inr free_count else res_bind (any_overlap cursor slot_end busy) (\<lambda>taken.
        free_loop busy until (if taken then free_count else free_count + 1) slot_end)) = Inr k"
    by (subst (asm) free_loop.simps) (auto simp: res_bind_Inr_iff)
  have key: "moment_key slot_end = moment_key cursor + slot_step" using moment_add_key [OF s(1)] by simp
  have more: "more \<longleftrightarrow> moment_key cursor + slot_step \<le> moment_key until" using s(2) key by (auto simp: moment_le_def split: if_splits)
  show ?case
  proof (cases more)
    case True
    then obtain taken where t: "any_overlap cursor slot_end busy = Inr taken"
      "free_loop busy until (if taken then free_count else free_count + 1) slot_end = Inr k"
      using rest by (auto simp: res_bind_Inr_iff)
    have "k = (if taken then free_count else free_count + 1) + int (length (free_slots busy (moment_key slot_end) (moment_key until)))"
      by (rule "1.IH" [OF s(1,2) _ t(1,2)]) (simp add: True)
    then show ?thesis using any_overlap_iff [OF t(1) key] True more key by (simp add: free_slots_step)
  next
    case False
    then show ?thesis using rest more by (simp add: free_slots_def whole_slots_step [of "moment_key cursor"])
  qed
qed

text \<open>The loop over the sorted periods ends at the first instant from which half an hour is free.\<close>

lemma next_free_least:
  assumes "next_free cursor busy = Inr m" and "sorted (map (\<lambda>p. moment_key (fst p)) busy)"
  shows "moment_key cursor \<le> moment_key m \<and> slot_free busy (moment_key m) \<and>
    (\<forall>t. moment_key cursor \<le> t \<and> t < moment_key m \<longrightarrow> \<not> slot_free busy t)"
  using assms
proof (induction busy arbitrary: cursor)
  case (Cons p busy)
  obtain bs be where p: "p = (bs, be)" by (cases p)
  from Cons.prems(1) obtain slot_end free where s: "moment_add cursor slot_step = Inr slot_end" "moment_le slot_end bs = Inr free"
    and rest: "(if free then Inr cursor else res_bind (moment_less cursor be) (\<lambda>inside. next_free (if inside then be else cursor) busy)) = Inr m"
    by (auto simp: p res_bind_Inr_iff)
  have key: "moment_key slot_end = moment_key cursor + slot_step" using moment_add_key [OF s(1)] by simp
  have free: "free \<longleftrightarrow> moment_key cursor + slot_step \<le> moment_key bs" using s(2) key by (auto simp: moment_le_def split: if_splits)
  show ?case
  proof (cases free)
    case True
    then have "m = cursor" using rest by simp
    moreover have "\<forall>q\<in>set busy. moment_key bs \<le> moment_key (fst q)" using Cons.prems(2) p by auto
    ultimately show ?thesis using True free p by (fastforce simp: slot_free_def)
  next
    case False
    then obtain inside where i: "moment_less cursor be = Inr inside" "next_free (if inside then be else cursor) busy = Inr m"
      using rest by (auto simp: res_bind_Inr_iff)
    have inside: "inside \<longleftrightarrow> moment_key cursor < moment_key be" using i(1) by (auto simp: moment_less_def split: if_splits)
    have ih: "moment_key (if inside then be else cursor) \<le> moment_key m \<and> slot_free busy (moment_key m) \<and>
        (\<forall>t. moment_key (if inside then be else cursor) \<le> t \<and> t < moment_key m \<longrightarrow> \<not> slot_free busy t)"
      using Cons.IH [OF i(2)] Cons.prems(2) by simp
    then show ?thesis using False free inside p by (cases inside) (auto simp: not_le)
  qed
qed simp

section \<open>Contract of the readers\<close>

text \<open>
  What \<open>SchedulingAdapter\<close> promises: in a ready state every query with a tenant id that can be logged is
  answered, with the four mandatory fields, and leaves the adapter ready.
\<close>

definition summary_ok :: "string \<Rightarrow> pyval \<Rightarrow> pydict \<Rightarrow> bool" where
  "summary_ok provider service_type r \<longleftrightarrow>
     (\<exists>n\<ge>0. map_of r ''available_slots_count'' = Some (PInt n)) \<and> map_of r ''next_available_slot'' \<noteq> None \<and>
     map_of r ''service_type'' = Some service_type \<and> map_of r ''provider'' = Some (PStr provider)"

lemma summary_ok_result: "0 \<le> n \<Longrightarrow> summary_ok p sv (availability_result n next sv p cf e)"
  by (simp add: summary_ok_def availability_result_def)

locale scheduling_reader =
  fixes check :: "pyval \<Rightarrow> pyval \<Rightarrow> pyval \<Rightarrow> pyval \<Rightarrow> pyval \<Rightarrow> 's \<Rightarrow> pydict res \<times> 's"
    and ready :: "'s \<Rightarrow> bool"
    and provider :: string
  assumes answers: "ready s \<Longrightarrow> tenant_prefix t = Inr () \<Longrightarrow> \<exists>r. fst (check t a b sv c s) = Inr r \<and> summary_ok provider sv r"
    and stays_ready: "ready s \<Longrightarrow> ready (snd (check t a b sv c s))"
begin

text \<open>The availability tool on top of such an adapter answers every call that names its tenant by text or not at all.\<close>

lemma tool_answers:
  assumes "ready s" and "te_check_availability env = (\<lambda>t a b sv c. fst (check t a b sv c s))"
    and "tenant_prefix (dict_get_or arguments ''tenant_id'' (PStr [])) = Inr ()"
  shows "\<exists>r. handle_availability env arguments = Inr r \<and>
    summary_ok provider (dict_get_or arguments ''service_type'' (PStr ''general'')) r"
  using answers [OF assms(1,3)] unfolding handle_availability_def assms(2) by blast

fun answer_all :: "(pyval \<times> pyval \<times> pyval \<times> pyval \<times> pyval) list \<Rightarrow> 's \<Rightarrow> pydict res list" where
  "answer_all [] s = []"
| "answer_all ((t, a, b, sv, c) # qs) s = fst (check t a b sv c s) # answer_all qs (snd (check t a b sv c s))"

lemma all_answered:
  assumes "ready s" and "\<forall>q\<in>set qs. tenant_prefix (fst q) = Inr ()"
  shows "\<forall>r\<in>set (answer_all qs s). \<not> isl r"
  using assms
proof (induction qs s rule: answer_all.induct)
  case (2 t a b sv c qs s)
  then show ?case using answers [of s t a b sv c] stays_ready [of s t a b sv c] by auto
qed simp

end

lemma count_nonneg: "count_free_slots parse a b ps = Inr n \<Longrightarrow> 0 \<le> n"
  by (auto simp: count_free_slots_def res_bind_Inr_iff dest!: free_loop_count split: sum.splits py_exc.splits)

lemma token_sa: "ga_sa (snd (GoogleCalendarAdapter_get_access_token env ga)) = ga_sa ga"
  by (auto simp: GoogleCalendarAdapter_get_access_token_def GoogleCalendarAdapter_fetch_token_def Let_def split: option.split sum.split)

lemma slots_nonneg: "slots_of data = Inr (n, x) \<Longrightarrow> 0 \<le> n"
proof -
  assume s: "slots_of data = Inr (n, x)"
  then obtain d where "as_dict data = Inr d" by (auto simp: slots_of_def res_bind_Inr_iff)
  then show "0 \<le> n" using s
    by (cases "py_or (py_or (dict_get d ''slots'') (dict_get d ''available_slots'')) (PList [])")
      (auto simp: slots_of_def res_bind_Inr_iff split: list.splits)
qed

interpretation null_reader: scheduling_reader "\<lambda>t a b sv c s. (NullSchedulingAdapter_check_availability t a b sv c, s)" "\<lambda>_. True" "''null''"
  by unfold_locales (auto simp: NullSchedulingAdapter_check_availability_def summary_ok_def availability_result_def)

interpretation google_reader: scheduling_reader "GoogleCalendarAdapter_check_availability env" "\<lambda>ga. \<exists>sa. ga_sa ga = PDict sa" "''google_calendar''"
  for env
proof (unfold_locales, goal_cases)
  case (1 ga t a b sv c)
  then obtain sa where sa: "ga_sa ga = PDict sa" by blast
  show ?case
    using 1(2) sa
    by (auto simp: GoogleCalendarAdapter_check_availability_def GoogleCalendarAdapter_is_configured_def Let_def res_bind_Inr_iff
        dest!: count_nonneg intro!: summary_ok_result split: prod.split sum.split bool.split)
next
  case (2 ga t a b sv c)
  then show ?case using token_sa [of env ga]
    by (auto simp: GoogleCalendarAdapter_check_availability_def GoogleCalendarAdapter_is_configured_def Let_def
        split: prod.split sum.split bool.split)
qed

interpretation clinicorp_reader: scheduling_reader "ClinicorpAdapter_check_availability net" "\<lambda>_. True" "''clinicorp''"
  for net
proof (unfold_locales, goal_cases)
  case (1 ca t a b sv c)
  show ?case using 1(2) slots_nonneg
    by (auto simp: ClinicorpAdapter_check_availability_def Let_def res_bind_Inr_iff intro!: summary_ok_result split: sum.split)
qed simp

section \<open>Contract of the writers\<close>

text \<open>
  What the drainer relies on: a command of another tenant or with an unknown capability raises before
  any request, a command makes at most \<open>limit\<close> requests, and a result names its command.
\<close>

locale scheduling_writer =
  fixes exec :: "ProviderCommand \<Rightarrow> ProviderSecurityContext \<Rightarrow> writer_state \<Rightarrow> ProviderMutationResult res \<times> writer_state"
    and accepts :: "string \<Rightarrow> bool"
    and limit :: nat
  assumes foreign: "cmd_tenant_id c \<noteq> psc_tenant_id sc \<Longrightarrow> isl (fst (exec c sc s)) \<and> snd (exec c sc s) = s"
    and unknown: "\<not> accepts (cmd_capability_name c) \<Longrightarrow> isl (fst (exec c sc s)) \<and> snd (exec c sc s) = s"
    and bounded: "\<exists>k\<le>limit. \<exists>q. wa_log (snd (exec c sc s)) = wa_log s @ replicate k q"
    and result_of: "fst (exec c sc s) = Inr res \<Longrightarrow>
      pmr_command_id res = cmd_command_id c \<and> pmr_idempotency_key res = cmd_idempotency_key c"
begin

fun run_all :: "(ProviderCommand \<times> ProviderSecurityContext) list \<Rightarrow> writer_state \<Rightarrow> writer_state" where
  "run_all [] s = s"
| "run_all ((c, sc) # cs) s = run_all cs (snd (exec c sc s))"

lemma requests_bounded:
  "length (wa_log (run_all cs s)) \<le> length (wa_log s) +
     limit * length (filter (\<lambda>(c, sc). cmd_tenant_id c = psc_tenant_id sc \<and> accepts (cmd_capability_name c)) cs)"
proof (induction cs s rule: run_all.induct)
  case (2 c sc cs s)
  obtain k q where "k \<le> limit" "wa_log (snd (exec c sc s)) = wa_log s @ replicate k q" using bounded by blast
  then have "length (wa_log (snd (exec c sc s))) \<le> length (wa_log s) + limit" by simp
  then show ?case using 2 foreign [of c sc s] unknown [of c sc s] by auto
qed simp

end

lemma with_client_log [simp]: "wa_log (with_client a st) = wa_log st"
  by (simp add: with_client_def split: option.split)

lemma api_loop_requests: "\<exists>k\<le>n. wa_log (snd (api_loop label provider net req n st)) = wa_log st @ replicate k req"
proof (induction n arbitrary: st)
  case (Suc n)
  let ?st = "st\<lparr>wa_log := wa_log st @ [req]\<rparr>"
  obtain k where k: "k \<le> n" "wa_log (snd (api_loop label provider net req n ?st)) = wa_log st @ replicate (Suc k) req"
    using Suc.IH [of ?st] by auto
  have "wa_log (snd (api_loop label provider net req (Suc n) st)) \<in>
      {wa_log st @ replicate (Suc k) req, wa_log st @ replicate (Suc 0) req}"
    using k(2) by (auto simp: Let_def split: net_reply.split py_exc.split iara_error.split)
  then show ?case using k(1) by (metis Suc_le_mono empty_iff insert_iff le0)
qed simp

interpretation google_writer: scheduling_writer "GoogleCalendarWriteAdapter_execute_command environ net ad"
  "\<lambda>c. c \<in> fst ` set gcal_CAPABILITY_MAP" "gw_max_retries ad"
  for environ net ad
proof (unfold_locales, goal_cases)
  case (1 c sc s)
  then show ?case by (simp add: GoogleCalendarWriteAdapter_execute_command_def)
next
  case (2 c sc s)
  then have "map_of gcal_CAPABILITY_MAP (cmd_capability_name c) = None" by (simp add: map_of_eq_None_iff)
  then show ?case by (simp add: GoogleCalendarWriteAdapter_execute_command_def)
next
  case (3 c sc s)
  show ?case
    using api_loop_requests
    by (auto simp: GoogleCalendarWriteAdapter_execute_command_def GoogleCalendarWriteAdapter_call_gcal_api_def Let_def
        split: option.split prod.split) (metis api_loop_requests snd_conv with_client_log)
next
  case (4 c sc s res)
  then show ?case
    by (auto simp: GoogleCalendarWriteAdapter_execute_command_def res_bind_Inr_iff written_def split: if_splits option.splits prod.splits)
qed

interpretation clinicorp_writer: scheduling_writer "ClinicorpWriteAdapter_execute_command environ net ad"
  "\<lambda>c. c \<in> fst ` set clinicorp_CAPABILITY_MAP" "cc_max_retries ad"
  for environ net ad
proof (unfold_locales, goal_cases)
  case (1 c sc s)
  then show ?case by (simp add: ClinicorpWriteAdapter_execute_command_def)
next
  case (2 c sc s)
  then have "map_of clinicorp_CAPABILITY_MAP (cmd_capability_name c) = None" by (simp add: map_of_eq_None_iff)
  then show ?case by (simp add: ClinicorpWriteAdapter_execute_command_def)
next
  case (3 c sc s)
  show ?case
    by (auto simp: ClinicorpWriteAdapter_execute_command_def ClinicorpWriteAdapter_call_clinicorp_api_def Let_def
        split: option.split prod.split) (metis api_loop_requests snd_conv with_client_log)
next
  case (4 c sc s res)
  then show ?case
    by (auto simp: ClinicorpWriteAdapter_execute_command_def res_bind_Inr_iff written_def split: if_splits option.splits prod.splits)
qed

interpretation null_writer: scheduling_writer NullSchedulingWriteAdapter_execute_command "\<lambda>_. True" 0
  by unfold_locales (auto simp: NullSchedulingWriteAdapter_execute_command_def split: if_splits)

section \<open>Routing of the worker\<close>

definition read_provider :: "read_adapter \<Rightarrow> string" where
  "read_provider ad = (case ad of Null_read \<Rightarrow> ''null'' | Google_read _ \<Rightarrow> ''google_calendar'' | Clinicorp_read _ \<Rightarrow> ''clinicorp'')"

definition read_availability :: "calendar_env \<Rightarrow> read_adapter \<Rightarrow> pyval \<Rightarrow> pyval \<Rightarrow> pyval \<Rightarrow> pyval \<Rightarrow> pyval \<Rightarrow> pydict res" where
  "read_availability env ad t a b sv c = (case ad of
       Null_read \<Rightarrow> NullSchedulingAdapter_check_availability t a b sv c
     | Google_read ga \<Rightarrow> fst (GoogleCalendarAdapter_check_availability env t a b sv c ga)
     | Clinicorp_read ca \<Rightarrow> fst (ClinicorpAdapter_check_availability (ce_net env) t a b sv c ca))"

definition write_execute :: "os_environ \<Rightarrow> sched_net \<Rightarrow> write_adapter \<Rightarrow> writer_state adapter" where
  "write_execute environ net ad = (case ad of Null_write \<Rightarrow> NullSchedulingWriteAdapter_execute_command
     | Google_write g \<Rightarrow> GoogleCalendarWriteAdapter_execute_command environ net g
     | Clinicorp_write c \<Rightarrow> ClinicorpWriteAdapter_execute_command environ net c)"

text \<open>The adapters of the worker and the part of the outside world each of them touches.\<close>

record provider_world =
  pw_chatwoot :: http_log
  pw_google :: writer_state
  pw_clinicorp :: writer_state

definition worker_adapters ::
    "os_environ \<Rightarrow> sched_net \<Rightarrow> scheduling_settings \<Rightarrow> http_log adapter \<Rightarrow> (string \<times> provider_world adapter) list" where
  "worker_adapters environ net settings chatwoot =
     [(''chatwoot'', \<lambda>c sc w. case chatwoot c sc (pw_chatwoot w) of (r, s) \<Rightarrow> (r, w\<lparr>pw_chatwoot := s\<rparr>)),
      (''google_calendar'', \<lambda>c sc w. case write_execute environ net (build_google_calendar_write_adapter environ settings) c sc (pw_google w)
         of (r, s) \<Rightarrow> (r, w\<lparr>pw_google := s\<rparr>)),
      (''clinicorp'', \<lambda>c sc w. case write_execute environ net (build_clinicorp_write_adapter environ settings) c sc (pw_clinicorp w)
         of (r, s) \<Rightarrow> (r, w\<lparr>pw_clinicorp := s\<rparr>))]"

section \<open>Properties\<close>

text \<open>A confirmation that is not queued yet is queued for one hour before the appointment.\<close>

lemma hook_queues:
  assumes "map_of (ob_parameters row) ''datetime_iso'' = Some (PStr s)" and "s \<noteq> []" and "dr_fromisoformat env s = Some (reading, off)"
    and "UUID_of (ob_tenant_id row) = Inr u"
    and "''confirmation:'' @ short_ref (ob_command_id row) \<notin> fu_idempotency_key ` set rows"
  shows "\<exists>item. post_schedule_hook env no_drain_faults new_id now (row_command row) rows = rows @ [item] \<and>
    fu_trigger_at item = reading - (case off of None \<Rightarrow> 0 | Some x \<Rightarrow> x) - hour \<and> fu_status item = FU_PENDING \<and> fu_tenant_id item = u"
proof -
  have "appointment_text (cmd_parameters (row_command row)) = Inr (PStr s)"
    using assms(1,2) by (simp add: appointment_text_def row_command_def dict_get_or_def)
  then show ?thesis using assms(2-5)
    by (simp add: post_schedule_hook_def no_drain_faults_def FollowUpRepository_enqueue_raw_def confirmation_payload_def
        row_command_def insert_ignore_def dt_instant_def Let_def)
qed

text \<open>Every answer of the availability tool's backend has the four mandatory fields: whichever adapter the
  factory chooses, whatever the server replies or however it fails, a query that names its tenant by text
  yields a summary with a non-negative slot count; the one exception is a Google credential that is
  JSON but no object.\<close>

theorem availability_answered:
  assumes "build_scheduling_adapter json_loads environ settings = ad" and "tenant_prefix t = Inr ()"
  shows "(\<exists>r. read_availability env ad t a b sv c = Inr r \<and> summary_ok (read_provider ad) sv r) \<or>
    (\<exists>v. st_google_calendar_enabled settings \<and> (\<forall>d. v \<noteq> PDict d) \<and>
       json_loads (factory_resolve_credential environ (st_google_calendar_credential_ref settings)) = Some v)"
proof (cases ad)
  case Null_read
  then show ?thesis using null_reader.answers [OF TrueI assms(2), of a b sv c] by (simp add: read_availability_def read_provider_def)
next
  case (Google_read ga)
  then have "st_google_calendar_enabled settings \<and>
      json_loads (factory_resolve_credential environ (st_google_calendar_credential_ref settings)) = Some (ga_sa ga)"
    using assms(1) by (auto simp: build_scheduling_adapter_def try_clinicorp_def try_google_calendar_def
        GoogleCalendarAdapter_init_def Let_def split: if_splits option.splits)
  then show ?thesis using google_reader.answers [of ga t env a b sv c] assms(2) Google_read
    by (auto simp: read_availability_def read_provider_def)
next
  case (Clinicorp_read ca)
  then show ?thesis using clinicorp_reader.answers [OF TrueI assms(2), of "ce_net env" a b sv c ca]
    by (simp add: read_availability_def read_provider_def)
qed

definition sample_settings :: scheduling_settings where
  "sample_settings = \<lparr>st_google_calendar_enabled = False, st_google_calendar_credential_ref = ''secret://google/key'',
     st_clinicorp_enabled = True, st_clinicorp_credential_ref = ''k'', st_clinicorp_base_url = ''https://c''\<rparr>"

definition sample_calendar :: "sched_net \<Rightarrow> calendar_env" where
  "sample_calendar net = \<lparr>ce_net = net, ce_now = 0, ce_iat = 0, ce_sign = (\<lambda>_ _ _. Inr ''jwt''), ce_parse = (\<lambda>_. None)\<rparr>"

theorem availability_answered_witness:
  "\<exists>r. read_availability (sample_calendar (\<lambda>_ _. Net_raise TimeoutException))
     (build_scheduling_adapter (\<lambda>_. None) (\<lambda>_. None) sample_settings) (PStr ''t'') (PStr []) (PStr []) (PStr ''general'') (PStr ''primary'') = Inr r \<and>
     summary_ok ''clinicorp'' (PStr ''general'') r"
  using availability_answered [of "\<lambda>_. None" "\<lambda>_. None" sample_settings _ "PStr ''t''" "sample_calendar (\<lambda>_ _. Net_raise TimeoutException)"
      "PStr []" "PStr []" "PStr ''general''" "PStr ''primary''", OF refl]
  by (simp add: tenant_prefix_def sample_settings_def build_scheduling_adapter_def try_clinicorp_def factory_resolve_credential_def
      unresolved_def py_startswith_def read_provider_def)

text \<open>C26: The slot count is exact: when the bounds of the range can be read, the number of slots that is
  reported is the number of whole half-hour slots of the range, counted from its start, that no known
  busy period touches.\<close>

theorem free_slots_exact:
  assumes "count_free_slots parse range_start range_end periods = Inr n" and "parse_moment parse range_start = Inr start"
    and "parse_moment parse range_end = Inr until" and "iter_values periods = Inr ps" and "known_periods parse ps = Inr busy"
  shows "n = int (length (free_slots busy (moment_key start) (moment_key until)))"
  using assms free_loop_count [of busy until 0 start n] by (simp add: count_free_slots_def)

definition sample_parse :: iso_parser where
  "sample_parse s = map_of [(''a'', (0, Some 0)), (''b'', (slot_step, Some 0)), (''c'', (3 * slot_step, Some 0))] s"

abbreviation sample_busy :: pyval where
  "sample_busy \<equiv> PList [PDict [(''start'', PStr ''a''), (''end'', PStr ''b'')]]"

lemma sample_moments:
  "parse_moment sample_parse (PStr ''a'') = Inr (0, Some 0)" "parse_moment sample_parse (PStr ''b'') = Inr (slot_step, Some 0)"
  "parse_moment sample_parse (PStr ''c'') = Inr (3 * slot_step, Some 0)"
  by (simp_all add: parse_moment_def sample_parse_def py_replace_def py_startswith_def)

lemma sample_period: "period_of sample_parse (PDict [(''start'', PStr ''a''), (''end'', PStr ''b'')]) = Inr ((0, Some 0), (slot_step, Some 0))"
  by (simp add: period_of_def item_of_def sample_moments)

theorem free_slots_exact_witness:
  "count_free_slots sample_parse (PStr ''a'') (PStr ''c'') sample_busy =
     Inr (int (length (free_slots [((0, Some 0), (slot_step, Some 0))] 0 (3 * slot_step))))"
proof -
  obtain n where n: "count_free_slots sample_parse (PStr ''a'') (PStr ''c'') sample_busy = Inr n"
    by (simp add: count_free_slots_def sample_moments iter_values_def sample_period free_loop.simps moment_add_def moment_le_def
        moment_less_def moment_key_def same_kind_def)
  then show ?thesis
    using free_slots_exact [OF n sample_moments(1,3), of "[PDict [(''start'', PStr ''a''), (''end'', PStr ''b'')]]"]
    by (simp add: iter_values_def sample_period moment_key_def)
qed

text \<open>The next free start is the least one: it is not before the start of the range, the half hour from
  it touches no listed busy period, and from every earlier instant of the range it would. It need not
  lie within the range.\<close>

theorem next_slot_least:
  assumes "find_next_free_start parse range_start periods = Inr (Some text)" and "parse_moment parse range_start = Inr start"
    and "iter_values periods = Inr ps" and "listed_periods parse ps = Inr busy"
  shows "\<exists>m. text = moment_isoformat m \<and> moment_key start \<le> moment_key m \<and> slot_free busy (moment_key m) \<and>
    (\<forall>t. moment_key start \<le> t \<and> t < moment_key m \<longrightarrow> \<not> slot_free busy t)"
proof -
  obtain m where m: "next_free start (sort_key (\<lambda>p. moment_key (fst p)) busy) = Inr m" "text = moment_isoformat m"
    using assms by (auto simp: find_next_free_start_def sorted_periods_def res_bind_Inr_iff split: if_splits)
  have "slot_free (sort_key (\<lambda>p. moment_key (fst p)) busy) t = slot_free busy t" for t by (simp add: slot_free_def)
  then show ?thesis using next_free_least [OF m(1)] m(2) by (intro exI [of _ m]) simp
qed

theorem next_slot_least_witness:
  "find_next_free_start sample_parse (PStr ''a'') sample_busy = Inr (Some (moment_isoformat (slot_step, Some 0))) \<and>
   slot_free [((0, Some 0), (slot_step, Some 0))] slot_step"
proof -
  have f: "find_next_free_start sample_parse (PStr ''a'') sample_busy = Inr (Some (moment_isoformat (slot_step, Some 0)))"
    by (simp add: find_next_free_start_def sample_moments iter_values_def has_item_def sample_period sorted_periods_def
        same_kind_def moment_add_def moment_le_def moment_less_def moment_key_def)
  from next_slot_least [OF f sample_moments(1), of "[PDict [(''start'', PStr ''a''), (''end'', PStr ''b'')]]" "[((0, Some 0), (slot_step, Some 0))]"]
  obtain m where m: "0 \<le> moment_key m" "slot_free [((0, Some 0), (slot_step, Some 0))] (moment_key m)"
    by (auto simp: iter_values_def has_item_def sample_period moment_key_def)
  then have "slot_step \<le> moment_key m" by (simp add: moment_key_def)
  then show ?thesis using f m by (simp add: moment_key_def)
qed

lemma next_slot_beyond_range:
  assumes "moment_key cursor < moment_key be" and "moment_key until \<le> moment_key be" and "same_kind cursor be" and "same_kind cursor bs"
    and "moment_key bs \<le> moment_key cursor" and "moment_add cursor slot_step = Inr se"
  shows "next_free cursor [(bs, be)] = Inr be \<and> free_slots [(bs, be)] (moment_key cursor) (moment_key until) = []"
proof -
  have "same_kind se bs" using moment_add_key [OF assms(6)] assms(4) by (simp add: same_kind_def)
  moreover have "moment_key se = moment_key cursor + slot_step" using moment_add_key [OF assms(6)] by simp
  ultimately have "next_free cursor [(bs, be)] = Inr be" using assms by (simp add: moment_le_def moment_less_def)
  moreover have "free_slots [(bs, be)] (moment_key cursor) (moment_key until) = []"
    unfolding free_slots_def filter_empty_conv
  proof
    fix t assume "t \<in> set (map (\<lambda>i. moment_key cursor + int i * slot_step) [0..<whole_slots (moment_key cursor) (moment_key until)])"
    then obtain i where i: "t = moment_key cursor + int i * slot_step" "i < whole_slots (moment_key cursor) (moment_key until)" by auto
    let ?d = "moment_key until - moment_key cursor"
    have "int i + 1 \<le> ?d div slot_step" using i(2) by (simp add: whole_slots_def)
    then have "(int i + 1) * slot_step \<le> ?d div slot_step * slot_step" by (rule mult_right_mono) simp
    moreover have "?d = ?d div slot_step * slot_step + ?d mod slot_step" "0 \<le> ?d mod slot_step" by simp_all
    ultimately have "(int i + 1) * slot_step \<le> ?d" by linarith
    then show "\<not> slot_free [(bs, be)] t" using i(1) assms by (simp add: algebra_simps)
  qed
  ultimately show ?thesis by simp
qed

text \<open>C25: Drained against an answering calendar, an appointment is booked once and confirmed: the drainer
  makes one request, a POST whose calendar identifier is derived from the command id (so a repetition of
  the command names the same event), marks the row sent and queues one pending confirmation of the
  tenant for one hour before the appointment.\<close>

theorem appointment_booked_once:
  assumes "map_of (dr_adapters env) ''google_calendar'' = Some (GoogleCalendarWriteAdapter_execute_command environ net ad)"
    and "0 < gw_max_retries ad" and "\<forall>reqs req. \<exists>status content body. net reqs req = Net_reply status content body \<and> 200 \<le> status \<and> status < 400"
    and "ob_provider row = ''google_calendar''" and "ob_capability_name row = ''schedule_appointment''"
    and "ob_retry_count row < dr_max_retries env" and "map_of (ob_parameters row) ''datetime_iso'' = Some (PStr s)" and "s \<noteq> []"
    and "dr_fromisoformat env s = Some (reading, off)" and "UUID_of (ob_tenant_id row) = Inr u"
    and "''confirmation:'' @ short_ref (ob_command_id row) \<notin> fu_idempotency_key ` set (ds_follow_ups st)"
    and "OutboxDrainerWorker_process_command env no_drain_faults new_id now row st = (r, st')"
  shows "r = Inr () \<and>
    (\<exists>req. wa_log (ds_world st') = wa_log (ds_world st) @ [req] \<and> hr_method req = ''POST'' \<and>
       map_of (hr_body req) ''iCalUID'' = Some (PStr (ical_uid (ob_command_id row)))) \<and>
    ds_outbox st' = OutboxRepository_mark_sent now (ob_command_id row) (ds_outbox st) \<and>
    (\<exists>item. ds_follow_ups st' = ds_follow_ups st @ [item] \<and> fu_status item = FU_PENDING \<and> fu_tenant_id item = u \<and>
       fu_trigger_at item = reading - (case off of None \<Rightarrow> 0 | Some x \<Rightarrow> x) - hour)"
proof -
  let ?st = "with_client (''Bearer '' @ gcal_resolve_credential environ (gw_credentials_ref ad)) (ds_world st)"
  let ?req = "gcal_request ad (client_auth ?st) ''events.insert'' (gcal_build_payload ''schedule_appointment'' (ob_parameters row) (ob_command_id row))"
  obtain n where n: "gw_max_retries ad = Suc n" using assms(2) by (cases "gw_max_retries ad") auto
  have "\<exists>v. api_loop ''Google Calendar'' ''google_calendar'' net ?req (Suc n) ?st = (Inr v, ?st\<lparr>wa_log := wa_log (ds_world st) @ [?req]\<rparr>)"
    using assms(3) [rule_format, of "wa_log (ds_world st)" ?req] by (auto simp: RETRYABLE_STATUS_CODES_def)
  then have e: "\<exists>res. GoogleCalendarWriteAdapter_execute_command environ net ad (row_command row) (row_security row) (ds_world st) =
      (Inr res, ?st\<lparr>wa_log := wa_log (ds_world st) @ [?req]\<rparr>)"
    using n assms(5) by (auto simp: GoogleCalendarWriteAdapter_execute_command_def GoogleCalendarWriteAdapter_call_gcal_api_def
        row_command_def row_security_def gcal_CAPABILITY_MAP_def Let_def simp del: api_loop.simps)
  have "row_provider row = ''google_calendar''" using assms(4) by (simp add: row_provider_def)
  then have "r = Inr () \<and> st' = st\<lparr>ds_world := ?st\<lparr>wa_log := wa_log (ds_world st) @ [?req]\<rparr>,
      ds_outbox := OutboxRepository_mark_sent now (ob_command_id row) (ds_outbox st),
      ds_follow_ups := post_schedule_hook env no_drain_faults new_id now (row_command row) (ds_follow_ups st)\<rparr>"
    using assms(1,5,6,12) e by (auto simp: OutboxDrainerWorker_process_command_def no_drain_faults_def)
  then show ?thesis using hook_queues [OF assms(7-11), of new_id now] by (auto simp: gcal_request_def gcal_build_payload_def Let_def)
qed

definition booking_row :: ProviderCommandOutbox where
  "booking_row = sample_row\<lparr>ob_tenant_id := ''00000000-0000-4000-8000-000000000001'', ob_provider := ''google_calendar'',
     ob_capability_name := ''schedule_appointment'', ob_parameters := [(''datetime_iso'', PStr ''d'')]\<rparr>"

definition booking_env :: "'w adapter \<Rightarrow> 'w drain_env" where
  "booking_env exec = \<lparr>dr_max_retries = 3, dr_adapters = [(''google_calendar'', exec)], dr_fromisoformat = (\<lambda>_. Some (day, None))\<rparr>"

theorem appointment_booked_once_witness:
  "\<exists>item. ds_follow_ups (snd (OutboxDrainerWorker_process_command
      (booking_env (GoogleCalendarWriteAdapter_execute_command (\<lambda>_. None) (\<lambda>_ _. Net_reply 200 [] None) (GoogleCalendarWriteAdapter_init ''k'' ''primary'' 3)))
      no_drain_faults ''f'' 0 booking_row \<lparr>ds_outbox = [booking_row], ds_follow_ups = [], ds_world = \<lparr>wa_client = None, wa_log = []\<rparr>\<rparr>)) = [item] \<and>
    fu_trigger_at item = day - hour"
proof -
  let ?env = "booking_env (GoogleCalendarWriteAdapter_execute_command (\<lambda>_. None) (\<lambda>_ _. Net_reply 200 [] None) (GoogleCalendarWriteAdapter_init ''k'' ''primary'' 3))"
  let ?st = "\<lparr>ds_outbox = [booking_row], ds_follow_ups = [], ds_world = \<lparr>wa_client = None, wa_log = []\<rparr>\<rparr>"
  show ?thesis
    using appointment_booked_once [of ?env "\<lambda>_. None" "\<lambda>_ _. Net_reply 200 [] None" "GoogleCalendarWriteAdapter_init ''k'' ''primary'' 3"
        booking_row "''d''" day None "''00000000-0000-4000-8000-000000000001''" ?st "''f''" 0
        "fst (OutboxDrainerWorker_process_command ?env no_drain_faults ''f'' 0 booking_row ?st)"
        "snd (OutboxDrainerWorker_process_command ?env no_drain_faults ''f'' 0 booking_row ?st)"]
    by (auto simp: booking_env_def booking_row_def sample_row_def GoogleCalendarWriteAdapter_init_def sample_uuid_ok)
qed

text \<open>Without a calendar appointments are confirmed that were never made: when the Google credential
  cannot be resolved, the worker's adapter is the null adapter, which reports success, so the drainer
  marks the row sent and queues the confirmation for the contact although no request was made.\<close>

theorem unmade_appointment_confirmed:
  assumes "unresolved (factory_resolve_credential environ (st_google_calendar_credential_ref settings))"
    and "dr_adapters env = worker_adapters environ net settings chatwoot"
    and "ob_provider row = ''google_calendar''" and "ob_capability_name row = ''schedule_appointment''"
    and "ob_retry_count row < dr_max_retries env" and "map_of (ob_parameters row) ''datetime_iso'' = Some (PStr s)" and "s \<noteq> []"
    and "dr_fromisoformat env s = Some (reading, off)" and "UUID_of (ob_tenant_id row) = Inr u"
    and "''confirmation:'' @ short_ref (ob_command_id row) \<notin> fu_idempotency_key ` set (ds_follow_ups st)"
    and "OutboxDrainerWorker_process_command env no_drain_faults new_id now row st = (r, st')"
  shows "r = Inr () \<and> ds_world st' = ds_world st \<and>
    ds_outbox st' = OutboxRepository_mark_sent now (ob_command_id row) (ds_outbox st) \<and>
    (\<exists>item. ds_follow_ups st' = ds_follow_ups st @ [item] \<and> fu_status item = FU_PENDING)"
proof -
  have "build_google_calendar_write_adapter environ settings = Null_write" using assms(1) by (simp add: build_google_calendar_write_adapter_def)
  then have "\<exists>exec. map_of (dr_adapters env) (row_provider row) = Some exec \<and>
      (\<exists>res. exec (row_command row) (row_security row) (ds_world st) = (Inr res, ds_world st))"
    using assms(2,3) by (simp add: worker_adapters_def row_provider_def write_execute_def NullSchedulingWriteAdapter_execute_command_def
        row_command_def row_security_def)
  then have "r = Inr () \<and> st' = st\<lparr>ds_outbox := OutboxRepository_mark_sent now (ob_command_id row) (ds_outbox st),
      ds_follow_ups := post_schedule_hook env no_drain_faults new_id now (row_command row) (ds_follow_ups st)\<rparr>"
    using assms(4,5,11) by (auto simp: OutboxDrainerWorker_process_command_def no_drain_faults_def)
  then show ?thesis using hook_queues [OF assms(6-10), of new_id now] by auto
qed

definition no_calendar_env :: "provider_world drain_env" where
  "no_calendar_env = \<lparr>dr_max_retries = 3, dr_adapters = worker_adapters (\<lambda>_. None) (\<lambda>_ _. Net_raise ConnectError) sample_settings
     (\<lambda>c sc reqs. (Inl TimeoutException, reqs)), dr_fromisoformat = (\<lambda>_. Some (day, None))\<rparr>"

definition quiet_world :: provider_world where
  "quiet_world = \<lparr>pw_chatwoot = [], pw_google = \<lparr>wa_client = None, wa_log = []\<rparr>, pw_clinicorp = \<lparr>wa_client = None, wa_log = []\<rparr>\<rparr>"

theorem unmade_appointment_confirmed_witness:
  "\<exists>item. ds_follow_ups (snd (OutboxDrainerWorker_process_command no_calendar_env no_drain_faults ''f'' 0 booking_row
      \<lparr>ds_outbox = [booking_row], ds_follow_ups = [], ds_world = quiet_world\<rparr>)) = [item]"
proof -
  let ?st = "\<lparr>ds_outbox = [booking_row], ds_follow_ups = [], ds_world = quiet_world\<rparr>"
  have "unresolved (factory_resolve_credential (\<lambda>_. None) (st_google_calendar_credential_ref sample_settings))"
    by (simp add: sample_settings_def factory_resolve_credential_def unresolved_def py_startswith_def)
  then show ?thesis
    using unmade_appointment_confirmed [of "\<lambda>_. None" sample_settings no_calendar_env "\<lambda>_ _. Net_raise ConnectError"
        "\<lambda>c sc reqs. (Inl TimeoutException, reqs)" booking_row "''d''" day None "''00000000-0000-4000-8000-000000000001''" ?st "''f''" 0
        "fst (OutboxDrainerWorker_process_command no_calendar_env no_drain_faults ''f'' 0 booking_row ?st)"
        "snd (OutboxDrainerWorker_process_command no_calendar_env no_drain_faults ''f'' 0 booking_row ?st)"]
    by (auto simp: no_calendar_env_def booking_row_def sample_row_def sample_uuid_ok)
qed

text \<open>The agent's tools cannot write a calendar: an invocation of the scheduling tools appends nothing to
  the outbox, and the row that any other tool appends names Chatwoot as its provider, so processing it
  with the worker's adapters leaves the state and the requests of both calendars as they are.\<close>

theorem tools_never_write_calendar:
  assumes "registry_ok (gw_registry gw)" and "AgentToolMcpGateway_invoke gw request w = (r, w')"
    and "tw_outbox w' \<noteq> tw_outbox w" and "dr_adapters env = worker_adapters environ net settings chatwoot"
  shows "tir_tool_name request \<notin> {''schedule'', ''cancel'', ''reschedule''} \<and>
    (\<exists>row. tw_outbox w' = tw_outbox w @ [row] \<and> (\<forall>faults new_id now st.
       let st' = snd (OutboxDrainerWorker_process_command env faults new_id now row st)
       in pw_google (ds_world st') = pw_google (ds_world st) \<and> pw_clinicorp (ds_world st') = pw_clinicorp (ds_world st)))"
proof -
  have "w' \<noteq> w" using assms(3) by auto
  then obtain tool policy where tool: "AgentToolRegistry_get_tool (gw_registry gw) (tir_tool_name request) = Some tool"
      "ToolPolicyGuard_check (gw_policy_guard gw) tool (tir_arguments request) = Inr policy" "pcr_approved policy"
      "ToolExecutor_execute (gw_executor gw) request tool policy w = (r, w')"
    using invoke_cases [OF assms(2)] by blast
  note ex = execute_outbox [OF tool(4) assms(3)]
  have "real_execution (gw_policy_guard gw) tool" using guard_real_execution(1) [OF tool(2)] tool(3) ex by blast
  then have name: "tir_tool_name request \<notin> {''schedule'', ''cancel'', ''reschedule''}"
    using get_tool_name [OF assms(1) tool(1)] by (auto simp: real_execution_def py_startswith_def)
  obtain row where row: "tw_outbox w' = tw_outbox w @ [row]" "ob_provider row = ''chatwoot''"
    using ex assms(3) by (auto simp: execute_with_outbox_def OutboxService_enqueue_tool_command_def OutboxRepository_enqueue_def
        insert_ignore_def outbox_command_def Let_def split: if_splits sum.splits prod.splits)
  have "map_of (dr_adapters env) (row_provider row) =
      Some (\<lambda>c sc w. case chatwoot c sc (pw_chatwoot w) of (r, s) \<Rightarrow> (r, w\<lparr>pw_chatwoot := s\<rparr>))"
    using assms(4) row(2) by (simp add: worker_adapters_def row_provider_def)
  then show ?thesis using name row(1)
    by (auto simp: OutboxDrainerWorker_process_command_def attempt_failed_def Let_def split: prod.split sum.split)
qed

theorem tools_never_write_calendar_witness:
  "\<exists>row. tw_outbox (snd (AgentToolMcpGateway_invoke (sample_gateway ''00000000-0000-4000-8000-000000000001'' OM_WRITE_CONFIRMED)
      (sample_request ''kanban_update_status'' [(''stage'', PStr ''won'')]) \<lparr>tw_outbox = [], tw_follow_ups = []\<rparr>)) = [row] \<and>
    pw_google (ds_world (snd (OutboxDrainerWorker_process_command no_calendar_env no_drain_faults ''f'' 0 row
      \<lparr>ds_outbox = [row], ds_follow_ups = [], ds_world = quiet_world\<rparr>))) = pw_google quiet_world"
proof -
  obtain r w' where c: "AgentToolMcpGateway_invoke (sample_gateway ''00000000-0000-4000-8000-000000000001'' OM_WRITE_CONFIRMED)
      (sample_request ''kanban_update_status'' [(''stage'', PStr ''won'')]) \<lparr>tw_outbox = [], tw_follow_ups = []\<rparr> = (r, w')"
    and n: "tw_outbox w' \<noteq> []" using sample_kanban_call by blast
  have ok: "registry_ok (gw_registry (sample_gateway ''00000000-0000-4000-8000-000000000001'' OM_WRITE_CONFIRMED))"
    by (simp add: sample_gateway_def registry_ok_default)
  have a: "dr_adapters no_calendar_env = worker_adapters (\<lambda>_. None) (\<lambda>_ _. Net_raise ConnectError) sample_settings
     (\<lambda>c sc reqs. (Inl TimeoutException, reqs))" by (simp add: no_calendar_env_def)
  from tools_never_write_calendar [OF ok c _ a] n obtain row where row: "tw_outbox w' = [row]"
    and kept: "\<forall>faults new_id now st. let st' = snd (OutboxDrainerWorker_process_command no_calendar_env faults new_id now row st)
       in pw_google (ds_world st') = pw_google (ds_world st) \<and> pw_clinicorp (ds_world st') = pw_clinicorp (ds_world st)" by auto
  show ?thesis
    using row c kept [rule_format, of no_drain_faults "''f''" 0 "\<lparr>ds_outbox = [row], ds_follow_ups = [], ds_world = quiet_world\<rparr>"]
    by (auto simp: Let_def)
qed

end
