(* ===== verification/Startup.thy ===== *)
theory Startup
  imports Webhook RuntimeSettings
begin

text \<open>
  The edges of the process: the transactional sessions of \<open>persistence/database.py\<close>, the application with its degraded
  start and its probes (\<open>api/app.py\<close>, \<open>api/routers/admin.py\<close>), and the script that seeds the pilot tenant
  (\<open>persistence/seeds/seed_pilot.py\<close>). What a session promises to its body, all or nothing, is the locale
  \<open>transactional\<close>. The theorems follow the seeded tenant to the resolver of the webhook.
\<close>

section \<open>Sessions\<close>

text \<open>A body runs on the tables and ends with a result or an exception. \<open>session_scope\<close> is a session whose body is followed
  by a commit, which may fail; a session that ends otherwise is rolled back.\<close>

type_synonym ('t, 'a) session_body = "'t \<Rightarrow> 'a res \<times> 't"

definition session_scope :: "py_exc option \<Rightarrow> ('t, 'a) session_body \<Rightarrow> ('t, 'a) session_body" where
  "session_scope commit_exc body tables = (case body tables of
     (Inl e, _) \<Rightarrow> (Inl e, tables)
   | (Inr x, tables') \<Rightarrow> (case commit_exc of Some e \<Rightarrow> (Inl e, tables) | None \<Rightarrow> (Inr x, tables')))"

record Database =
  db_url :: string
  db_pool_size :: int
  db_max_overflow :: int
  db_echo :: bool
  db_engine :: bool
  db_session_factory :: bool

definition Database_init :: "string \<Rightarrow> int \<Rightarrow> int \<Rightarrow> bool \<Rightarrow> Database" where
  "Database_init url pool_size max_overflow echo = \<lparr>db_url = url, db_pool_size = pool_size, db_max_overflow = max_overflow,
     db_echo = echo, db_engine = False, db_session_factory = False\<rparr>"

definition Database_connect :: "py_exc option \<Rightarrow> Database \<Rightarrow> unit res \<times> Database" where
  "Database_connect create_exc db = (case create_exc of
     Some e \<Rightarrow> (Inl e, db)
   | None \<Rightarrow> (Inr (), db\<lparr>db_engine := True, db_session_factory := True\<rparr>))"

definition Database_disconnect :: "Database \<Rightarrow> Database" where
  "Database_disconnect db = (if db_engine db then db\<lparr>db_engine := False\<rparr> else db)"

definition Database_session :: "Database \<Rightarrow> py_exc option \<Rightarrow> ('t, 'a) session_body \<Rightarrow> ('t, 'a) session_body" where
  "Database_session db commit_exc body tables =
     (if \<not> db_session_factory db
      then (Inl (RuntimeError ''Database is not connected. Call connect() first.''), tables)
      else session_scope commit_exc body tables)"

definition Database_engine :: "Database \<Rightarrow> unit res" where
  "Database_engine db = (if \<not> db_engine db then Inl (RuntimeError ''Database is not connected. Call connect() first.'') else Inr ())"

text \<open>The singleton of the module is the second component.\<close>

definition get_database :: "Database option \<Rightarrow> Database res" where
  "get_database database = (case database of
     None \<Rightarrow> Inl (RuntimeError ''Database singleton not initialized. Call init_database() first.'')
   | Some db \<Rightarrow> Inr db)"

definition init_database :: "string \<Rightarrow> int \<Rightarrow> int \<Rightarrow> bool \<Rightarrow> Database option \<Rightarrow> Database \<times> Database option" where
  "init_database url pool_size max_overflow echo _ =
     (let db = Database_init url pool_size max_overflow echo in (db, Some db))"

locale transactional =
  fixes run :: "('t, 'a) session_body \<Rightarrow> ('t, 'a) session_body"
  assumes rollback: "run body t = (Inl e, t') \<Longrightarrow> t' = t"
    and commit: "run body t = (Inr x, t') \<Longrightarrow> body t = (Inr x, t')"
begin

lemma run_keeps:
  assumes "I t" and "\<And>x t'. body t = (Inr x, t') \<Longrightarrow> I t'"
  shows "I (snd (run body t))"
proof (cases "run body t")
  case (Pair r t')
  then show ?thesis using assms rollback [of body t] commit [of body t] by (cases r) auto
qed

lemma all_or_nothing: "snd (run body t) = t \<or> (\<exists>x. body t = (Inr x, snd (run body t)))"
proof (cases "run body t")
  case (Pair r t')
  then show ?thesis using rollback [of body t] commit [of body t] by (cases r) auto
qed

end

section \<open>Application\<close>

record app_state =
  as_db_session_factory :: bool
  as_db_engine :: bool
  as_rabbitmq :: bool

definition lifespan_start :: "py_exc option \<Rightarrow> py_exc option \<Rightarrow> app_state" where
  "lifespan_start engine_exc broker_exc =
     \<lparr>as_db_session_factory = (engine_exc = None), as_db_engine = (engine_exc = None), as_rabbitmq = (broker_exc = None)\<rparr>"

text \<open>The connections in the order in which the shutdown closes them.\<close>

definition lifespan_stop :: "app_state \<Rightarrow> string list" where
  "lifespan_stop st = (if as_rabbitmq st then [''rabbitmq''] else []) @ (if as_db_engine st then [''database''] else [])"

record cors_middleware =
  cm_allow_origins :: "string list"
  cm_allow_credentials :: bool
  cm_allow_methods :: "string list"
  cm_allow_headers :: "string list"

record fastapi_app =
  ap_docs_url :: "string option"
  ap_redoc_url :: "string option"
  ap_openapi_url :: "string option"
  ap_cors :: "cors_middleware option"
  ap_routers :: "(string \<times> string) list"

definition create_app :: "Settings \<Rightarrow> fastapi_app" where
  "create_app s = (let dev = Settings_is_development s in
     \<lparr>ap_docs_url = (if dev then Some ''/docs'' else None), ap_redoc_url = (if dev then Some ''/redoc'' else None),
      ap_openapi_url = (if dev then Some ''/openapi.json'' else None),
      ap_cors = (if iara_allowed_origins s \<noteq> []
        then Some \<lparr>cm_allow_origins = iara_allowed_origins s, cm_allow_credentials = False, cm_allow_methods = [''POST'', ''GET''],
          cm_allow_headers = [''Content-Type'', ''X-Request-ID'']\<rparr> else None),
      ap_routers = [(''webhook'', ''/webhooks''), (''chat'', ''/chat''), (''admin'', ''/admin''), (''hitl'', ''/hitl''), (''config'', ''/config'')]\<rparr>)"

definition health :: "app_state \<Rightarrow> pydict" where
  "health _ = [(''status'', PStr ''ok''), (''service'', PStr ''iara-runtime'')]"

definition readiness :: "app_state \<Rightarrow> pydict" where
  "readiness _ = [(''status'', PStr ''ready'')]"

definition liveness :: "app_state \<Rightarrow> pydict" where
  "liveness _ = [(''status'', PStr ''alive'')]"

definition detailed_health :: "Settings \<Rightarrow> pydict" where
  "detailed_health _ = [(''status'', PStr ''ok''), (''service'', PStr ''iara-runtime''), (''version'', PStr ''0.1.0''),
     (''environment'', PStr ''development'')]"

definition sandbox_echo :: pydict where
  "sandbox_echo = [(''status'', PStr ''ok''), (''message'', PStr ''IAra sandbox echo'')]"

section \<open>Pilot seed\<close>

text \<open>The columns that the database fills with timestamps are left out.\<close>

record ProviderAccount =
  pa_id :: uuid
  pa_tenant_id :: uuid
  pa_provider :: string
  pa_account_id_ref :: string
  pa_mcp_base_url :: "string option"
  pa_mcp_credential_ref :: string
  pa_status :: string

record seed_tables =
  sd_tenants :: "Tenant list"
  sd_accounts :: "ProviderAccount list"

definition env_value :: "os_environ \<Rightarrow> string \<Rightarrow> bool \<Rightarrow> string res" where
  "env_value environ key required = (let v = (case environ key of Some x \<Rightarrow> x | None \<Rightarrow> []) in
     if required \<and> v = []
     then Inl (RuntimeError (''Required environment variable '' @ repr_str key @ '' is not set. '' @
       ''Set it before running the seed script.''))
     else Inr v)"

definition environ_get :: "os_environ \<Rightarrow> string \<Rightarrow> string \<Rightarrow> string" where
  "environ_get environ key fallback = (case environ key of Some v \<Rightarrow> v | None \<Rightarrow> fallback)"

definition scalar_one_or_none :: "'r list \<Rightarrow> 'r option res" where
  "scalar_one_or_none rows = (case rows of [] \<Rightarrow> Inr None | [r] \<Rightarrow> Inr (Some r) | _ \<Rightarrow> Inl (OtherExc ''MultipleResultsFound''))"

text \<open>Insertions that skip a row in conflict with a key of the table; an account that is inserted needs its tenant.\<close>

definition insert_tenant :: "Tenant \<Rightarrow> Tenant list \<Rightarrow> Tenant list" where
  "insert_tenant t rows = (if list_ex (\<lambda>r. tn_id r = tn_id t \<or> tn_tenant_key r = tn_tenant_key t) rows then rows else rows @ [t])"

definition insert_account :: "Tenant list \<Rightarrow> ProviderAccount \<Rightarrow> ProviderAccount list \<Rightarrow> ProviderAccount list res" where
  "insert_account tenants a rows =
     (if list_ex (\<lambda>r. pa_id r = pa_id a \<or> (pa_tenant_id r = pa_tenant_id a \<and> pa_provider r = pa_provider a \<and>
          pa_account_id_ref r = pa_account_id_ref a)) rows then Inr rows
      else if \<not> list_ex (\<lambda>t. tn_id t = pa_tenant_id a) tenants then Inl (OtherExc ''IntegrityError'')
      else Inr (rows @ [a]))"

definition seed_tenant :: "Tenant \<Rightarrow> seed_tables \<Rightarrow> seed_tables res" where
  "seed_tenant t st =
     res_bind (scalar_one_or_none (filter (\<lambda>r. tn_id r = tn_id t) (sd_tenants st))) (\<lambda>existing.
     Inr (if existing = None then st\<lparr>sd_tenants := insert_tenant t (sd_tenants st)\<rparr> else st))"

definition seed_account :: "ProviderAccount \<Rightarrow> seed_tables \<Rightarrow> seed_tables res" where
  "seed_account a st =
     res_bind (scalar_one_or_none (filter (\<lambda>r. pa_tenant_id r = pa_tenant_id a \<and> pa_provider r = ''chatwoot'') (sd_accounts st)))
       (\<lambda>existing. if existing = None
          then res_bind (insert_account (sd_tenants st) a (sd_accounts st)) (\<lambda>rows. Inr (st\<lparr>sd_accounts := rows\<rparr>))
          else Inr st)"

definition seed_rows :: "os_environ \<Rightarrow> uuid \<Rightarrow> (Tenant \<times> ProviderAccount) res" where
  "seed_rows environ account_id =
     res_bind (env_value environ ''IARA_PILOT_TENANT_ID'' True) (\<lambda>pilot_tenant_id.
     res_bind (env_value environ ''CHATWOOT_ACCOUNT_ID'' True) (\<lambda>chatwoot_account_id.
     res_bind (env_value environ ''IARA_PILOT_WEBHOOK_KEY'' True) (\<lambda>pilot_webhook_key.
     case py_UUID pilot_tenant_id of
       None \<Rightarrow> Inl (RuntimeError (''IARA_PILOT_TENANT_ID must be a valid UUID, got: '' @ repr_str pilot_tenant_id))
     | Some u \<Rightarrow> Inr (\<lparr>tn_id = u, tn_tenant_key = sha256_hex pilot_webhook_key,
           tn_name = environ_get environ ''IARA_PILOT_TENANT_NAME'' ''IAra Pilot'', tn_status = ''active'', tn_provider = ''chatwoot'',
           tn_provider_account_id = chatwoot_account_id\<rparr>,
         \<lparr>pa_id = account_id, pa_tenant_id = u, pa_provider = ''chatwoot'', pa_account_id_ref = chatwoot_account_id,
           pa_mcp_base_url = Some (environ_get environ ''CHATWOOT_MCP_BASE_URL'' ''https://app.digi2b.com''),
           pa_mcp_credential_ref = environ_get environ ''CHATWOOT_MCP_CREDENTIAL_REF'' ''secret://chatwoot/api_token'',
           pa_status = ''active''\<rparr>))))"

definition seed_body :: "Tenant \<Rightarrow> ProviderAccount \<Rightarrow> (seed_tables, unit) session_body" where
  "seed_body t a st = (case res_bind (seed_tenant t st) (seed_account a) of Inl e \<Rightarrow> (Inl e, st) | Inr st' \<Rightarrow> (Inr (), st'))"

definition seed :: "os_environ \<Rightarrow> py_exc option \<Rightarrow> uuid \<Rightarrow> (seed_tables, unit) session_body" where
  "seed environ commit_exc account_id st = (case seed_rows environ account_id of
     Inl e \<Rightarrow> (Inl e, st)
   | Inr (t, a) \<Rightarrow> session_scope commit_exc (seed_body t a) st)"

text \<open>The database that \<open>main\<close> seeds.\<close>

definition seed_target :: "os_environ \<Rightarrow> Settings \<Rightarrow> string" where
  "seed_target environ s = (case environ ''DATABASE_URL'' of Some (c # url) \<Rightarrow> c # url | _ \<Rightarrow> database_url s)"

section \<open>Development tenant\<close>

text \<open>The in-memory repository that the routers fill when their module is loaded.\<close>

definition dev_tenants :: "os_environ \<Rightarrow> InMemoryTenantRepository" where
  "dev_tenants environ =
     (if environ_get environ ''IARA_ENV'' ''development'' \<in> {''development'', ''sandbox''}
      then InMemoryTenantRepository_register (environ_get environ ''IARA_DEV_TENANT_KEY'' ''test_tenant_001'')
        [(''tenant_id'', PStr (environ_get environ ''IARA_DEV_TENANT_ID'' ''12345678-1234-5678-1234-567812345678'')),
         (''name'', PStr ''Dev Tenant''), (''status'', PStr ''sandbox''), (''provider'', PStr ''chatwoot''),
         (''provider_account_id'', PStr (environ_get environ ''IARA_DEV_ACCOUNT_ID'' ''11111''))] []
      else [])"

section \<open>Lemmas\<close>

interpretation scope: transactional "session_scope commit_exc :: ('t, 'a) session_body \<Rightarrow> ('t, 'a) session_body"
  by unfold_locales (auto simp: session_scope_def split: prod.splits sum.splits option.splits)

interpretation db_session: transactional "Database_session db commit_exc :: ('t, 'a) session_body \<Rightarrow> ('t, 'a) session_body"
  by unfold_locales (auto simp: Database_session_def session_scope_def split: prod.splits sum.splits option.splits if_splits)

text \<open>After \<open>disconnect\<close> the engine is gone, but the session factory still hands out sessions.\<close>

lemma session_after_disconnect:
  assumes "Database_connect None db = (Inr u, db')"
  shows "Database_engine (Database_disconnect db') = Inl (RuntimeError ''Database is not connected. Call connect() first.'') \<and>
    Database_session (Database_disconnect db') None body t = session_scope None body t"
  using assms by (auto simp: Database_connect_def Database_disconnect_def Database_engine_def Database_session_def)

lemma docs_only_in_development:
  "ap_openapi_url (create_app s) \<noteq> None \<longleftrightarrow> iara_env s = ENV_DEVELOPMENT"
  by (simp add: create_app_def Let_def Settings_is_development_def)

lemma lifespan_closes_opened:
  "set (lifespan_stop (lifespan_start e1 e2)) = (if e2 = None then {''rabbitmq''} else {}) \<union> (if e1 = None then {''database''} else {})"
  by (auto simp: lifespan_stop_def lifespan_start_def)

text \<open>The probes do not look at the connections: without a broker the service is ready, accepts events and drops the jobs.\<close>

lemma degraded_ready:
  assumes "we_rabbitmq env = (if as_rabbitmq (lifespan_start e1 (Some e2)) then Some b else None)"
  shows "readiness (lifespan_start e1 (Some e2)) = [(''status'', PStr ''ready'')] \<and>
    ws_published (snd (serve_webhook env req st)) = ws_published st"
proof -
  have "we_rabbitmq env = None" using assms by (simp add: lifespan_start_def)
  then show ?thesis using receive_no_task_published [of env req st]
    by (auto simp: readiness_def serve_webhook_def queue_processing_job_def split: prod.split option.split)
qed

lemma scalar_one_simps [simp]: "scalar_one_or_none [] = Inr None" "scalar_one_or_none [r] = Inr (Some r)"
  by (simp_all add: scalar_one_or_none_def)

lemma scalar_one_bind:
  "res_bind (scalar_one_or_none rows) f = Inr y \<longleftrightarrow> (rows = [] \<and> f None = Inr y) \<or> (\<exists>r. rows = [r] \<and> f (Some r) = Inr y)"
  by (auto simp: scalar_one_or_none_def split: list.splits)

lemma seed_Inr:
  "seed environ None account_id st = (Inr u, st') \<longleftrightarrow>
     (\<exists>t a. seed_rows environ account_id = Inr (t, a) \<and> res_bind (seed_tenant t st) (seed_account a) = Inr st')"
  by (auto simp: seed_def seed_body_def session_scope_def split: sum.splits prod.splits)

lemma seed_rows_account:
  assumes "seed_rows environ x = Inr (t, a)"
  shows "seed_rows environ y = Inr (t, a\<lparr>pa_id := y\<rparr>)" and "pa_id a = x" and "pa_provider a = ''chatwoot''" and "pa_tenant_id a = tn_id t"
  using assms by (auto simp: seed_rows_def res_bind_Inr_iff split: option.splits)

text \<open>Both steps of the seed leave tables on which they do nothing.\<close>

lemma seed_tenant_Inr:
  "seed_tenant t st = Inr st' \<longleftrightarrow>
     (filter (\<lambda>r. tn_id r = tn_id t) (sd_tenants st) = [] \<and> st' = st\<lparr>sd_tenants := insert_tenant t (sd_tenants st)\<rparr>) \<or>
     ((\<exists>r. filter (\<lambda>r. tn_id r = tn_id t) (sd_tenants st) = [r]) \<and> st' = st)"
  unfolding seed_tenant_def scalar_one_bind by auto

lemma seed_account_Inr:
  "seed_account a st = Inr st' \<longleftrightarrow>
     (filter (\<lambda>r. pa_tenant_id r = pa_tenant_id a \<and> pa_provider r = ''chatwoot'') (sd_accounts st) = [] \<and>
        (\<exists>rows. insert_account (sd_tenants st) a (sd_accounts st) = Inr rows \<and> st' = st\<lparr>sd_accounts := rows\<rparr>)) \<or>
     ((\<exists>r. filter (\<lambda>r. pa_tenant_id r = pa_tenant_id a \<and> pa_provider r = ''chatwoot'') (sd_accounts st) = [r]) \<and> st' = st)"
  unfolding seed_account_def scalar_one_bind by (auto simp: res_bind_Inr_iff)

lemma seed_tenant_again:
  assumes "seed_tenant t st = Inr st'" and "sd_tenants st2 = sd_tenants st'"
  shows "seed_tenant t st2 = Inr st2"
proof (cases "\<exists>r. filter (\<lambda>r. tn_id r = tn_id t) (sd_tenants st') = [r]")
  case False
  then have "filter (\<lambda>r. tn_id r = tn_id t) (sd_tenants st) = []" "sd_tenants st' = insert_tenant t (sd_tenants st)"
    using assms(1) unfolding seed_tenant_Inr by auto
  moreover from this have "list_ex (\<lambda>r. tn_id r = tn_id t \<or> tn_tenant_key r = tn_tenant_key t) (sd_tenants st)"
    using False by (auto simp: insert_tenant_def split: if_splits)
  ultimately have "sd_tenants st2 = insert_tenant t (sd_tenants st2)" "filter (\<lambda>r. tn_id r = tn_id t) (sd_tenants st2) = []"
    using assms(2) by (simp_all add: insert_tenant_def)
  then show ?thesis unfolding seed_tenant_Inr by (cases st2) simp
qed (use assms(2) in \<open>auto simp: seed_tenant_Inr\<close>)

lemma insert_account_new:
  assumes "filter (\<lambda>r. pa_tenant_id r = pa_tenant_id a \<and> pa_provider r = ''chatwoot'') rows = []" and "pa_provider a = ''chatwoot''"
    and "pa_id a \<notin> pa_id ` set rows" and "insert_account tenants a rows = Inr rows'"
  shows "rows' = rows @ [a]"
proof -
  have "\<not> list_ex (\<lambda>r. pa_id r = pa_id a \<or> (pa_tenant_id r = pa_tenant_id a \<and> pa_provider r = pa_provider a \<and>
      pa_account_id_ref r = pa_account_id_ref a)) rows"
    using assms(1-3) by (auto simp: list_ex_iff filter_empty_conv image_iff)
  then show ?thesis using assms(4) by (simp add: insert_account_def split: if_splits)
qed

lemma seed_account_again:
  assumes "seed_account a st = Inr st'" and "pa_provider a = ''chatwoot''" and "pa_id a \<notin> pa_id ` set (sd_accounts st)"
  shows "seed_account (a\<lparr>pa_id := y\<rparr>) st' = Inr st'" and "sd_tenants st' = sd_tenants st"
proof -
  show "sd_tenants st' = sd_tenants st" using assms(1) unfolding seed_account_Inr by auto
  have "\<exists>r. filter (\<lambda>r. pa_tenant_id r = pa_tenant_id a \<and> pa_provider r = ''chatwoot'') (sd_accounts st') = [r]"
  proof (cases "filter (\<lambda>r. pa_tenant_id r = pa_tenant_id a \<and> pa_provider r = ''chatwoot'') (sd_accounts st) = []")
    case True
    then obtain rows where r: "insert_account (sd_tenants st) a (sd_accounts st) = Inr rows" "sd_accounts st' = rows"
      using assms(1) unfolding seed_account_Inr by auto
    show ?thesis using insert_account_new [OF True assms(2,3) r(1)] True r(2) assms(2) by simp
  qed (use assms(1) in \<open>auto simp: seed_account_Inr\<close>)
  then show "seed_account (a\<lparr>pa_id := y\<rparr>) st' = Inr st'" unfolding seed_account_Inr by auto
qed

section \<open>Properties\<close>

text \<open>The seed of the pilot is idempotent: a run after a successful one, with whatever identifier for the account,
  succeeds and leaves both tables as they are.\<close>

theorem seed_idempotent:
  assumes "seed environ None account_id st = (Inr u, st')" and "account_id \<notin> pa_id ` set (sd_accounts st)"
  shows "seed environ None account_id' st' = (Inr (), st')"
proof -
  obtain t a st1 where s: "seed_rows environ account_id = Inr (t, a)" "seed_tenant t st = Inr st1" "seed_account a st1 = Inr st'"
    using assms(1) by (auto simp: seed_Inr res_bind_Inr_iff)
  note r = seed_rows_account [OF s(1)]
  have acc: "sd_accounts st1 = sd_accounts st"
    using s(2) unfolding seed_tenant_Inr by auto
  then have "pa_id a \<notin> pa_id ` set (sd_accounts st1)" using assms(2) r(2) by simp
  note ag = seed_account_again [OF s(3) r(3) this]
  have "seed_tenant t st' = Inr st'" by (rule seed_tenant_again [OF s(2) ag(2)])
  then have "res_bind (seed_tenant t st') (seed_account (a\<lparr>pa_id := account_id'\<rparr>)) = Inr st'" using ag(1) by simp
  then show ?thesis using r(1) by (simp add: seed_Inr)
qed

definition pilot_environ :: os_environ where
  "pilot_environ = map_of [(''IARA_PILOT_TENANT_ID'', ''00000000-0000-4000-8000-000000000001''), (''CHATWOOT_ACCOUNT_ID'', ''11111''),
     (''IARA_PILOT_WEBHOOK_KEY'', ''piloto'')]"

lemma pilot_seeded:
  "\<exists>st'. seed pilot_environ None ''a'' \<lparr>sd_tenants = [], sd_accounts = []\<rparr> = (Inr (), st') \<and> length (sd_accounts st') = 1"
proof -
  have "py_UUID ''00000000-0000-4000-8000-000000000001'' = Some ''00000000-0000-4000-8000-000000000001''" by code_simp
  then show ?thesis
    by (simp add: seed_Inr seed_rows_def env_value_def pilot_environ_def Let_def seed_tenant_def seed_account_def
        insert_tenant_def insert_account_def)
qed

theorem seed_idempotent_witness:
  "\<exists>st'. length (sd_accounts st') = 1 \<and> seed pilot_environ None ''b'' st' = (Inr (), st')"
proof -
  obtain st' where s: "seed pilot_environ None ''a'' \<lparr>sd_tenants = [], sd_accounts = []\<rparr> = (Inr (), st')" "length (sd_accounts st') = 1"
    using pilot_seeded by blast
  from seed_idempotent [OF s(1)] s(2) show ?thesis by auto
qed

text \<open>C34: The webhook key of the seeded pilot does not resolve: the seed stores its hash, the resolver looks for the key
  as the URL has it. The key fails closed, and the hash resolves to the pilot.\<close>

theorem pilot_key_unresolved:
  assumes "seed environ None account_id st = (Inr u, st')" and "sd_tenants st = []"
    and "environ ''IARA_PILOT_WEBHOOK_KEY'' = Some k" and "length k \<noteq> 64"
  shows "(\<exists>m. fst (TenantResolver_resolve (PostgresTenantRepository_get_by_key (sd_tenants st')) now nu k (TenantResolver_init ttl)) =
      raise_iara (FailClosedError m)) \<and>
    (\<exists>ctx. fst (TenantResolver_resolve (PostgresTenantRepository_get_by_key (sd_tenants st')) now nu (sha256_hex k) (TenantResolver_init ttl)) =
      Inr ctx \<and> Some (tc_provider_account_id ctx) = environ ''CHATWOOT_ACCOUNT_ID'' \<and> tc_status ctx = TS_ACTIVE)"
proof -
  obtain t a st1 where s: "seed_rows environ account_id = Inr (t, a)" "seed_tenant t st = Inr st1" "seed_account a st1 = Inr st'"
    using assms(1) by (auto simp: seed_Inr res_bind_Inr_iff)
  obtain i where t: "py_UUID i = Some (tn_id t)" "tn_tenant_key t = sha256_hex k" "tn_status t = ''active''"
    "environ ''CHATWOOT_ACCOUNT_ID'' = Some (tn_provider_account_id t)"
    using s(1) assms(3)
    by (auto simp: seed_rows_def env_value_def Let_def res_bind_Inr_iff split: option.splits if_splits)
  have rows: "sd_tenants st' = [t]"
    using s(2,3) assms(2) unfolding seed_tenant_Inr seed_account_Inr by (auto simp: insert_tenant_def)
  have nk: "sha256_hex k \<noteq> k" using assms(4) length_sha256_hex by metis
  have un: "PostgresTenantRepository_get_by_key (sd_tenants st') k = Inr None"
    using nk t(2) by (simp add: PostgresTenantRepository_get_by_key_def rows)
  have "TenantStatus_of (PStr ''active'') = Inr TS_ACTIVE" by code_simp
  then have ctx: "\<exists>rec ctx. PostgresTenantRepository_get_by_key (sd_tenants st') (sha256_hex k) = Inr (Some rec) \<and>
      build_context (sha256_hex k) rec nu = Inr ctx \<and> tc_provider_account_id ctx = tn_provider_account_id t \<and> tc_status ctx = TS_ACTIVE"
    using t py_UUID_canonical [OF t(1)]
    by (simp add: PostgresTenantRepository_get_by_key_def rows build_context_def dict_item_def UUID_of_def py_str_def dict_get_or_def)
  have "py_strip (sha256_hex k) \<noteq> []" using length_sha256_hex [of k] sha256_hex_digits hex_digit_plain(1) strip_absent
    unfolding py_strip_def by (metis length_0_conv subsetD zero_neq_numeral)
  with ctx un t(4) show ?thesis
    by (auto simp: TenantResolver_resolve_def TenantResolver_fetch_def TenantContext_assert_active_def TenantResolver_init_def)
qed

theorem pilot_key_unresolved_witness:
  "\<exists>st' m. seed pilot_environ None ''a'' \<lparr>sd_tenants = [], sd_accounts = []\<rparr> = (Inr (), st') \<and>
     fst (TenantResolver_resolve (PostgresTenantRepository_get_by_key (sd_tenants st')) 9 5 ''piloto'' (TenantResolver_init 60)) =
       raise_iara (FailClosedError m)"
proof -
  obtain st' where s: "seed pilot_environ None ''a'' \<lparr>sd_tenants = [], sd_accounts = []\<rparr> = (Inr (), st')"
    using pilot_seeded by blast
  from pilot_key_unresolved [OF s, of "''piloto''" 9 5 60] s show ?thesis by (auto simp: pilot_environ_def)
qed


text \<open>C35: Without its database a process outside development and sandbox refuses every event, and nothing changes: the
  repository it falls back to holds no tenant, so that the handler answers 404 to every request that has a body.\<close>

theorem degraded_webhook_refused:
  assumes "we_iara_env env = environ_get environ ''IARA_ENV'' ''development''" and "we_dev_tenants env = dev_tenants environ"
    and "we_iara_env env \<notin> {''development'', ''sandbox''}"
    and "ws_db st = None" and "ws_resolver st = TenantResolver_init 60" and "wr_body req = Some (b # bs)"
  shows "serve_webhook env req st = (Inl (HTTPException 404 ''Tenant not found''), st)"
proof -
  have "we_dev_tenants env = []" using assms(1-3) by (simp add: dev_tenants_def)
  then have "webhook_resolve env (wr_tenant_key req) st = (Inl (HTTPException 404 ''Tenant not found''), st)"
    using assms(3-5) by (simp add: webhook_resolve_def TenantResolver_resolve_def TenantResolver_fetch_def TenantResolver_init_def
        InMemoryTenantRepository_get_by_key_def)
  then show ?thesis using assms(6) by (simp add: serve_webhook_def receive_chatwoot_webhook_def)
qed

theorem degraded_webhook_refused_witness:
  "serve_webhook (pilot_env None\<lparr>we_iara_env := ''production'', we_dev_tenants := dev_tenants [''IARA_ENV'' \<mapsto> ''production'']\<rparr>)
     \<lparr>wr_tenant_key = ''test_tenant_001'', wr_x_request_id = None, wr_body = Some [7]\<rparr>
     \<lparr>ws_resolver = TenantResolver_init 60, ws_db = None, ws_published = []\<rparr> =
   (Inl (HTTPException 404 ''Tenant not found''), \<lparr>ws_resolver = TenantResolver_init 60, ws_db = None, ws_published = []\<rparr>)"
  by (rule degraded_webhook_refused [of _ "[''IARA_ENV'' \<mapsto> ''production'']" _ _ 7 "[]"]) (simp_all add: environ_get_def)

end
