(* ===== verification/Schema.thy ===== *)
theory Schema
  imports Webhook Outbox FollowUp
begin

text \<open>
  The database schema: the Alembic revisions under \<open>migrations/versions\<close> as lists of statements with the meaning
  PostgreSQL gives them on the catalog, and the ORM models of \<open>persistence/models.py\<close> as table descriptions.
  Column comments have no effect and are left out; defaults that the ORM fills in on the client are no part of a table.
  Stepping through revisions forwards and backwards is the locale \<open>reversible\<close>. The theorems show that the chain of
  revisions applies and reverts exactly, that it has the unique constraints the upserts of the repositories name, and
  how far it drifts from the models.
\<close>

section \<open>Catalog\<close>

datatype sql_type = SQL_UUID | String nat | Text | Integer | Boolean | JSONB | Timestamptz

record column =
  co_name :: string
  co_type :: sql_type
  co_nullable :: bool
  co_primary :: bool
  co_unique :: bool
  co_references :: "(string \<times> string) option"
  co_server_default :: "string option"

definition col :: "string \<Rightarrow> sql_type \<Rightarrow> column" where
  "col n t = \<lparr>co_name = n, co_type = t, co_nullable = True, co_primary = False, co_unique = False, co_references = None,
     co_server_default = None\<rparr>"

definition not_null :: "column \<Rightarrow> column" where
  "not_null c = c\<lparr>co_nullable := False\<rparr>"

definition primary_key :: "column \<Rightarrow> column" where
  "primary_key c = c\<lparr>co_primary := True, co_nullable := False\<rparr>"

definition unique :: "column \<Rightarrow> column" where
  "unique c = c\<lparr>co_unique := True\<rparr>"

definition references :: "string \<Rightarrow> string \<Rightarrow> column \<Rightarrow> column" where
  "references t n c = c\<lparr>co_references := Some (t, n)\<rparr>"

definition server_default :: "string \<Rightarrow> column \<Rightarrow> column" where
  "server_default d c = c\<lparr>co_server_default := Some d\<rparr>"

record db_table =
  tb_columns :: "column list"
  tb_uniques :: "(string \<times> string list) list"

record db_index =
  ix_table :: string
  ix_columns :: "string list"
  ix_unique :: bool
  ix_where :: "string option"

record schema =
  sc_tables :: "(string \<times> db_table) list"
  sc_indexes :: "(string \<times> db_index) list"

definition empty_schema :: schema where
  "empty_schema = \<lparr>sc_tables = [], sc_indexes = []\<rparr>"

text \<open>A unique column gets a constraint with PostgreSQL's name for it. Tables, indexes and unique constraints (which have
  an index) share one name space.\<close>

definition inline_uniques :: "string \<Rightarrow> column list \<Rightarrow> (string \<times> string list) list" where
  "inline_uniques t cols = map (\<lambda>c. (t @ ''_'' @ co_name c @ ''_key'', [co_name c])) (filter co_unique cols)"

definition relation_names :: "schema \<Rightarrow> string list" where
  "relation_names s = map fst (sc_tables s) @ map fst (sc_indexes s) @ concat (map (\<lambda>(n, t). map fst (tb_uniques t)) (sc_tables s))"

definition column_names :: "db_table \<Rightarrow> string list" where
  "column_names t = map co_name (tb_columns t)"

definition is_key :: "db_table \<Rightarrow> string \<Rightarrow> bool" where
  "is_key t n \<longleftrightarrow> list_ex (\<lambda>c. co_name c = n \<and> co_primary c) (tb_columns t) \<or> list_ex (\<lambda>(_, cs). cs = [n]) (tb_uniques t)"

text \<open>A foreign key needs its target, a key of a table that exists or of the table itself.\<close>

definition reference_ok :: "(string \<times> db_table) list \<Rightarrow> column \<Rightarrow> bool" where
  "reference_ok tables c = (case co_references c of None \<Rightarrow> True
     | Some (t, n) \<Rightarrow> (case map_of tables t of None \<Rightarrow> False | Some tb \<Rightarrow> is_key tb n))"

definition referenced :: "schema \<Rightarrow> string \<Rightarrow> bool" where
  "referenced s n = list_ex (\<lambda>(m, t). m \<noteq> n \<and> list_ex (\<lambda>c. case co_references c of None \<Rightarrow> False | Some (r, _) \<Rightarrow> r = n) (tb_columns t)) (sc_tables s)"

section \<open>Statements\<close>

datatype ddl =
    Create_table string "column list" "(string \<times> string list) list"
  | Drop_table string
  | Create_index string string "string list" "string option"
  | Drop_index string
  | Add_column string column
  | Drop_column string string
  | Create_unique_constraint string string "string list"
  | Drop_constraint string string

datatype ddl_error = Duplicate_relation | Duplicate_column | Undefined_table | Undefined_column | Undefined_object | Dependent_objects

definition set_table :: "string \<Rightarrow> db_table \<Rightarrow> schema \<Rightarrow> schema" where
  "set_table n t s = s\<lparr>sc_tables := map (\<lambda>(m, u). if m = n then (m, t) else (m, u)) (sc_tables s)\<rparr>"

definition with_table :: "string \<Rightarrow> schema \<Rightarrow> (db_table \<Rightarrow> ddl_error + schema) \<Rightarrow> ddl_error + schema" where
  "with_table n s f = (case map_of (sc_tables s) n of None \<Rightarrow> Inl Undefined_table | Some t \<Rightarrow> f t)"

definition disjoint_names :: "string list \<Rightarrow> schema \<Rightarrow> bool" where
  "disjoint_names ns s \<longleftrightarrow> distinct ns \<and> list_all (\<lambda>n. \<not> List.member (relation_names s) n) ns"

fun apply_ddl :: "ddl \<Rightarrow> schema \<Rightarrow> ddl_error + schema" where
  "apply_ddl (Create_table n cols uniques) s =
     (let us = inline_uniques n cols @ uniques; t = \<lparr>tb_columns = cols, tb_uniques = us\<rparr> in
      if \<not> disjoint_names (n # map fst us) s then Inl Duplicate_relation
      else if \<not> distinct (map co_name cols) then Inl Duplicate_column
      else if \<not> list_all (\<lambda>(_, cs). list_all (List.member (map co_name cols)) cs) us then Inl Undefined_column
      else if \<not> list_all (reference_ok (sc_tables s @ [(n, t)])) cols then Inl Undefined_table
      else Inr (s\<lparr>sc_tables := sc_tables s @ [(n, t)]\<rparr>))"
| "apply_ddl (Drop_table n) s = with_table n s (\<lambda>t.
     if referenced s n then Inl Dependent_objects
     else Inr (s\<lparr>sc_tables := filter (\<lambda>(m, _). m \<noteq> n) (sc_tables s), sc_indexes := filter (\<lambda>(_, i). ix_table i \<noteq> n) (sc_indexes s)\<rparr>))"
| "apply_ddl (Create_index i n cs cond) s = with_table n s (\<lambda>t.
     if \<not> disjoint_names [i] s then Inl Duplicate_relation
     else if \<not> list_all (List.member (column_names t)) cs then Inl Undefined_column
     else Inr (s\<lparr>sc_indexes := sc_indexes s @ [(i, \<lparr>ix_table = n, ix_columns = cs, ix_unique = False, ix_where = cond\<rparr>)]\<rparr>))"
| "apply_ddl (Drop_index i) s =
     (if map_of (sc_indexes s) i = None then Inl Undefined_object
      else Inr (s\<lparr>sc_indexes := filter (\<lambda>(j, _). j \<noteq> i) (sc_indexes s)\<rparr>))"
| "apply_ddl (Add_column n c) s = with_table n s (\<lambda>t.
     if List.member (column_names t) (co_name c) then Inl Duplicate_column
     else if \<not> reference_ok (sc_tables s) c then Inl Undefined_table
     else if \<not> disjoint_names (map fst (inline_uniques n [c])) s then Inl Duplicate_relation
     else Inr (set_table n (t\<lparr>tb_columns := tb_columns t @ [c], tb_uniques := tb_uniques t @ inline_uniques n [c]\<rparr>) s))"
| "apply_ddl (Drop_column n c) s = with_table n s (\<lambda>t.
     if \<not> List.member (column_names t) c then Inl Undefined_column
     else if is_key t c \<and> referenced s n then Inl Dependent_objects
     else Inr (set_table n (t\<lparr>tb_columns := filter (\<lambda>d. co_name d \<noteq> c) (tb_columns t),
         tb_uniques := filter (\<lambda>(_, cs). \<not> List.member cs c) (tb_uniques t)\<rparr>)
       (s\<lparr>sc_indexes := filter (\<lambda>(_, i). ix_table i \<noteq> n \<or> \<not> List.member (ix_columns i) c) (sc_indexes s)\<rparr>)))"
| "apply_ddl (Create_unique_constraint u n cs) s = with_table n s (\<lambda>t.
     if \<not> disjoint_names [u] s then Inl Duplicate_relation
     else if \<not> list_all (List.member (column_names t)) cs then Inl Undefined_column
     else Inr (set_table n (t\<lparr>tb_uniques := tb_uniques t @ [(u, cs)]\<rparr>) s))"
| "apply_ddl (Drop_constraint u n) s = with_table n s (\<lambda>t.
     if map_of (tb_uniques t) u = None then Inl Undefined_object
     else Inr (set_table n (t\<lparr>tb_uniques := filter (\<lambda>(v, _). v \<noteq> u) (tb_uniques t)\<rparr>) s))"

fun run_ddl :: "ddl list \<Rightarrow> schema \<Rightarrow> ddl_error + schema" where
  "run_ddl [] s = Inr s"
| "run_ddl (d # ds) s = res_bind (apply_ddl d s) (run_ddl ds)"

section \<open>Revisions\<close>

text \<open>The condition of the partial index of the follow-up queue.\<close>

definition pending_only :: string where
  "pending_only = ''status = '' @ repr_str ''pending''"

definition tenant_tables :: "ddl list" where
  "tenant_tables = [
     Create_table ''tenants'' [
       primary_key (col ''id'' SQL_UUID),
       unique (not_null (col ''tenant_key'' (String 128))),
       not_null (col ''name'' (String 256)),
       server_default ''active'' (not_null (col ''status'' (String 32))),
       server_default ''chatwoot'' (not_null (col ''provider'' (String 64))),
       not_null (col ''provider_account_id'' (String 256)),
       server_default ''now()'' (col ''created_at'' Timestamptz),
       server_default ''now()'' (col ''updated_at'' Timestamptz)]
       [],
     Create_index ''ix_tenants_tenant_key'' ''tenants'' [''tenant_key''] None,
     Create_table ''provider_accounts'' [
       primary_key (col ''id'' SQL_UUID),
       not_null (references ''tenants'' ''id'' (col ''tenant_id'' SQL_UUID)),
       not_null (col ''provider'' (String 64)),
       not_null (col ''account_id_ref'' (String 256)),
       col ''mcp_base_url'' (String 512),
       not_null (col ''mcp_credential_ref'' (String 512)),
       server_default ''active'' (not_null (col ''status'' (String 32))),
       server_default ''now()'' (col ''created_at'' Timestamptz)]
       [(''uq_provider_account'', [''tenant_id'', ''provider'', ''account_id_ref''])],
     Create_table ''provider_inboxes'' [
       primary_key (col ''id'' SQL_UUID),
       not_null (references ''tenants'' ''id'' (col ''tenant_id'' SQL_UUID)),
       not_null (references ''provider_accounts'' ''id'' (col ''provider_account_id'' SQL_UUID)),
       not_null (col ''inbox_id'' (String 256)),
       not_null (col ''channel_type'' (String 64)),
       server_default ''active'' (not_null (col ''status'' (String 32))),
       server_default ''now()'' (col ''created_at'' Timestamptz)]
       [(''uq_inbox_per_tenant'', [''tenant_id'', ''inbox_id''])]]"

definition conversation_tables :: "ddl list" where
  "conversation_tables = [
     Create_table ''event_receipts'' [
       primary_key (col ''id'' SQL_UUID),
       not_null (references ''tenants'' ''id'' (col ''tenant_id'' SQL_UUID)),
       not_null (col ''idempotency_key'' (String 512)),
       not_null (col ''raw_hash'' (String 64)),
       not_null (col ''correlation_id'' (String 128)),
       server_default ''received'' (not_null (col ''status'' (String 32))),
       server_default ''now()'' (col ''received_at'' Timestamptz)]
       [(''uq_event_receipt'', [''tenant_id'', ''idempotency_key''])],
     Create_index ''ix_event_receipts_tenant_received'' ''event_receipts'' [''tenant_id'', ''received_at''] None,
     Create_table ''conversation_debounce'' [
       primary_key (col ''id'' SQL_UUID),
       not_null (references ''tenants'' ''id'' (col ''tenant_id'' SQL_UUID)),
       not_null (col ''conversation_id'' (String 256)),
       not_null (col ''locked_until'' Timestamptz),
       server_default ''now()'' (col ''created_at'' Timestamptz)]
       [(''uq_debounce_conversation'', [''tenant_id'', ''conversation_id''])],
     Create_table ''conversation_run_leases'' [
       primary_key (col ''id'' SQL_UUID),
       not_null (references ''tenants'' ''id'' (col ''tenant_id'' SQL_UUID)),
       not_null (col ''conversation_id'' (String 256)),
       not_null (col ''fencing_token'' (String 128)),
       not_null (col ''worker_id'' (String 256)),
       server_default ''now()'' (col ''acquired_at'' Timestamptz),
       not_null (col ''expires_at'' Timestamptz),
       col ''released_at'' Timestamptz]
       [(''uq_lease_conversation'', [''tenant_id'', ''conversation_id''])]]"

definition run_tables :: "ddl list" where
  "run_tables = [
     Create_table ''agent_runs'' [
       primary_key (col ''id'' SQL_UUID),
       not_null (references ''tenants'' ''id'' (col ''tenant_id'' SQL_UUID)),
       not_null (col ''correlation_id'' (String 128)),
       not_null (col ''conversation_id'' (String 256)),
       server_default ''started'' (not_null (col ''status'' (String 32))),
       server_default ''1.0.0'' (not_null (col ''flow_version'' (String 64))),
       col ''config_version_ref'' (String 256),
       server_default ''now()'' (col ''started_at'' Timestamptz),
       col ''completed_at'' Timestamptz]
       [],
     Create_index ''ix_agent_runs_tenant_correlation'' ''agent_runs'' [''tenant_id'', ''correlation_id''] None,
     Create_table ''runtime_run_steps'' [
       primary_key (col ''id'' SQL_UUID),
       not_null (references ''agent_runs'' ''id'' (col ''run_id'' SQL_UUID)),
       not_null (references ''tenants'' ''id'' (col ''tenant_id'' SQL_UUID)),
       not_null (col ''node_name'' (String 128)),
       not_null (col ''status'' (String 32)),
       server_default ''now()'' (col ''started_at'' Timestamptz),
       col ''completed_at'' Timestamptz,
       col ''metadata_json'' JSONB]
       [],
     Create_table ''runtime_errors'' [
       primary_key (col ''id'' SQL_UUID),
       not_null (references ''tenants'' ''id'' (col ''tenant_id'' SQL_UUID)),
       references ''agent_runs'' ''id'' (col ''run_id'' SQL_UUID),
       not_null (col ''correlation_id'' (String 128)),
       not_null (col ''error_code'' (String 64)),
       not_null (col ''error_summary'' Text),
       col ''node_name'' (String 128),
       server_default ''now()'' (col ''occurred_at'' Timestamptz)]
       []]"

definition command_tables :: "ddl list" where
  "command_tables = [
     Create_table ''provider_command_outbox'' [
       primary_key (col ''id'' SQL_UUID),
       not_null (references ''tenants'' ''id'' (col ''tenant_id'' SQL_UUID)),
       not_null (col ''command_id'' (String 128)),
       not_null (col ''idempotency_key'' (String 512)),
       not_null (col ''correlation_id'' (String 128)),
       not_null (col ''provider'' (String 64)),
       not_null (col ''capability_name'' (String 128)),
       not_null (col ''parameters_json'' JSONB),
       not_null (col ''risk_class'' (String 32)),
       server_default ''pending'' (not_null (col ''status'' (String 32))),
       server_default ''0'' (not_null (col ''retry_count'' Integer)),
       server_default ''now()'' (col ''scheduled_at'' Timestamptz),
       col ''sent_at'' Timestamptz,
       col ''confirmed_at'' Timestamptz]
       [(''uq_outbox_idempotency'', [''tenant_id'', ''idempotency_key''])],
     Create_index ''ix_outbox_pending'' ''provider_command_outbox'' [''status'', ''scheduled_at''] None,
     Create_table ''safe_audit_events'' [
       primary_key (col ''id'' SQL_UUID),
       not_null (references ''tenants'' ''id'' (col ''tenant_id'' SQL_UUID)),
       not_null (col ''event_type'' (String 64)),
       not_null (col ''correlation_id'' (String 128)),
       col ''conversation_ref'' (String 256),
       not_null (col ''status'' (String 32)),
       server_default ''{}'' (not_null (col ''counts_json'' JSONB)),
       server_default ''{}'' (not_null (col ''refs_json'' JSONB)),
       col ''error_code'' (String 64),
       col ''error_summary'' Text,
       server_default ''{}'' (not_null (col ''metadata_json'' JSONB)),
       server_default ''now()'' (col ''recorded_at'' Timestamptz)]
       [],
     Create_index ''ix_audit_tenant_type'' ''safe_audit_events'' [''tenant_id'', ''event_type'', ''recorded_at''] None]"

definition config_tables :: "ddl list" where
  "config_tables = [
     Create_table ''agent_profiles'' [
       primary_key (col ''id'' SQL_UUID),
       unique (not_null (references ''tenants'' ''id'' (col ''tenant_id'' SQL_UUID))),
       not_null (col ''name'' (String 256)),
       col ''active_publication_id'' SQL_UUID,
       server_default ''now()'' (col ''created_at'' Timestamptz)]
       [],
     Create_table ''agent_config_versions'' [
       primary_key (col ''id'' SQL_UUID),
       not_null (references ''tenants'' ''id'' (col ''tenant_id'' SQL_UUID)),
       not_null (references ''agent_profiles'' ''id'' (col ''profile_id'' SQL_UUID)),
       not_null (col ''version_tag'' (String 64)),
       server_default ''draft'' (not_null (col ''status'' (String 32))),
       not_null (col ''config_hash'' (String 64)),
       server_default ''now()'' (col ''created_at'' Timestamptz)]
       [(''uq_config_version_tag'', [''tenant_id'', ''version_tag''])],
     Create_table ''config_publications'' [
       primary_key (col ''id'' SQL_UUID),
       not_null (references ''tenants'' ''id'' (col ''tenant_id'' SQL_UUID)),
       not_null (references ''agent_config_versions'' ''id'' (col ''config_version_id'' SQL_UUID)),
       not_null (col ''published_by'' (String 256)),
       server_default ''now()'' (col ''published_at'' Timestamptz),
       server_default ''true'' (not_null (col ''is_active'' Boolean)),
       col ''rolled_back_at'' Timestamptz]
       []]"

definition upgrade_0001 :: "ddl list" where
  "upgrade_0001 = tenant_tables @ conversation_tables @ run_tables @ command_tables @ config_tables"

definition downgrade_0001 :: "ddl list" where
  "downgrade_0001 = [
     Drop_table ''config_publications'',
     Drop_table ''agent_config_versions'',
     Drop_table ''agent_profiles'',
     Drop_index ''ix_audit_tenant_type'',
     Drop_table ''safe_audit_events'',
     Drop_index ''ix_outbox_pending'',
     Drop_table ''provider_command_outbox'',
     Drop_table ''runtime_errors'',
     Drop_table ''runtime_run_steps'',
     Drop_index ''ix_agent_runs_tenant_correlation'',
     Drop_table ''agent_runs'',
     Drop_table ''conversation_run_leases'',
     Drop_table ''conversation_debounce'',
     Drop_index ''ix_event_receipts_tenant_received'',
     Drop_table ''event_receipts'',
     Drop_table ''provider_inboxes'',
     Drop_table ''provider_accounts'',
     Drop_index ''ix_tenants_tenant_key'',
     Drop_table ''tenants'']"

definition upgrade_0002 :: "ddl list" where
  "upgrade_0002 = [
     Create_table ''agent_memory_items'' [
       primary_key (col ''id'' SQL_UUID),
       not_null (references ''tenants'' ''id'' (col ''tenant_id'' SQL_UUID)),
       not_null (col ''namespace'' (String 512)),
       not_null (col ''item_key'' (String 512)),
       not_null (col ''content'' Text),
       server_default ''90'' (not_null (col ''ttl_days'' Integer)),
       col ''consent_ref'' (String 256),
       server_default ''false'' (not_null (col ''is_anonymized'' Boolean)),
       server_default ''now()'' (col ''created_at'' Timestamptz),
       server_default ''now()'' (col ''updated_at'' Timestamptz),
       not_null (col ''expires_at'' Timestamptz)]
       [],
     Create_unique_constraint ''uq_memory_namespace_key'' ''agent_memory_items'' [''namespace'', ''item_key''],
     Create_index ''ix_memory_tenant_namespace'' ''agent_memory_items'' [''tenant_id'', ''namespace''] None,
     Create_index ''ix_memory_expires_at'' ''agent_memory_items'' [''expires_at''] None,
     Create_table ''command_requester_bindings'' [
       primary_key (col ''id'' SQL_UUID),
       not_null (references ''tenants'' ''id'' (col ''tenant_id'' SQL_UUID)),
       not_null (col ''sender_type'' (String 64)),
       col ''sender_ref'' (String 256),
       server_default ''*'' (not_null (col ''allowed_commands'' Text)),
       server_default ''active'' (not_null (col ''status'' (String 32))),
       server_default ''now()'' (col ''created_at'' Timestamptz)]
       [],
     Create_index ''ix_cmd_binding_tenant_type'' ''command_requester_bindings'' [''tenant_id'', ''sender_type''] None]"

definition downgrade_0002 :: "ddl list" where
  "downgrade_0002 = [
     Drop_table ''command_requester_bindings'',
     Drop_index ''ix_memory_expires_at'',
     Drop_index ''ix_memory_tenant_namespace'',
     Drop_constraint ''uq_memory_namespace_key'' ''agent_memory_items'',
     Drop_table ''agent_memory_items'']"

definition upgrade_0003 :: "ddl list" where
  "upgrade_0003 = [
     Create_table ''hitl_holds'' [
       primary_key (col ''id'' SQL_UUID),
       unique (not_null (col ''run_id'' (String 128))),
       not_null (references ''tenants'' ''id'' (col ''tenant_id'' SQL_UUID)),
       not_null (col ''conversation_id'' (String 256)),
       not_null (col ''thread_id'' (String 256)),
       col ''reason'' Text,
       server_default ''pending'' (not_null (col ''status'' (String 32))),
       col ''resolved_by'' (String 256),
       server_default ''now()'' (col ''requested_at'' Timestamptz),
       col ''resolved_at'' Timestamptz]
       [],
     Create_index ''ix_hitl_holds_tenant_status'' ''hitl_holds'' [''tenant_id'', ''status''] None,
     Create_index ''ix_hitl_holds_run_id'' ''hitl_holds'' [''run_id''] None]"

definition downgrade_0003 :: "ddl list" where
  "downgrade_0003 = [
     Drop_index ''ix_hitl_holds_run_id'',
     Drop_index ''ix_hitl_holds_tenant_status'',
     Drop_table ''hitl_holds'']"

definition upgrade_0004 :: "ddl list" where
  "upgrade_0004 = [
     Add_column ''hitl_holds'' (col ''context_snapshot'' JSONB),
     Create_table ''follow_up_queue'' [
       primary_key (col ''id'' SQL_UUID),
       not_null (references ''tenants'' ''id'' (col ''tenant_id'' SQL_UUID)),
       not_null (col ''conversation_id'' (String 256)),
       not_null (col ''contact_ref'' (String 256)),
       not_null (col ''message_ref'' (String 256)),
       not_null (col ''message_length'' Integer),
       not_null (col ''reason_ref'' (String 256)),
       not_null (col ''trigger_at'' Timestamptz),
       server_default ''pending'' (not_null (col ''status'' (String 32))),
       server_default ''0'' (not_null (col ''attempt_count'' Integer)),
       server_default ''3'' (not_null (col ''max_attempts'' Integer)),
       server_default ''false'' (not_null (col ''opted_out'' Boolean)),
       not_null (col ''correlation_id'' (String 128)),
       not_null (col ''idempotency_key'' (String 512)),
       server_default ''now()'' (col ''created_at'' Timestamptz),
       server_default ''now()'' (col ''updated_at'' Timestamptz),
       col ''sent_at'' Timestamptz,
       col ''skip_reason'' (String 256)]
       [(''uq_follow_up_idempotency'', [''idempotency_key''])],
     Create_index ''ix_follow_up_trigger'' ''follow_up_queue'' [''trigger_at''] (Some pending_only),
     Create_index ''ix_follow_up_tenant_status'' ''follow_up_queue'' [''tenant_id'', ''status''] None]"

definition downgrade_0004 :: "ddl list" where
  "downgrade_0004 = [
     Drop_index ''ix_follow_up_tenant_status'',
     Drop_index ''ix_follow_up_trigger'',
     Drop_table ''follow_up_queue'',
     Drop_column ''hitl_holds'' ''context_snapshot'']"

definition upgrade_0005 :: "ddl list" where
  "upgrade_0005 = [
     Add_column ''agent_config_versions'' (col ''config_data'' JSONB)]"

definition downgrade_0005 :: "ddl list" where
  "downgrade_0005 = [
     Drop_column ''agent_config_versions'' ''config_data'']"

record revision =
  rv_revision :: string
  rv_down_revision :: "string option"
  rv_upgrade :: "ddl list"
  rv_downgrade :: "ddl list"

definition revisions :: "revision list" where
  "revisions = [
     \<lparr>rv_revision = ''0001'', rv_down_revision = None, rv_upgrade = upgrade_0001, rv_downgrade = downgrade_0001\<rparr>,
     \<lparr>rv_revision = ''0002'', rv_down_revision = Some ''0001'', rv_upgrade = upgrade_0002, rv_downgrade = downgrade_0002\<rparr>,
     \<lparr>rv_revision = ''0003'', rv_down_revision = Some ''0002'', rv_upgrade = upgrade_0003, rv_downgrade = downgrade_0003\<rparr>,
     \<lparr>rv_revision = ''0004'', rv_down_revision = Some ''0003'', rv_upgrade = upgrade_0004, rv_downgrade = downgrade_0004\<rparr>,
     \<lparr>rv_revision = ''0005'', rv_down_revision = Some ''0004'', rv_upgrade = upgrade_0005, rv_downgrade = downgrade_0005\<rparr>]"

text \<open>Steps between the n-th versions of something that is migrated.\<close>

fun steps_up :: "(nat \<Rightarrow> 's \<Rightarrow> 'e + 's) \<Rightarrow> nat \<Rightarrow> nat \<Rightarrow> 's \<Rightarrow> 'e + 's" where
  "steps_up up m 0 s = Inr s"
| "steps_up up m (Suc k) s = res_bind (up m s) (steps_up up (Suc m) k)"

fun steps_down :: "(nat \<Rightarrow> 's \<Rightarrow> 'e + 's) \<Rightarrow> nat \<Rightarrow> nat \<Rightarrow> 's \<Rightarrow> 'e + 's" where
  "steps_down down m 0 s = Inr s"
| "steps_down down 0 (Suc k) s = Inr s"
| "steps_down down (Suc m) (Suc k) s = res_bind (down m s) (steps_down down m k)"

definition revision_up :: "nat \<Rightarrow> schema \<Rightarrow> ddl_error + schema" where
  "revision_up m = run_ddl (rv_upgrade (revisions ! m))"

definition revision_down :: "nat \<Rightarrow> schema \<Rightarrow> ddl_error + schema" where
  "revision_down m = run_ddl (rv_downgrade (revisions ! m))"

text \<open>The schema after the first n revisions, of a database that was empty.\<close>

definition schema_at :: "nat \<Rightarrow> ddl_error + schema" where
  "schema_at n = steps_up revision_up 0 n empty_schema"

section \<open>Models\<close>

record orm_table =
  ot_name :: string
  ot_columns :: "column list"
  ot_uniques :: "(string \<times> string list) list"
  ot_indexes :: "(string \<times> db_index) list"

definition orm_table :: "string \<Rightarrow> column list \<Rightarrow> (string \<times> string list) list \<Rightarrow>
    (string \<times> string list \<times> bool \<times> string option) list \<Rightarrow> orm_table" where
  "orm_table n cols uniques indexes = \<lparr>ot_name = n, ot_columns = cols, ot_uniques = inline_uniques n cols @ uniques,
     ot_indexes = map (\<lambda>(i, cs, u, cond). (i, \<lparr>ix_table = n, ix_columns = cs, ix_unique = u, ix_where = cond\<rparr>)) indexes\<rparr>"

definition orm_tenants :: orm_table where
  "orm_tenants = orm_table ''tenants'' [
       primary_key (col ''id'' SQL_UUID),
       not_null (col ''tenant_key'' (String 128)),
       not_null (col ''name'' (String 256)),
       not_null (col ''status'' (String 32)),
       not_null (col ''provider'' (String 64)),
       not_null (col ''provider_account_id'' (String 256)),
       server_default ''now()'' (not_null (col ''created_at'' Timestamptz)),
       server_default ''now()'' (not_null (col ''updated_at'' Timestamptz))]
       [] [(''ix_tenants_tenant_key'', [''tenant_key''], True, None)]"

definition orm_provider_accounts :: orm_table where
  "orm_provider_accounts = orm_table ''provider_accounts'' [
       primary_key (col ''id'' SQL_UUID),
       not_null (references ''tenants'' ''id'' (col ''tenant_id'' SQL_UUID)),
       not_null (col ''provider'' (String 64)),
       not_null (col ''account_id_ref'' (String 256)),
       col ''mcp_base_url'' (String 512),
       not_null (col ''mcp_credential_ref'' (String 512)),
       not_null (col ''status'' (String 32)),
       server_default ''now()'' (not_null (col ''created_at'' Timestamptz))]
       [(''uq_provider_account'', [''tenant_id'', ''provider'', ''account_id_ref''])] []"

definition orm_provider_inboxes :: orm_table where
  "orm_provider_inboxes = orm_table ''provider_inboxes'' [
       primary_key (col ''id'' SQL_UUID),
       not_null (references ''tenants'' ''id'' (col ''tenant_id'' SQL_UUID)),
       not_null (references ''provider_accounts'' ''id'' (col ''provider_account_id'' SQL_UUID)),
       not_null (col ''inbox_id'' (String 256)),
       not_null (col ''channel_type'' (String 64)),
       not_null (col ''status'' (String 32)),
       server_default ''now()'' (not_null (col ''created_at'' Timestamptz))]
       [(''uq_inbox_per_tenant'', [''tenant_id'', ''inbox_id''])] []"

definition orm_event_receipts :: orm_table where
  "orm_event_receipts = orm_table ''event_receipts'' [
       primary_key (col ''id'' SQL_UUID),
       not_null (references ''tenants'' ''id'' (col ''tenant_id'' SQL_UUID)),
       not_null (col ''idempotency_key'' (String 512)),
       not_null (col ''raw_hash'' (String 64)),
       not_null (col ''correlation_id'' (String 128)),
       not_null (col ''status'' (String 32)),
       server_default ''now()'' (not_null (col ''received_at'' Timestamptz))]
       [(''uq_event_receipt'', [''tenant_id'', ''idempotency_key''])] [(''ix_event_receipts_tenant_received'', [''tenant_id'', ''received_at''], False, None)]"

definition orm_conversation_debounce :: orm_table where
  "orm_conversation_debounce = orm_table ''conversation_debounce'' [
       primary_key (col ''id'' SQL_UUID),
       not_null (references ''tenants'' ''id'' (col ''tenant_id'' SQL_UUID)),
       not_null (col ''conversation_id'' (String 256)),
       not_null (col ''locked_until'' Timestamptz),
       server_default ''now()'' (not_null (col ''created_at'' Timestamptz))]
       [(''uq_debounce_conversation'', [''tenant_id'', ''conversation_id''])] []"

definition orm_conversation_run_leases :: orm_table where
  "orm_conversation_run_leases = orm_table ''conversation_run_leases'' [
       primary_key (col ''id'' SQL_UUID),
       not_null (references ''tenants'' ''id'' (col ''tenant_id'' SQL_UUID)),
       not_null (col ''conversation_id'' (String 256)),
       not_null (col ''fencing_token'' (String 128)),
       not_null (col ''worker_id'' (String 256)),
       server_default ''now()'' (not_null (col ''acquired_at'' Timestamptz)),
       not_null (col ''expires_at'' Timestamptz),
       col ''released_at'' Timestamptz]
       [(''uq_lease_conversation'', [''tenant_id'', ''conversation_id''])] []"

definition orm_agent_runs :: orm_table where
  "orm_agent_runs = orm_table ''agent_runs'' [
       primary_key (col ''id'' SQL_UUID),
       not_null (references ''tenants'' ''id'' (col ''tenant_id'' SQL_UUID)),
       not_null (col ''correlation_id'' (String 128)),
       not_null (col ''conversation_id'' (String 256)),
       not_null (col ''status'' (String 32)),
       not_null (col ''flow_version'' (String 64)),
       col ''config_version_ref'' (String 256),
       server_default ''now()'' (not_null (col ''started_at'' Timestamptz)),
       col ''completed_at'' Timestamptz]
       [] [(''ix_agent_runs_tenant_correlation'', [''tenant_id'', ''correlation_id''], False, None)]"

definition orm_runtime_run_steps :: orm_table where
  "orm_runtime_run_steps = orm_table ''runtime_run_steps'' [
       primary_key (col ''id'' SQL_UUID),
       not_null (references ''agent_runs'' ''id'' (col ''run_id'' SQL_UUID)),
       not_null (references ''tenants'' ''id'' (col ''tenant_id'' SQL_UUID)),
       not_null (col ''node_name'' (String 128)),
       not_null (col ''status'' (String 32)),
       server_default ''now()'' (not_null (col ''started_at'' Timestamptz)),
       col ''completed_at'' Timestamptz,
       col ''metadata_json'' JSONB]
       [] []"

definition orm_runtime_errors :: orm_table where
  "orm_runtime_errors = orm_table ''runtime_errors'' [
       primary_key (col ''id'' SQL_UUID),
       not_null (references ''tenants'' ''id'' (col ''tenant_id'' SQL_UUID)),
       references ''agent_runs'' ''id'' (col ''run_id'' SQL_UUID),
       not_null (col ''correlation_id'' (String 128)),
       not_null (col ''error_code'' (String 64)),
       not_null (col ''error_summary'' Text),
       col ''node_name'' (String 128),
       server_default ''now()'' (not_null (col ''occurred_at'' Timestamptz))]
       [] []"

definition orm_provider_command_outbox :: orm_table where
  "orm_provider_command_outbox = orm_table ''provider_command_outbox'' [
       primary_key (col ''id'' SQL_UUID),
       not_null (references ''tenants'' ''id'' (col ''tenant_id'' SQL_UUID)),
       not_null (col ''command_id'' (String 128)),
       not_null (col ''idempotency_key'' (String 512)),
       not_null (col ''correlation_id'' (String 128)),
       not_null (col ''provider'' (String 64)),
       not_null (col ''capability_name'' (String 128)),
       not_null (col ''parameters_json'' JSONB),
       not_null (col ''risk_class'' (String 32)),
       not_null (col ''status'' (String 32)),
       not_null (col ''retry_count'' Integer),
       server_default ''now()'' (not_null (col ''scheduled_at'' Timestamptz)),
       col ''sent_at'' Timestamptz,
       col ''confirmed_at'' Timestamptz]
       [(''uq_outbox_idempotency'', [''tenant_id'', ''idempotency_key''])] [(''ix_outbox_pending'', [''status'', ''scheduled_at''], False, None)]"

definition orm_safe_audit_events :: orm_table where
  "orm_safe_audit_events = orm_table ''safe_audit_events'' [
       primary_key (col ''id'' SQL_UUID),
       not_null (references ''tenants'' ''id'' (col ''tenant_id'' SQL_UUID)),
       not_null (col ''event_type'' (String 64)),
       not_null (col ''correlation_id'' (String 128)),
       col ''conversation_ref'' (String 256),
       not_null (col ''status'' (String 32)),
       not_null (col ''counts_json'' JSONB),
       not_null (col ''refs_json'' JSONB),
       col ''error_code'' (String 64),
       col ''error_summary'' Text,
       not_null (col ''metadata_json'' JSONB),
       server_default ''now()'' (not_null (col ''recorded_at'' Timestamptz))]
       [] [(''ix_audit_tenant_type'', [''tenant_id'', ''event_type'', ''recorded_at''], False, None)]"

definition orm_agent_memory_items :: orm_table where
  "orm_agent_memory_items = orm_table ''agent_memory_items'' [
       primary_key (col ''id'' SQL_UUID),
       not_null (references ''tenants'' ''id'' (col ''tenant_id'' SQL_UUID)),
       not_null (col ''namespace'' (String 512)),
       not_null (col ''item_key'' (String 512)),
       not_null (col ''content'' Text),
       not_null (col ''ttl_days'' Integer),
       col ''consent_ref'' (String 256),
       not_null (col ''is_anonymized'' Boolean),
       server_default ''now()'' (not_null (col ''created_at'' Timestamptz)),
       server_default ''now()'' (not_null (col ''updated_at'' Timestamptz)),
       not_null (col ''expires_at'' Timestamptz)]
       [(''uq_memory_namespace_key'', [''namespace'', ''item_key''])] [(''ix_memory_tenant_namespace'', [''tenant_id'', ''namespace''], False, None), (''ix_memory_expires_at'', [''expires_at''], False, None)]"

definition orm_agent_profiles :: orm_table where
  "orm_agent_profiles = orm_table ''agent_profiles'' [
       primary_key (col ''id'' SQL_UUID),
       unique (not_null (references ''tenants'' ''id'' (col ''tenant_id'' SQL_UUID))),
       not_null (col ''name'' (String 256)),
       col ''active_publication_id'' SQL_UUID,
       server_default ''now()'' (not_null (col ''created_at'' Timestamptz))]
       [] []"

definition orm_agent_config_versions :: orm_table where
  "orm_agent_config_versions = orm_table ''agent_config_versions'' [
       primary_key (col ''id'' SQL_UUID),
       not_null (references ''tenants'' ''id'' (col ''tenant_id'' SQL_UUID)),
       not_null (references ''agent_profiles'' ''id'' (col ''profile_id'' SQL_UUID)),
       not_null (col ''version_tag'' (String 64)),
       not_null (col ''status'' (String 32)),
       not_null (col ''config_hash'' (String 64)),
       col ''config_data'' JSONB,
       server_default ''now()'' (not_null (col ''created_at'' Timestamptz))]
       [(''uq_config_version_tag'', [''tenant_id'', ''version_tag''])] []"

definition orm_config_publications :: orm_table where
  "orm_config_publications = orm_table ''config_publications'' [
       primary_key (col ''id'' SQL_UUID),
       not_null (references ''tenants'' ''id'' (col ''tenant_id'' SQL_UUID)),
       not_null (references ''agent_config_versions'' ''id'' (col ''config_version_id'' SQL_UUID)),
       not_null (col ''published_by'' (String 256)),
       server_default ''now()'' (not_null (col ''published_at'' Timestamptz)),
       not_null (col ''is_active'' Boolean),
       col ''rolled_back_at'' Timestamptz]
       [] []"

definition orm_hitl_holds :: orm_table where
  "orm_hitl_holds = orm_table ''hitl_holds'' [
       primary_key (col ''id'' SQL_UUID),
       unique (not_null (col ''run_id'' (String 128))),
       not_null (references ''tenants'' ''id'' (col ''tenant_id'' SQL_UUID)),
       not_null (col ''conversation_id'' (String 256)),
       not_null (col ''thread_id'' (String 256)),
       col ''reason'' Text,
       not_null (col ''status'' (String 32)),
       col ''resolved_by'' (String 256),
       col ''context_snapshot'' JSONB,
       server_default ''now()'' (not_null (col ''requested_at'' Timestamptz)),
       col ''resolved_at'' Timestamptz]
       [] [(''ix_hitl_holds_tenant_status'', [''tenant_id'', ''status''], False, None), (''ix_hitl_holds_run_id_idx'', [''run_id''], False, None)]"

definition orm_follow_up_queue :: orm_table where
  "orm_follow_up_queue = orm_table ''follow_up_queue'' [
       primary_key (col ''id'' SQL_UUID),
       not_null (references ''tenants'' ''id'' (col ''tenant_id'' SQL_UUID)),
       not_null (col ''conversation_id'' (String 256)),
       not_null (col ''contact_ref'' (String 256)),
       not_null (col ''message_ref'' (String 256)),
       not_null (col ''message_length'' Integer),
       not_null (col ''reason_ref'' (String 256)),
       not_null (col ''trigger_at'' Timestamptz),
       not_null (col ''status'' (String 32)),
       not_null (col ''attempt_count'' Integer),
       not_null (col ''max_attempts'' Integer),
       not_null (col ''opted_out'' Boolean),
       not_null (col ''correlation_id'' (String 128)),
       not_null (col ''idempotency_key'' (String 512)),
       server_default ''now()'' (not_null (col ''created_at'' Timestamptz)),
       server_default ''now()'' (not_null (col ''updated_at'' Timestamptz)),
       col ''sent_at'' Timestamptz,
       col ''skip_reason'' (String 256)]
       [(''uq_follow_up_idempotency'', [''idempotency_key''])] [(''ix_follow_up_trigger'', [''trigger_at''], False, Some pending_only), (''ix_follow_up_tenant_status'', [''tenant_id'', ''status''], False, None)]"

definition orm_tables :: "orm_table list" where
  "orm_tables = [orm_tenants, orm_provider_accounts, orm_provider_inboxes, orm_event_receipts, orm_conversation_debounce, orm_conversation_run_leases, orm_agent_runs, orm_runtime_run_steps, orm_runtime_errors, orm_provider_command_outbox, orm_safe_audit_events, orm_agent_memory_items, orm_agent_profiles, orm_agent_config_versions, orm_config_publications, orm_hitl_holds, orm_follow_up_queue]"

section \<open>Drift\<close>

text \<open>What a table and a model disagree on: columns that only one of them has or that differ in type or keys, columns that
  only the model declares \<open>NOT NULL\<close>, unique constraints and indexes that only one of them has.\<close>

record drift =
  dr_missing :: "string list"
  dr_extra :: "string list"
  dr_columns :: "(string \<times> string) list"
  dr_nullable :: "(string \<times> string) list"
  dr_uniques :: "(string \<times> string list) list"
  dr_indexes :: "string list"

definition column_key :: "column \<Rightarrow> string \<times> sql_type \<times> bool \<times> (string \<times> string) option" where
  "column_key c = (co_name c, co_type c, co_primary c, co_references c)"

definition only_one :: "'a list \<Rightarrow> 'a list \<Rightarrow> 'a list" where
  "only_one xs ys = (if xs = ys then [] else filter (\<lambda>x. \<not> List.member ys x) xs @ filter (\<lambda>y. \<not> List.member xs y) ys)"

definition table_columns :: "schema \<Rightarrow> string \<Rightarrow> column list" where
  "table_columns s n = (case map_of (sc_tables s) n of None \<Rightarrow> [] | Some t \<Rightarrow> tb_columns t)"

definition table_uniques :: "schema \<Rightarrow> string \<Rightarrow> (string \<times> string list) list" where
  "table_uniques s n = (case map_of (sc_tables s) n of None \<Rightarrow> [] | Some t \<Rightarrow> tb_uniques t)"

definition columns_drift :: "schema \<Rightarrow> orm_table \<Rightarrow> (string \<times> string) list" where
  "columns_drift s m = map (\<lambda>k. (ot_name m, fst k))
     (only_one (map column_key (ot_columns m)) (map column_key (table_columns s (ot_name m))))"

definition nullable_drift :: "schema \<Rightarrow> orm_table \<Rightarrow> (string \<times> string) list" where
  "nullable_drift s m = (let loose = map co_name (filter co_nullable (table_columns s (ot_name m))) in
     map (\<lambda>c. (ot_name m, co_name c)) (filter (\<lambda>c. \<not> co_nullable c \<and> List.member loose (co_name c)) (ot_columns m)))"

definition uniques_drift :: "schema \<Rightarrow> orm_table \<Rightarrow> (string \<times> string list) list" where
  "uniques_drift s m = only_one (ot_uniques m) (table_uniques s (ot_name m))"

definition indexes_drift :: "schema \<Rightarrow> orm_table \<Rightarrow> string list" where
  "indexes_drift s m = map fst (only_one (ot_indexes m) (filter (\<lambda>(_, i). ix_table i = ot_name m) (sc_indexes s)))"

definition schema_drift :: "orm_table list \<Rightarrow> schema \<Rightarrow> drift" where
  "schema_drift models s =
     \<lparr>dr_missing = filter (\<lambda>n. \<not> List.member (map fst (sc_tables s)) n) (map ot_name models),
      dr_extra = filter (\<lambda>n. \<not> List.member (map ot_name models) n) (map fst (sc_tables s)),
      dr_columns = concat (map (columns_drift s) models), dr_nullable = concat (map (nullable_drift s) models),
      dr_uniques = concat (map (uniques_drift s) models), dr_indexes = concat (map (indexes_drift s) models)\<rparr>"

section \<open>Rows\<close>

text \<open>The constraints that the upserts of the repositories name, with their tables.\<close>

definition lease_constraint :: "string \<times> string" where
  "lease_constraint = (''conversation_run_leases'', ''uq_lease_conversation'')"

definition debounce_constraint :: "string \<times> string" where
  "debounce_constraint = (''conversation_debounce'', ''uq_debounce_conversation'')"

definition receipt_constraint :: "string \<times> string" where
  "receipt_constraint = (''event_receipts'', ''uq_event_receipt'')"

definition follow_up_constraint :: "string \<times> string" where
  "follow_up_constraint = (''follow_up_queue'', ''uq_follow_up_idempotency'')"

definition outbox_constraint :: "string \<times> string" where
  "outbox_constraint = (''provider_command_outbox'', ''uq_outbox_idempotency'')"

definition constraint_columns :: "schema \<Rightarrow> string \<times> string \<Rightarrow> string list option" where
  "constraint_columns s tu = map_of (table_uniques s (fst tu)) (snd tu)"

text \<open>The text in a column of a row of the model, and what a unique constraint and the widths of the columns demand.\<close>

definition receipt_value :: "EventReceipt \<Rightarrow> string \<Rightarrow> string" where
  "receipt_value r n = (case map_of [(''id'', er_id r), (''tenant_id'', er_tenant_id r), (''idempotency_key'', er_idempotency_key r),
     (''raw_hash'', er_raw_hash r), (''correlation_id'', er_correlation_id r), (''status'', er_status r)] n of Some v \<Rightarrow> v | None \<Rightarrow> [])"

definition outbox_value :: "ProviderCommandOutbox \<Rightarrow> string \<Rightarrow> string" where
  "outbox_value r n = (case map_of [(''id'', ob_id r), (''tenant_id'', ob_tenant_id r), (''command_id'', ob_command_id r),
     (''idempotency_key'', ob_idempotency_key r), (''correlation_id'', ob_correlation_id r), (''provider'', ob_provider r),
     (''capability_name'', ob_capability_name r), (''risk_class'', ob_risk_class r)] n of Some v \<Rightarrow> v | None \<Rightarrow> [])"

definition rows_unique :: "('r \<Rightarrow> string \<Rightarrow> string) \<Rightarrow> string list \<Rightarrow> 'r list \<Rightarrow> bool" where
  "rows_unique value cols rows \<longleftrightarrow> distinct (map (\<lambda>r. map (value r) cols) rows)"

definition row_fits :: "('r \<Rightarrow> string \<Rightarrow> string) \<Rightarrow> column list \<Rightarrow> 'r \<Rightarrow> bool" where
  "row_fits value cols r = list_all (\<lambda>c. case co_type c of String n \<Rightarrow> length (value r (co_name c)) \<le> n | _ \<Rightarrow> True) cols"

section \<open>Lemmas\<close>

text \<open>A sequence of versions whose steps are inverse to each other.\<close>

locale reversible =
  fixes up down :: "nat \<Rightarrow> 's \<Rightarrow> 'e + 's"
    and last_version :: nat
    and version :: "nat \<Rightarrow> 's"
  assumes up: "m < last_version \<Longrightarrow> up m (version m) = Inr (version (Suc m))"
    and down: "m < last_version \<Longrightarrow> down m (version (Suc m)) = Inr (version m)"
begin

lemma steps_up_version: "m + k \<le> last_version \<Longrightarrow> steps_up up m k (version m) = Inr (version (m + k))"
  by (induction k arbitrary: m) (simp_all add: up)

lemma steps_down_version: "m + k \<le> last_version \<Longrightarrow> steps_down down (m + k) k (version (m + k)) = Inr (version m)"
  by (induction k) (simp_all add: down)

lemma there_and_back:
  assumes "m \<le> n" and "n \<le> last_version"
  shows "steps_up up m (n - m) (version m) = Inr (version n)" and "steps_down down n (n - m) (version n) = Inr (version m)"
  using assms steps_up_version [of m "n - m"] steps_down_version [of m "n - m"] by simp_all

end

text \<open>What a statement does when it succeeds. The schema of a revision is the effect of all the statements up to it, which is
  computed without their checks.\<close>

fun ddl_effect :: "ddl \<Rightarrow> schema \<Rightarrow> schema" where
  "ddl_effect (Create_table n cols uniques) s =
     s\<lparr>sc_tables := sc_tables s @ [(n, \<lparr>tb_columns = cols, tb_uniques = inline_uniques n cols @ uniques\<rparr>)]\<rparr>"
| "ddl_effect (Create_index i n cs cond) s =
     s\<lparr>sc_indexes := sc_indexes s @ [(i, \<lparr>ix_table = n, ix_columns = cs, ix_unique = False, ix_where = cond\<rparr>)]\<rparr>"
| "ddl_effect d s = (case apply_ddl d s of Inl _ \<Rightarrow> s | Inr s' \<Rightarrow> s')"

lemma apply_ddl_effect: "apply_ddl d s = Inr s' \<Longrightarrow> s' = ddl_effect d s"
  by (cases d) (auto simp: with_table_def Let_def split: if_splits option.splits)

lemma run_ddl_effect: "run_ddl ds s = Inr s' \<Longrightarrow> s' = fold ddl_effect ds s"
  by (induction ds arbitrary: s) (auto simp: res_bind_Inr_iff dest: apply_ddl_effect)

definition revision_schema :: "nat \<Rightarrow> schema" where
  "revision_schema n = fold (\<lambda>r. fold ddl_effect (rv_upgrade r)) (take n revisions) empty_schema"

text \<open>Each revision applies to the schema it meets, and its way back restores that schema.\<close>

fun revisions_apply :: "revision list \<Rightarrow> schema \<Rightarrow> bool" where
  "revisions_apply [] s = True"
| "revisions_apply (r # rs) s = (case run_ddl (rv_upgrade r) s of
     Inl _ \<Rightarrow> False | Inr t \<Rightarrow> run_ddl (rv_downgrade r) t = Inr s \<and> revisions_apply rs t)"

lemma revisions_apply_nth:
  assumes "revisions_apply rs s" and "m < length rs"
  shows "run_ddl (rv_upgrade (rs ! m)) (fold (\<lambda>r. fold ddl_effect (rv_upgrade r)) (take m rs) s) =
      Inr (fold (\<lambda>r. fold ddl_effect (rv_upgrade r)) (take (Suc m) rs) s) \<and>
    run_ddl (rv_downgrade (rs ! m)) (fold (\<lambda>r. fold ddl_effect (rv_upgrade r)) (take (Suc m) rs) s) =
      Inr (fold (\<lambda>r. fold ddl_effect (rv_upgrade r)) (take m rs) s)"
  using assms
proof (induction rs arbitrary: s m)
  case (Cons r rs)
  then obtain t where t: "run_ddl (rv_upgrade r) s = Inr t" "run_ddl (rv_downgrade r) t = Inr s" "revisions_apply rs t"
    by (auto split: sum.splits)
  moreover have "t = fold ddl_effect (rv_upgrade r) s" using t(1) by (rule run_ddl_effect)
  ultimately show ?case using Cons.IH [of t] Cons.prems(2) by (cases m) auto
qed simp

lemma revisions_evaluated: "revisions_apply revisions empty_schema"
  by code_simp

text \<open>The revisions form one line.\<close>

lemma revisions_linked: "map rv_down_revision revisions = None # map (Some \<circ> rv_revision) (butlast revisions)"
  by (simp add: revisions_def)

lemma length_revisions: "length revisions = 5"
  by (simp add: revisions_def)

interpretation chain: reversible revision_up revision_down 5 revision_schema
proof
  fix m :: nat
  assume "m < 5"
  then show "revision_up m (revision_schema m) = Inr (revision_schema (Suc m))"
    and "revision_down m (revision_schema (Suc m)) = Inr (revision_schema m)"
    using revisions_apply_nth [OF revisions_evaluated, of m]
    by (simp_all add: revision_up_def revision_down_def revision_schema_def length_revisions)
qed

lemma schema_at_revision: "n \<le> 5 \<Longrightarrow> schema_at n = Inr (revision_schema n)"
  using chain.steps_up_version [of 0 n] by (simp add: schema_at_def revision_schema_def)

lemma normalized_hashes:
  assumes "ChatwootEventNormalizer_normalize pd tenant now u1 u2 payload raw corr = Inr ev"
  shows "length (rer_raw_hash (ev_raw_event_ref ev)) = 64" and "length (ev_idempotency_key ev) = 64"
proof -
  have "rer_raw_hash (ev_raw_event_ref ev) = sha256_bytes raw \<and> (\<exists>e k. ev_idempotency_key ev = make_idempotency_key e k)"
    using assms unfolding ChatwootEventNormalizer_normalize_def Let_def res_bind_Inr_iff
    by (elim exE conjE) (fastforce simp: RawEventRef_from_raw_bytes_def)
  then show "length (rer_raw_hash (ev_raw_event_ref ev)) = 64" and "length (ev_idempotency_key ev) = 64"
    by (auto simp: make_idempotency_key_def)
qed

text \<open>What there is to compute of the last schema: the columns of the receipts, what the models differ in, and the columns of
  the constraints.\<close>

definition head_report where
  "head_report s = (map (\<lambda>c. (co_name c, co_type c)) (table_columns s ''event_receipts''),
     filter (\<lambda>n. \<not> List.member (map fst (sc_tables s)) n) (map ot_name orm_tables),
     filter (\<lambda>n. \<not> List.member (map ot_name orm_tables) n) (map fst (sc_tables s)),
     concat (map (columns_drift s) orm_tables),
     concat (map (nullable_drift s) orm_tables),
     concat (map (uniques_drift s) orm_tables),
     concat (map (indexes_drift s) orm_tables),
     map (constraint_columns s) [lease_constraint, debounce_constraint, receipt_constraint, outbox_constraint, follow_up_constraint])"

lemma head_evaluated:
  "head_report (revision_schema 5) =
    ([(''id'', SQL_UUID), (''tenant_id'', SQL_UUID), (''idempotency_key'', String 512), (''raw_hash'', String 64),
      (''correlation_id'', String 128), (''status'', String 32), (''received_at'', Timestamptz)],
     [],
     [''command_requester_bindings''],
     [],
     [(''tenants'', ''created_at''), (''tenants'', ''updated_at''), (''provider_accounts'', ''created_at''),
      (''provider_inboxes'', ''created_at''), (''event_receipts'', ''received_at''), (''conversation_debounce'', ''created_at''),
      (''conversation_run_leases'', ''acquired_at''), (''agent_runs'', ''started_at''), (''runtime_run_steps'', ''started_at''),
      (''runtime_errors'', ''occurred_at''), (''provider_command_outbox'', ''scheduled_at''), (''safe_audit_events'', ''recorded_at''),
      (''agent_memory_items'', ''created_at''), (''agent_memory_items'', ''updated_at''), (''agent_profiles'', ''created_at''),
      (''agent_config_versions'', ''created_at''), (''config_publications'', ''published_at''), (''hitl_holds'', ''requested_at''),
      (''follow_up_queue'', ''created_at''), (''follow_up_queue'', ''updated_at'')],
     [(''tenants_tenant_key_key'', [''tenant_key''])],
     [''ix_tenants_tenant_key'', ''ix_tenants_tenant_key'', ''ix_hitl_holds_run_id_idx'', ''ix_hitl_holds_run_id''],
     [Some [''tenant_id'', ''conversation_id''], Some [''tenant_id'', ''conversation_id''], Some [''tenant_id'', ''idempotency_key''],
        Some [''tenant_id'', ''idempotency_key''], Some [''idempotency_key'']])"
  by code_simp

lemmas head_facts = head_evaluated [unfolded head_report_def prod.inject]
lemmas receipt_columns = head_facts [THEN conjunct1]
lemmas head_drift = head_facts [THEN conjunct2]

lemma row_fits_columns:
  "row_fits value cols r = list_all (\<lambda>(n, t). case t of String k \<Rightarrow> length (value r n) \<le> k | _ \<Rightarrow> True) (map (\<lambda>c. (co_name c, co_type c)) cols)"
  by (induction cols) (simp_all add: row_fits_def)

lemma receipt_fits:
  "row_fits receipt_value (table_columns (revision_schema 5) ''event_receipts'') r \<longleftrightarrow>
     length (er_idempotency_key r) \<le> 512 \<and> length (er_raw_hash r) \<le> 64 \<and> length (er_correlation_id r) \<le> 128 \<and> length (er_status r) \<le> 32"
  unfolding row_fits_columns receipt_columns by (simp add: receipt_value_def)

section \<open>Properties\<close>

text \<open>C29: The revisions of the database apply one after the other from the empty database, and the way back from any of
  them to any earlier one restores exactly the schema that was there.\<close>

theorem revisions_reversible:
  assumes "m \<le> n" and "n \<le> 5"
  shows "\<exists>s t. schema_at m = Inr s \<and> schema_at n = Inr t \<and> steps_up revision_up m (n - m) s = Inr t \<and>
    steps_down revision_down n (n - m) t = Inr s"
  using chain.there_and_back [OF assms] schema_at_revision [of m] schema_at_revision [OF assms(2)] assms by auto

theorem revisions_reversible_witness:
  "\<exists>t. schema_at 5 = Inr t \<and> steps_down revision_down 5 5 t = Inr empty_schema"
  using revisions_reversible [of 0 5] by (simp add: schema_at_def)



text \<open>C32: A request id of more than 128 characters disarms the idempotency of the webhook. The receipt of a normalized event
  fits its table exactly when the correlation id, which is the \<open>X-Request-ID\<close> header of the request, has at most 128
  characters; when inserting a receipt that does not fit fails, the event is accepted and the database stays as it was,
  so that the next delivery of the event is accepted again.\<close>

theorem oversized_request_id_unrecorded:
  assumes "ChatwootEventNormalizer_normalize pd ctx now u1 u2 payload raw corr = Inr ev"
    and "webhook_check env ctx ev d = Inr EligibilityDecision_accept"
    and "IdempotencyRepository_record (we_uid env 2) (we_clock env 4) (tc_tenant_id ctx) (ev_idempotency_key ev)
      (rer_raw_hash (ev_raw_event_ref ev)) correlation_id [] = ([r], True)"
    and "schema_at 5 = Inr s" and "df_record (we_faults env) \<longleftrightarrow> \<not> row_fits receipt_value (table_columns s ''event_receipts'') r"
  shows "(row_fits receipt_value (table_columns s ''event_receipts'') r \<longleftrightarrow> length correlation_id \<le> 128) \<and>
    (128 < length correlation_id \<longrightarrow>
      webhook_eligibility env ctx ev correlation_id (Some d) = (Inr EligibilityDecision_accept, Some d))"
proof -
  have s: "s = revision_schema 5" using assms(4) schema_at_revision [of 5] by simp
  have r: "er_idempotency_key r = ev_idempotency_key ev" "er_raw_hash r = rer_raw_hash (ev_raw_event_ref ev)"
      "er_correlation_id r = correlation_id" "er_status r = ''received''"
    using assms(3) by (auto simp: IdempotencyRepository_record_def insert_ignore_def)
  have fits: "row_fits receipt_value (table_columns s ''event_receipts'') r \<longleftrightarrow> length correlation_id \<le> 128"
    unfolding s receipt_fits by (simp add: r normalized_hashes [OF assms(1)])
  have "EligibilityChecker_check ctx None None ev = Inr EligibilityDecision_accept"
    using assms(2) by (auto simp: webhook_check_def check_accept_cond split: if_splits)
  then show ?thesis using assms(2,5) fits by (simp add: webhook_eligibility_def webhook_commit_def)
qed

definition long_id :: string where
  "long_id = replicate 129 (CHR ''r'')"

theorem oversized_request_id_unrecorded_witness:
  "\<exists>ev. webhook_eligibility (pilot_env None\<lparr>we_faults := no_faults\<lparr>df_record := True\<rparr>\<rparr>) pilot_ctx ev long_id
     (Some \<lparr>wd_tenants = [], wd_receipts = [], wd_debounce = Map.empty\<rparr>) =
       (Inr EligibilityDecision_accept, Some \<lparr>wd_tenants = [], wd_receipts = [], wd_debounce = Map.empty\<rparr>)"
proof -
  let ?env = "pilot_env None\<lparr>we_faults := no_faults\<lparr>df_record := True\<rparr>\<rparr>"
  let ?d = "\<lparr>wd_tenants = [], wd_receipts = [], wd_debounce = Map.empty\<rparr>"
  obtain ev where ev: "ChatwootEventNormalizer_normalize strict_pydantic pilot_ctx 0 ''u1'' ''u2'' (PDict pilot_payload) [7, 8] None = Inr ev"
    "ev_account_id_ref ev = make_account_ref (tc_provider_account_id pilot_ctx)" "ev_message_type ev = Some MT_INCOMING"
    "ev_sender_type ev = Some ST_CONTACT" "\<not> ev_is_private ev"
    using pilot_event by blast
  have c: "webhook_check ?env pilot_ctx ev ?d = Inr EligibilityDecision_accept"
    using ev by (simp add: webhook_check_def check_accept_cond pilot_env_def no_faults_def is_duplicate_iff DebounceRepository_is_debouncing_def)
  obtain r where r: "IdempotencyRepository_record (we_uid ?env 2) (we_clock ?env 4) (tc_tenant_id pilot_ctx) (ev_idempotency_key ev)
      (rer_raw_hash (ev_raw_event_ref ev)) long_id [] = ([r], True)" "er_correlation_id r = long_id"
    by (simp add: IdempotencyRepository_record_def insert_ignore_def)
  have l: "128 < length long_id" by (simp add: long_id_def)
  have "df_record (we_faults ?env) \<longleftrightarrow> \<not> row_fits receipt_value (table_columns (revision_schema 5) ''event_receipts'') r"
    using l r(2) by (simp add: receipt_fits)
  from oversized_request_id_unrecorded [OF ev(1) c r(1) _ this] schema_at_revision [of 5] l show ?thesis by auto
qed

end
