(* ===== verification/ConfigPublishing.thy ===== *)
theory ConfigPublishing
  imports Tenancy "HOL-Library.Char_ord" "HOL-Library.List_Lexorder"
begin

text \<open>
  Publishing of tenant configurations: \<open>config_publishing/publisher.py\<close> with its in-memory fallback,
  \<open>publisher_compat.py\<close>, the service registry \<open>registry.py\<close> and the router \<open>api/routers/config.py\<close>. The
  three tables are lists of rows; whether the database works is an argument of each call. Both
  variants refine one abstract pipeline, an append-only history with an active entry.
\<close>

section \<open>Abstract pipeline\<close>

record config_spec =
  sp_history :: "(string \<times> pydict) list"
  sp_active :: "string option"

definition spec_publish :: "string \<Rightarrow> pydict \<Rightarrow> config_spec \<Rightarrow> config_spec" where
  "spec_publish pid c sp = \<lparr>sp_history = sp_history sp @ [(pid, c)], sp_active = Some pid\<rparr>"

definition spec_rollback :: "string \<Rightarrow> config_spec \<Rightarrow> config_spec option" where
  "spec_rollback pid sp = (if pid \<in> set (map fst (sp_history sp)) then Some (sp\<lparr>sp_active := Some pid\<rparr>) else None)"

definition spec_current :: "config_spec \<Rightarrow> (string \<times> pydict) option" where
  "spec_current sp = (case sp_active sp of None \<Rightarrow> None
     | Some pid \<Rightarrow> map_option (Pair pid) (map_of (sp_history sp) pid))"

datatype config_op = Op_publish string string | Op_rollback string

fun spec_step :: "(string \<Rightarrow> pydict option) \<Rightarrow> config_op \<Rightarrow> config_spec \<Rightarrow> config_spec" where
  "spec_step drafts (Op_publish pid d) sp = (case drafts d of None \<Rightarrow> sp | Some c \<Rightarrow> spec_publish pid c sp)"
| "spec_step drafts (Op_rollback pid) sp = (case spec_rollback pid sp of None \<Rightarrow> sp | Some sp' \<Rightarrow> sp')"

text \<open>Publication ids are fresh.\<close>

fun op_ids :: "config_op list \<Rightarrow> string list" where
  "op_ids [] = []"
| "op_ids (Op_publish pid d # ops) = pid # op_ids ops"
| "op_ids (Op_rollback pid # ops) = op_ids ops"

fun op_valid :: "(string \<Rightarrow> bool) \<Rightarrow> config_op \<Rightarrow> bool" where
  "op_valid v (Op_publish pid d) = (v pid \<and> v d)"
| "op_valid v (Op_rollback pid) = v pid"

text \<open>One call on a publisher; a call that raises leaves the state as it was.\<close>

fun op_step :: "(string \<Rightarrow> string \<Rightarrow> 's \<Rightarrow> 's res) \<Rightarrow> (string \<Rightarrow> 's \<Rightarrow> 's res) \<Rightarrow> config_op \<Rightarrow> 's \<Rightarrow> 's" where
  "op_step publish rollback (Op_publish pid d) s = (case publish pid d s of Inl e \<Rightarrow> s | Inr s' \<Rightarrow> s')"
| "op_step publish rollback (Op_rollback pid) s = (case rollback pid s of Inl e \<Rightarrow> s | Inr s' \<Rightarrow> s')"

locale config_publisher =
  fixes inv :: "'s \<Rightarrow> bool" and abs_state :: "'s \<Rightarrow> config_spec" and drafts :: "'s \<Rightarrow> string \<Rightarrow> pydict option"
    and valid :: "string \<Rightarrow> bool" and current :: "'s \<Rightarrow> (string \<times> pydict) option"
    and publish :: "string \<Rightarrow> string \<Rightarrow> 's \<Rightarrow> 's res" and rollback :: "string \<Rightarrow> 's \<Rightarrow> 's res"
  assumes current_ok: "inv s \<Longrightarrow> current s = spec_current (abs_state s)"
    and publish_ok: "inv s \<Longrightarrow> valid pid \<Longrightarrow> valid d \<Longrightarrow> pid \<notin> set (map fst (sp_history (abs_state s))) \<Longrightarrow>
      drafts s d = Some c \<Longrightarrow>
      \<exists>s'. publish pid d s = Inr s' \<and> inv s' \<and> abs_state s' = spec_publish pid c (abs_state s) \<and> drafts s' = drafts s"
    and publish_error: "inv s \<Longrightarrow> valid pid \<Longrightarrow> valid d \<Longrightarrow> drafts s d = None \<Longrightarrow> isl (publish pid d s)"
    and rollback_ok: "inv s \<Longrightarrow> valid pid \<Longrightarrow> spec_rollback pid (abs_state s) = Some sp \<Longrightarrow>
      \<exists>s'. rollback pid s = Inr s' \<and> inv s' \<and> abs_state s' = sp \<and> drafts s' = drafts s"
    and rollback_error: "inv s \<Longrightarrow> valid pid \<Longrightarrow> spec_rollback pid (abs_state s) = None \<Longrightarrow> isl (rollback pid s)"
begin

abbreviation step :: "config_op \<Rightarrow> 's \<Rightarrow> 's" where
  "step \<equiv> op_step publish rollback"

lemma step_refines:
  assumes "inv s" and "op_valid valid m" and "set (op_ids [m]) \<inter> set (map fst (sp_history (abs_state s))) = {}"
  shows "inv (step m s) \<and> abs_state (step m s) = spec_step (drafts s) m (abs_state s) \<and> drafts (step m s) = drafts s"
proof (cases m)
  case (Op_publish pid d)
  then show ?thesis
    using publish_ok [of s pid d] publish_error [of s pid d] assms by (cases "drafts s d") (auto simp: isl_def)
next
  case (Op_rollback pid)
  then show ?thesis
    using rollback_ok [of s pid] rollback_error [of s pid] assms
    by (cases "spec_rollback pid (abs_state s)") (auto simp: isl_def)
qed

lemma spec_step_ids:
  "set (map fst (sp_history (spec_step ds m sp))) \<subseteq> set (map fst (sp_history sp)) \<union> set (op_ids [m])"
  by (cases m) (auto simp: spec_publish_def spec_rollback_def split: option.splits if_splits)

lemma run_refines:
  assumes "inv s" and "list_all (op_valid valid) ms" and "distinct (op_ids ms)"
    and "set (op_ids ms) \<inter> set (map fst (sp_history (abs_state s))) = {}"
  shows "inv (fold step ms s) \<and> abs_state (fold step ms s) = fold (spec_step (drafts s)) ms (abs_state s)"
  using assms
proof (induction ms arbitrary: s)
  case (Cons m ms)
  have m: "set (op_ids [m]) \<inter> set (map fst (sp_history (abs_state s))) = {}" "set (op_ids [m]) \<inter> set (op_ids ms) = {}"
    "distinct (op_ids ms)" "set (op_ids ms) \<subseteq> set (op_ids (m # ms))"
    using Cons.prems(3,4) by (cases m; auto)+
  note r = step_refines [OF Cons.prems(1) _ m(1)]
  have "set (op_ids ms) \<inter> set (map fst (sp_history (abs_state (step m s)))) = {}"
  proof -
    have "set (map fst (sp_history (abs_state (step m s)))) \<subseteq> set (map fst (sp_history (abs_state s))) \<union> set (op_ids [m])"
      using r Cons.prems(2) spec_step_ids [of "drafts s" m "abs_state s"] by simp
    then show ?thesis using Cons.prems(4) m(2,4) by blast
  qed
  then show ?case using Cons.IH [of "step m s"] r Cons.prems(2) m(3) by simp
qed simp

lemma run_current:
  assumes "inv s" and "list_all (op_valid valid) ms" and "distinct (op_ids ms)"
    and "set (op_ids ms) \<inter> set (map fst (sp_history (abs_state s))) = {}"
  shows "current (fold step ms s) = spec_current (fold (spec_step (drafts s)) ms (abs_state s))"
  using run_refines [OF assms] current_ok by simp

end

text \<open>The history of the abstract pipeline only grows.\<close>

lemma spec_history_grows: "\<exists>new. sp_history (fold (spec_step ds) ms sp) = sp_history sp @ new"
proof (induction ms arbitrary: sp)
  case (Cons m ms)
  have "\<exists>a. sp_history (spec_step ds m sp) = sp_history sp @ a"
    by (cases m) (auto simp: spec_publish_def spec_rollback_def split: option.split)
  then show ?case using Cons [of "spec_step ds m sp"] by auto
qed simp

section \<open>Tables and service\<close>

record AgentProfile =
  ap_id :: uuid
  ap_tenant_id :: uuid
  ap_name :: string

record AgentConfigVersion =
  cv_id :: uuid
  cv_tenant_id :: uuid
  cv_profile_id :: uuid
  cv_version_tag :: string
  cv_status :: string
  cv_config_hash :: string
  cv_config_data :: pydict

record ConfigPublication =
  cp_id :: uuid
  cp_tenant_id :: uuid
  cp_config_version_id :: uuid
  cp_published_by :: string
  cp_published_at :: time
  cp_is_active :: bool
  cp_rolled_back_at :: "time option"

record config_db =
  cdb_profiles :: "AgentProfile list"
  cdb_versions :: "AgentConfigVersion list"
  cdb_publications :: "ConfigPublication list"

record config_draft =
  dr_draft_id :: string
  dr_tenant_id :: string
  dr_config_data :: pydict
  dr_version_tag :: string
  dr_config_hash :: string
  dr_created_at :: string

record publication =
  pb_publication_id :: string
  pb_draft_id :: "string option"
  pb_tenant_id :: string
  pb_version_tag :: string
  pb_config_hash :: string
  pb_config_data :: pydict
  pb_published_by :: "string option"
  pb_published_at :: "string option"
  pb_is_active :: bool

record PublishService =
  ps_tenant_id :: string
  ps_has_session_factory :: bool
  ps_drafts :: "(string \<times> config_draft) list"
  ps_publications :: "publication list"

definition PublishService_init :: "string \<Rightarrow> bool \<Rightarrow> PublishService" where
  "PublishService_init tenant_id has_session = \<lparr>ps_tenant_id = tenant_id, ps_has_session_factory = has_session,
     ps_drafts = [], ps_publications = []\<rparr>"

text \<open>\<open>str(sorted(config_data.items()))\<close>; the keys of a dictionary are distinct, so values are never compared.\<close>

definition items_text :: "pydict \<Rightarrow> string" where
  "items_text d = ''['' @ join_with '', '' (map (\<lambda>(k, v). ''('' @ repr_str k @ '', '' @ py_repr v @ '')'') (sort_key fst d)) @ '']''"

definition config_hash :: "pydict \<Rightarrow> string" where
  "config_hash d = sha256_hex (items_text d)"

definition stamp :: "time \<Rightarrow> string" where
  "stamp t = (case civil_from_days (t div day) of (y, m, d) \<Rightarrow> let u = t mod day in
     pad_int 4 y @ pad_int 2 m @ pad_int 2 d @ pad_int 2 (u div hour) @ pad_int 2 (u mod hour div 60000000) @
     pad_int 2 (u mod 60000000 div second))"

definition draft_tag :: "string option \<Rightarrow> time \<Rightarrow> string" where
  "draft_tag version_tag now = (case version_tag of Some (c # t) \<Rightarrow> c # t | _ \<Rightarrow> ''v'' @ stamp now)"

text \<open>
  The insert of a draft: the tenant's profile is read or added; the row violates a constraint when the
  tenant has its tag already or the tag is longer than its column, and then nothing is committed.
\<close>

definition insert_draft ::
    "string \<Rightarrow> uuid \<Rightarrow> uuid \<Rightarrow> string \<Rightarrow> pydict \<Rightarrow> config_db \<Rightarrow> config_db option" where
  "insert_draft tenant_id profile_id draft_id tag config_data db =
     (case UUID_of tenant_id of
        Inl e \<Rightarrow> None
      | Inr t \<Rightarrow>
          (let found = find (\<lambda>p. ap_tenant_id p = t) (cdb_profiles db);
               profile = (case found of Some p \<Rightarrow> p
                 | None \<Rightarrow> \<lparr>ap_id = profile_id, ap_tenant_id = t, ap_name = ''profile:'' @ take 8 tenant_id\<rparr>)
           in if 64 < length tag \<or> (t, tag) \<in> set (map (\<lambda>v. (cv_tenant_id v, cv_version_tag v)) (cdb_versions db)) then None
              else Some (db\<lparr>cdb_profiles := (if found = None then cdb_profiles db @ [profile] else cdb_profiles db),
                cdb_versions := cdb_versions db @ [\<lparr>cv_id = draft_id, cv_tenant_id = t, cv_profile_id = ap_id profile,
                  cv_version_tag = tag, cv_status = ''draft'', cv_config_hash = config_hash config_data,
                  cv_config_data = config_data\<rparr>]\<rparr>)))"

definition PublishService_create_draft ::
    "bool \<Rightarrow> time \<Rightarrow> uuid \<Rightarrow> uuid \<Rightarrow> pydict \<Rightarrow> string option \<Rightarrow> PublishService \<times> config_db \<Rightarrow> string \<times> PublishService \<times> config_db" where
  "PublishService_create_draft db_fails now draft_id profile_id config_data version_tag = (\<lambda>(sv, db).
     let tag = draft_tag version_tag now;
         memory = (draft_id, sv\<lparr>ps_drafts := AList.update draft_id \<lparr>dr_draft_id = draft_id, dr_tenant_id = ps_tenant_id sv,
             dr_config_data = config_data, dr_version_tag = tag, dr_config_hash = config_hash config_data,
             dr_created_at = isoformat now\<rparr> (ps_drafts sv)\<rparr>, db)
     in if \<not> ps_has_session_factory sv \<or> db_fails then memory
        else (case insert_draft (ps_tenant_id sv) profile_id draft_id tag config_data db of
            None \<Rightarrow> memory | Some db' \<Rightarrow> (draft_id, sv, db')))"

definition publish_error :: "string \<Rightarrow> string \<Rightarrow> 'a res" where
  "publish_error what m = raise_iara (ConfigPublishError (what @ m))"

definition publish_memory ::
    "uuid \<Rightarrow> time \<Rightarrow> string \<Rightarrow> string \<Rightarrow> PublishService \<Rightarrow> string res \<times> PublishService" where
  "publish_memory publication_id now draft_id published_by sv =
     (case map_of (ps_drafts sv) draft_id of
        None \<Rightarrow> (publish_error (''Draft '' @ repr_str draft_id) '' not found'', sv)
      | Some draft \<Rightarrow>
          if dr_config_data draft = [] then (publish_error (''Draft '' @ repr_str draft_id) '' has empty config data'', sv)
          else (Inr publication_id, sv\<lparr>ps_publications := map (\<lambda>p. p\<lparr>pb_is_active := False\<rparr>) (ps_publications sv) @
            [\<lparr>pb_publication_id = publication_id, pb_draft_id = Some draft_id, pb_tenant_id = ps_tenant_id sv,
              pb_version_tag = dr_version_tag draft, pb_config_hash = dr_config_hash draft, pb_config_data = dr_config_data draft,
              pb_published_by = Some published_by, pb_published_at = Some (isoformat now), pb_is_active = True\<rparr>]\<rparr>))"

definition version_row :: "uuid \<Rightarrow> uuid \<Rightarrow> config_db \<Rightarrow> AgentConfigVersion option" where
  "version_row t d db = find (\<lambda>v. cv_id v = d \<and> cv_tenant_id v = t) (cdb_versions db)"

definition publish_db ::
    "uuid \<Rightarrow> time \<Rightarrow> string \<Rightarrow> string \<Rightarrow> uuid \<Rightarrow> uuid \<Rightarrow> config_db \<Rightarrow> string res \<times> config_db" where
  "publish_db publication_id now draft_id published_by t d db =
     (case version_row t d db of
        None \<Rightarrow> (publish_error (''Draft '' @ repr_str draft_id) '' not found in DB'', db)
      | Some version \<Rightarrow>
          if cv_config_data version = [] then (publish_error (''Draft '' @ repr_str draft_id) '' has empty config data'', db)
          else (Inr publication_id, db\<lparr>
            cdb_versions := upd_where (\<lambda>v. cv_id v = d) (\<lambda>v. v\<lparr>cv_status := ''published''\<rparr>) (cdb_versions db),
            cdb_publications := upd_where (\<lambda>p. cp_tenant_id p = t \<and> cp_is_active p) (\<lambda>p. p\<lparr>cp_is_active := False\<rparr>)
                (cdb_publications db) @
              [\<lparr>cp_id = publication_id, cp_tenant_id = t, cp_config_version_id = d, cp_published_by = take 256 published_by,
                cp_published_at = now, cp_is_active = True, cp_rolled_back_at = None\<rparr>]\<rparr>))"

definition PublishService_publish ::
    "bool \<Rightarrow> time \<Rightarrow> uuid \<Rightarrow> string \<Rightarrow> string \<Rightarrow> PublishService \<times> config_db \<Rightarrow> string res \<times> PublishService \<times> config_db" where
  "PublishService_publish db_fails now publication_id draft_id published_by = (\<lambda>(sv, db).
     let memory = (case publish_memory publication_id now draft_id published_by sv of (r, sv') \<Rightarrow> (r, sv', db))
     in if \<not> ps_has_session_factory sv \<or> db_fails then memory
        else (case (UUID_of (ps_tenant_id sv), UUID_of draft_id) of
            (Inr t, Inr d) \<Rightarrow> (case publish_db publication_id now draft_id published_by t d db of (r, db') \<Rightarrow> (r, sv, db'))
          | _ \<Rightarrow> memory))"

text \<open>The rows of the join of publications and versions.\<close>

definition joined :: "config_db \<Rightarrow> (ConfigPublication \<times> AgentConfigVersion) list" where
  "joined db = concat (map (\<lambda>p. case find (\<lambda>v. cv_id v = cp_config_version_id p) (cdb_versions db) of
     None \<Rightarrow> [] | Some v \<Rightarrow> [(p, v)]) (cdb_publications db))"

definition publication_of :: "ConfigPublication \<times> AgentConfigVersion \<Rightarrow> publication" where
  "publication_of pv = (case pv of (p, v) \<Rightarrow> \<lparr>pb_publication_id = cp_id p, pb_draft_id = None, pb_tenant_id = cp_tenant_id p,
     pb_version_tag = cv_version_tag v, pb_config_hash = cv_config_hash v, pb_config_data = cv_config_data v,
     pb_published_by = Some (cp_published_by p), pb_published_at = Some (isoformat (cp_published_at p)),
     pb_is_active = cp_is_active p\<rparr>)"

definition PublishService_get_active_publication :: "bool \<Rightarrow> PublishService \<times> config_db \<Rightarrow> publication option" where
  "PublishService_get_active_publication db_fails = (\<lambda>(sv, db).
     let memory = find pb_is_active (rev (ps_publications sv)) in
     if \<not> ps_has_session_factory sv \<or> db_fails then memory
     else case UUID_of (ps_tenant_id sv) of
       Inl e \<Rightarrow> memory
     | Inr t \<Rightarrow> (case order_limit (\<lambda>(p, v). - cp_published_at p) 1
            (filter (\<lambda>(p, v). cp_tenant_id p = t \<and> cp_is_active p) (joined db)) of
         [] \<Rightarrow> None | pv # _ \<Rightarrow> Some (publication_of pv)))"

text \<open>Publication ids are unique, so the target is the one publication that has the id.\<close>

definition rollback_memory :: "string \<Rightarrow> PublishService \<Rightarrow> publication res \<times> PublishService" where
  "rollback_memory publication_id sv =
     (case find (\<lambda>p. pb_publication_id p = publication_id) (ps_publications sv) of
        None \<Rightarrow> (publish_error (''Publication '' @ repr_str publication_id) '' not found'', sv)
      | Some target \<Rightarrow> (Inr (target\<lparr>pb_is_active := True\<rparr>),
          sv\<lparr>ps_publications := map (\<lambda>p. p\<lparr>pb_is_active := (pb_publication_id p = publication_id)\<rparr>) (ps_publications sv)\<rparr>))"

definition rollback_db :: "time \<Rightarrow> string \<Rightarrow> uuid \<Rightarrow> uuid \<Rightarrow> config_db \<Rightarrow> publication res \<times> config_db" where
  "rollback_db now publication_id t pid db =
     (case find (\<lambda>(p, v). cp_id p = pid \<and> cp_tenant_id p = t) (joined db) of
        None \<Rightarrow> (publish_error (''Publication '' @ repr_str publication_id) '' not found'', db)
      | Some pv \<Rightarrow> (Inr ((publication_of pv)\<lparr>pb_is_active := True, pb_published_by := None, pb_published_at := None\<rparr>),
          db\<lparr>cdb_publications := upd_where (\<lambda>p. cp_id p = pid) (\<lambda>p. p\<lparr>cp_is_active := True, cp_rolled_back_at := Some now\<rparr>)
               (upd_where (\<lambda>p. cp_tenant_id p = t) (\<lambda>p. p\<lparr>cp_is_active := False\<rparr>) (cdb_publications db))\<rparr>))"

definition PublishService_rollback ::
    "bool \<Rightarrow> time \<Rightarrow> string \<Rightarrow> PublishService \<times> config_db \<Rightarrow> publication res \<times> PublishService \<times> config_db" where
  "PublishService_rollback db_fails now publication_id = (\<lambda>(sv, db).
     let memory = (case rollback_memory publication_id sv of (r, sv') \<Rightarrow> (r, sv', db))
     in if \<not> ps_has_session_factory sv \<or> db_fails then memory
        else (case (UUID_of (ps_tenant_id sv), UUID_of publication_id) of
            (Inr t, Inr pid) \<Rightarrow> (case rollback_db now publication_id t pid db of (r, db') \<Rightarrow> (r, sv, db'))
          | _ \<Rightarrow> memory))"

text \<open>The synchronous shim: drafts in memory only.\<close>

definition ConfigDraft_init :: "uuid \<Rightarrow> time \<Rightarrow> string \<Rightarrow> pydict \<Rightarrow> string \<Rightarrow> config_draft" where
  "ConfigDraft_init draft_id now tenant_id config_data version_tag = \<lparr>dr_draft_id = draft_id, dr_tenant_id = tenant_id,
     dr_config_data = config_data, dr_version_tag = version_tag, dr_config_hash = config_hash config_data,
     dr_created_at = isoformat now\<rparr>"

definition PublishService_create_draft_sync ::
    "time \<Rightarrow> uuid \<Rightarrow> pydict \<Rightarrow> string \<Rightarrow> PublishService \<Rightarrow> config_draft \<times> PublishService" where
  "PublishService_create_draft_sync now draft_id config_data version_tag sv =
     (let draft = ConfigDraft_init draft_id now (ps_tenant_id sv) config_data version_tag
      in (draft, sv\<lparr>ps_drafts := AList.update draft_id draft (ps_drafts sv)\<rparr>))"

definition PublishService_validate_draft :: "string \<Rightarrow> PublishService \<Rightarrow> bool res" where
  "PublishService_validate_draft draft_id sv =
     (case map_of (ps_drafts sv) draft_id of
        None \<Rightarrow> publish_error (''Draft '' @ repr_str draft_id) '' not found''
      | Some draft \<Rightarrow> if dr_config_data draft = [] then publish_error (''Draft '' @ repr_str draft_id) '' has empty config data''
          else Inr True)"

section \<open>Registry and router\<close>

definition DEFAULT_KANBAN_STAGES :: "string list" where
  "DEFAULT_KANBAN_STAGES = [''new_lead'', ''contacted'', ''nurturing'', ''qualified'', ''proposal_sent'', ''negotiation'', ''won'', ''lost'']"

definition get_service ::
    "string \<Rightarrow> bool \<Rightarrow> (string \<times> PublishService) list \<Rightarrow> PublishService \<times> (string \<times> PublishService) list" where
  "get_service tenant_id has_session services = (case map_of services tenant_id of
     Some sv \<Rightarrow> (sv, services)
   | None \<Rightarrow> (let sv = PublishService_init tenant_id has_session in (sv, AList.update tenant_id sv services)))"

definition get_kanban_stages :: "string \<Rightarrow> (string \<times> PublishService) list \<Rightarrow> pyval" where
  "get_kanban_stages tenant_id services =
     (let defaults = PList (map PStr DEFAULT_KANBAN_STAGES) in
      case map_of services tenant_id of
        None \<Rightarrow> defaults
      | Some sv \<Rightarrow> (case find pb_is_active (rev (ps_publications sv)) of
          None \<Rightarrow> defaults | Some pub \<Rightarrow> py_or (dict_get (pb_config_data pub) ''kanban_stages'') defaults))"

text \<open>Every request builds its own service; \<open>has_db\<close> is whether the application has a session factory.\<close>

definition create_draft ::
    "bool \<Rightarrow> bool \<Rightarrow> time \<Rightarrow> uuid \<Rightarrow> uuid \<Rightarrow> string \<Rightarrow> pydict \<Rightarrow> string \<Rightarrow> config_db \<Rightarrow> string \<times> config_db" where
  "create_draft has_db db_fails now draft_id profile_id tenant_id config_data version_tag db =
     (let (d, sv, db') = PublishService_create_draft db_fails now draft_id profile_id config_data (Some version_tag)
            (PublishService_init tenant_id has_db, db)
      in (d, db'))"

definition config_error :: "int \<Rightarrow> 'a res \<Rightarrow> 'a res" where
  "config_error code r = (case r of Inl (IaraExc (ConfigPublishError m)) \<Rightarrow>
     Inl (HTTPException code (IaraError_str (ConfigPublishError m))) | _ \<Rightarrow> r)"

definition publish_draft ::
    "bool \<Rightarrow> bool \<Rightarrow> time \<Rightarrow> uuid \<Rightarrow> string \<Rightarrow> string \<Rightarrow> string \<Rightarrow> config_db \<Rightarrow> string res \<times> config_db" where
  "publish_draft has_db db_fails now publication_id tenant_id draft_id published_by db =
     (let (r, sv, db') = PublishService_publish db_fails now publication_id draft_id published_by
            (PublishService_init tenant_id has_db, db)
      in (config_error 422 r, db'))"

definition get_active_config :: "bool \<Rightarrow> bool \<Rightarrow> string \<Rightarrow> config_db \<Rightarrow> publication res" where
  "get_active_config has_db db_fails tenant_id db =
     (case PublishService_get_active_publication db_fails (PublishService_init tenant_id has_db, db) of
        None \<Rightarrow> Inl (HTTPException 404 (''No active configuration for tenant '' @ repr_str tenant_id))
      | Some pub \<Rightarrow> Inr pub)"

definition rollback_config ::
    "bool \<Rightarrow> bool \<Rightarrow> time \<Rightarrow> string \<Rightarrow> string \<Rightarrow> config_db \<Rightarrow> publication res \<times> config_db" where
  "rollback_config has_db db_fails now tenant_id publication_id db =
     (let (r, sv, db') = PublishService_rollback db_fails now publication_id (PublishService_init tenant_id has_db, db)
      in (config_error 404 r, db'))"

section \<open>Memory variant\<close>

type_synonym publisher_state = "PublishService \<times> config_db"

definition keep_state :: "'a res \<times> 's \<Rightarrow> 's res" where
  "keep_state rs = (case rs of (Inl e, s) \<Rightarrow> Inl e | (Inr x, s) \<Rightarrow> Inr s)"

definition mem_inv :: "publisher_state \<Rightarrow> bool" where
  "mem_inv = (\<lambda>(sv, db). \<not> ps_has_session_factory sv \<and> distinct (map pb_publication_id (ps_publications sv)) \<and>
     length (filter pb_is_active (ps_publications sv)) \<le> 1)"

definition mem_abs :: "publisher_state \<Rightarrow> config_spec" where
  "mem_abs = (\<lambda>(sv, db). \<lparr>sp_history = map (\<lambda>p. (pb_publication_id p, pb_config_data p)) (ps_publications sv),
     sp_active = map_option pb_publication_id (find pb_is_active (ps_publications sv))\<rparr>)"

definition mem_drafts :: "publisher_state \<Rightarrow> string \<Rightarrow> pydict option" where
  "mem_drafts = (\<lambda>(sv, db) d. case map_of (ps_drafts sv) d of None \<Rightarrow> None
     | Some dr \<Rightarrow> if dr_config_data dr = [] then None else Some (dr_config_data dr))"

definition service_current :: "publisher_state \<Rightarrow> (string \<times> pydict) option" where
  "service_current st = map_option (\<lambda>p. (pb_publication_id p, pb_config_data p)) (PublishService_get_active_publication False st)"

definition service_publish :: "time \<Rightarrow> string \<Rightarrow> string \<Rightarrow> string \<Rightarrow> publisher_state \<Rightarrow> publisher_state res" where
  "service_publish now who pid d st = keep_state (PublishService_publish False now pid d who st)"

definition service_rollback :: "time \<Rightarrow> string \<Rightarrow> publisher_state \<Rightarrow> publisher_state res" where
  "service_rollback now pid st = keep_state (PublishService_rollback False now pid st)"

lemma mem_current: "mem_inv st \<Longrightarrow> service_current st = spec_current (mem_abs st)"
proof -
  assume i: "mem_inv st"
  obtain sv db where st: "st = (sv, db)" by (cases st)
  note i = i [unfolded st mem_inv_def, simplified]
  have r: "find pb_is_active (rev (ps_publications sv)) = find pb_is_active (ps_publications sv)"
    using i by (simp add: find_filter single_rev flip: rev_filter)
  have "map_of (map (\<lambda>p. (pb_publication_id p, pb_config_data p)) (ps_publications sv)) (pb_publication_id x) = Some (pb_config_data x)"
    if "find pb_is_active (ps_publications sv) = Some x" for x
    using that i by (intro map_of_is_SomeI) (auto simp: find_Some_iff comp_def)
  then show ?thesis using i
    by (auto simp: st service_current_def PublishService_get_active_publication_def Let_def r mem_abs_def spec_current_def
        split: option.split)
qed

lemma find_inactive: "find pb_is_active (map (\<lambda>p. p\<lparr>pb_is_active := False\<rparr>) ps) = None"
  by (induction ps) auto

lemma find_reactivated:
  "find (\<lambda>p. pb_publication_id p = pid) ps = Some x \<Longrightarrow>
    find pb_is_active (map (\<lambda>p. p\<lparr>pb_is_active := (pb_publication_id p = pid)\<rparr>) ps) = Some (x\<lparr>pb_is_active := True\<rparr>)"
  by (induction ps) (auto split: if_splits)

lemma mem_publish:
  assumes "mem_inv st" and "pid \<notin> set (map fst (sp_history (mem_abs st)))" and "mem_drafts st d = Some c"
  shows "\<exists>st'. service_publish now who pid d st = Inr st' \<and> mem_inv st' \<and> mem_abs st' = spec_publish pid c (mem_abs st) \<and>
    mem_drafts st' = mem_drafts st"
proof -
  have off: "filter pb_is_active (map (\<lambda>p. p\<lparr>pb_is_active := False\<rparr>) ps) = []" for ps :: "publication list"
    by (simp add: filter_empty_conv)
  show ?thesis using assms
    by (cases st) (auto simp: service_publish_def PublishService_publish_def publish_memory_def keep_state_def mem_inv_def
        mem_abs_def mem_drafts_def spec_publish_def find_append find_inactive comp_def off Let_def
        split: option.splits if_splits)
qed

lemma mem_rollback:
  assumes "mem_inv st" and "spec_rollback pid (mem_abs st) = Some sp"
  shows "\<exists>st'. service_rollback now pid st = Inr st' \<and> mem_inv st' \<and> mem_abs st' = sp \<and> mem_drafts st' = mem_drafts st"
proof -
  obtain sv db where st: "st = (sv, db)" by (cases st)
  note i = assms(1) [unfolded st mem_inv_def, simplified]
  obtain x where x: "x \<in> set (ps_publications sv)" "pb_publication_id x = pid"
    using assms(2) by (auto simp: st mem_abs_def spec_rollback_def split: if_splits)
  have f: "find (\<lambda>p. pb_publication_id p = pid) (ps_publications sv) = Some x"
    using find_only [of pb_publication_id "ps_publications sv" x] i x by simp
  let ?ps = "map (\<lambda>p. p\<lparr>pb_is_active := (pb_publication_id p = pid)\<rparr>) (ps_publications sv)"
  have a: "find pb_is_active ?ps = Some (x\<lparr>pb_is_active := True\<rparr>)"
    using find_reactivated [OF f] .
  have "length (filter pb_is_active ?ps) \<le> 1"
    using filter_key_one [of pb_publication_id "ps_publications sv" pid] i by (simp add: filter_map comp_def)
  then show ?thesis using i f a x assms(2)
    by (auto simp: st service_rollback_def PublishService_rollback_def rollback_memory_def keep_state_def mem_inv_def mem_abs_def
        mem_drafts_def spec_rollback_def comp_def Let_def split: if_splits)
qed

interpretation memory: config_publisher mem_inv mem_abs mem_drafts "\<lambda>_. True" service_current
  "service_publish now who" "service_rollback now" for now who
proof unfold_locales
  fix st pid
  assume "mem_inv st" "spec_rollback pid (mem_abs st) = None"
  then show "isl (service_rollback now pid st)"
    by (cases st) (auto simp: service_rollback_def PublishService_rollback_def rollback_memory_def keep_state_def mem_inv_def
        mem_abs_def spec_rollback_def publish_error_def Let_def image_iff find_None_iff split: if_splits option.splits)
next
  fix st pid d
  assume "mem_inv st" "mem_drafts st d = None"
  then show "isl (service_publish now who pid d st)"
    by (cases st) (auto simp: service_publish_def PublishService_publish_def publish_memory_def keep_state_def mem_inv_def
        mem_drafts_def publish_error_def Let_def split: if_splits option.splits)
qed (use mem_current mem_publish mem_rollback in blast)+

section \<open>Database variant\<close>

abbreviation cp_of :: "uuid \<Rightarrow> config_db \<Rightarrow> ConfigPublication list" where
  "cp_of u db \<equiv> filter (\<lambda>p. cp_tenant_id p = u) (cdb_publications db)"

definition version_of :: "config_db \<Rightarrow> ConfigPublication \<Rightarrow> AgentConfigVersion" where
  "version_of db p = the (find (\<lambda>v. cv_id v = cp_config_version_id p) (cdb_versions db))"

definition db_inv :: "uuid \<Rightarrow> publisher_state \<Rightarrow> bool" where
  "db_inv u = (\<lambda>(sv, db). ps_has_session_factory sv \<and> UUID_of (ps_tenant_id sv) = Inr u \<and>
     distinct (map cv_id (cdb_versions db)) \<and> distinct (map cp_id (cp_of u db)) \<and>
     (\<forall>p\<in>set (cp_of u db). cp_config_version_id p \<in> cv_id ` set (cdb_versions db)) \<and>
     length (filter cp_is_active (cp_of u db)) \<le> 1)"

definition db_abs :: "uuid \<Rightarrow> publisher_state \<Rightarrow> config_spec" where
  "db_abs u = (\<lambda>(sv, db). \<lparr>sp_history = map (\<lambda>p. (cp_id p, cv_config_data (version_of db p))) (cp_of u db),
     sp_active = map_option cp_id (find cp_is_active (cp_of u db))\<rparr>)"

definition db_drafts :: "uuid \<Rightarrow> publisher_state \<Rightarrow> string \<Rightarrow> pydict option" where
  "db_drafts u = (\<lambda>(sv, db) d. case version_row u d db of None \<Rightarrow> None
     | Some v \<Rightarrow> if cv_config_data v = [] then None else Some (cv_config_data v))"

definition canonical :: "string \<Rightarrow> bool" where
  "canonical i \<longleftrightarrow> UUID_of i = Inr i"

lemma joined_tenant:
  assumes "\<forall>p\<in>set (cp_of u db). cp_config_version_id p \<in> cv_id ` set (cdb_versions db)"
  shows "filter (\<lambda>(p, v). cp_tenant_id p = u \<and> Q p) (joined db) = map (\<lambda>p. (p, version_of db p)) (filter Q (cp_of u db))"
proof -
  have some: "(find (\<lambda>v. cv_id v = cp_config_version_id p) (cdb_versions db) = None) = False"
    if "p \<in> set (cdb_publications db)" "cp_tenant_id p = u" for p
    using assms that find_key_iff [of cv_id "cp_config_version_id p" "cdb_versions db"] by auto
  have "filter (\<lambda>(p, v). cp_tenant_id p = u \<and> Q p) (concat (map (\<lambda>p. case find (\<lambda>v. cv_id v = cp_config_version_id p) (cdb_versions db) of
        None \<Rightarrow> [] | Some v \<Rightarrow> [(p, v)]) ps)) = map (\<lambda>p. (p, version_of db p)) (filter Q (filter (\<lambda>p. cp_tenant_id p = u) ps))"
    if "set ps \<subseteq> set (cdb_publications db)" for ps
    using that by (induction ps) (auto simp: version_of_def some split: option.splits)
  then show ?thesis by (simp add: joined_def)
qed

lemma db_current: "db_inv u st \<Longrightarrow> service_current st = spec_current (db_abs u st)"
proof -
  assume i: "db_inv u st"
  obtain sv db where st: "st = (sv, db)" by (cases st)
  note i = i [unfolded st db_inv_def, simplified]
  note j = joined_tenant [of u db cp_is_active]
  have "map_of (map (\<lambda>p. (cp_id p, cv_config_data (version_of db p))) (cp_of u db)) (cp_id x) = Some (cv_config_data (version_of db x))"
    if "find cp_is_active (cp_of u db) = Some x" for x
    using find_mem [OF that] i by (intro map_of_is_SomeI) (auto simp: comp_def)
  moreover have "PublishService_get_active_publication False st =
      (case filter cp_is_active (cp_of u db) of [] \<Rightarrow> None | p # _ \<Rightarrow> Some (publication_of (p, version_of db p)))"
    using i j by (simp add: st PublishService_get_active_publication_def Let_def order_limit_single split: list.split)
  ultimately show ?thesis
    by (auto simp: service_current_def st db_abs_def spec_current_def publication_of_def find_filter split: list.split)
qed

lemma find_published:
  "find (\<lambda>v. cv_id v = i) (upd_where P (\<lambda>v. v\<lparr>cv_status := x\<rparr>) vs) =
    map_option (\<lambda>v. if P v then v\<lparr>cv_status := x\<rparr> else v) (find (\<lambda>v. cv_id v = i) vs)"
  by (rule find_upd_where) simp

lemma version_row_published:
  "version_row t i (db\<lparr>cdb_versions := upd_where P (\<lambda>v. v\<lparr>cv_status := x\<rparr>) (cdb_versions db), cdb_publications := ps\<rparr>) =
    map_option (\<lambda>v. if P v then v\<lparr>cv_status := x\<rparr> else v) (version_row t i db)"
  unfolding version_row_def by (simp, rule find_upd_where) simp

lemma deactivated: "(if cp_is_active p then p\<lparr>cp_is_active := False\<rparr> else p) = p\<lparr>cp_is_active := False\<rparr>"
  by (cases p) simp

lemma db_publish:
  assumes "db_inv u st" and "canonical d" and "pid \<notin> set (map fst (sp_history (db_abs u st)))" and "db_drafts u st d = Some c"
  shows "\<exists>st'. service_publish now who pid d st = Inr st' \<and> db_inv u st' \<and> db_abs u st' = spec_publish pid c (db_abs u st) \<and>
    db_drafts u st' = db_drafts u st"
proof -
  obtain sv db where st: "st = (sv, db)" by (cases st)
  note i = assms(1) [unfolded st db_inv_def, simplified]
  obtain v where v: "version_row u d db = Some v" "cv_config_data v = c" "c \<noteq> []"
    using assms(4) by (auto simp: st db_drafts_def split: option.splits if_splits)
  define ps where "ps = upd_where (\<lambda>p. cp_tenant_id p = u \<and> cp_is_active p) (\<lambda>p. p\<lparr>cp_is_active := False\<rparr>) (cdb_publications db)"
  define new where "new = \<lparr>cp_id = pid, cp_tenant_id = u, cp_config_version_id = d, cp_published_by = take 256 who,
    cp_published_at = now, cp_is_active = True, cp_rolled_back_at = None\<rparr>"
  define db' where "db' = db\<lparr>cdb_versions := upd_where (\<lambda>v. cv_id v = d) (\<lambda>v. v\<lparr>cv_status := ''published''\<rparr>) (cdb_versions db),
    cdb_publications := ps @ [new]\<rparr>"
  have run: "service_publish now who pid d st = Inr (sv, db')"
    using i v assms(2) by (simp add: st service_publish_def PublishService_publish_def publish_db_def keep_state_def canonical_def
        db'_def ps_def new_def Let_def)
  have mine: "filter (\<lambda>p. cp_tenant_id p = u) ps = map (\<lambda>p. p\<lparr>cp_is_active := False\<rparr>) (cp_of u db)"
    unfolding ps_def by (simp add: filter_upd_where upd_where_filter) (simp add: upd_where_def deactivated)
  have cps: "cp_of u db' = map (\<lambda>p. p\<lparr>cp_is_active := False\<rparr>) (cp_of u db) @ [new]"
    using mine by (simp add: db'_def new_def)
  have ids: "map cv_id (cdb_versions db') = map cv_id (cdb_versions db)"
    by (simp add: db'_def upd_where_def)
  have data: "cv_config_data (version_of db' p) = cv_config_data (version_of db q)"
    if "cp_config_version_id p = cp_config_version_id q" "cp_config_version_id q \<in> cv_id ` set (cdb_versions db)" for p q
    using that find_key_iff [of cv_id "cp_config_version_id q" "cdb_versions db"]
    by (auto simp: version_of_def db'_def find_published)
  have vd: "v \<in> set (cdb_versions db)" "cv_id v = d" using find_mem [OF v(1) [unfolded version_row_def]] by auto
  then have "version_of db new = v" using find_only [of cv_id "cdb_versions db" v] i by (simp add: version_of_def new_def)
  moreover have "cp_config_version_id new \<in> cv_id ` set (cdb_versions db)" using vd by (auto simp: new_def)
  ultimately have c: "cv_config_data (version_of db' new) = c" using data [of new new] v(2) by simp
  have off: "filter cp_is_active (map (\<lambda>p. p\<lparr>cp_is_active := False\<rparr>) qs) = []" for qs :: "ConfigPublication list"
    by (simp add: filter_empty_conv)
  have "cv_id ` set (cdb_versions db') = cv_id ` set (cdb_versions db)" using ids by (metis set_map)
  then have "\<forall>p\<in>set (cp_of u db'). cp_config_version_id p \<in> cv_id ` set (cdb_versions db')"
    using i vd unfolding cps by (auto simp: new_def)
  moreover have "length (filter cp_is_active (cp_of u db')) \<le> 1" unfolding cps by (simp add: off new_def)
  moreover have "distinct (map cp_id (cp_of u db'))"
    using i assms(3) unfolding cps by (auto simp: comp_def new_def st db_abs_def)
  ultimately have "db_inv u (sv, db')" unfolding db_inv_def using i ids by simp
  moreover have "db_abs u (sv, db') = spec_publish pid c (db_abs u st)"
  proof -
    have "map (\<lambda>p. (cp_id p, cv_config_data (version_of db' p))) (map (\<lambda>p. p\<lparr>cp_is_active := False\<rparr>) (cp_of u db)) =
        map (\<lambda>p. (cp_id p, cv_config_data (version_of db p))) (cp_of u db)"
      using i data by auto
    moreover have "find cp_is_active (map (\<lambda>p. p\<lparr>cp_is_active := False\<rparr>) (cp_of u db) @ [new]) = Some new"
      by (simp add: find_filter off new_def)
    ultimately show ?thesis using c by (simp add: db_abs_def cps st spec_publish_def new_def)
  qed
  moreover have "db_drafts u (sv, db') = db_drafts u st"
    by (rule ext) (simp add: db_drafts_def st db'_def version_row_published split: option.split)
  ultimately show ?thesis using run by blast
qed

lemma find_marked:
  assumes "\<And>p. cp_is_active (f p)" and "\<And>p. \<not> cp_is_active (g p)"
  shows "find cp_is_active (map (\<lambda>p. if cp_id p = pid then f p else g p) ps) = map_option f (find (\<lambda>p. cp_id p = pid) ps)"
  using assms by (induction ps) auto

lemma db_rollback_row:
  assumes "db_inv u (sv, db)"
  shows "find (\<lambda>(p, v). cp_id p = pid \<and> cp_tenant_id p = u) (joined db) =
    map_option (\<lambda>p. (p, version_of db p)) (find (\<lambda>p. cp_id p = pid) (cp_of u db))"
proof -
  have "filter (\<lambda>(p, v). cp_id p = pid \<and> cp_tenant_id p = u) (joined db) =
      map (\<lambda>p. (p, version_of db p)) (filter (\<lambda>p. cp_id p = pid) (cp_of u db))"
    using joined_tenant [of u db "\<lambda>p. cp_id p = pid"] assms by (simp add: db_inv_def conj_commute)
  then show ?thesis by (simp add: find_filter split: list.split)
qed

lemma db_rollback:
  assumes "db_inv u st" and "canonical pid" and "spec_rollback pid (db_abs u st) = Some sp"
  shows "\<exists>st'. service_rollback now pid st = Inr st' \<and> db_inv u st' \<and> db_abs u st' = sp \<and> db_drafts u st' = db_drafts u st"
proof -
  obtain sv db where st: "st = (sv, db)" by (cases st)
  note i = assms(1) [unfolded st db_inv_def, simplified]
  obtain x where x: "x \<in> set (cp_of u db)" "cp_id x = pid"
    using assms(3) by (auto simp: st db_abs_def spec_rollback_def split: if_splits)
  have f: "find (\<lambda>p. cp_id p = pid) (cp_of u db) = Some x"
    using find_only [of cp_id "cp_of u db" x] i x by simp
  define on where "on = (\<lambda>p::ConfigPublication. p\<lparr>cp_is_active := True, cp_rolled_back_at := Some now\<rparr>)"
  define ps where "ps = upd_where (\<lambda>p. cp_id p = pid) on
    (upd_where (\<lambda>p. cp_tenant_id p = u) (\<lambda>p. p\<lparr>cp_is_active := False\<rparr>) (cdb_publications db))"
  define db' where "db' = db\<lparr>cdb_publications := ps\<rparr>"
  have run: "service_rollback now pid st = Inr (sv, db')"
    using i assms(2) f db_rollback_row [OF assms(1) [unfolded st], of pid]
    by (simp add: st service_rollback_def PublishService_rollback_def rollback_db_def keep_state_def canonical_def db'_def ps_def on_def Let_def)
  have "cp_of u db' = map (\<lambda>p. if cp_id p = pid then on (p\<lparr>cp_is_active := False\<rparr>) else p\<lparr>cp_is_active := False\<rparr>) (cp_of u db)"
    by (simp add: db'_def ps_def on_def filter_upd_where) (simp add: upd_where_def on_def)
  then have cps: "cp_of u db' = map (\<lambda>p. if cp_id p = pid then on p else p\<lparr>cp_is_active := False\<rparr>) (cp_of u db)"
    by (simp add: on_def)
  have same: "map cp_id (cp_of u db') = map cp_id (cp_of u db)"
    "map (\<lambda>p. (cp_id p, cv_config_data (version_of db' p))) (cp_of u db') = map (\<lambda>p. (cp_id p, cv_config_data (version_of db p))) (cp_of u db)"
    unfolding cps by (auto simp: on_def version_of_def db'_def)
  have act: "find cp_is_active (cp_of u db') = Some (on x)" unfolding cps by (subst find_marked) (auto simp: on_def f)
  have "filter cp_is_active (map (\<lambda>p. if cp_id p = pid then on p else p\<lparr>cp_is_active := False\<rparr>) qs) = map on (filter (\<lambda>p. cp_id p = pid) qs)" for qs
    by (induction qs) (auto simp: on_def)
  then have "length (filter cp_is_active (cp_of u db')) \<le> 1"
    unfolding cps using filter_key_one [of cp_id "cp_of u db" pid] i by simp
  moreover have "\<forall>p\<in>set (cp_of u db'). cp_config_version_id p \<in> cv_id ` set (cdb_versions db')"
    using i unfolding cps by (auto simp: on_def db'_def)
  ultimately have "db_inv u (sv, db')"
    using i same(1) by (simp add: db_inv_def) (simp add: db'_def)
  moreover have "db_abs u (sv, db') = sp"
    using assms(3) same(2) act x(2) by (auto simp: db_abs_def st spec_rollback_def on_def split: if_splits)
  moreover have "db_drafts u (sv, db') = db_drafts u st"
    by (simp add: db_drafts_def st db'_def version_row_def fun_eq_iff)
  ultimately show ?thesis using run by blast
qed

interpretation database: config_publisher "db_inv u" "db_abs u" "db_drafts u" canonical service_current
  "service_publish now who" "service_rollback now" for u now who
proof unfold_locales
  fix st pid
  assume "db_inv u st" "canonical pid" "spec_rollback pid (db_abs u st) = None"
  moreover obtain sv db where "st = (sv, db)" by (cases st)
  ultimately show "isl (service_rollback now pid st)"
    using db_rollback_row [of u sv db pid] find_key_iff [of cp_id pid "cp_of u db"]
    by (auto simp: service_rollback_def PublishService_rollback_def rollback_db_def keep_state_def db_inv_def canonical_def
        db_abs_def spec_rollback_def publish_error_def Let_def image_iff split: if_splits option.splits)
next
  fix st pid d
  assume "db_inv u st" "canonical d" "db_drafts u st d = None"
  then show "isl (service_publish now who pid d st)"
    by (cases st) (auto simp: service_publish_def PublishService_publish_def publish_db_def keep_state_def db_inv_def canonical_def
        db_drafts_def publish_error_def Let_def split: if_splits option.splits)
qed (use db_current db_publish db_rollback in blast)+

section \<open>Properties\<close>

definition service_step :: "time \<Rightarrow> string \<Rightarrow> config_op \<Rightarrow> publisher_state \<Rightarrow> publisher_state" where
  "service_step now who = op_step (service_publish now who) (service_rollback now)"

abbreviation sample_tenant :: string where
  "sample_tenant \<equiv> ''00000000-0000-4000-8000-000000000001''"

abbreviation sample_id :: string where
  "sample_id \<equiv> ''00000000-0000-4000-8000-00000000000a''"

abbreviation sample_id' :: string where
  "sample_id' \<equiv> ''00000000-0000-4000-8000-00000000000b''"

definition sample_config_db :: config_db where
  "sample_config_db = \<lparr>cdb_profiles = [], cdb_versions = [\<lparr>cv_id = sample_id, cv_tenant_id = sample_tenant, cv_profile_id = sample_id,
     cv_version_tag = ''v1'', cv_status = ''draft'', cv_config_hash = [], cv_config_data = [(''persona'', PStr ''IAra'')]\<rparr>],
     cdb_publications = []\<rparr>"

definition sample_publisher :: "bool \<Rightarrow> publisher_state" where
  "sample_publisher has_db = (PublishService_init sample_tenant has_db, sample_config_db)"

lemma sample_tenant_id: "UUID_of sample_tenant = Inr sample_tenant"
  by code_simp

lemma sample_first_id: "UUID_of sample_id = Inr sample_id"
  by code_simp

lemma sample_second_id: "UUID_of sample_id' = Inr sample_id'"
  by code_simp

lemmas sample_ids = sample_tenant_id sample_first_id sample_second_id

text \<open>C7: The database-backed publisher refines the abstract pipeline: after every sequence of publications and
  rollbacks of a tenant, failing ones included, the active configuration it returns is the one the
  append-only history with an active entry has, every earlier publication is still in the history with
  its configuration unchanged, and at most one row of the tenant is active.\<close>

theorem database_publishing_refines:
  assumes "db_inv u st" and "list_all (op_valid canonical) ops" and "distinct (op_ids ops)"
    and "set (op_ids ops) \<inter> set (map fst (sp_history (db_abs u st))) = {}"
  shows "service_current (fold (service_step now who) ops st) = spec_current (fold (spec_step (db_drafts u st)) ops (db_abs u st)) \<and>
    (\<exists>new. sp_history (db_abs u (fold (service_step now who) ops st)) = sp_history (db_abs u st) @ new) \<and>
    length (filter cp_is_active (cp_of u (snd (fold (service_step now who) ops st)))) \<le> 1"
proof -
  note r = database.run_refines [OF assms, of now who, folded service_step_def]
  show ?thesis
    using r database.run_current [OF assms, of now who, folded service_step_def] spec_history_grows [of "db_drafts u st" ops "db_abs u st"]
    by (auto simp: db_inv_def case_prod_beta)
qed

theorem database_publishing_refines_witness:
  "service_current (fold (service_step 7 ''ops'') [Op_publish sample_id' sample_id, Op_rollback sample_id'] (sample_publisher True)) =
     spec_current (fold (spec_step (db_drafts sample_tenant (sample_publisher True))) [Op_publish sample_id' sample_id, Op_rollback sample_id']
       (db_abs sample_tenant (sample_publisher True)))"
proof -
  have "db_inv sample_tenant (sample_publisher True)"
    by (simp add: db_inv_def sample_publisher_def sample_config_db_def PublishService_init_def sample_ids)
  from database_publishing_refines [OF this, of "[Op_publish sample_id' sample_id, Op_rollback sample_id']" 7 "''ops''"] show ?thesis
    by (simp add: canonical_def sample_ids db_abs_def sample_publisher_def sample_config_db_def)
qed

text \<open>The in-memory publisher refines the same pipeline, so both variants agree on which configuration is
  active and neither forgets one.\<close>

theorem memory_publishing_refines:
  assumes "mem_inv st" and "distinct (op_ids ops)" and "set (op_ids ops) \<inter> set (map fst (sp_history (mem_abs st))) = {}"
  shows "service_current (fold (service_step now who) ops st) = spec_current (fold (spec_step (mem_drafts st)) ops (mem_abs st)) \<and>
    (\<exists>new. sp_history (mem_abs (fold (service_step now who) ops st)) = sp_history (mem_abs st) @ new)"
proof -
  have v: "list_all (op_valid (\<lambda>_. True)) ops" unfolding list_all_iff
  proof
    fix m show "op_valid (\<lambda>_. True) m" by (cases m) auto
  qed
  show ?thesis
    using memory.run_refines [OF assms(1) v assms(2,3), of now who, folded service_step_def]
      memory.run_current [OF assms(1) v assms(2,3), of now who, folded service_step_def]
      spec_history_grows [of "mem_drafts st" ops "mem_abs st"] by auto
qed

theorem memory_publishing_refines_witness:
  "service_current (fold (service_step 7 ''ops'') [Op_publish ''p1'' ''d1'', Op_rollback ''p0''] (sample_publisher False)) =
     spec_current (fold (spec_step (mem_drafts (sample_publisher False))) [Op_publish ''p1'' ''d1'', Op_rollback ''p0''] (mem_abs (sample_publisher False)))"
proof -
  have "mem_inv (sample_publisher False)" by (simp add: mem_inv_def sample_publisher_def PublishService_init_def)
  from memory_publishing_refines [OF this, of "[Op_publish ''p1'' ''d1'', Op_rollback ''p0'']" 7 "''ops''"] show ?thesis
    by (simp add: mem_abs_def sample_publisher_def PublishService_init_def)
qed

text \<open>The configuration hash depends on the configuration only: two dictionaries with the same entries have
  the same hash, in whatever order the entries were inserted.\<close>

theorem config_hash_order_free:
  assumes "distinct (map fst c)" and "distinct (map fst c')" and "set c = set c'"
  shows "config_hash c = config_hash c'"
proof -
  have "sort_key fst c = sort_key fst c'"
  proof (rule map_sorted_distinct_set_unique [where f = fst])
    show "inj_on fst (set (sort_key fst c) \<union> set (sort_key fst c'))"
      using assms by (simp add: distinct_map)
    show "distinct (map fst (sort_key fst c))" "distinct (map fst (sort_key fst c'))"
      using assms(1,2) by (simp_all add: distinct_map)
  qed (use assms(3) in simp_all)
  then show ?thesis by (simp add: config_hash_def items_text_def)
qed

theorem config_hash_order_free_witness:
  "config_hash [(''tone'', PStr ''formal''), (''name'', PStr ''IAra'')] = config_hash [(''name'', PStr ''IAra''), (''tone'', PStr ''formal'')]"
  by (rule config_hash_order_free) auto

text \<open>A draft whose version tag the tenant has used before is lost: the endpoint answers with its id, nothing is
  written (the constraint error falls back to the memory of a service that ends with the request), and
  publishing that id is refused.\<close>

theorem duplicate_tag_draft_lost:
  assumes "UUID_of t = Inr u" and "tag \<noteq> []" and "(u, tag) \<in> set (map (\<lambda>v. (cv_tenant_id v, cv_version_tag v)) (cdb_versions db))"
    and "canonical d" and "d \<notin> cv_id ` set (cdb_versions db)"
  shows "create_draft True False now d p t cfg tag db = (d, db) \<and>
    (\<exists>m. publish_draft True False now' pid t d who db = (Inl (HTTPException 422 m), db))"
proof -
  have "version_row u d db = None" using assms(5) by (auto simp: version_row_def find_None_iff)
  moreover have "draft_tag (Some tag) now = tag" using assms(2) by (cases tag) (auto simp: draft_tag_def)
  moreover from this have "insert_draft t p d (draft_tag (Some tag) now) cfg db = None"
    using assms(1,3) by (simp add: insert_draft_def Let_def)
  ultimately show ?thesis using assms(1,4)
    by (simp add: create_draft_def PublishService_create_draft_def PublishService_init_def publish_draft_def
        PublishService_publish_def publish_db_def publish_error_def config_error_def canonical_def Let_def)
qed

theorem duplicate_tag_draft_lost_witness:
  "create_draft True False 5 sample_id' sample_id sample_tenant [(''x'', PNone)] ''v1'' sample_config_db = (sample_id', sample_config_db) \<and>
    (\<exists>m. publish_draft True False 6 sample_id sample_tenant sample_id' ''ops'' sample_config_db = (Inl (HTTPException 422 m), sample_config_db))"
  by (rule duplicate_tag_draft_lost [OF sample_ids(1)]) (simp_all add: sample_config_db_def canonical_def sample_ids)

lemma no_database_draft_lost:
  "\<exists>m. publish_draft False f now pid t (fst (create_draft False f now d p t cfg tag db)) who db = (Inl (HTTPException 422 m), db)"
  by (simp add: create_draft_def PublishService_create_draft_def PublishService_init_def publish_draft_def
      PublishService_publish_def publish_memory_def publish_error_def config_error_def Let_def)

end
