(* ===== verification/ConfigSchema.thy ===== *)
theory ConfigSchema
  imports ConfigPublishing
begin

text \<open>
  The payload of a configuration draft (\<open>config_publishing/schema.py\<close>): the request body with the fields it omits, the
  defaults that fill them, and the dictionary that the router stores. The theorem follows a body through draft and
  publication to what the active configuration returns.
\<close>

section \<open>Payload\<close>

record PersonaConfig =
  pe_name :: string
  pe_tone :: string
  pe_language :: string
  pe_system_prompt_addendum :: "string option"

record DaySchedule =
  dy_start :: string
  dy_end :: string

record BusinessHoursConfig =
  bh_timezone :: string
  bh_monday :: "DaySchedule option"
  bh_tuesday :: "DaySchedule option"
  bh_wednesday :: "DaySchedule option"
  bh_thursday :: "DaySchedule option"
  bh_friday :: "DaySchedule option"
  bh_saturday :: "DaySchedule option"
  bh_sunday :: "DaySchedule option"

record TenantConfig =
  tg_version_tag :: string
  tg_persona :: PersonaConfig
  tg_business_hours :: BusinessHoursConfig
  tg_kanban_stages :: "string list"
  tg_active_tools :: "string list option"
  tg_extra :: pydict

definition default_persona :: PersonaConfig where
  "default_persona = \<lparr>pe_name = ''IAra'', pe_tone = ''professional'', pe_language = ''pt-BR'', pe_system_prompt_addendum = None\<rparr>"

definition default_business_hours :: BusinessHoursConfig where
  "default_business_hours = \<lparr>bh_timezone = ''America/Sao_Paulo'', bh_monday = None, bh_tuesday = None, bh_wednesday = None,
     bh_thursday = None, bh_friday = None, bh_saturday = None, bh_sunday = None\<rparr>"

text \<open>A body that passed validation: every field but the version tag may be omitted, the fields of the persona one by one.
  A validated schedule has its time zone filled in.\<close>

record persona_body =
  bp_name :: "string option"
  bp_tone :: "string option"
  bp_language :: "string option"
  bp_system_prompt_addendum :: "string option"

record config_body =
  cb_version_tag :: string
  cb_persona :: "persona_body option"
  cb_business_hours :: "BusinessHoursConfig option"
  cb_kanban_stages :: "string list option"
  cb_active_tools :: "string list option"
  cb_extra :: "pydict option"

definition or_default :: "'a \<Rightarrow> 'a option \<Rightarrow> 'a" where
  "or_default d x = (case x of Some v \<Rightarrow> v | None \<Rightarrow> d)"

definition PersonaConfig_of :: "persona_body \<Rightarrow> PersonaConfig" where
  "PersonaConfig_of b = \<lparr>pe_name = or_default (pe_name default_persona) (bp_name b), pe_tone = or_default (pe_tone default_persona) (bp_tone b),
     pe_language = or_default (pe_language default_persona) (bp_language b), pe_system_prompt_addendum = bp_system_prompt_addendum b\<rparr>"

definition TenantConfig_of :: "config_body \<Rightarrow> TenantConfig" where
  "TenantConfig_of b = \<lparr>tg_version_tag = cb_version_tag b,
     tg_persona = or_default default_persona (map_option PersonaConfig_of (cb_persona b)),
     tg_business_hours = or_default default_business_hours (cb_business_hours b),
     tg_kanban_stages = or_default [''new_lead'', ''contacted'', ''nurturing'', ''qualified'', ''proposal_sent'', ''negotiation'', ''won'', ''lost'']
       (cb_kanban_stages b),
     tg_active_tools = cb_active_tools b, tg_extra = or_default [] (cb_extra b)\<rparr>"

text \<open>\<open>model_dump\<close>\<close>

definition opt_val :: "('a \<Rightarrow> pyval) \<Rightarrow> 'a option \<Rightarrow> pyval" where
  "opt_val f x = (case x of None \<Rightarrow> PNone | Some v \<Rightarrow> f v)"

definition dump_day :: "DaySchedule \<Rightarrow> pyval" where
  "dump_day d = PDict [(''start'', PStr (dy_start d)), (''end'', PStr (dy_end d))]"

definition dump_persona :: "PersonaConfig \<Rightarrow> pyval" where
  "dump_persona p = PDict [(''name'', PStr (pe_name p)), (''tone'', PStr (pe_tone p)), (''language'', PStr (pe_language p)),
     (''system_prompt_addendum'', opt_val PStr (pe_system_prompt_addendum p))]"

definition dump_hours :: "BusinessHoursConfig \<Rightarrow> pyval" where
  "dump_hours h = PDict [(''timezone'', PStr (bh_timezone h)), (''monday'', opt_val dump_day (bh_monday h)),
     (''tuesday'', opt_val dump_day (bh_tuesday h)), (''wednesday'', opt_val dump_day (bh_wednesday h)),
     (''thursday'', opt_val dump_day (bh_thursday h)), (''friday'', opt_val dump_day (bh_friday h)),
     (''saturday'', opt_val dump_day (bh_saturday h)), (''sunday'', opt_val dump_day (bh_sunday h))]"

definition TenantConfig_model_dump :: "TenantConfig \<Rightarrow> pydict" where
  "TenantConfig_model_dump c = [(''version_tag'', PStr (tg_version_tag c)), (''persona'', dump_persona (tg_persona c)),
     (''business_hours'', dump_hours (tg_business_hours c)), (''kanban_stages'', PList (map PStr (tg_kanban_stages c))),
     (''active_tools'', opt_val (\<lambda>ts. PList (map PStr ts)) (tg_active_tools c)), (''extra'', PDict (tg_extra c))]"

definition post_draft ::
    "bool \<Rightarrow> bool \<Rightarrow> time \<Rightarrow> uuid \<Rightarrow> uuid \<Rightarrow> string \<Rightarrow> config_body \<Rightarrow> config_db \<Rightarrow> string \<times> config_db" where
  "post_draft has_db db_fails now draft_id profile_id tenant_id body db =
     (let config = TenantConfig_of body
      in create_draft has_db db_fails now draft_id profile_id tenant_id (TenantConfig_model_dump config) (tg_version_tag config) db)"

section \<open>Lemmas\<close>

text \<open>The dump determines the configuration.\<close>

lemma opt_val_inj: "(\<And>x y. f x = f y \<longleftrightarrow> x = y) \<Longrightarrow> (\<And>x. f x \<noteq> PNone) \<Longrightarrow> opt_val f a = opt_val f b \<longleftrightarrow> a = b"
  by (cases a; cases b) (auto simp: opt_val_def dest: sym)

lemma dump_day_inj: "dump_day a = dump_day b \<longleftrightarrow> a = b"
  by (cases a; cases b) (simp add: dump_day_def)

lemma opt_day_inj: "opt_val dump_day a = opt_val dump_day b \<longleftrightarrow> a = b"
  by (rule opt_val_inj [OF dump_day_inj]) (simp add: dump_day_def)

lemma opt_str_inj: "opt_val PStr a = opt_val PStr b \<longleftrightarrow> a = b"
  by (rule opt_val_inj) simp_all

lemma map_PStr_inj: "map PStr xs = map PStr ys \<longleftrightarrow> xs = ys"
  by (rule inj_map_eq_map) (simp add: inj_def)

lemma opt_list_inj: "opt_val (\<lambda>ts. PList (map PStr ts)) a = opt_val (\<lambda>ts. PList (map PStr ts)) b \<longleftrightarrow> a = b"
  by (rule opt_val_inj) (simp_all add: map_PStr_inj)

lemma model_dump_inj: "TenantConfig_model_dump a = TenantConfig_model_dump b \<longleftrightarrow> a = b"
proof
  assume d: "TenantConfig_model_dump a = TenantConfig_model_dump b"
  then have "tg_persona a = tg_persona b" "tg_business_hours a = tg_business_hours b"
    by (simp_all add: TenantConfig_model_dump_def dump_persona_def dump_hours_def opt_day_inj opt_str_inj)
  then show "a = b" using d by (simp add: TenantConfig_model_dump_def opt_list_inj map_PStr_inj)
qed simp

lemma insert_draft_row:
  assumes "UUID_of t = Inr u" and "tag \<noteq> []" and "length tag \<le> 64"
    and "(u, tag) \<notin> set (map (\<lambda>v. (cv_tenant_id v, cv_version_tag v)) (cdb_versions db))"
  shows "\<exists>db1 v. create_draft True False now d p t cfg tag db = (d, db1) \<and> cdb_versions db1 = cdb_versions db @ [v] \<and>
    cv_id v = d \<and> cv_tenant_id v = u \<and> cv_config_data v = cfg \<and> cdb_publications db1 = cdb_publications db"
proof -
  have "draft_tag (Some tag) now = tag" using assms(2) by (cases tag) (auto simp: draft_tag_def)
  then show ?thesis using assms
    by (auto simp: create_draft_def PublishService_create_draft_def PublishService_init_def insert_draft_def Let_def)
qed

lemma db_inv_draft:
  assumes "db_inv u (sv, db)" and "cdb_versions db1 = cdb_versions db @ [v]" and "cdb_publications db1 = cdb_publications db"
    and "cv_id v \<notin> cv_id ` set (cdb_versions db)"
  shows "db_inv u (sv, db1)" and "map fst (sp_history (db_abs u (sv, db1))) = map cp_id (cp_of u db)"
    and "cv_tenant_id v = u \<Longrightarrow> cv_config_data v \<noteq> [] \<Longrightarrow> db_drafts u (sv, db1) (cv_id v) = Some (cv_config_data v)"
proof -
  show "db_inv u (sv, db1)" using assms by (auto simp: db_inv_def)
  show "map fst (sp_history (db_abs u (sv, db1))) = map cp_id (cp_of u db)" using assms(3) by (simp add: db_abs_def comp_def)
  have "find (\<lambda>w. cv_id w = cv_id v \<and> cv_tenant_id w = u) (cdb_versions db) = None"
    unfolding find_None_iff using assms(4) by (metis image_eqI)
  then show "cv_tenant_id v = u \<Longrightarrow> cv_config_data v \<noteq> [] \<Longrightarrow> db_drafts u (sv, db1) (cv_id v) = Some (cv_config_data v)"
    using assms(2) by (simp add: db_drafts_def version_row_def find_append)
qed

section \<open>Properties\<close>

text \<open>C33: What is posted is what is active. After a draft was posted and published the active configuration is the dump of
  the body with its omitted fields filled by the defaults, whatever was published before: an omitted field does not keep
  the value of the last publication, although the schema says so.\<close>

theorem published_config_roundtrip:
  assumes "db_inv u (PublishService_init t True, db)" and "canonical d" and "canonical pid"
    and "d \<notin> cv_id ` set (cdb_versions db)" and "pid \<notin> cp_id ` set (cp_of u db)"
    and "cb_version_tag body \<noteq> []" and "length (cb_version_tag body) \<le> 64"
    and "(u, cb_version_tag body) \<notin> set (map (\<lambda>v. (cv_tenant_id v, cv_version_tag v)) (cdb_versions db))"
    and "post_draft True False now d p t body db = (d', db1)" and "publish_draft True False now' pid t d' who db1 = (r, db2)"
  shows "r = Inr pid \<and> (\<exists>pub. get_active_config True False t db2 = Inr pub \<and> pb_publication_id pub = pid \<and>
    pb_config_data pub = TenantConfig_model_dump (TenantConfig_of body) \<and>
    dict_get (pb_config_data pub) ''kanban_stages'' =
      PList (map PStr (case cb_kanban_stages body of Some ks \<Rightarrow> ks | None \<Rightarrow> DEFAULT_KANBAN_STAGES)))"
proof -
  let ?sv = "PublishService_init t True" and ?cfg = "TenantConfig_model_dump (TenantConfig_of body)"
  have u: "UUID_of t = Inr u" using assms(1) by (simp add: db_inv_def PublishService_init_def)
  obtain v where c: "d' = d" "cdb_versions db1 = cdb_versions db @ [v]" "cv_id v = d" "cv_tenant_id v = u" "cv_config_data v = ?cfg"
      "cdb_publications db1 = cdb_publications db"
    using insert_draft_row [OF u assms(6-8), of now d p ?cfg] assms(9)
    by (auto simp: post_draft_def TenantConfig_of_def Let_def)
  have new: "cv_id v \<notin> cv_id ` set (cdb_versions db)" using assms(4) c(3) by simp
  have ne: "?cfg \<noteq> []" by (simp add: TenantConfig_model_dump_def)
  note i = db_inv_draft [OF assms(1) c(2,6) new]
  have fresh: "pid \<notin> set (map fst (sp_history (db_abs u (?sv, db1))))" using i(2) assms(5) by simp
  have dr: "db_drafts u (?sv, db1) d = Some ?cfg" using i(3) c(3-5) ne by simp
  obtain st where st: "service_publish now' who pid d (?sv, db1) = Inr st" "db_inv u st" "db_abs u st = spec_publish pid ?cfg (db_abs u (?sv, db1))"
    using database.publish_ok [OF i(1) assms(3,2) fresh dr] by blast
  obtain r0 sv2 where pub: "PublishService_publish False now' pid d who (?sv, db1) = (r0, sv2, db2)" "config_error 422 r0 = r"
    using assms(10) c(1) by (auto simp: publish_draft_def split: prod.splits)
  have r0: "r0 = Inr pid" "sv2 = ?sv" "st = (?sv, db2)"
    using pub(1) st(1) u assms(2)
    by (auto simp: service_publish_def keep_state_def PublishService_publish_def publish_db_def publish_error_def
        PublishService_init_def canonical_def Let_def split: option.splits if_splits prod.splits)
  have "map_of (sp_history (db_abs u (?sv, db1))) pid = None" using fresh by (simp add: map_of_eq_None_iff)
  then have "service_current (?sv, db2) = Some (pid, ?cfg)"
    using db_current [OF st(2)] st(3) r0(3) by (simp add: spec_current_def spec_publish_def map_add_def)
  then obtain a where "get_active_config True False t db2 = Inr a" "pb_publication_id a = pid" "pb_config_data a = ?cfg"
    by (auto simp: service_current_def get_active_config_def)
  moreover have "dict_get ?cfg ''kanban_stages'' = PList (map PStr (case cb_kanban_stages body of Some ks \<Rightarrow> ks | None \<Rightarrow> DEFAULT_KANBAN_STAGES))"
    by (simp add: dict_get_def TenantConfig_model_dump_def TenantConfig_of_def or_default_def DEFAULT_KANBAN_STAGES_def split: option.split)
  ultimately show ?thesis using r0(1) pub(2) by (auto simp: config_error_def)
qed

definition sample_body :: config_body where
  "sample_body = \<lparr>cb_version_tag = ''v2'', cb_persona = None, cb_business_hours = None, cb_kanban_stages = None, cb_active_tools = None,
     cb_extra = None\<rparr>"

theorem published_config_roundtrip_witness:
  "\<exists>db1 db2 pub. post_draft True False 5 sample_id' sample_id sample_tenant sample_body sample_config_db = (sample_id', db1) \<and>
     publish_draft True False 6 sample_id sample_tenant sample_id' ''ops'' db1 = (Inr sample_id, db2) \<and>
     get_active_config True False sample_tenant db2 = Inr pub \<and> dict_get (pb_config_data pub) ''kanban_stages'' = PList (map PStr DEFAULT_KANBAN_STAGES)"
proof -
  have i: "db_inv sample_tenant (PublishService_init sample_tenant True, sample_config_db)"
    by (simp add: db_inv_def sample_config_db_def PublishService_init_def sample_ids)
  have c: "canonical sample_id'" "canonical sample_id" by (simp_all add: canonical_def sample_ids)
  have n: "sample_id' \<notin> cv_id ` set (cdb_versions sample_config_db)" "sample_id \<notin> cp_id ` set (cp_of sample_tenant sample_config_db)"
    by (simp_all add: sample_config_db_def)
  have b: "cb_version_tag sample_body \<noteq> []" "length (cb_version_tag sample_body) \<le> 64"
      "(sample_tenant, cb_version_tag sample_body) \<notin> set (map (\<lambda>v. (cv_tenant_id v, cv_version_tag v)) (cdb_versions sample_config_db))"
    by (simp_all add: sample_body_def sample_config_db_def)
  obtain db1 where d: "post_draft True False 5 sample_id' sample_id sample_tenant sample_body sample_config_db = (sample_id', db1)"
    using insert_draft_row [OF sample_tenant_id b, of 5 sample_id' sample_id "TenantConfig_model_dump (TenantConfig_of sample_body)"]
    by (auto simp: post_draft_def TenantConfig_of_def Let_def)
  obtain r db2 where p: "publish_draft True False 6 sample_id sample_tenant sample_id' ''ops'' db1 = (r, db2)" by fastforce
  from published_config_roundtrip [OF i c n b d p] d p show ?thesis by (auto simp: sample_body_def)
qed

end
