(* ===== verification/ChatwootClient.thy ===== *)
theory ChatwootClient
  imports ChatwootAdapter Scheduling
begin

text \<open>
  The HTTP client of the Chatwoot adapter (\<open>provider/chatwoot/mcp_adapter.py\<close>): how its credential is resolved, when a
  client is created and kept, the health check, and the classification of failures that are worth a retry.
\<close>

section \<open>Client\<close>

definition PROVIDER_NAME :: string where
  "PROVIDER_NAME = ''chatwoot''"

definition chatwoot_resolve_credential :: "os_environ \<Rightarrow> string \<Rightarrow> string" where
  "chatwoot_resolve_credential = write_credential [''CHATWOOT_MCP_TOKEN'', ''CHATWOOT_API_TOKEN'', ''MCP_TOKEN'']"

record http_client =
  hc_timeout :: int
  hc_headers :: "(string \<times> string) list"
  hc_is_closed :: bool

text \<open>The fields of the adapter that its client depends on.\<close>

record client_slot =
  cs_credential_ref :: string
  cs_timeout :: int
  cs_client :: "http_client option"

definition ChatwootMcpAdapter_get_client :: "os_environ \<Rightarrow> client_slot \<Rightarrow> http_client \<times> client_slot" where
  "ChatwootMcpAdapter_get_client environ s =
     (let fresh = \<lparr>hc_timeout = cs_timeout s, hc_headers = [(''Api-Access-Token'', chatwoot_resolve_credential environ (cs_credential_ref s)),
            (''Content-Type'', ''application/json''), (''Accept'', ''application/json'')], hc_is_closed = False\<rparr>
      in case cs_client s of
        None \<Rightarrow> (fresh, s\<lparr>cs_client := Some fresh\<rparr>)
      | Some c \<Rightarrow> if hc_is_closed c then (fresh, s\<lparr>cs_client := Some fresh\<rparr>) else (c, s))"

definition ChatwootMcpAdapter_close :: "client_slot \<Rightarrow> client_slot" where
  "ChatwootMcpAdapter_close s = (case cs_client s of
     None \<Rightarrow> s | Some c \<Rightarrow> if hc_is_closed c then s else s\<lparr>cs_client := Some (c\<lparr>hc_is_closed := True\<rparr>)\<rparr>)"

definition ChatwootMcpAdapter_health_check :: "transport \<Rightarrow> ChatwootMcpAdapter \<Rightarrow> http_log \<Rightarrow> bool \<times> http_log" where
  "ChatwootMcpAdapter_health_check net ad reqs =
     (case ChatwootMcpAdapter_call_tool net ad ''account_context'' [] reqs of
        (Inr _, reqs') \<Rightarrow> (True, reqs') | (Inl _, reqs') \<Rightarrow> (False, reqs'))"

definition is_retryable_http_error :: "py_exc \<Rightarrow> bool" where
  "is_retryable_http_error e = (case e of
     TimeoutException \<Rightarrow> True | ConnectError \<Rightarrow> True | HTTPStatusError c \<Rightarrow> List.member RETRYABLE_STATUS_CODES c | _ \<Rightarrow> False)"

section \<open>Lemmas\<close>

lemma health_check_bounded:
  assumes "ChatwootMcpAdapter_health_check net ad reqs = (ok, reqs')"
  shows "bounded_requests ad (cw_max_retries ad) reqs reqs'"
  using assms bounded_call
  by (auto simp: ChatwootMcpAdapter_health_check_def split: prod.splits sum.splits)

text \<open>What the loop of the requests tries again is what the classification says.\<close>

lemma retried_iff_retryable:
  "is_retryable_http_error e \<longleftrightarrow> e \<in> {TimeoutException, ConnectError} \<or> (\<exists>c\<in>set RETRYABLE_STATUS_CODES. e = HTTPStatusError c)"
  by (cases e) (auto simp: is_retryable_http_error_def)

text \<open>A client keeps the token it was created with; only after \<open>close\<close> is the credential looked up again.\<close>

lemma get_client_kept:
  assumes "ChatwootMcpAdapter_get_client environ s = (c, s')"
  shows "ChatwootMcpAdapter_get_client environ' s' = (c, s')"
    and "\<exists>d s''. ChatwootMcpAdapter_get_client environ' (ChatwootMcpAdapter_close s') = (d, s'') \<and>
      map_of (hc_headers d) ''Api-Access-Token'' = Some (chatwoot_resolve_credential environ' (cs_credential_ref s))"
  using assms
  by (auto simp: ChatwootMcpAdapter_get_client_def ChatwootMcpAdapter_close_def Let_def split: option.splits if_splits)

text \<open>A reference that no variable resolves is itself sent as the token.\<close>

lemma unresolved_reference_sent:
  assumes "cs_client s = None" and "unresolved (cs_credential_ref s)" and "\<forall>k. environ k = None"
  shows "map_of (hc_headers (fst (ChatwootMcpAdapter_get_client environ s))) ''Api-Access-Token'' = Some (cs_credential_ref s)"
  using assms by (simp add: ChatwootMcpAdapter_get_client_def chatwoot_resolve_credential_def write_credential_def Let_def)

text \<open>A reference whose own variable is not set takes the token of any other account that is in a common variable.\<close>

lemma common_token_sent:
  assumes "cs_client s = None" and "unresolved (cs_credential_ref s)" and "environ (env_key (cs_credential_ref s)) = None"
    and "environ ''CHATWOOT_MCP_TOKEN'' = Some tok" and "tok \<noteq> []"
  shows "map_of (hc_headers (fst (ChatwootMcpAdapter_get_client environ s))) ''Api-Access-Token'' = Some tok"
  using assms by (simp add: ChatwootMcpAdapter_get_client_def chatwoot_resolve_credential_def write_credential_def Let_def)

end
