(* ===== verification/Regex.thy ===== *)
theory Regex
  imports Prelude
begin

text \<open>
  The part of Python's \<open>re\<close> module that the runtime's patterns use: literals, character classes,
  word boundaries, sequences, alternatives, options and greedy repetitions of a class, with
  \<open>search\<close> and \<open>sub\<close>. \<open>re_ends\<close> lists the ends of the matches at a position in the order the
  backtracking matcher tries them, so its first element is the match that Python reports. The
  classes repeated under \<open>IGNORECASE\<close> in the patterns of the runtime hold both cases of their letters.

  A pattern without word boundaries has a language, and the matcher finds exactly its words.
\<close>

section \<open>Patterns\<close>

datatype re = R_lit string | R_class "char list" | R_bound | R_seq "re list" | R_alt re re | R_opt re
  | R_rep "char \<Rightarrow> bool" nat "nat option"

definition word_char :: "char \<Rightarrow> bool" where
  "word_char c = (let n = (of_char c :: nat) in
     (48 \<le> n \<and> n \<le> 57) \<or> (65 \<le> n \<and> n \<le> 90) \<or> n = 95 \<or> (97 \<le> n \<and> n \<le> 122) \<or>
     n \<in> {170, 178, 179, 181, 185, 186, 188, 189, 190} \<or> (192 \<le> n \<and> n \<noteq> 215 \<and> n \<noteq> 247))"

definition fold_case :: "bool \<Rightarrow> char \<Rightarrow> char" where
  "fold_case ic c = (if ic then lower_char c else c)"

text \<open>A position is the character before it and the text after it.\<close>

type_synonym re_pos = "char option \<times> string"

fun advance :: "nat \<Rightarrow> re_pos \<Rightarrow> re_pos" where
  "advance (Suc n) (p, c # s) = advance n (Some c, s)"
| "advance _ pos = pos"

definition at_boundary :: "re_pos \<Rightarrow> bool" where
  "at_boundary pos = ((case fst pos of None \<Rightarrow> False | Some c \<Rightarrow> word_char c) \<noteq>
     (case snd pos of [] \<Rightarrow> False | c # _ \<Rightarrow> word_char c))"

primrec re_ends :: "bool \<Rightarrow> re \<Rightarrow> re_pos \<Rightarrow> re_pos list" where
  "re_ends ic (R_lit l) = (\<lambda>pos. if map (fold_case ic) (take (length l) (snd pos)) = map (fold_case ic) l
     then [advance (length l) pos] else [])"
| "re_ends ic (R_class cs) = (\<lambda>pos. case snd pos of [] \<Rightarrow> []
     | c # s \<Rightarrow> if fold_case ic c \<in> set (map (fold_case ic) cs) then [(Some c, s)] else [])"
| "re_ends ic R_bound = (\<lambda>pos. if at_boundary pos then [pos] else [])"
| "re_ends ic (R_seq rs) = (\<lambda>pos. foldl (\<lambda>ps f. concat (map f ps)) [pos] (map (re_ends ic) rs))"
| "re_ends ic (R_alt r r') = (\<lambda>pos. re_ends ic r pos @ re_ends ic r' pos)"
| "re_ends ic (R_opt r) = (\<lambda>pos. re_ends ic r pos @ [pos])"
| "re_ends ic (R_rep P lo hi) = (\<lambda>pos. let k = length (takeWhile P (snd pos));
     top = (case hi of None \<Rightarrow> k | Some n \<Rightarrow> min n k)
     in map (\<lambda>n. advance n pos) (rev [lo..<Suc top]))"

fun re_search :: "bool \<Rightarrow> re \<Rightarrow> char option \<Rightarrow> string \<Rightarrow> bool" where
  "re_search ic r p [] = (re_ends ic r (p, []) \<noteq> [])"
| "re_search ic r p (c # s) = (re_ends ic r (p, c # s) \<noteq> [] \<or> re_search ic r (Some c) s)"

text \<open>\<open>match.group(0)\<close> of a search: the text of the leftmost match.\<close>

fun re_find :: "bool \<Rightarrow> re \<Rightarrow> char option \<Rightarrow> string \<Rightarrow> string option" where
  "re_find ic r p [] = (case re_ends ic r (p, []) of [] \<Rightarrow> None | _ \<Rightarrow> Some [])"
| "re_find ic r p (c # s) = (case re_ends ic r (p, c # s) of
     (p', s') # _ \<Rightarrow> Some (take (length (c # s) - length s') (c # s)) | [] \<Rightarrow> re_find ic r (Some c) s)"

text \<open>\<open>pattern.sub(repl, s)\<close>: the leftmost match is replaced and the scan goes on after it.\<close>

function re_sub :: "bool \<Rightarrow> re \<Rightarrow> string \<Rightarrow> char option \<Rightarrow> string \<Rightarrow> string" where
  "re_sub ic r repl p s = (case re_ends ic r (p, s) of
       (p', s') # _ \<Rightarrow>
         if length s' < length s then repl @ re_sub ic r repl p' s'
         else repl @ (case s of [] \<Rightarrow> [] | c # t \<Rightarrow> c # re_sub ic r repl (Some c) t)
     | [] \<Rightarrow> (case s of [] \<Rightarrow> [] | c # t \<Rightarrow> c # re_sub ic r repl (Some c) t))"
  by pat_completeness auto
termination
  by (relation "measure (\<lambda>(ic, r, repl, p, s). length s)") auto

declare re_sub.simps [simp del]

section \<open>Evaluating patterns\<close>

text \<open>A literal is compared character by character and a sequence stops at its first failing part.\<close>

lemma foldl_concat:
  "foldl (\<lambda>ps f. concat (map f ps)) xs fs = concat (map (\<lambda>x. foldl (\<lambda>ps f. concat (map f ps)) [x] fs) xs)"
proof (induction fs arbitrary: xs)
  case (Cons f fs)
  have "foldl (\<lambda>ps f. concat (map f ps)) xs (f # fs) = concat (map (\<lambda>x. foldl (\<lambda>ps f. concat (map f ps)) [x] fs) (concat (map f xs)))"
    using Cons.IH [of "concat (map f xs)"] by simp
  also have "\<dots> = concat (map (\<lambda>x. concat (map (\<lambda>x. foldl (\<lambda>ps f. concat (map f ps)) [x] fs) (f x))) xs)"
    by (induction xs) simp_all
  also have "\<dots> = concat (map (\<lambda>x. foldl (\<lambda>ps f. concat (map f ps)) [x] (f # fs)) xs)"
    using Cons.IH by (metis (no_types, lifting) append_Nil2 concat.simps foldl_Cons list.simps(8,9))
  finally show ?case .
qed simp

lemma re_seq_eval:
  "re_ends ic (R_seq []) pos = [pos]"
  "re_ends ic (R_seq (r # rs)) pos = concat (map (re_ends ic (R_seq rs)) (re_ends ic r pos))"
  using foldl_concat [of "re_ends ic r pos" "map (re_ends ic) rs"] by simp_all

lemma re_lit_eval:
  "re_ends ic (R_lit []) pos = [pos]"
  "re_ends ic (R_lit (a # l)) (p, []) = []"
  "re_ends ic (R_lit (a # l)) (p, c # s) = (if fold_case ic c = fold_case ic a then re_ends ic (R_lit l) (Some c, s) else [])"
  by simp_all

section \<open>Search\<close>

fun last_opt :: "char option \<Rightarrow> string \<Rightarrow> char option" where
  "last_opt p [] = p"
| "last_opt p (c # s) = last_opt (Some c) s"

lemma re_search_iff: "re_search ic r p s \<longleftrightarrow> (\<exists>u v. s = u @ v \<and> re_ends ic r (last_opt p u, v) \<noteq> [])"
proof (induction s arbitrary: p)
  case (Cons c s)
  have "(\<exists>u v. c # s = u @ v \<and> re_ends ic r (last_opt p u, v) \<noteq> []) \<longleftrightarrow>
      re_ends ic r (p, c # s) \<noteq> [] \<or> (\<exists>u v. s = u @ v \<and> re_ends ic r (last_opt (Some c) u, v) \<noteq> [])"
    (is "?L \<longleftrightarrow> ?R")
  proof
    assume ?L
    then obtain u v where "c # s = u @ v" "re_ends ic r (last_opt p u, v) \<noteq> []" by blast
    then show ?R by (cases u) auto
  next
    assume ?R
    then show ?L
    proof
      assume "re_ends ic r (p, c # s) \<noteq> []"
      then show ?L by (intro exI [of _ "[]"] exI [of _ "c # s"]) simp
    next
      assume "\<exists>u v. s = u @ v \<and> re_ends ic r (last_opt (Some c) u, v) \<noteq> []"
      then obtain u v where "s = u @ v" "re_ends ic r (last_opt (Some c) u, v) \<noteq> []" by blast
      then show ?L by (intro exI [of _ "c # u"] exI [of _ v]) simp
    qed
  qed
  with Cons show ?case by simp
qed auto

lemma fold_case_False [simp]: "fold_case False = (\<lambda>c. c)"
  by (simp add: fold_case_def fun_eq_iff)

lemma advance_append: "advance (length e) (p, e @ v) = (last_opt p e, v)"
  by (induction e arbitrary: p) auto

lemma re_find_search: "(re_find ic r p s \<noteq> None) = re_search ic r p s"
  by (induction ic r p s rule: re_find.induct) (auto split: list.splits)

lemma re_find_Some:
  assumes "re_find ic r p s = Some w"
  shows "\<exists>u v q t. s = u @ v \<and> (q, t) \<in> set (re_ends ic r (last_opt p u, v)) \<and> w = take (length v - length t) v"
  using assms
proof (induction s arbitrary: p)
  case Nil
  then obtain e es where "re_ends ic r (p, []) = e # es" "w = []" by (auto split: list.splits)
  then show ?case by (intro exI [of _ "[]"] exI [of _ "fst e"] exI [of _ "snd e"]) simp
next
  case (Cons c s)
  show ?case
  proof (cases "re_ends ic r (p, c # s)")
    case Nil
    then have "re_find ic r (Some c) s = Some w" using Cons.prems by simp
    from Cons.IH [OF this] obtain u v q t
      where "s = u @ v" "(q, t) \<in> set (re_ends ic r (last_opt (Some c) u, v))" "w = take (length v - length t) v" by blast
    then show ?thesis by (intro exI [of _ "c # u"] exI [of _ v] exI [of _ q] exI [of _ t]) simp
  next
    case C: (Cons e es)
    obtain q t where e: "e = (q, t)" by (cases e)
    have "w = take (length (c # s) - length t) (c # s)" using Cons.prems C by (simp add: e)
    then show ?thesis using C e by (intro exI [of _ "[]"] exI [of _ "c # s"] exI [of _ q] exI [of _ t]) simp
  qed
qed

lemma re_ends_lit: "re_ends False (R_lit e) (p, v) \<noteq> [] \<longleftrightarrow> (\<exists>w. v = e @ w)"
  by (auto simp: ) (metis append_take_drop_id)

lemma last_opt_append: "last_opt p (u @ v) = last_opt (last_opt p u) v"
  by (induction u arbitrary: p) auto

section \<open>Languages\<close>

primrec re_plain :: "re \<Rightarrow> bool" where
  "re_plain (R_lit l) = True"
| "re_plain (R_class cs) = True"
| "re_plain R_bound = False"
| "re_plain (R_seq rs) = list_all (\<lambda>b. b) (map re_plain rs)"
| "re_plain (R_alt r r') = (re_plain r \<and> re_plain r')"
| "re_plain (R_opt r) = re_plain r"
| "re_plain (R_rep P lo hi) = True"

definition conc :: "string set \<Rightarrow> string set \<Rightarrow> string set" where
  "conc A B = {u @ v | u v. u \<in> A \<and> v \<in> B}"

primrec re_lang :: "bool \<Rightarrow> re \<Rightarrow> string set" where
  "re_lang ic (R_lit l) = {w. map (fold_case ic) w = map (fold_case ic) l}"
| "re_lang ic (R_class cs) = {[c] | c. fold_case ic c \<in> set (map (fold_case ic) cs)}"
| "re_lang ic R_bound = {}"
| "re_lang ic (R_seq rs) = foldr conc (map (re_lang ic) rs) {[]}"
| "re_lang ic (R_alt r r') = re_lang ic r \<union> re_lang ic r'"
| "re_lang ic (R_opt r) = insert [] (re_lang ic r)"
| "re_lang ic (R_rep P lo hi) = {w. (\<forall>c\<in>set w. P c) \<and> lo \<le> length w \<and> (\<forall>n. hi = Some n \<longrightarrow> length w \<le> n)}"

text \<open>The position reached from \<open>(p, s)\<close> by reading the prefix \<open>w\<close>.\<close>

definition reached :: "re_pos \<Rightarrow> string set \<Rightarrow> re_pos set" where
  "reached pos L = {(last_opt (fst pos) w, v) | w v. snd pos = w @ v \<and> w \<in> L}"

lemma reached_Un [simp]: "reached pos (A \<union> B) = reached pos A \<union> reached pos B"
  by (auto simp: reached_def)

lemma reached_Nil [simp]: "reached pos {[]} = {pos}"
  by (cases pos) (auto simp: reached_def)

lemma reached_conc: "reached pos (conc A B) = (\<Union>pos'\<in>reached pos A. reached pos' B)"
  by (fastforce simp: reached_def conc_def last_opt_append)

lemma advance_take: "n \<le> length s \<Longrightarrow> advance n (p, s) = (last_opt p (take n s), drop n s)"
  using advance_append [of "take n s" p "drop n s"] by simp

lemma re_ends_reached_lit: "set (re_ends ic (R_lit l) pos) = reached pos (re_lang ic (R_lit l))"
proof -
  obtain p s where pos: "pos = (p, s)" by (cases pos)
  have "s = w @ v \<Longrightarrow> map (fold_case ic) w = map (fold_case ic) l \<Longrightarrow>
      map (fold_case ic) (take (length l) s) = map (fold_case ic) l \<and> (last_opt p w, v) = advance (length l) (p, s)" for w v
    using advance_append [of w p v] map_eq_imp_length_eq [of "fold_case ic" w "fold_case ic" l] by simp
  moreover have "map (fold_case ic) (take (length l) s) = map (fold_case ic) l \<Longrightarrow>
      advance (length l) (p, s) = (last_opt p (take (length l) s), drop (length l) s)"
    by (drule map_eq_imp_length_eq) (simp add: advance_take)
  ultimately show ?thesis
    unfolding reached_def re_lang.simps re_ends.simps pos fst_conv snd_conv
    by (intro equalityI subsetI) (auto split: if_splits, metis append_take_drop_id)
qed

lemma re_ends_reached_rep: "set (re_ends ic (R_rep P lo hi) pos) = reached pos (re_lang ic (R_rep P lo hi))"
proof -
  obtain p s where pos: "pos = (p, s)" by (cases pos)
  let ?k = "length (takeWhile P s)"
  let ?top = "case hi of None \<Rightarrow> ?k | Some n \<Rightarrow> min n ?k"
  have run: "(\<forall>c\<in>set (take n s). P c) \<longleftrightarrow> n \<le> ?k" if "n \<le> length s" for n
  proof
    assume "\<forall>c\<in>set (take n s). P c"
    then have "takeWhile P s = take n s @ takeWhile P (drop n s)"
      by (metis append_take_drop_id takeWhile_append2)
    then show "n \<le> ?k" using that by simp
  next
    assume "n \<le> ?k"
    then have "take n s = take n (takeWhile P s)" by (metis takeWhile_eq_take take_take min.absorb1)
    then show "\<forall>c\<in>set (take n s). P c" by (metis in_set_takeD set_takeWhileD)
  qed
  have top: "n \<le> ?top \<longleftrightarrow> n \<le> length s \<and> (\<forall>c\<in>set (take n s). P c) \<and> (\<forall>m. hi = Some m \<longrightarrow> n \<le> m)" for n
    using run [of n] length_takeWhile_le [of P s] by (cases hi) auto
  have "set (re_ends ic (R_rep P lo hi) pos) = (\<lambda>n. advance n (p, s)) ` {n. lo \<le> n \<and> n \<le> ?top}"
    by (simp only: re_ends.simps pos snd_conv Let_def set_map set_rev set_upt atLeastLessThan_def lessThan_def atLeast_def
        less_Suc_eq_le Collect_conj_eq [symmetric])
  also have "\<dots> = (\<lambda>n. (last_opt p (take n s), drop n s)) `
      {n. lo \<le> n \<and> n \<le> length s \<and> (\<forall>c\<in>set (take n s). P c) \<and> (\<forall>m. hi = Some m \<longrightarrow> n \<le> m)}"
    unfolding top by (rule image_cong) (simp_all add: advance_take)
  also have "\<dots> = reached pos (re_lang ic (R_rep P lo hi))"
  proof (intro equalityI subsetI)
    fix x assume "x \<in> reached pos (re_lang ic (R_rep P lo hi))"
    then obtain w v where "x = (last_opt p w, v)" "s = w @ v" "w \<in> re_lang ic (R_rep P lo hi)" by (auto simp: pos reached_def)
    then show "x \<in> (\<lambda>n. (last_opt p (take n s), drop n s)) `
      {n. lo \<le> n \<and> n \<le> length s \<and> (\<forall>c\<in>set (take n s). P c) \<and> (\<forall>m. hi = Some m \<longrightarrow> n \<le> m)}"
      by (intro image_eqI [of _ _ "length w"]) auto
  next
    fix x assume "x \<in> (\<lambda>n. (last_opt p (take n s), drop n s)) `
      {n. lo \<le> n \<and> n \<le> length s \<and> (\<forall>c\<in>set (take n s). P c) \<and> (\<forall>m. hi = Some m \<longrightarrow> n \<le> m)}"
    then obtain n where n: "x = (last_opt p (take n s), drop n s)" "n \<le> length s" "take n s \<in> re_lang ic (R_rep P lo hi)" by auto
    then show "x \<in> reached pos (re_lang ic (R_rep P lo hi))"
      unfolding reached_def pos fst_conv snd_conv by (intro CollectI exI [of _ "take n s"] exI [of _ "drop n s"]) simp
  qed
  finally show ?thesis .
qed

text \<open>The matcher reaches exactly the ends of the words of the language.\<close>

lemma re_ends_lang: "re_plain r \<Longrightarrow> set (re_ends ic r pos) = reached pos (re_lang ic r)"
proof (induction r arbitrary: pos)
  case (R_lit l)
  show ?case by (rule re_ends_reached_lit)
next
  case (R_class cs)
  then show ?case by (cases pos; cases "snd pos") (auto simp: reached_def)
next
  case (R_seq rs)
  then show ?case
  proof (induction rs arbitrary: pos)
    case (Cons r rs)
    have "set (re_ends ic (R_seq (r # rs)) pos) = (\<Union>pos'\<in>reached pos (re_lang ic r). reached pos' (re_lang ic (R_seq rs)))"
      using Cons.IH [OF Cons.prems(1)] Cons.prems by (simp add: re_seq_eval del: re_ends.simps)
    then show ?case by (simp add: reached_conc del: re_ends.simps)
  qed simp
next
  case (R_rep P lo hi)
  show ?case by (rule re_ends_reached_rep)
next
  case (R_opt r)
  then show ?case using reached_Un [of pos "{[]}" "re_lang ic r"] by auto
qed simp_all

lemma re_search_lang:
  assumes "re_plain r"
  shows "re_search ic r p s \<longleftrightarrow> (\<exists>u w v. s = u @ w @ v \<and> w \<in> re_lang ic r)"
proof -
  have "re_ends ic r pos \<noteq> [] \<longleftrightarrow> (\<exists>w v. snd pos = w @ v \<and> w \<in> re_lang ic r)" for pos
    using re_ends_lang [OF assms, of ic pos] by (auto simp: reached_def set_empty [symmetric] simp del: set_empty)
  then show ?thesis by (auto simp: re_search_iff)
qed

section \<open>Substitution\<close>

text \<open>What \<open>sub\<close> does to a text: it keeps the characters at which no word starts and cuts the words it finds.\<close>

inductive blanked :: "string set \<Rightarrow> string \<Rightarrow> string \<Rightarrow> string \<Rightarrow> bool" for L repl where
  blanked_Nil: "blanked L repl [] []"
| blanked_Keep: "\<forall>w v. c # s = w @ v \<longrightarrow> w \<notin> L \<Longrightarrow> blanked L repl s t \<Longrightarrow> blanked L repl (c # s) (c # t)"
| blanked_Cut: "w \<in> L \<Longrightarrow> blanked L repl v t \<Longrightarrow> blanked L repl (w @ v) (repl @ t)"

lemma re_sub_blanked:
  assumes "re_plain r" and "[] \<notin> re_lang ic r"
  shows "blanked (re_lang ic r) repl s (re_sub ic r repl p s)"
proof (induction s arbitrary: p rule: length_induct)
  case (1 s)
  have ends: "set (re_ends ic r (p, s)) = reached (p, s) (re_lang ic r)" by (rule re_ends_lang [OF assms(1)])
  show ?case
  proof (cases "re_ends ic r (p, s)")
    case Nil
    then have none: "s = w @ v \<Longrightarrow> w \<notin> re_lang ic r" for w v using ends by (auto simp: reached_def)
    show ?thesis
    proof (cases s)
      case (Cons c t)
      then have "blanked (re_lang ic r) repl t (re_sub ic r repl (Some c) t)" using 1 by simp
      then have "blanked (re_lang ic r) repl (c # t) (c # re_sub ic r repl (Some c) t)"
        using none Cons by (intro blanked_Keep) auto
      then show ?thesis using Nil Cons by (simp add: re_sub.simps [of _ _ _ p])
    qed (use Nil in \<open>simp add: re_sub.simps [of _ _ _ p] blanked_Nil\<close>)
  next
    case (Cons pos rest)
    then have "pos \<in> reached (p, s) (re_lang ic r)" using ends by auto
    then obtain w v where w: "pos = (last_opt p w, v)" "s = w @ v" "w \<in> re_lang ic r" by (auto simp: reached_def)
    then have "w \<noteq> []" using assms(2) by auto
    then have "length v < length s" using w by simp
    then have "blanked (re_lang ic r) repl v (re_sub ic r repl (last_opt p w) v)" using 1 by blast
    then have "blanked (re_lang ic r) repl (w @ v) (repl @ re_sub ic r repl (last_opt p w) v)" by (rule blanked_Cut [OF w(3)])
    then show ?thesis using Cons w \<open>length v < length s\<close> by (simp add: re_sub.simps [of _ _ _ p])
  qed
qed

text \<open>A suffix of the result is the result for a suffix of the text, unless it starts inside a replacement.\<close>

lemma blanked_suffix:
  assumes "blanked L repl s (u @ t)"
  shows "(\<exists>a s'. s = a @ s' \<and> blanked L repl s' t) \<or> (\<exists>a b t'. repl = a @ b \<and> a \<noteq> [] \<and> b \<noteq> [] \<and> t = b @ t')"
  using assms
proof (induction s "u @ t" arbitrary: u rule: blanked.induct)
  case blanked_Nil
  then show ?case by (auto intro: blanked.blanked_Nil)
next
  case (blanked_Keep c s t')
  show ?case
  proof (cases u)
    case Nil
    then have "blanked L repl (c # s) t" using blanked.blanked_Keep [OF blanked_Keep.hyps(1,2)] blanked_Keep.hyps(4) by simp
    then show ?thesis by (intro disjI1 exI [of _ "[]"] exI [of _ "c # s"]) simp
  next
    case (Cons d u')
    then have "t' = u' @ t" using blanked_Keep.hyps(4) by simp
    from blanked_Keep.hyps(3) [OF this] show ?thesis by (metis append_Cons)
  qed
next
  case (blanked_Cut w v t')
  show ?case
  proof (cases "length repl \<le> length u")
    case True
    then obtain u' where "u = repl @ u'" "t' = u' @ t" using blanked_Cut.hyps(4)
      by (metis append_eq_append_conv_if append_take_drop_id)
    then show ?thesis using blanked_Cut.hyps(3) [of u'] by (metis append.assoc)
  next
    case False
    then obtain b where b: "repl = u @ b" "t = b @ t'" using blanked_Cut.hyps(4)
      by (metis append_eq_append_conv_if append_take_drop_id nle_le)
    show ?thesis
    proof (cases u)
      case Nil
      then have "blanked L repl (w @ v) t" using blanked.blanked_Cut [OF blanked_Cut.hyps(1,2)] b by simp
      then show ?thesis by (intro disjI1 exI [of _ "[]"] exI [of _ "w @ v"]) simp
    next
      case Cons
      moreover have "b \<noteq> []" using b False by auto
      ultimately show ?thesis using b by blast
    qed
  qed
qed

end
