(* ===== verification/Redaction.thy ===== *)
theory Redaction
  imports Regex Hashing
begin

text \<open>
  Redaction of log events (\<open>security/redaction.py\<close>): sensitive field names, the six value patterns, the
  recursive redaction of dictionaries and lists, and the structlog processor. A text is redacted by one
  \<open>sub\<close> per pattern in the order of the list. The theorems show that no value of a processed event
  carries a sensitive pattern or stands under a sensitive name, and that processing is idempotent.
\<close>

section \<open>Sensitive names and patterns\<close>

definition SENSITIVE_FIELD_NAMES :: "string list" where
  "SENSITIVE_FIELD_NAMES = [
    ''token'', ''api_key'', ''api_token'', ''secret'', ''password'', ''credential'', ''auth_token'',
    ''access_token'', ''refresh_token'', ''id_token'', ''bearer'', ''x_auth_token'', ''authorization'',
    ''x_api_key'', ''raw_body'', ''raw_payload'', ''raw_content'', ''pin_data'', ''pinData'', ''base64'',
    ''raw_base64'', ''_raw_base64'', ''_raw_url'', ''phone'', ''phone_number'', ''raw_phone'',
    ''contact_phone'', ''email'', ''cpf'', ''cnpj'', ''rg'', ''account_id'', ''real_account_id'',
    ''headers'', ''cookie'', ''cookies'', ''x_forwarded_for'', ''_private_content'', ''private_note'',
    ''private_content'', ''private_message'', ''attachment_url'', ''download_url'', ''temp_url'',
    ''temporary_url'', ''media_url'', ''file_url'', ''audio_url'', ''image_url'', ''raw_attachment'']"

definition digit_char :: "char \<Rightarrow> bool" where
  "digit_char c = (let n = (of_char c :: nat) in 48 \<le> n \<and> n \<le> 57)"

definition alnum_char :: "char \<Rightarrow> bool" where
  "alnum_char c = (let n = (of_char c :: nat) in (48 \<le> n \<and> n \<le> 57) \<or> (65 \<le> n \<and> n \<le> 90) \<or> (97 \<le> n \<and> n \<le> 122))"

definition digits :: "nat \<Rightarrow> re" where
  "digits n = R_rep digit_char n (Some n)"

definition optional :: "(char \<Rightarrow> bool) \<Rightarrow> re" where
  "optional P = R_rep P 0 (Some 1)"

definition anthropic_key :: re where
  "anthropic_key = R_seq [R_lit ''sk-ant-'', R_rep (\<lambda>c. alnum_char c \<or> c \<in> set ''-_'') 20 None]"

definition bearer_token :: re where
  "bearer_token = R_seq [R_lit ''Bearer'', R_rep py_space 1 None, R_rep (\<lambda>c. alnum_char c \<or> c \<in> set ''-_.'') 20 None]"

definition phone_number :: re where
  "phone_number = R_seq [optional (\<lambda>c. c = CHR ''+''), R_lit ''55'', R_rep py_space 0 None, optional (\<lambda>c. c = CHR ''(''),
     R_rep (\<lambda>c. digit_char c \<and> c \<noteq> CHR ''0'') 2 (Some 2), optional (\<lambda>c. c = CHR '')''), R_rep py_space 0 None,
     optional (\<lambda>c. c = CHR ''9''), digits 4, optional (\<lambda>c. py_space c \<or> c = CHR ''-''), digits 4]"

definition cpf_number :: re where
  "cpf_number = R_seq [digits 3, optional (\<lambda>c. c = CHR ''.'' \<or> py_space c), digits 3, optional (\<lambda>c. c = CHR ''.'' \<or> py_space c),
     digits 3, optional (\<lambda>c. c = CHR ''-'' \<or> py_space c), digits 2]"

definition url_words :: "string list" where
  "url_words = [''token'', ''key'', ''signature'', ''auth'']"

definition token_url :: re where
  "token_url = R_seq [R_lit ''http'', R_opt (R_lit ''s''), R_lit ''://'', R_rep (\<lambda>c. \<not> py_space c) 1 None, R_lit ''?'',
     R_rep (\<lambda>c. \<not> py_space c) 0 None, R_alt (R_lit ''token'') (R_alt (R_lit ''key'') (R_alt (R_lit ''signature'') (R_lit ''auth''))),
     R_rep (\<lambda>c. \<not> py_space c) 0 None]"

definition base64_blob :: re where
  "base64_blob = R_seq [R_rep (\<lambda>c. alnum_char c \<or> c \<in> set ''+/'') 100 None, R_rep (\<lambda>c. c = CHR ''='') 0 (Some 2)]"

text \<open>The patterns with their \<open>IGNORECASE\<close> flags.\<close>

definition SENSITIVE_VALUE_PATTERNS :: "(bool \<times> re) list" where
  "SENSITIVE_VALUE_PATTERNS = [(True, anthropic_key), (True, bearer_token), (False, phone_number), (False, cpf_number),
     (True, token_url), (False, base64_blob)]"

definition REDACTED_PLACEHOLDER :: string where
  "REDACTED_PLACEHOLDER = ''[REDACTED]''"

definition REDACTED_HASH_PREFIX :: string where
  "REDACTED_HASH_PREFIX = ''[SHA256:''"

section \<open>Operations\<close>

definition is_sensitive_field :: "string \<Rightarrow> bool" where
  "is_sensitive_field key = (replace_char (CHR '' '') (CHR ''_'') (replace_char (CHR ''-'') (CHR ''_'') (py_lower key))
     \<in> set SENSITIVE_FIELD_NAMES)"

definition contains_sensitive_pattern :: "string \<Rightarrow> bool" where
  "contains_sensitive_pattern value = list_ex (\<lambda>(ic, r). re_search ic r None value) SENSITIVE_VALUE_PATTERNS"

text \<open>The argument is a text or the bytes themselves.\<close>

definition hash_for_ref :: "string + nat list \<Rightarrow> string" where
  "hash_for_ref value = (let digest = sha256_bytes (case value of Inl s \<Rightarrow> py_encode s | Inr b \<Rightarrow> b)
     in REDACTED_HASH_PREFIX @ take 12 digest @ ''...]'')"

definition redact_string :: "string \<Rightarrow> string" where
  "redact_string value = foldl (\<lambda>result (ic, r). re_sub ic r REDACTED_PLACEHOLDER None result) value SENSITIVE_VALUE_PATTERNS"

fun redact_dict :: "nat \<Rightarrow> pydict \<Rightarrow> pydict"
  and redact_items :: "nat \<Rightarrow> pydict \<Rightarrow> pydict"
  and redact_list :: "nat \<Rightarrow> pyval list \<Rightarrow> pyval list"
  and redact_value :: "nat \<Rightarrow> pyval \<Rightarrow> pyval" where
  "redact_dict depth data = (if depth > 10 then [(''[REDACTED_DEEP]'', PBool True)] else redact_items depth data)"
| "redact_items depth [] = []"
| "redact_items depth ((key, value) # data) =
     (key, if is_sensitive_field key then PStr REDACTED_PLACEHOLDER else redact_value depth value) # redact_items depth data"
| "redact_list depth [] = []"
| "redact_list depth (item # data) = redact_value depth item # redact_list depth data"
| "redact_value depth (PDict d) = PDict (redact_dict (depth + 1) d)"
| "redact_value depth (PList l) = PList (redact_list (depth + 1) l)"
| "redact_value depth (PStr s) = PStr (if contains_sensitive_pattern s then redact_string s else s)"
| "redact_value depth v = v"

definition RedactionProcessor_call :: "pydict \<Rightarrow> pydict" where
  "RedactionProcessor_call event_dict = redact_dict 0 event_dict"

section \<open>The words of the patterns\<close>

text \<open>The least length of a word of a pattern, and whether all its characters satisfy a predicate.\<close>

primrec re_min :: "re \<Rightarrow> nat" where
  "re_min (R_lit l) = length l"
| "re_min (R_class cs) = 1"
| "re_min R_bound = 0"
| "re_min (R_seq rs) = sum_list (map re_min rs)"
| "re_min (R_alt r r') = min (re_min r) (re_min r')"
| "re_min (R_opt r) = 0"
| "re_min (R_rep P lo hi) = lo"

primrec re_all :: "(char \<Rightarrow> bool) \<Rightarrow> re \<Rightarrow> bool" where
  "re_all Q (R_lit l) = list_all Q l"
| "re_all Q (R_class cs) = list_all Q cs"
| "re_all Q R_bound = True"
| "re_all Q (R_seq rs) = list_all (\<lambda>b. b) (map (re_all Q) rs)"
| "re_all Q (R_alt r r') = (re_all Q r \<and> re_all Q r')"
| "re_all Q (R_opt r) = re_all Q r"
| "re_all Q (R_rep P lo hi) = (\<forall>c. P c \<longrightarrow> Q c)"

lemma conc_iff: "w \<in> conc A B \<longleftrightarrow> (\<exists>u v. w = u @ v \<and> u \<in> A \<and> v \<in> B)"
  by (auto simp: conc_def)

lemma concI: "u \<in> A \<Longrightarrow> v \<in> B \<Longrightarrow> u @ v \<in> conc A B"
  by (auto simp: conc_def)

lemma re_min_lang: "w \<in> re_lang ic r \<Longrightarrow> re_min r \<le> length w"
proof (induction r arbitrary: w)
  case (R_lit l)
  then have "length w = length l" using map_eq_imp_length_eq [of "fold_case ic" w "fold_case ic" l] by simp
  then show ?case by simp
next
  case (R_seq rs)
  then show ?case
  proof (induction rs arbitrary: w)
    case (Cons r rs)
    obtain u v where w: "w = u @ v" "u \<in> re_lang ic r" "v \<in> re_lang ic (R_seq rs)" using Cons.prems(2) by (auto simp: conc_iff)
    then have "re_min r \<le> length u" "re_min (R_seq rs) \<le> length v" using Cons.IH Cons.prems(1) by auto
    then show ?case using w by simp
  qed simp
next
  case (R_alt r r')
  then show ?case by (auto simp: min_def) (meson le_trans nat_le_linear)+
qed auto

lemma re_all_lang:
  assumes "\<And>c. Q (fold_case ic c) = Q c"
  shows "w \<in> re_lang ic r \<Longrightarrow> re_all Q r \<Longrightarrow> list_all Q w"
proof (induction r arbitrary: w)
  case (R_lit l)
  have "list_all Q (map (fold_case ic) xs) = list_all Q xs" for xs by (simp add: list.pred_map comp_def assms)
  then show ?case using R_lit by (metis (mono_tags, lifting) mem_Collect_eq re_all.simps(1) re_lang.simps(1))
next
  case (R_class cs)
  then obtain c d where w: "w = [c]" "fold_case ic c = fold_case ic d" "d \<in> set cs" by auto
  then have "Q d" using R_class(2) by (simp add: list_all_iff)
  then show ?case using w assms [of c] assms [of d] by simp
next
  case (R_seq rs)
  then show ?case
  proof (induction rs arbitrary: w)
    case (Cons r rs)
    obtain u v where w: "w = u @ v" "u \<in> re_lang ic r" "v \<in> re_lang ic (R_seq rs)" using Cons.prems(2) by (auto simp: conc_iff)
    then have "list_all Q u" "list_all Q v" using Cons.IH [of v] Cons.prems by auto
    then show ?case using w by simp
  qed simp
next
  case (R_rep P lo hi)
  then show ?case by (auto simp: list_all_iff)
qed auto

definition no_bracket :: "char \<Rightarrow> bool" where
  "no_bracket c = (c \<noteq> CHR ''['' \<and> c \<noteq> CHR '']'')"

lemma lower_upper: "lower_char c = c \<or> (of_char (lower_char c) = (of_char c + 32 :: nat) \<and>
    (65 \<le> (of_char c :: nat) \<and> (of_char c :: nat) \<le> 90 \<or> 192 \<le> (of_char c :: nat) \<and> (of_char c :: nat) \<le> 222))"
  by (auto simp: lower_char_def Let_def)

lemma no_bracket_code: "no_bracket c \<longleftrightarrow> (of_char c :: nat) \<noteq> 91 \<and> (of_char c :: nat) \<noteq> 93"
proof -
  have "c = CHR ''['' \<longleftrightarrow> (of_char c :: nat) = 91" "c = CHR '']'' \<longleftrightarrow> (of_char c :: nat) = 93"
    using of_char_eq_iff [of c "CHR ''[''", where 'a = nat] of_char_eq_iff [of c "CHR '']''", where 'a = nat] by simp_all
  then show ?thesis by (simp add: no_bracket_def)
qed

lemma fold_True: "fold_case True = lower_char"
  by (simp add: fold_case_def fun_eq_iff)

lemma no_bracket_fold: "no_bracket (fold_case ic c) = no_bracket c"
  using lower_upper [of c] by (auto simp: fold_case_def no_bracket_code)

lemma space_fold: "(\<not> py_space (fold_case ic c)) = (\<not> py_space c)"
  using lower_upper [of c] by (auto simp: fold_case_def py_space_def Let_def)

lemmas pattern_defs = anthropic_key_def bearer_token_def phone_number_def cpf_number_def token_url_def base64_blob_def
  digits_def optional_def

text \<open>A word of these patterns is longer than the inside of the placeholder and has no bracket.\<close>

definition wordy :: "string set \<Rightarrow> bool" where
  "wordy L = (\<forall>w\<in>L. 9 \<le> length w \<and> list_all no_bracket w)"

lemma wordyI: "9 \<le> re_min r \<Longrightarrow> re_all no_bracket r \<Longrightarrow> wordy (re_lang ic r)"
  unfolding wordy_def using re_min_lang [of _ ic r] re_all_lang [of no_bracket ic _ r, OF no_bracket_fold] by fastforce

lemma class_no_bracket: "alnum_char c \<Longrightarrow> no_bracket c" "digit_char c \<Longrightarrow> no_bracket c" "py_space c \<Longrightarrow> no_bracket c"
  by (auto simp: no_bracket_code alnum_char_def digit_char_def py_space_def Let_def)

lemma wordy_patterns:
  "wordy (re_lang ic anthropic_key)" "wordy (re_lang ic bearer_token)" "wordy (re_lang ic phone_number)"
  "wordy (re_lang ic cpf_number)" "wordy (re_lang ic base64_blob)"
  by (intro wordyI; auto simp: pattern_defs class_no_bracket; simp add: no_bracket_def)+

section \<open>Texts after a substitution\<close>

definition clean :: "string set \<Rightarrow> string \<Rightarrow> bool" where
  "clean L s = (\<forall>u w v. s = u @ w @ v \<longrightarrow> w \<notin> L)"

lemma placeholder: "REDACTED_PLACEHOLDER = CHR ''['' # ''REDACTED]''"
  by (simp add: REDACTED_PLACEHOLDER_def)

lemma placeholder_suffix: "REDACTED_PLACEHOLDER = a @ b \<Longrightarrow> a \<noteq> [] \<Longrightarrow> b \<noteq> [] \<Longrightarrow> length b \<le> 9 \<and> \<not> list_all no_bracket b"
proof -
  assume a: "REDACTED_PLACEHOLDER = a @ b" "a \<noteq> []" "b \<noteq> []"
  then have "last b = last REDACTED_PLACEHOLDER" by (metis last_appendR)
  then have "last b = CHR '']''" by (simp add: REDACTED_PLACEHOLDER_def)
  then have "CHR '']'' \<in> set b" using a(3) last_in_set by metis
  moreover have "length a + length b = 10" using arg_cong [OF a(1), of length] by (simp add: REDACTED_PLACEHOLDER_def)
  ultimately show ?thesis using a(2) by (auto simp: list_all_iff no_bracket_def) (cases a; simp)
qed

text \<open>Text without brackets in the result was there before.\<close>

lemma blanked_prefix:
  assumes "blanked L REDACTED_PLACEHOLDER s (u @ t)" and "list_all no_bracket u"
  shows "\<exists>s'. s = u @ s' \<and> blanked L REDACTED_PLACEHOLDER s' t"
  using assms
proof (induction u arbitrary: s)
  case (Cons c u)
  from Cons.prems(1) obtain s1 where s1: "s = c # s1" "blanked L REDACTED_PLACEHOLDER s1 (u @ t)"
  proof (cases rule: blanked.cases)
    case (blanked_Keep d s1 t1)
    then show ?thesis using that by simp
  next
    case (blanked_Cut w v t1)
    then show ?thesis using Cons.prems(2) by (simp add: placeholder no_bracket_def)
  qed simp
  then show ?case using Cons.IH [OF s1(2)] Cons.prems(2) by auto
qed simp

text \<open>A word that starts inside a placeholder would have to contain its closing bracket or be a part of its inside.\<close>

lemma blanked_word:
  assumes "blanked L REDACTED_PLACEHOLDER s (u @ k @ t)" and "list_all no_bracket k" and "k \<noteq> []"
    and "9 \<le> length k \<or> (\<exists>c\<in>set k. c \<notin> set REDACTED_PLACEHOLDER)"
  shows "\<exists>a s'. s = a @ s' \<and> blanked L REDACTED_PLACEHOLDER s' (k @ t)"
  using blanked_suffix [OF assms(1)]
proof
  assume "\<exists>a b t'. REDACTED_PLACEHOLDER = a @ b \<and> a \<noteq> [] \<and> b \<noteq> [] \<and> k @ t = b @ t'"
  then obtain a b t' where ab: "REDACTED_PLACEHOLDER = a @ b" "a \<noteq> []" "b \<noteq> []" "k @ t = b @ t'" by blast
  note b = placeholder_suffix [OF ab(1-3)]
  show ?thesis
  proof (cases "length b \<le> length k")
    case True
    then obtain k' where "k = b @ k'" using ab(4) by (metis append_eq_append_conv_if append_take_drop_id)
    then show ?thesis using assms(2) b by simp
  next
    case False
    then obtain b' where "b = k @ b'" using ab(4) by (metis append_eq_append_conv_if append_take_drop_id nle_le)
    then have "set k \<subseteq> set REDACTED_PLACEHOLDER" using arg_cong [OF ab(1), of set] by auto
    moreover have "length k < 9" using b False \<open>b = k @ b'\<close> by (cases b') auto
    ultimately show ?thesis using assms(4) by auto
  qed
qed

lemma blanked_keeps_clean:
  assumes "wordy L'" and "clean L' s" and "blanked L REDACTED_PLACEHOLDER s t"
  shows "clean L' t"
  unfolding clean_def
proof (intro allI impI notI)
  fix u w v
  assume t: "t = u @ w @ v" and w: "w \<in> L'"
  then have nb: "9 \<le> length w" "list_all no_bracket w" "w \<noteq> []" using assms(1) by (auto simp: wordy_def)
  then obtain a s' where s: "s = a @ s'" "blanked L REDACTED_PLACEHOLDER s' (w @ v)"
    using blanked_word [of L s u w v] assms(3) t by auto
  then obtain s'' where "s' = w @ s''" using blanked_prefix nb(2) by blast
  then show False using assms(2) s w by (auto simp: clean_def)
qed

lemma blanked_clean:
  assumes "wordy L" and "blanked L REDACTED_PLACEHOLDER s t"
  shows "clean L t"
  unfolding clean_def
proof (intro allI impI notI)
  fix u w v
  assume t: "t = u @ w @ v" and w: "w \<in> L"
  then have nb: "9 \<le> length w" "list_all no_bracket w" "w \<noteq> []" using assms(1) by (auto simp: wordy_def)
  then obtain a s' where s: "s = a @ s'" "blanked L REDACTED_PLACEHOLDER s' (w @ v)"
    using blanked_word [of L s u w v] assms(2) t by auto
  then obtain s'' where s'': "s' = w @ s''" using blanked_prefix nb(2) by blast
  obtain c w' where c: "w = c # w'" using nb(1) by (cases w) auto
  from s(2) show False
  proof (cases rule: blanked.cases)
    case (blanked_Keep d s1 t1)
    then show False using s'' w c by (metis append_Cons list.inject)
  next
    case (blanked_Cut w1 v1 t1)
    then show False using c nb(2) by (simp add: placeholder no_bracket_def)
  qed (use c in simp)
qed

section \<open>URLs with tokens\<close>

text \<open>A word of \<open>token_url\<close> may run over placeholders, which replaced text without spaces.\<close>

definition spaceless :: "string \<Rightarrow> bool" where
  "spaceless s = list_all (\<lambda>c. \<not> py_space c) s"

lemma spaceless_append [simp]: "spaceless (u @ v) = (spaceless u \<and> spaceless v)"
  by (simp add: spaceless_def)

lemma blanked_skip:
  assumes "blanked L REDACTED_PLACEHOLDER s (x @ k @ t)" and "\<forall>w\<in>L. w \<noteq> [] \<and> spaceless w"
    and "list_all no_bracket k" and "\<exists>c\<in>set k. c \<notin> set REDACTED_PLACEHOLDER" and "spaceless x"
  shows "\<exists>x' s'. s = x' @ k @ s' \<and> spaceless x' \<and> (x \<noteq> [] \<longrightarrow> x' \<noteq> []) \<and> blanked L REDACTED_PLACEHOLDER s' t"
  using assms(1,5)
proof (induction s "x @ k @ t" arbitrary: x rule: blanked.induct)
  case blanked_Nil
  then show ?case using assms(4) by auto
next
  case (blanked_Keep c s t')
  show ?case
  proof (cases x)
    case Nil
    have "blanked L REDACTED_PLACEHOLDER (c # s) (k @ t)"
      using blanked.blanked_Keep [OF blanked_Keep.hyps(1,2)] blanked_Keep.hyps(4) Nil by simp
    from blanked_prefix [OF this assms(3)] obtain s' where "c # s = k @ s'" "blanked L REDACTED_PLACEHOLDER s' t" by blast
    then show ?thesis using Nil by (intro exI [of _ "[]"] exI [of _ s']) (simp add: spaceless_def)
  next
    case (Cons d x1)
    then have "t' = x1 @ k @ t" "spaceless x1" "d = c" "\<not> py_space c" using blanked_Keep.hyps(4) blanked_Keep.prems by (auto simp: spaceless_def)
    then obtain x' s' where "s = x' @ k @ s'" "spaceless x'" "blanked L REDACTED_PLACEHOLDER s' t" using blanked_Keep.hyps(3) by blast
    then show ?thesis using \<open>\<not> py_space c\<close> by (intro exI [of _ "c # x'"] exI [of _ s']) (simp add: spaceless_def)
  qed
next
  case (blanked_Cut w v t')
  have w: "w \<noteq> []" "spaceless w" using blanked_Cut.hyps(1) assms(2) by auto
  show ?case
  proof (cases "length REDACTED_PLACEHOLDER \<le> length x")
    case True
    then obtain x1 where x1: "x = REDACTED_PLACEHOLDER @ x1" "t' = x1 @ k @ t" using blanked_Cut.hyps(4)
      by (metis append_eq_append_conv_if append_take_drop_id)
    then have "spaceless x1" using blanked_Cut.prems by simp
    then obtain x' s' where "v = x' @ k @ s'" "spaceless x'" "blanked L REDACTED_PLACEHOLDER s' t"
      using blanked_Cut.hyps(3) [OF x1(2)] by blast
    then show ?thesis using w by (intro exI [of _ "w @ x'"] exI [of _ s']) simp
  next
    case False
    then obtain b where b: "REDACTED_PLACEHOLDER = x @ b" "k @ t = b @ t'" "b \<noteq> []" using blanked_Cut.hyps(4)
      by (metis append_eq_append_conv_if append_self_conv append_take_drop_id nle_le order_refl)
    have "\<not> list_all no_bracket b"
    proof (cases x)
      case Nil
      then show ?thesis using b(1) by (auto simp: placeholder no_bracket_def)
    next
      case Cons
      then show ?thesis using placeholder_suffix [OF b(1)] b(3) by simp
    qed
    then have "\<not> length b \<le> length k" using b(2) assms(3) by (metis append_eq_append_conv_if append_take_drop_id list_all_append)
    then have "set k \<subseteq> set b" using b(2) by (metis append_eq_append_conv_if nle_le set_take_subset)
    then show ?thesis using assms(4) arg_cong [OF b(1), of set] by auto
  qed
qed

lemma fold_lit_chars:
  assumes "w \<in> re_lang True (R_lit l)" and "list_all no_bracket l"
  shows "list_all no_bracket w" and "c \<in> set l \<Longrightarrow> lower_char c \<notin> lower_char ` set REDACTED_PLACEHOLDER \<Longrightarrow> \<exists>d\<in>set w. d \<notin> set REDACTED_PLACEHOLDER"
proof -
  show "list_all no_bracket w" using re_all_lang [of no_bracket, OF no_bracket_fold assms(1)] assms(2) by simp
  assume c: "c \<in> set l" "lower_char c \<notin> lower_char ` set REDACTED_PLACEHOLDER"
  have "map lower_char w = map lower_char l" using assms(1) by (simp add: fold_True)
  then have "set (map lower_char w) = set (map lower_char l)" by simp
  then obtain d where "d \<in> set w" "lower_char d = lower_char c" using c(1) by (metis image_iff list.set_map)
  then show "\<exists>d\<in>set w. d \<notin> set REDACTED_PLACEHOLDER" using c(2) by (metis imageI)
qed

lemma lower_placeholder: "lower_char ` set REDACTED_PLACEHOLDER = set ''[redacted]''"
proof -
  have "map lower_char REDACTED_PLACEHOLDER = ''[redacted]''" by code_simp
  then show ?thesis by (metis list.set_map)
qed

text \<open>The parts of a word of the pattern.\<close>

definition url_parts :: "string \<Rightarrow> string \<Rightarrow> string \<Rightarrow> string \<Rightarrow> bool" where
  "url_parts h x y k = (h \<in> conc (re_lang True (R_lit ''http'')) (conc (re_lang True (R_opt (R_lit ''s''))) (re_lang True (R_lit ''://''))) \<and>
     x \<noteq> [] \<and> spaceless x \<and> spaceless y \<and> (\<exists>l\<in>set url_words. k \<in> re_lang True (R_lit l)))"

lemma fold_question: "w \<in> re_lang True (R_lit ''?'') \<longleftrightarrow> w = ''?''"
proof -
  have q: "lower_char c = CHR ''?'' \<longleftrightarrow> c = CHR ''?''" for c
    using lower_upper [of c] of_char_eq_iff [of c "CHR ''?''", where 'a = nat]
      of_char_eq_iff [of "lower_char c" "CHR ''?''", where 'a = nat] by auto
  have "lower_char (CHR ''?'') = CHR ''?''" by (simp add: lower_char_def)
  then have "(lower_char c = lower_char (CHR ''?'')) = (c = CHR ''?'')" for c using q by metis
  then show ?thesis by (cases w; cases "tl w") (simp_all add: fold_True)
qed

abbreviation lit :: "string \<Rightarrow> string set" where
  "lit l \<equiv> re_lang True (R_lit l)"

lemma token_url_lang:
  "re_lang True token_url = conc (lit ''http'') (conc (re_lang True (R_opt (R_lit ''s''))) (conc (lit ''://'')
     (conc {x. x \<noteq> [] \<and> spaceless x} (conc (lit ''?'') (conc {y. spaceless y}
       (conc {k. \<exists>l\<in>set url_words. k \<in> lit l} {z. spaceless z}))))))"
proof -
  have "re_lang True (R_rep (\<lambda>c. \<not> py_space c) 1 None) = {x. x \<noteq> [] \<and> spaceless x}"
    "re_lang True (R_rep (\<lambda>c. \<not> py_space c) 0 None) = {x. spaceless x}"
    by (auto simp: spaceless_def list_all_iff Suc_le_eq)
  moreover have "re_lang True (R_alt (R_lit ''token'') (R_alt (R_lit ''key'') (R_alt (R_lit ''signature'') (R_lit ''auth'')))) =
      {k. \<exists>l\<in>set url_words. k \<in> lit l}" by (simp add: url_words_def) blast
  moreover have "conc A {[]} = A" for A by (auto simp: conc_def)
  ultimately show ?thesis
    unfolding token_url_def re_lang.simps(4) list.map foldr.simps comp_apply id_apply by simp
qed

lemma token_url_words:
  "w \<in> re_lang True token_url \<longleftrightarrow> (\<exists>h x y k z. w = h @ x @ ''?'' @ y @ k @ z \<and> url_parts h x y k \<and> spaceless z)"
  (is "?L \<longleftrightarrow> ?R")
proof
  assume ?L
  then obtain a v1 where 1: "w = a @ v1" "a \<in> lit ''http''" "v1 \<in> conc (re_lang True (R_opt (R_lit ''s''))) (conc (lit ''://'')
     (conc {x. x \<noteq> [] \<and> spaceless x} (conc (lit ''?'') (conc {y. spaceless y} (conc {k. \<exists>l\<in>set url_words. k \<in> lit l} {z. spaceless z})))))"
    unfolding token_url_lang conc_iff [of w] by blast
  then obtain b v2 where 2: "v1 = b @ v2" "b \<in> re_lang True (R_opt (R_lit ''s''))" "v2 \<in> conc (lit ''://'')
     (conc {x. x \<noteq> [] \<and> spaceless x} (conc (lit ''?'') (conc {y. spaceless y} (conc {k. \<exists>l\<in>set url_words. k \<in> lit l} {z. spaceless z}))))"
    unfolding conc_iff [of v1] by blast
  then obtain c v3 where 3: "v2 = c @ v3" "c \<in> lit ''://''" "v3 \<in> conc {x. x \<noteq> [] \<and> spaceless x} (conc (lit ''?'')
     (conc {y. spaceless y} (conc {k. \<exists>l\<in>set url_words. k \<in> lit l} {z. spaceless z})))"
    unfolding conc_iff [of v2] by blast
  from 3(3) obtain x q v4 where 4: "v3 = x @ q @ v4" "x \<noteq> []" "spaceless x" "q \<in> lit ''?''"
    "v4 \<in> conc {y. spaceless y} (conc {k. \<exists>l\<in>set url_words. k \<in> lit l} {z. spaceless z})"
    unfolding conc_iff [of v3] conc_iff [of _ "lit ''?''"] by blast
  from 4(5) obtain y k z where 5: "v4 = y @ k @ z" "spaceless y" "\<exists>l\<in>set url_words. k \<in> lit l" "spaceless z"
    unfolding conc_iff by blast
  have "url_parts (a @ b @ c) x y k" using 1 2 3 4 5 unfolding url_parts_def conc_iff by blast
  then show ?R using 1 2 3 4 5 fold_question by (intro exI [of _ "a @ b @ c"] exI [of _ x] exI [of _ y] exI [of _ k] exI [of _ z]) simp
next
  assume ?R
  then obtain h x y k z where w: "w = h @ x @ ''?'' @ y @ k @ z" "url_parts h x y k" "spaceless z" by blast
  then obtain a b c where h: "h = a @ b @ c" "a \<in> lit ''http''" "b \<in> re_lang True (R_opt (R_lit ''s''))" "c \<in> lit ''://''"
    unfolding url_parts_def conc_iff by blast
  have "y @ k @ z \<in> conc {y. spaceless y} (conc {k. \<exists>l\<in>set url_words. k \<in> lit l} {z. spaceless z})"
    using w unfolding url_parts_def by (intro concI) simp_all
  then have "x @ ''?'' @ y @ k @ z \<in> conc {x. x \<noteq> [] \<and> spaceless x} (conc (lit ''?'') (conc {y. spaceless y}
      (conc {k. \<exists>l\<in>set url_words. k \<in> lit l} {z. spaceless z})))"
    using w unfolding url_parts_def by (intro concI) (simp_all only: mem_Collect_eq fold_question simp_thms)
  from concI [OF h(2) concI [OF h(3) concI [OF h(4) this]]] show ?L
    unfolding token_url_lang w(1) h(1) append.assoc .
qed

lemma url_head:
  assumes "url_parts h x y k"
  shows "list_all no_bracket h" and "h \<noteq> []" and "hd h \<notin> set REDACTED_PLACEHOLDER"
proof -
  obtain a b c where h: "h = a @ b @ c" "a \<in> lit ''http''" "b \<in> re_lang True (R_opt (R_lit ''s''))" "c \<in> lit ''://''"
    using assms unfolding url_parts_def conc_iff by blast
  have "re_all no_bracket (R_lit ''http'')" "re_all no_bracket (R_opt (R_lit ''s''))" "re_all no_bracket (R_lit ''://'')"
    by (simp_all add: no_bracket_def)
  then have "list_all no_bracket a" "list_all no_bracket b" "list_all no_bracket c"
    using h re_all_lang [of no_bracket True, OF no_bracket_fold] by blast+
  then show "list_all no_bracket h" using h by simp
  obtain a1 a2 where a: "a = a1 # a2" "lower_char a1 = lower_char (CHR ''h'')" using h(2) by (cases a) (simp_all add: fold_True)
  then show "h \<noteq> []" using h by simp
  have "lower_char a1 = CHR ''h''" using a by (simp add: lower_char_def)
  then have "lower_char a1 \<notin> lower_char ` set REDACTED_PLACEHOLDER" by (simp add: lower_placeholder)
  then have "a1 \<notin> set REDACTED_PLACEHOLDER" by blast
  then show "hd h \<notin> set REDACTED_PLACEHOLDER" using a(1) h(1) by simp
qed

lemma url_word:
  assumes "url_parts h x y k"
  shows "list_all no_bracket k" and "\<exists>c\<in>set k. c \<notin> set REDACTED_PLACEHOLDER"
proof -
  obtain l where l: "l \<in> set url_words" "k \<in> lit l" using assms unfolding url_parts_def by blast
  have nb: "list_all no_bracket l" using l(1) by (auto simp: url_words_def no_bracket_def)
  show "list_all no_bracket k" by (rule fold_lit_chars(1) [OF l(2) nb])
  have "\<exists>c\<in>set l. lower_char c \<notin> set ''[redacted]''"
    using l(1) by (auto simp: url_words_def lower_char_def)
  then obtain c where "c \<in> set l" "lower_char c \<notin> lower_char ` set REDACTED_PLACEHOLDER" unfolding lower_placeholder by blast
  then show "\<exists>c\<in>set k. c \<notin> set REDACTED_PLACEHOLDER" by (rule fold_lit_chars(2) [OF l(2) nb])
qed

lemma url_before:
  assumes "blanked L REDACTED_PLACEHOLDER s (w @ v)" and "w \<in> re_lang True token_url" and "\<forall>w\<in>L. w \<noteq> [] \<and> spaceless w"
  shows "\<exists>w' v'. s = w' @ v' \<and> w' \<in> re_lang True token_url"
proof -
  obtain h x y k z where w: "w = h @ x @ ''?'' @ y @ k @ z" "url_parts h x y k" using assms(2) unfolding token_url_words by blast
  have q: "list_all no_bracket ''?''" "\<exists>c\<in>set ''?''. c \<notin> set REDACTED_PLACEHOLDER"
    by (simp_all add: no_bracket_def REDACTED_PLACEHOLDER_def)
  have "blanked L REDACTED_PLACEHOLDER s (h @ x @ ''?'' @ y @ k @ z @ v)" using assms(1) w(1) by simp
  then obtain s1 where s1: "s = h @ s1" "blanked L REDACTED_PLACEHOLDER s1 (x @ ''?'' @ y @ k @ z @ v)"
    using blanked_prefix url_head(1) [OF w(2)] by blast
  obtain x' s2 where s2: "s1 = x' @ ''?'' @ s2" "spaceless x'" "x' \<noteq> []" "blanked L REDACTED_PLACEHOLDER s2 (y @ k @ z @ v)"
    using blanked_skip [OF s1(2) assms(3) q] w(2) unfolding url_parts_def by blast
  obtain y' s3 where s3: "s2 = y' @ k @ s3" "spaceless y'"
    using blanked_skip [OF s2(4) assms(3) url_word [OF w(2)]] w(2) unfolding url_parts_def by blast
  have "url_parts h x' y' k" using w(2) s2 s3 unfolding url_parts_def by blast
  then have "h @ x' @ ''?'' @ y' @ k @ [] \<in> re_lang True token_url" unfolding token_url_words by (force simp: spaceless_def)
  then show ?thesis using s1 s2 s3 by (intro exI [of _ "h @ x' @ ''?'' @ y' @ k @ []"] exI [of _ s3]) simp
qed

lemma url_start:
  assumes "blanked L REDACTED_PLACEHOLDER s (u @ w @ v)" and "w \<in> re_lang True token_url"
  shows "\<exists>a s'. s = a @ s' \<and> blanked L REDACTED_PLACEHOLDER s' (w @ v)"
proof -
  obtain h x y k z where w: "w = h @ x @ ''?'' @ y @ k @ z" "url_parts h x y k" using assms(2) unfolding token_url_words by blast
  show ?thesis
    using blanked_suffix [OF assms(1)]
  proof
    assume "\<exists>a b t'. REDACTED_PLACEHOLDER = a @ b \<and> a \<noteq> [] \<and> b \<noteq> [] \<and> w @ v = b @ t'"
    then obtain a b t' where b: "REDACTED_PLACEHOLDER = a @ b" "b \<noteq> []" "w @ v = b @ t'" by blast
    then have "hd b = hd h" using w(1) url_head(2) [OF w(2)] by (metis append_assoc hd_append2)
    then have "hd h \<in> set REDACTED_PLACEHOLDER" using b arg_cong [OF b(1), of set] by (metis UnCI hd_in_set set_append)
    then show ?thesis using url_head(3) [OF w(2)] by blast
  qed
qed

lemma url_kept_clean:
  assumes "clean (re_lang True token_url) s" and "blanked L REDACTED_PLACEHOLDER s t" and "\<forall>w\<in>L. w \<noteq> [] \<and> spaceless w"
  shows "clean (re_lang True token_url) t"
  unfolding clean_def
proof (intro allI impI notI)
  fix u w v
  assume t: "t = u @ w @ v" and w: "w \<in> re_lang True token_url"
  obtain a s' where s: "s = a @ s'" "blanked L REDACTED_PLACEHOLDER s' (w @ v)" using url_start [OF _ w] assms(2) t by blast
  from url_before [OF s(2) w assms(3)] show False using assms(1) s(1) by (auto simp: clean_def)
qed

lemma token_url_spaceless: "w \<in> re_lang True token_url \<Longrightarrow> w \<noteq> [] \<and> spaceless w"
proof -
  assume w: "w \<in> re_lang True token_url"
  have "re_all (\<lambda>c. \<not> py_space c) token_url" by (simp add: token_url_def py_space_def)
  moreover have "1 \<le> re_min token_url" by (simp add: token_url_def)
  ultimately show ?thesis
    using re_all_lang [of "\<lambda>c. \<not> py_space c" True, OF space_fold w] re_min_lang [OF w] by (auto simp: spaceless_def)
qed

lemma url_clean:
  assumes "blanked (re_lang True token_url) REDACTED_PLACEHOLDER s t"
  shows "clean (re_lang True token_url) t"
  unfolding clean_def
proof (intro allI impI notI)
  fix u w v
  assume t: "t = u @ w @ v" and w: "w \<in> re_lang True token_url"
  let ?L = "re_lang True token_url"
  obtain a s' where s: "s = a @ s'" "blanked ?L REDACTED_PLACEHOLDER s' (w @ v)" using url_start [OF _ w] assms t by blast
  obtain w' v' where w': "s' = w' @ v'" "w' \<in> ?L" using url_before [OF s(2) w] token_url_spaceless by blast
  obtain h x y k z where p: "w = h @ x @ ''?'' @ y @ k @ z" "url_parts h x y k" using w unfolding token_url_words by blast
  obtain c h' where c: "h = c # h'" using url_head(2) [OF p(2)] by (cases h) auto
  then have c': "c \<notin> set REDACTED_PLACEHOLDER" using url_head(3) [OF p(2)] by simp
  from s(2) show False
  proof (cases rule: blanked.cases)
    case (blanked_Keep d s1 t1)
    then show False using w' by blast
  next
    case (blanked_Cut w1 v1 t1)
    then show False using c c' p(1) by (simp add: placeholder)
  qed (use c p in simp)
qed

section \<open>Redacted texts\<close>

abbreviation pattern_words :: "bool \<times> re \<Rightarrow> string set" where
  "pattern_words p \<equiv> re_lang (fst p) (snd p)"

text \<open>\<open>q\<close> may be substituted after \<open>p\<close> without bringing back a word of \<open>p\<close>.\<close>

definition may_follow :: "bool \<times> re \<Rightarrow> bool \<times> re \<Rightarrow> bool" where
  "may_follow p q = (\<forall>s t. clean (pattern_words p) s \<longrightarrow> blanked (pattern_words q) REDACTED_PLACEHOLDER s t \<longrightarrow> clean (pattern_words p) t)"

definition redacting :: "bool \<times> re \<Rightarrow> bool" where
  "redacting p = (re_plain (snd p) \<and> [] \<notin> pattern_words p \<and>
     (\<forall>s t. blanked (pattern_words p) REDACTED_PLACEHOLDER s t \<longrightarrow> clean (pattern_words p) t))"

lemma substitutions_clean:
  assumes "list_all redacting ps" and "sorted_wrt may_follow ps" and "p \<in> set ps"
  shows "clean (pattern_words p) (foldl (\<lambda>result (ic, r). re_sub ic r REDACTED_PLACEHOLDER None result) value ps)"
  using assms
proof (induction ps arbitrary: p rule: rev_induct)
  case (snoc q ps)
  let ?s = "foldl (\<lambda>result (ic, r). re_sub ic r REDACTED_PLACEHOLDER None result) value ps"
  have q: "blanked (pattern_words q) REDACTED_PLACEHOLDER ?s (re_sub (fst q) (snd q) REDACTED_PLACEHOLDER None ?s)"
    using snoc.prems(1) by (intro re_sub_blanked) (simp_all add: redacting_def)
  show ?case
  proof (cases "p = q")
    case True
    then show ?thesis using q snoc.prems(1) by (simp add: redacting_def case_prod_unfold)
  next
    case False
    then have "p \<in> set ps" "may_follow p q" using snoc.prems(2,3) by (auto simp: sorted_wrt_append)
    moreover have "clean (pattern_words p) ?s" using snoc.IH snoc.prems(1,2) \<open>p \<in> set ps\<close> by (simp add: sorted_wrt_append)
    ultimately show ?thesis using q by (simp add: may_follow_def case_prod_unfold)
  qed
qed simp

lemma wordy_no_Nil: "wordy L \<Longrightarrow> [] \<notin> L"
  by (auto simp: wordy_def)

lemma plain_patterns:
  "re_plain anthropic_key" "re_plain bearer_token" "re_plain phone_number" "re_plain cpf_number" "re_plain token_url" "re_plain base64_blob"
  by (simp_all add: pattern_defs)

lemma patterns_redacting: "list_all redacting SENSITIVE_VALUE_PATTERNS"
proof -
  have "redacting (ic, r)" if "re_plain r" "wordy (re_lang ic r)" for ic r
    using that blanked_clean by (simp add: redacting_def wordy_no_Nil)
  moreover have "redacting (True, token_url)"
    using url_clean token_url_spaceless [of "[]"] by (auto simp: redacting_def plain_patterns)
  ultimately show ?thesis by (simp add: SENSITIVE_VALUE_PATTERNS_def plain_patterns wordy_patterns)
qed

lemma base64_spaceless: "w \<in> re_lang False base64_blob \<Longrightarrow> w \<noteq> [] \<and> spaceless w"
proof -
  assume w: "w \<in> re_lang False base64_blob"
  have "re_all (\<lambda>c. \<not> py_space c) base64_blob" by (auto simp: base64_blob_def py_space_def alnum_char_def Let_def)
  then show ?thesis
    using re_all_lang [of "\<lambda>c. \<not> py_space c" False, OF space_fold w] w wordy_no_Nil [OF wordy_patterns(5)] by (auto simp: spaceless_def)
qed

lemma patterns_follow: "sorted_wrt may_follow SENSITIVE_VALUE_PATTERNS"
proof -
  have "may_follow (ic, r) q" if "wordy (re_lang ic r)" for ic r q
    using that blanked_keeps_clean by (auto simp: may_follow_def)
  moreover have "may_follow (True, token_url) (False, base64_blob)"
    using url_kept_clean base64_spaceless by (auto simp: may_follow_def)
  ultimately show ?thesis by (simp add: SENSITIVE_VALUE_PATTERNS_def wordy_patterns)
qed

lemma contains_iff: "contains_sensitive_pattern s \<longleftrightarrow> (\<exists>p\<in>set SENSITIVE_VALUE_PATTERNS. \<not> clean (pattern_words p) s)"
proof -
  have "re_search (fst p) (snd p) None s \<longleftrightarrow> \<not> clean (pattern_words p) s" if "p \<in> set SENSITIVE_VALUE_PATTERNS" for p
    using that patterns_redacting re_search_lang [of "snd p"] by (auto simp: list_all_iff redacting_def clean_def)
  then show ?thesis by (simp add: contains_sensitive_pattern_def list_ex_iff case_prod_unfold)
qed

lemma redact_string_clean: "\<not> contains_sensitive_pattern (redact_string s)"
  using substitutions_clean [OF patterns_redacting patterns_follow] by (simp add: contains_iff redact_string_def)

section \<open>Redacted events\<close>

text \<open>No text under any key carries a sensitive pattern, and a sensitive key has no value but the placeholder.\<close>

fun safe_items :: "pydict \<Rightarrow> bool"
  and safe_list :: "pyval list \<Rightarrow> bool"
  and safe_value :: "pyval \<Rightarrow> bool" where
  "safe_items [] = True"
| "safe_items ((key, value) # data) =
     ((if is_sensitive_field key then value = PStr REDACTED_PLACEHOLDER else safe_value value) \<and> safe_items data)"
| "safe_list [] = True"
| "safe_list (item # data) = (safe_value item \<and> safe_list data)"
| "safe_value (PDict d) = safe_items d"
| "safe_value (PList l) = safe_list l"
| "safe_value (PStr s) = (\<not> contains_sensitive_pattern s)"
| "safe_value v = True"

lemma deep_not_sensitive: "\<not> is_sensitive_field ''[REDACTED_DEEP]''"
  by code_simp

lemmas redact_induct = redact_dict_redact_items_redact_list_redact_value.induct

lemma redact_safe:
  "safe_items (redact_dict depth d)" "safe_items (redact_items depth d)" "safe_list (redact_list depth l)" "safe_value (redact_value depth v)"
  by (induction depth d and depth d and depth l and depth v rule: redact_induct)
    (simp_all add: redact_string_clean deep_not_sensitive)

lemma redact_again:
  "redact_dict depth (redact_dict depth d) = redact_dict depth d" "redact_items depth (redact_items depth d) = redact_items depth d"
  "redact_list depth (redact_list depth l) = redact_list depth l" "redact_value depth (redact_value depth v) = redact_value depth v"
  by (induction depth d and depth d and depth l and depth v rule: redact_induct)
    (simp_all add: redact_string_clean)

lemma redact_keys: "map fst (redact_items depth d) = map fst d"
  by (induction d) auto

lemma pinData_kept: "\<not> contains_sensitive_pattern s \<Longrightarrow> RedactionProcessor_call [(''pinData'', PStr s)] = [(''pinData'', PStr s)]"
proof -
  have "\<not> is_sensitive_field ''pinData''" by code_simp
  then show "\<not> contains_sensitive_pattern s \<Longrightarrow> ?thesis" by (simp add: RedactionProcessor_call_def)
qed


end
