(* ===== verification/Logging.thy ===== *)
theory Logging
  imports Redaction
begin

text \<open>
  The logging configuration (\<open>observability/logging.py\<close>): the chain of processors that every event runs through before it
  is rendered. The processors of structlog are arguments; the redaction stands where the code puts it.
\<close>

section \<open>Configuration\<close>

type_synonym processor = "pydict \<Rightarrow> pydict"

record structlog =
  sl_merge_contextvars :: processor
  sl_add_log_level :: processor
  sl_add_logger_name :: processor
  sl_time_stamper :: processor
  sl_stack_info_renderer :: processor

definition shared_processors :: "structlog \<Rightarrow> processor list" where
  "shared_processors sl = [sl_merge_contextvars sl, sl_add_log_level sl, sl_add_logger_name sl, sl_time_stamper sl,
     RedactionProcessor_call, sl_stack_info_renderer sl]"

datatype renderer = ConsoleRenderer | JSONRenderer

definition log_renderer :: "string \<Rightarrow> renderer" where
  "log_renderer log_format = (if log_format = ''console'' then ConsoleRenderer else JSONRenderer)"

text \<open>What reaches the renderer, for events of structlog and for those of the standard library alike.\<close>

definition processed_event :: "structlog \<Rightarrow> pydict \<Rightarrow> pydict" where
  "processed_event sl event = foldl (\<lambda>d p. p d) event (shared_processors sl)"

text \<open>\<open>getattr(logging, level.upper(), logging.INFO)\<close> for the levels of the standard library.\<close>

definition log_level_number :: "string \<Rightarrow> int" where
  "log_level_number upper_level = (case map_of [(''CRITICAL'', 50), (''FATAL'', 50), (''ERROR'', 40), (''WARN'', 30), (''WARNING'', 30),
     (''INFO'', 20), (''DEBUG'', 10), (''NOTSET'', 0)] upper_level of Some n \<Rightarrow> n | None \<Rightarrow> 20)"

section \<open>Lemmas\<close>

text \<open>What structlog documents of its stack renderer: it takes out the request for a stack and adds at most a stack.\<close>

definition stack_law :: "processor \<Rightarrow> bool" where
  "stack_law f \<longleftrightarrow> (\<forall>d. filter (\<lambda>kv. fst kv \<noteq> ''stack'') (f d) = filter (\<lambda>kv. fst kv \<noteq> ''stack'' \<and> fst kv \<noteq> ''stack_info'') d)"

lemma safe_items_filter: "safe_items d \<Longrightarrow> safe_items (filter P d)"
  by (induction d) auto

lemma processed_event_eq:
  "processed_event sl event = sl_stack_info_renderer sl (RedactionProcessor_call
     (sl_time_stamper sl (sl_add_logger_name sl (sl_add_log_level sl (sl_merge_contextvars sl event)))))"
  by (simp add: processed_event_def shared_processors_def)

section \<open>Properties\<close>

text \<open>Whatever the other processors add, what reaches the output of the logs has no sensitive pattern and no value under
  a sensitive name, at every level of nesting, outside the stack that is added after the redaction.\<close>

theorem logged_events_safe:
  assumes "stack_law (sl_stack_info_renderer sl)"
  shows "safe_items (filter (\<lambda>kv. fst kv \<noteq> ''stack'') (processed_event sl event))"
proof -
  let ?d = "sl_time_stamper sl (sl_add_logger_name sl (sl_add_log_level sl (sl_merge_contextvars sl event)))"
  have "safe_items (RedactionProcessor_call ?d)" unfolding RedactionProcessor_call_def by (rule redact_safe)
  then show ?thesis using assms by (simp add: processed_event_eq stack_law_def safe_items_filter)
qed

definition plain_structlog :: structlog where
  "plain_structlog = \<lparr>sl_merge_contextvars = (\<lambda>d. d), sl_add_log_level = (\<lambda>d. d @ [(''level'', PStr ''info'')]),
     sl_add_logger_name = (\<lambda>d. d @ [(''logger'', PStr ''iara'')]), sl_time_stamper = (\<lambda>d. d),
     sl_stack_info_renderer = filter (\<lambda>kv. fst kv \<noteq> ''stack_info'' \<and> fst kv \<noteq> ''stack'')\<rparr>"

theorem logged_events_safe_witness:
  "stack_law (sl_stack_info_renderer plain_structlog) \<and>
   safe_items (filter (\<lambda>kv. fst kv \<noteq> ''stack'') (processed_event plain_structlog [(''event'', PStr ''x'')]))"
proof -
  have l: "stack_law (sl_stack_info_renderer plain_structlog)"
    by (auto simp: stack_law_def plain_structlog_def intro: filter_cong)
  with logged_events_safe [OF l] show ?thesis by blast
qed

text \<open>The stack itself is not redacted: a stack renderer that follows its law may add any text.\<close>

lemma stack_unredacted:
  assumes "\<And>d. sl_stack_info_renderer sl d = filter (\<lambda>kv. fst kv \<noteq> ''stack_info'' \<and> fst kv \<noteq> ''stack'') d @ [(''stack'', PStr t)]"
  shows "stack_law (sl_stack_info_renderer sl) \<and> (''stack'', PStr t) \<in> set (processed_event sl event)"
  unfolding stack_law_def processed_event_eq assms by (auto intro: filter_cong)

end
