(* ===== verification/Playground.thy ===== *)
theory Playground
  imports Webhook
begin

text \<open>
  The page that sends test events to the webhook (\<open>pages/2_Webhooks.py\<close>): its scenarios and the payload it builds. The
  theorem runs the payload through normalizer and eligibility rules: the page is the reference of what the ingress does
  with a customer message, an outgoing one, a bot, a private note and a foreign account. The widgets of the page are
  Streamlit's and not modelled.
\<close>

section \<open>Page\<close>

record scenario =
  sn_content :: string
  sn_sender_type :: string
  sn_message_type :: string
  sn_is_private :: bool
  sn_override_account :: bool

definition SCENARIOS :: "(string \<times> scenario) list" where
  "SCENARIOS = [
     (''Cliente incoming'', \<lparr>sn_content = ''Ola, gostaria de agendar uma consulta.'', sn_sender_type = ''contact'',
        sn_message_type = ''incoming'', sn_is_private = False, sn_override_account = False\<rparr>),
     (''Mensagem saindo'', \<lparr>sn_content = ''Claro, vou verificar disponibilidade.'', sn_sender_type = ''agent_bot'',
        sn_message_type = ''outgoing'', sn_is_private = False, sn_override_account = False\<rparr>),
     (''Bot sender'', \<lparr>sn_content = ''Resposta automatica do bot.'', sn_sender_type = ''agent_bot'',
        sn_message_type = ''incoming'', sn_is_private = False, sn_override_account = False\<rparr>),
     (''Nota privada'', \<lparr>sn_content = ''Nota interna: lead qualificado.'', sn_sender_type = ''user'',
        sn_message_type = ''incoming'', sn_is_private = True, sn_override_account = False\<rparr>),
     (''Cross-tenant'', \<lparr>sn_content = ''Tentativa de outro account.'', sn_sender_type = ''contact'',
        sn_message_type = ''incoming'', sn_is_private = False, sn_override_account = True\<rparr>)]"

definition build_payload :: "uuid \<Rightarrow> uuid \<Rightarrow> string \<Rightarrow> string \<Rightarrow> string \<Rightarrow> string \<Rightarrow> string \<Rightarrow> bool \<Rightarrow> pydict" where
  "build_payload event_id message_id account_id conversation_id content sender_type message_type is_private = [
     (''event'', PStr ''message_created''), (''id'', PStr event_id),
     (''account'', PDict [(''id'', PStr account_id), (''name'', PStr ''Teste Local'')]),
     (''inbox'', PDict [(''id'', PStr ''inbox_001''), (''channel_type'', PStr ''Channel::Whatsapp'')]),
     (''conversation'', PDict [(''id'', PStr conversation_id), (''status'', PStr ''open'')]),
     (''message'', PDict [(''id'', PStr message_id), (''content'', PStr content), (''message_type'', PStr message_type),
        (''private'', PBool is_private), (''sender'', PDict [(''type'', PStr sender_type)])])]"

text \<open>What the button sends for a scenario: the wrong account where the scenario asks for it.\<close>

definition scenario_payload :: "uuid \<Rightarrow> uuid \<Rightarrow> string \<Rightarrow> string \<Rightarrow> string \<Rightarrow> scenario \<Rightarrow> pydict" where
  "scenario_payload event_id message_id account_id wrong_account_id conversation_id sc =
     build_payload event_id message_id (if sn_override_account sc then wrong_account_id else account_id) conversation_id
       (sn_content sc) (sn_sender_type sc) (sn_message_type sc) (sn_is_private sc)"

section \<open>Lemmas\<close>

lemma scenario_normalized:
  assumes "event_id \<noteq> []" and "conversation_id \<noteq> []" and "account \<noteq> []" and "content \<noteq> []" and "length content \<le> 4096"
    and "sender_type \<in> {''contact'', ''agent_bot'', ''user''}" and "message_type \<in> {''incoming'', ''outgoing''}"
  shows "\<exists>ev. ChatwootEventNormalizer_normalize strict_pydantic tenant now u1 u2
      (PDict (build_payload event_id message_id account conversation_id content sender_type message_type priv)) raw corr = Inr ev \<and>
    ev_account_id_ref ev = make_account_ref account \<and> ev_conversation_id ev = conversation_id \<and>
    ev_message_type ev = Some (if message_type = ''incoming'' then MT_INCOMING else MT_OUTGOING) \<and>
    ev_sender_type ev = Some (if sender_type = ''contact'' then ST_CONTACT else if sender_type = ''agent_bot'' then ST_AGENT_BOT else ST_USER) \<and>
    ev_is_private ev = priv \<and> ev_content_text ev = (if priv then None else Some content)"
  using assms by (cases priv; cases corr) (auto simp: normalize_eval build_payload_def)

text \<open>The decision on a payload of the page, from the fields of its scenario.\<close>

lemma payload_decision:
  assumes "event_id \<noteq> []" and "conversation_id \<noteq> []" and "account \<noteq> []" and "content \<noteq> []" and "length content \<le> 4096"
    and "sender_type \<in> {''contact'', ''agent_bot'', ''user''}" and "message_type \<in> {''incoming'', ''outgoing''}"
  shows "res_bind (ChatwootEventNormalizer_normalize strict_pydantic tenant now u1 u2
      (PDict (build_payload event_id message_id account conversation_id content sender_type message_type priv)) raw corr)
      (EligibilityChecker_check tenant None None) =
    Inr (if make_account_ref account \<noteq> make_account_ref (tc_provider_account_id tenant)
         then EligibilityDecision_reject ER_ACCOUNT_MISMATCH ''account binding mismatch''
         else if message_type = ''outgoing''
         then EligibilityDecision_reject ER_OUTGOING_MESSAGE ''outgoing messages do not trigger agent''
         else if sender_type = ''agent_bot''
         then EligibilityDecision_reject ER_BOT_SENDER ''sender_type=agent_bot is not eligible''
         else if priv then EligibilityDecision_reject ER_PRIVATE_NOTE ''private notes are excluded from agent processing''
         else EligibilityDecision_accept)"
proof -
  obtain ev where "ChatwootEventNormalizer_normalize strict_pydantic tenant now u1 u2
      (PDict (build_payload event_id message_id account conversation_id content sender_type message_type priv)) raw corr = Inr ev"
    and "ev_account_id_ref ev = make_account_ref account"
    and "ev_message_type ev = Some (if message_type = ''incoming'' then MT_INCOMING else MT_OUTGOING)"
    and "ev_sender_type ev = Some (if sender_type = ''contact'' then ST_CONTACT
      else if sender_type = ''agent_bot'' then ST_AGENT_BOT else ST_USER)"
    and "ev_is_private ev = priv"
    using scenario_normalized [OF assms] by blast
  then show ?thesis
    using assms(6,7) by (auto simp: EligibilityChecker_check_def check_debounce_def)
qed

section \<open>Properties\<close>

text \<open>The scenarios of the test page get the decisions they are named after: the message of a customer is accepted, an
  outgoing message, a bot and a private note are rejected with their reasons, and so is a message for another account,
  unless the truncated hashes that stand for the two accounts collide.\<close>

theorem scenarios_classified:
  assumes "event_id \<noteq> []" and "conversation_id \<noteq> []" and "tc_provider_account_id tenant \<noteq> []" and "wrong \<noteq> []"
  shows "map (\<lambda>(n, sc). (n, res_bind (ChatwootEventNormalizer_normalize strict_pydantic tenant now u1 u2
        (PDict (scenario_payload event_id message_id (tc_provider_account_id tenant) wrong conversation_id sc)) raw corr)
      (EligibilityChecker_check tenant None None))) SCENARIOS =
    [(''Cliente incoming'', Inr EligibilityDecision_accept),
     (''Mensagem saindo'', Inr (EligibilityDecision_reject ER_OUTGOING_MESSAGE ''outgoing messages do not trigger agent'')),
     (''Bot sender'', Inr (EligibilityDecision_reject ER_BOT_SENDER ''sender_type=agent_bot is not eligible'')),
     (''Nota privada'', Inr (EligibilityDecision_reject ER_PRIVATE_NOTE ''private notes are excluded from agent processing'')),
     (''Cross-tenant'', Inr (if make_account_ref wrong = make_account_ref (tc_provider_account_id tenant) then EligibilityDecision_accept
        else EligibilityDecision_reject ER_ACCOUNT_MISMATCH ''account binding mismatch''))]"
  using assms by (simp add: SCENARIOS_def scenario_payload_def payload_decision)

theorem scenarios_classified_witness:
  "map (\<lambda>(n, sc). (n, res_bind (ChatwootEventNormalizer_normalize strict_pydantic pilot_ctx 0 ''u1'' ''u2''
        (PDict (scenario_payload ''e1'' ''m1'' ''7'' ''9'' ''conv_001'' sc)) [] None)
      (EligibilityChecker_check pilot_ctx None None))) SCENARIOS =
    [(''Cliente incoming'', Inr EligibilityDecision_accept),
     (''Mensagem saindo'', Inr (EligibilityDecision_reject ER_OUTGOING_MESSAGE ''outgoing messages do not trigger agent'')),
     (''Bot sender'', Inr (EligibilityDecision_reject ER_BOT_SENDER ''sender_type=agent_bot is not eligible'')),
     (''Nota privada'', Inr (EligibilityDecision_reject ER_PRIVATE_NOTE ''private notes are excluded from agent processing'')),
     (''Cross-tenant'', Inr (if make_account_ref ''9'' = make_account_ref ''7'' then EligibilityDecision_accept
        else EligibilityDecision_reject ER_ACCOUNT_MISMATCH ''account binding mismatch''))]"
  using scenarios_classified [of "''e1''" "''conv_001''" pilot_ctx "''9''" 0 "''u1''" "''u2''" "''m1''" "[]" None]
  by (simp add: pilot_ctx_def)

end
