(* ===== verification/Leases.thy ===== *)
theory Leases
  imports Contracts
begin

text \<open>
  The conversation leases of \<open>persistence/repositories/leases.py\<close>. The table
  \<open>conversation_run_leases\<close> has one row per tenant and conversation (\<open>uq_lease_conversation\<close>), so it is
  a map. \<open>acquire\<close> is two statements, a select and an upsert (or the refresh of an own lease), and
  is modelled as such: the step relation at the end interleaves the statements of any number of
  workers with arbitrary clock readings.
\<close>

section \<open>Repository\<close>

record ConversationRunLease =
  ls_id :: uuid
  ls_fencing_token :: string
  ls_worker_id :: string
  ls_acquired_at :: time
  ls_expires_at :: time
  ls_released_at :: "time option"

type_synonym conv_key = "uuid \<times> string"
type_synonym leases = "conv_key \<rightharpoonup> ConversationRunLease"

definition lease_active :: "time \<Rightarrow> ConversationRunLease \<Rightarrow> bool" where
  "lease_active now r \<longleftrightarrow> ls_expires_at r > now \<and> ls_released_at r = None"

text \<open>\<open>SELECT\<close> of the active lease of a conversation.\<close>

definition lease_select :: "time \<Rightarrow> conv_key \<Rightarrow> leases \<Rightarrow> ConversationRunLease option" where
  "lease_select now key tab =
     (case tab key of None \<Rightarrow> None | Some r \<Rightarrow> if lease_active now r then Some r else None)"

text \<open>\<open>INSERT ... ON CONFLICT DO UPDATE ... WHERE expires_at <= now\<close>, with the row count.\<close>

definition lease_upsert ::
    "uuid \<Rightarrow> string \<Rightarrow> string \<Rightarrow> time \<Rightarrow> time \<Rightarrow> conv_key \<Rightarrow> leases \<Rightarrow> leases \<times> nat" where
  "lease_upsert new_id token worker now expires_at key tab =
     (case tab key of
        None \<Rightarrow> (tab(key \<mapsto> \<lparr>ls_id = new_id, ls_fencing_token = token, ls_worker_id = worker,
                   ls_acquired_at = now, ls_expires_at = expires_at, ls_released_at = None\<rparr>), 1)
      | Some r \<Rightarrow>
          if ls_expires_at r \<le> now
          then (tab(key \<mapsto> r\<lparr>ls_fencing_token := token, ls_worker_id := worker,
                     ls_acquired_at := now, ls_expires_at := expires_at, ls_released_at := None\<rparr>), 1)
          else (tab, 0))"

definition lease_refresh :: "uuid \<Rightarrow> string \<Rightarrow> time \<Rightarrow> leases \<Rightarrow> leases" where
  "lease_refresh row_id token expires_at tab = (\<lambda>key. map_option (\<lambda>r.
     if ls_id r = row_id then r\<lparr>ls_expires_at := expires_at, ls_fencing_token := token\<rparr> else r) (tab key))"

definition LeaseRepository_acquire ::
    "int \<Rightarrow> string \<Rightarrow> time \<Rightarrow> uuid \<Rightarrow> uuid \<Rightarrow> uuid \<Rightarrow> string \<Rightarrow> leases \<Rightarrow> string res \<times> leases" where
  "LeaseRepository_acquire lease_ttl_seconds worker_id now token new_id tenant_id conversation_id tab =
     (let expires_at = now + lease_ttl_seconds * second; key = (tenant_id, conversation_id) in
      case lease_select now key tab of
        Some existing \<Rightarrow>
          if ls_worker_id existing \<noteq> worker_id
          then (raise_iara (LeaseConflictError (''Conversation '' @ repr_str conversation_id @
                  '' is already leased by another worker'') (Some conversation_id)), tab)
          else (Inr token, lease_refresh (ls_id existing) token expires_at tab)
      | None \<Rightarrow>
          (case lease_upsert new_id token worker_id now expires_at key tab of
             (tab', n) \<Rightarrow>
               if n = 0
               then (raise_iara (LeaseConflictError (''Conversation '' @ repr_str conversation_id @
                       '' lease acquisition failed - another worker holds it'') (Some conversation_id)), tab')
               else (Inr token, tab')))"

definition LeaseRepository_release :: "time \<Rightarrow> uuid \<Rightarrow> string \<Rightarrow> string \<Rightarrow> leases \<Rightarrow> leases" where
  "LeaseRepository_release now tenant_id conversation_id fencing_token tab =
     (case tab (tenant_id, conversation_id) of
        None \<Rightarrow> tab
      | Some r \<Rightarrow> if ls_fencing_token r = fencing_token
                  then tab((tenant_id, conversation_id) \<mapsto> r\<lparr>ls_released_at := Some now\<rparr>) else tab)"

definition LeaseRepository_is_valid :: "time \<Rightarrow> uuid \<Rightarrow> string \<Rightarrow> string \<Rightarrow> leases \<Rightarrow> bool" where
  "LeaseRepository_is_valid now tenant_id conversation_id fencing_token tab =
     (case tab (tenant_id, conversation_id) of
        None \<Rightarrow> False | Some r \<Rightarrow> ls_fencing_token r = fencing_token \<and> lease_active now r)"

section \<open>Lemmas on the operations\<close>

definition is_conflict :: "'a res \<Rightarrow> bool" where
  "is_conflict r \<longleftrightarrow> (\<exists>m c. r = raise_iara (LeaseConflictError m c))"

lemma acquire_cases:
  assumes "LeaseRepository_acquire ttl w now tok u t c tab = (r, tab')"
  shows "r = Inr tok \<or> (is_conflict r \<and> tab' = tab)"
  using assms
  by (auto simp: LeaseRepository_acquire_def Let_def lease_upsert_def is_conflict_def
      split: option.splits if_splits prod.splits)

lemma acquire_new_row:
  assumes "LeaseRepository_acquire ttl w now tok u t c tab = (Inr tok', tab')"
    and "\<And>r. tab (t, c) = Some r \<Longrightarrow> ls_worker_id r \<noteq> w"
  shows "tok' = tok \<and> (\<exists>r. tab' = tab((t, c) \<mapsto> r) \<and> ls_fencing_token r = tok \<and>
    ls_expires_at r = now + ttl * second \<and> ls_released_at r = None \<and> ls_worker_id r = w)"
  using assms
  by (auto simp: LeaseRepository_acquire_def Let_def lease_select_def lease_upsert_def
      split: option.splits if_splits)

text \<open>A row that has not expired refuses everyone else, released or not.\<close>

lemma acquire_unexpired_conflict:
  assumes "tab (t, c) = Some r" and "now < ls_expires_at r" and "ls_worker_id r \<noteq> w"
  shows "\<exists>e. LeaseRepository_acquire ttl w now tok u t c tab = (Inl e, tab) \<and>
    is_conflict (Inl e :: string res)"
  using assms
  by (auto simp: LeaseRepository_acquire_def Let_def lease_select_def lease_upsert_def is_conflict_def
      split: option.splits if_splits)

lemma release_keeps_row:
  "tab (t, c) = Some r \<Longrightarrow> \<exists>r'. LeaseRepository_release now t c tok tab (t, c) = Some r' \<and>
     ls_expires_at r' = ls_expires_at r \<and> ls_worker_id r' = ls_worker_id r"
  by (auto simp: LeaseRepository_release_def)

lemma release_expiry:
  "map_option ls_expires_at (LeaseRepository_release now t c tok tab k) = map_option ls_expires_at (tab k)"
  by (auto simp: LeaseRepository_release_def split: option.splits)

section \<open>Interleaved workers\<close>

text \<open>
  A job creates its own repository, so every attempt has a worker id of its own. Between the select
  and the upsert of one attempt any statements of other workers may run. The ghost log \<open>lm_grants\<close>
  lists the granted attempts, newest first.
\<close>

record attempt =
  ap_key :: conv_key
  ap_worker :: string
  ap_now :: time
  ap_token :: string

record lease_machine =
  lm_table :: leases
  lm_selected :: "attempt set"
  lm_grants :: "attempt list"

definition lm_init :: lease_machine where
  "lm_init = \<lparr>lm_table = Map.empty, lm_selected = {}, lm_grants = []\<rparr>"

inductive lease_step :: "int \<Rightarrow> lease_machine \<Rightarrow> lease_machine \<Rightarrow> bool" for ttl where
  select: "lease_select (ap_now a) (ap_key a) (lm_table s) = None \<Longrightarrow>
     lease_step ttl s (s\<lparr>lm_selected := insert a (lm_selected s)\<rparr>)"
| upsert: "a \<in> lm_selected s \<Longrightarrow>
     lease_upsert u (ap_token a) (ap_worker a) (ap_now a) (ap_now a + ttl * second) (ap_key a) (lm_table s)
       = (tab, n) \<Longrightarrow>
     lease_step ttl s (s\<lparr>lm_table := tab, lm_selected := lm_selected s - {a},
       lm_grants := (if n = 0 then lm_grants s else a # lm_grants s)\<rparr>)"
| release: "lease_step ttl s (s\<lparr>lm_table := LeaseRepository_release now t c tok (lm_table s)\<rparr>)"

inductive lease_reach :: "int \<Rightarrow> lease_machine \<Rightarrow> bool" for ttl where
  init: "lease_reach ttl lm_init"
| step: "lease_reach ttl s \<Longrightarrow> lease_step ttl s s' \<Longrightarrow> lease_reach ttl s'"

inductive_cases lease_stepE: "lease_step ttl s s'"

definition grants_of :: "conv_key \<Rightarrow> attempt list \<Rightarrow> attempt list" where
  "grants_of key gs = filter (\<lambda>a. ap_key a = key) gs"

text \<open>The row of a conversation expires when its newest grant does, and grants never overlap.\<close>

definition lease_inv :: "int \<Rightarrow> lease_machine \<Rightarrow> bool" where
  "lease_inv ttl s \<longleftrightarrow> (\<forall>key.
     map_option ls_expires_at (lm_table s key) =
       (case grants_of key (lm_grants s) of [] \<Rightarrow> None | a # _ \<Rightarrow> Some (ap_now a + ttl * second)) \<and>
     sorted_wrt (\<lambda>a b. ap_now b + ttl * second \<le> ap_now a) (grants_of key (lm_grants s)))"

lemma upsert_granted:
  assumes "lease_upsert u tok w now ex key tab = (tab', n)" and "n \<noteq> 0"
  shows "map_option ls_expires_at (tab' k) = (if k = key then Some ex else map_option ls_expires_at (tab k))"
    and "\<And>x. map_option ls_expires_at (tab key) = Some x \<Longrightarrow> x \<le> now"
  using assms by (auto simp: lease_upsert_def split: option.splits if_splits)

lemma upsert_refused: "lease_upsert u tok w now ex key tab = (tab', 0) \<Longrightarrow> tab' = tab"
  by (auto simp: lease_upsert_def split: option.splits if_splits)

lemma sorted_wrt_grant:
  assumes "sorted_wrt (\<lambda>a b. ap_now b + ttl * second \<le> ap_now a) (b # bs)"
    and "ap_now b + ttl * second \<le> ap_now a" and "0 \<le> ttl"
  shows "sorted_wrt (\<lambda>a b. ap_now b + ttl * second \<le> ap_now a) (a # b # bs)"
  using assms by fastforce

lemma lease_inv_upsert:
  assumes "lease_inv ttl s" and "0 \<le> ttl"
    and u: "lease_upsert u (ap_token a) (ap_worker a) (ap_now a) (ap_now a + ttl * second) (ap_key a)
      (lm_table s) = (tab, n)" and "n \<noteq> 0"
  shows "lease_inv ttl (s\<lparr>lm_table := tab, lm_selected := S, lm_grants := a # lm_grants s\<rparr>)"
  unfolding lease_inv_def
proof (intro allI conjI)
  fix key
  have inv: "map_option ls_expires_at (lm_table s key) =
       (case grants_of key (lm_grants s) of [] \<Rightarrow> None | a # _ \<Rightarrow> Some (ap_now a + ttl * second))"
    "sorted_wrt (\<lambda>a b. ap_now b + ttl * second \<le> ap_now a) (grants_of key (lm_grants s))"
    using assms(1) unfolding lease_inv_def by blast+
  show "map_option ls_expires_at (lm_table (s\<lparr>lm_table := tab, lm_selected := S,
        lm_grants := a # lm_grants s\<rparr>) key) = (case grants_of key (lm_grants (s\<lparr>lm_table := tab,
        lm_selected := S, lm_grants := a # lm_grants s\<rparr>)) of [] \<Rightarrow> None
        | a # _ \<Rightarrow> Some (ap_now a + ttl * second))"
    using upsert_granted(1) [OF u assms(4), of key] inv(1) by (auto simp: grants_of_def)
  show "sorted_wrt (\<lambda>a b. ap_now b + ttl * second \<le> ap_now a)
      (grants_of key (lm_grants (s\<lparr>lm_table := tab, lm_selected := S, lm_grants := a # lm_grants s\<rparr>)))"
  proof (cases "ap_key a = key")
    case True
    show ?thesis
    proof (cases "grants_of key (lm_grants s)")
      case (Cons b bs)
      then have "ap_now b + ttl * second \<le> ap_now a"
        using upsert_granted(2) [OF u assms(4)] inv(1) True by auto
      then have "sorted_wrt (\<lambda>a b. ap_now b + ttl * second \<le> ap_now a) (a # b # bs)"
        using sorted_wrt_grant inv(2) Cons assms(2) by metis
      then show ?thesis using True Cons by (simp add: grants_of_def)
    qed (use True in \<open>simp add: grants_of_def\<close>)
  qed (use inv(2) in \<open>simp add: grants_of_def\<close>)
qed

lemma lease_inv_step:
  assumes "lease_inv ttl s" and "0 \<le> ttl" and "lease_step ttl s s'"
  shows "lease_inv ttl s'"
  using assms(3)
proof (cases rule: lease_step.cases)
  case (upsert a u tab n)
  then show ?thesis
    using lease_inv_upsert [OF assms(1,2) upsert(3)] assms(1)
    by (cases "n = 0") (auto simp: lease_inv_def dest: upsert_refused)
qed (use assms(1) in \<open>simp_all add: lease_inv_def release_expiry\<close>)

lemma lease_reach_inv: "lease_reach ttl s \<Longrightarrow> 0 \<le> ttl \<Longrightarrow> lease_inv ttl s"
proof (induction rule: lease_reach.induct)
  case init
  then show ?case by (simp add: lm_init_def lease_inv_def grants_of_def)
next
  case (step s s')
  then show ?case by (blast intro: lease_inv_step)
qed

section \<open>Properties\<close>

text \<open>C2: Mutual exclusion: however the selects, upserts and releases of any number of workers
  interleave, and whatever their clocks read, two grants of the same conversation never overlap: the
  later one read a time at or after the earlier one's expiry.\<close>

theorem lease_grants_disjoint:
  assumes "lease_reach ttl s" and "0 \<le> ttl" and "lm_grants s = later @ a # between @ b # earlier"
    and "ap_key a = ap_key b"
  shows "ap_now b + ttl * second \<le> ap_now a"
proof -
  have "sorted_wrt (\<lambda>a b. ap_now b + ttl * second \<le> ap_now a) (grants_of (ap_key a) (lm_grants s))"
    using lease_reach_inv [OF assms(1,2)] unfolding lease_inv_def by blast
  then show ?thesis using assms(3,4) by (simp add: grants_of_def sorted_wrt_append)
qed

definition att :: "string \<Rightarrow> time \<Rightarrow> attempt" where
  "att w now = \<lparr>ap_key = (''t'', ''c''), ap_worker = w, ap_now = now, ap_token = w\<rparr>"

lemma lease_grant_from:
  assumes "lease_reach ttl s" and "lease_select (ap_now a) (ap_key a) (lm_table s) = None"
    and "lease_upsert u (ap_token a) (ap_worker a) (ap_now a) (ap_now a + ttl * second) (ap_key a)
      (lm_table s) = (tab, 1)"
  shows "lease_reach ttl (s\<lparr>lm_table := tab, lm_selected := insert a (lm_selected s) - {a},
    lm_grants := a # lm_grants s\<rparr>)"
  using lease_step.upsert [of a "s\<lparr>lm_selected := insert a (lm_selected s)\<rparr>" u ttl tab 1]
    lease_reach.step [OF lease_reach.step [OF assms(1) lease_step.select [OF assms(2)]]] assms(3)
  by simp

theorem lease_grants_disjoint_witness:
  "\<exists>s. lease_reach 1 s \<and> lm_grants s = [att ''b'' 1000000, att ''a'' 0] \<and>
     ap_now (att ''a'' 0) + 1 * second \<le> ap_now (att ''b'' 1000000)"
proof -
  obtain s1 r where s1: "lease_reach 1 s1" "lm_grants s1 = [att ''a'' 0]"
    "lm_table s1 = [(''t'', ''c'') \<mapsto> r]" "ls_expires_at r = 1000000"
    using lease_grant_from [OF lease_reach.init, of "att ''a'' 0" "''r''"]
    by (fastforce simp: lm_init_def att_def lease_select_def lease_upsert_def)
  obtain tab where "lease_upsert ''r'' ''b'' ''b'' 1000000 2000000 (''t'', ''c'') (lm_table s1) = (tab, 1)"
    using s1 by (simp add: lease_upsert_def)
  then obtain s2 where s2: "lease_reach 1 s2" "lm_grants s2 = [] @ att ''b'' 1000000 # [] @ att ''a'' 0 # []"
    using lease_grant_from [OF s1(1), of "att ''b'' 1000000" "''r''" tab] s1
    by (fastforce simp: att_def lease_select_def lease_active_def)
  have "ap_now (att ''a'' 0) + 1 * second \<le> ap_now (att ''b'' 1000000)"
    by (rule lease_grants_disjoint [OF s2(1) _ s2(2)]) (simp_all add: att_def)
  with s2 show ?thesis by auto
qed

text \<open>A fencing token is exclusive: at one time at most one token is valid for a conversation,
  a granted token is valid until its expiry or release, and a release with a stale token changes
  nothing.\<close>

theorem fencing_token_exclusive:
  assumes "LeaseRepository_acquire ttl w now tok u t c tab = (Inr tok, tab')"
    and "\<And>r. tab (t, c) = Some r \<Longrightarrow> ls_worker_id r \<noteq> w" and "stale \<noteq> tok"
  shows "LeaseRepository_is_valid now' t c tok tab' = (now' < now + ttl * second) \<and>
    \<not> LeaseRepository_is_valid now' t c stale tab' \<and>
    LeaseRepository_release now2 t c stale tab' = tab' \<and>
    \<not> LeaseRepository_is_valid now' t c tok (LeaseRepository_release now2 t c tok tab')"
  using acquire_new_row [OF assms(1,2)] assms(3)
  by (auto simp: LeaseRepository_is_valid_def LeaseRepository_release_def lease_active_def)

theorem fencing_token_exclusive_witness:
  "\<exists>tab'. LeaseRepository_acquire 300 ''w'' 0 ''tok'' ''u'' ''t'' ''c'' Map.empty = (Inr ''tok'', tab') \<and>
    LeaseRepository_is_valid 5 ''t'' ''c'' ''tok'' tab'"
proof -
  obtain tab' where a: "LeaseRepository_acquire 300 ''w'' 0 ''tok'' ''u'' ''t'' ''c'' Map.empty = (Inr ''tok'', tab')"
    by (simp add: LeaseRepository_acquire_def lease_select_def lease_upsert_def)
  with fencing_token_exclusive [OF a, of "''x''" 5 0] show ?thesis by simp
qed

text \<open>Releasing a lease does not free the conversation: until the released lease's original expiry
  every other worker's \<open>acquire\<close> still raises \<open>LeaseConflictError\<close>, because the upsert only overtakes
  expired rows.\<close>

theorem released_lease_still_blocks:
  assumes "LeaseRepository_acquire ttl w now tok u t c tab = (Inr tok, tab')"
    and "\<And>r. tab (t, c) = Some r \<Longrightarrow> ls_worker_id r \<noteq> w"
    and "w' \<noteq> w" and "now2 < now + ttl * second"
  shows "\<exists>e. LeaseRepository_acquire ttl' w' now2 tok' u' t c (LeaseRepository_release rel t c tok tab') =
      (Inl e, LeaseRepository_release rel t c tok tab') \<and> is_conflict (Inl e :: string res)"
proof -
  obtain r where r: "tab' (t, c) = Some r" "ls_expires_at r = now + ttl * second" "ls_worker_id r = w"
    using acquire_new_row [OF assms(1,2)] by auto
  then obtain r' where "LeaseRepository_release rel t c tok tab' (t, c) = Some r'"
    "ls_expires_at r' = now + ttl * second" "ls_worker_id r' = w"
    using release_keeps_row by metis
  then show ?thesis using acquire_unexpired_conflict assms(3,4) by metis
qed

theorem released_lease_still_blocks_witness:
  "\<exists>tab' e. LeaseRepository_acquire 300 ''w'' 0 ''tok'' ''u'' ''t'' ''c'' Map.empty = (Inr ''tok'', tab') \<and>
    LeaseRepository_acquire 300 ''v'' 9 ''tok2'' ''u2'' ''t'' ''c''
      (LeaseRepository_release 7 ''t'' ''c'' ''tok'' tab') =
      (Inl e, LeaseRepository_release 7 ''t'' ''c'' ''tok'' tab')"
proof -
  obtain tab' where a: "LeaseRepository_acquire 300 ''w'' 0 ''tok'' ''u'' ''t'' ''c'' Map.empty = (Inr ''tok'', tab')"
    by (simp add: LeaseRepository_acquire_def lease_select_def lease_upsert_def)
  with released_lease_still_blocks [OF a, of "''v''" 9 300 "''tok2''" "''u2''" 7] show ?thesis by auto
qed

end
