(* ===== verification/JobConsumer.thy ===== *)
theory JobConsumer
  imports Leases Webhook
begin

text \<open>
  The worker side of the job queue: \<open>messaging/consumer.py\<close> (acknowledgement) and
  \<open>workers/job_consumer.py\<close> (lease, graph invocation, release). The compiled graph is an argument
  (\<open>ainvoke\<close>, from its initial state and thread id to a result or an exception); what other workers do
  to the lease table while it runs is the argument \<open>others\<close>. A payload field that is present
  must be a JSON string, as in every published job; any other value is a \<open>TypeError\<close> here.
\<close>

section \<open>Handling one job\<close>

record graph_input =
  gi_run_id :: string
  gi_tenant_id :: string
  gi_conversation_id :: string
  gi_correlation_id :: string
  gi_messages :: "(string \<times> string) list"
  gi_idempotency_key :: pyval
  gi_event_ref :: pyval
  gi_attachments :: pyval
  gi_sender_type :: pyval
  gi_sender_ref :: pyval

record worker_env =
  wk_has_db :: bool
  wk_lease_ttl_seconds :: int
  wk_clock :: "nat \<Rightarrow> time"
  wk_uid :: "nat \<Rightarrow> uuid"
  wk_db_acquire_fails :: bool
  wk_db_release_fails :: bool
  wk_others :: "leases \<Rightarrow> leases"
  wk_ainvoke :: "graph_input \<Rightarrow> string \<Rightarrow> unit res"

definition str_field :: "pydict \<Rightarrow> string \<Rightarrow> string \<Rightarrow> string res" where
  "str_field d k dflt = (case map_of d k of None \<Rightarrow> Inr dflt | Some (PStr s) \<Rightarrow> Inr s
     | Some PNone \<Rightarrow> Inr [] | Some _ \<Rightarrow> Inl (TypeError k))"

text \<open>What became of the attempt to lease: skip the job, or go on with or without a token.\<close>

datatype lease_attempt = Skip_conflict | Proceed "string option" "uuid option"

definition acquire_lease ::
    "worker_env \<Rightarrow> string \<Rightarrow> string \<Rightarrow> leases \<Rightarrow> lease_attempt \<times> leases" where
  "acquire_lease env tenant_id conversation_id tab =
     (if \<not> wk_has_db env then (Proceed None None, tab)
      else case py_UUID tenant_id of
        None \<Rightarrow> (Proceed None None, tab)
      | Some tenant_uuid \<Rightarrow>
          if wk_db_acquire_fails env then (Proceed None (Some tenant_uuid), tab)
          else (case LeaseRepository_acquire (wk_lease_ttl_seconds env) (wk_uid env 1) (wk_clock env 0)
                       (wk_uid env 2) (wk_uid env 3) tenant_uuid conversation_id tab of
              (Inr token, tab') \<Rightarrow> (Proceed (Some token) (Some tenant_uuid), tab')
            | (Inl (IaraExc (LeaseConflictError m c)), _) \<Rightarrow> (Skip_conflict, tab)
            | (Inl e, _) \<Rightarrow> (Proceed None (Some tenant_uuid), tab)))"

definition release_lease ::
    "worker_env \<Rightarrow> string option \<Rightarrow> uuid option \<Rightarrow> string \<Rightarrow> leases \<Rightarrow> leases" where
  "release_lease env token tenant_uuid conversation_id tab =
     (case (token, tenant_uuid) of
        (Some tok, Some t) \<Rightarrow>
          if tok \<noteq> [] \<and> wk_has_db env \<and> \<not> wk_db_release_fails env
          then LeaseRepository_release (wk_clock env 1) t conversation_id tok tab else tab
      | _ \<Rightarrow> tab)"

definition job_graph_input :: "worker_env \<Rightarrow> string \<Rightarrow> string \<Rightarrow> string \<Rightarrow> string \<Rightarrow> pydict \<Rightarrow> graph_input" where
  "job_graph_input env tenant_id conversation_id correlation_id content payload =
     \<lparr>gi_run_id = wk_uid env 4, gi_tenant_id = tenant_id, gi_conversation_id = conversation_id,
      gi_correlation_id = correlation_id,
      gi_messages = (if content = [] then [] else [(''user'', content)]),
      gi_idempotency_key = dict_get_or payload ''idempotency_key'' (PStr []),
      gi_event_ref = dict_get_or payload ''event_ref'' (PStr []),
      gi_attachments = py_or (dict_get payload ''attachments'') (PList []),
      gi_sender_type = dict_get_or payload ''sender_type'' (PStr ''contact''),
      gi_sender_ref = dict_get_or payload ''sender_ref'' (PStr [])\<rparr>"

text \<open>The result, the lease table afterwards, and the graph input when the graph was invoked.\<close>

definition JobConsumerWorker_handle_job ::
    "worker_env \<Rightarrow> pydict \<Rightarrow> leases \<Rightarrow> unit res \<times> leases \<times> graph_input option" where
  "JobConsumerWorker_handle_job env payload tab =
     (case res_bind (str_field payload ''tenant_id'' []) (\<lambda>t.
           res_bind (str_field payload ''conversation_id'' []) (\<lambda>c.
           res_bind (str_field payload ''correlation_id'' (wk_uid env 0)) (\<lambda>r.
           res_bind (str_field payload ''content'' []) (\<lambda>x. Inr (t, c, r, x))))) of
        Inl e \<Rightarrow> (Inl e, tab, None)
      | Inr (tenant_id, conversation_id, correlation_id, content) \<Rightarrow>
          if tenant_id = [] \<or> conversation_id = [] then (Inr (), tab, None)
          else (case acquire_lease env tenant_id conversation_id tab of
              (Skip_conflict, tab') \<Rightarrow> (Inr (), tab', None)
            | (Proceed token tenant_uuid, tab') \<Rightarrow>
                (let inp = job_graph_input env tenant_id conversation_id correlation_id content payload
                 in (wk_ainvoke env inp (tenant_id @ '':'' @ conversation_id),
                     release_lease env token tenant_uuid conversation_id (wk_others env tab'),
                     Some inp))))"

section \<open>Acknowledgement\<close>

datatype delivery = Acked | Dead_lettered

text \<open>A nack without requeue sends the message to the dead-letter exchange of the queue.\<close>

definition MessageConsumer_on_message ::
    "worker_env \<Rightarrow> pyval option \<Rightarrow> leases \<Rightarrow> delivery \<times> leases \<times> graph_input option" where
  "MessageConsumer_on_message env body tab =
     (case body of
        Some (PDict payload) \<Rightarrow>
          (case JobConsumerWorker_handle_job env payload tab of
             (Inr _, tab', inp) \<Rightarrow> (Acked, tab', inp)
           | (Inl e, tab', inp) \<Rightarrow> (Dead_lettered, tab', inp))
      | _ \<Rightarrow> (Dead_lettered, tab, None))"

section \<open>Lemmas\<close>

lemma acquire_lease_token:
  assumes "acquire_lease env t c tab = (Proceed (Some tok) tu, tab')"
  shows "\<exists>u. tu = Some u \<and> py_UUID t = Some u \<and> LeaseRepository_acquire (wk_lease_ttl_seconds env)
     (wk_uid env 1) (wk_clock env 0) (wk_uid env 2) (wk_uid env 3) u c tab = (Inr tok, tab')"
  using assms
  by (auto simp: acquire_lease_def split: if_splits option.splits prod.splits sum.splits py_exc.splits
      iara_error.splits)

lemma acquire_lease_healthy:
  assumes "wk_has_db env" and "\<not> wk_db_acquire_fails env" and "py_UUID t = Some u"
  shows "acquire_lease env t c tab =
    (case LeaseRepository_acquire (wk_lease_ttl_seconds env) (wk_uid env 1) (wk_clock env 0)
       (wk_uid env 2) (wk_uid env 3) u c tab of
       (Inr tok, tab') \<Rightarrow> (Proceed (Some tok) (Some u), tab') | (Inl e, _) \<Rightarrow> (Skip_conflict, tab))"
  using assms acquire_cases [of "wk_lease_ttl_seconds env" "wk_uid env 1" "wk_clock env 0" "wk_uid env 2"
      "wk_uid env 3" u c tab]
  by (fastforce simp: acquire_lease_def is_conflict_def split: prod.splits sum.splits)

text \<open>The messages that the publisher sends are well formed for the worker.\<close>

lemma published_fields:
  "str_field (ConversationJob_to_dict job) ''tenant_id'' [] = Inr (cj_tenant_id job)"
  "str_field (ConversationJob_to_dict job) ''conversation_id'' [] = Inr (cj_conversation_id job)"
  "str_field (ConversationJob_to_dict job) ''correlation_id'' d = Inr (cj_correlation_id job)"
  "str_field (ConversationJob_to_dict job) ''content'' [] =
     Inr (case cj_content job of None \<Rightarrow> [] | Some x \<Rightarrow> x)"
  by (simp_all add: str_field_def ConversationJob_to_dict_def opt_str_def split: option.splits)

lemma handle_published:
  assumes "cj_tenant_id job \<noteq> []" and "cj_conversation_id job \<noteq> []"
  shows "JobConsumerWorker_handle_job env (ConversationJob_to_dict job) tab =
    (case acquire_lease env (cj_tenant_id job) (cj_conversation_id job) tab of
       (Skip_conflict, tab') \<Rightarrow> (Inr (), tab', None)
     | (Proceed token tenant_uuid, tab') \<Rightarrow>
         (let inp = job_graph_input env (cj_tenant_id job) (cj_conversation_id job) (cj_correlation_id job)
              (case cj_content job of None \<Rightarrow> [] | Some x \<Rightarrow> x) (ConversationJob_to_dict job)
          in (wk_ainvoke env inp (cj_tenant_id job @ '':'' @ cj_conversation_id job),
              release_lease env token tenant_uuid (cj_conversation_id job) (wk_others env tab'), Some inp)))"
  using assms by (simp add: JobConsumerWorker_handle_job_def published_fields)

definition db_healthy :: "worker_env \<Rightarrow> bool" where
  "db_healthy env \<longleftrightarrow> wk_has_db env \<and> \<not> wk_db_acquire_fails env \<and> \<not> wk_db_release_fails env"

definition fresh_worker :: "worker_env \<Rightarrow> leases \<Rightarrow> bool" where
  "fresh_worker env tab \<longleftrightarrow> wk_uid env 2 \<noteq> [] \<and>
     (\<forall>k r. tab k = Some r \<longrightarrow> ls_worker_id r \<noteq> wk_uid env 1)"

text \<open>What is known when a published job reached the graph on a healthy database.\<close>

lemma invoked_lease:
  assumes "db_healthy env" and "fresh_worker env tab" and "py_UUID (cj_tenant_id job) = Some u"
    and "cj_tenant_id job \<noteq> []" and "cj_conversation_id job \<noteq> []"
    and "JobConsumerWorker_handle_job env (ConversationJob_to_dict job) tab = (x, tab', Some inp)"
  obtains row where "ls_fencing_token row = wk_uid env 2" and "ls_worker_id row = wk_uid env 1"
    and "ls_expires_at row = wk_clock env 0 + wk_lease_ttl_seconds env * second" and "ls_released_at row = None"
    and "tab' = LeaseRepository_release (wk_clock env 1) u (cj_conversation_id job) (wk_uid env 2)
           (wk_others env (tab((u, cj_conversation_id job) \<mapsto> row)))"
    and "inp = job_graph_input env (cj_tenant_id job) (cj_conversation_id job) (cj_correlation_id job)
           (case cj_content job of None \<Rightarrow> [] | Some x \<Rightarrow> x) (ConversationJob_to_dict job)"
    and "x = wk_ainvoke env inp (cj_tenant_id job @ '':'' @ cj_conversation_id job)"
proof -
  obtain r tab1 where a: "LeaseRepository_acquire (wk_lease_ttl_seconds env) (wk_uid env 1) (wk_clock env 0)
       (wk_uid env 2) (wk_uid env 3) u (cj_conversation_id job) tab = (r, tab1)"
    by fastforce
  have acq: "acquire_lease env (cj_tenant_id job) (cj_conversation_id job) tab =
      (case r of Inr tok \<Rightarrow> (Proceed (Some tok) (Some u), tab1) | Inl e \<Rightarrow> (Skip_conflict, tab))"
    using acquire_lease_healthy [of env "cj_tenant_id job" u "cj_conversation_id job" tab] assms(1,3) a
    by (simp add: db_healthy_def split: sum.splits)
  have "\<exists>tok. r = Inr tok"
    using assms(6) unfolding handle_published [OF assms(4,5)] acq by (cases r) auto
  then have r: "r = Inr (wk_uid env 2)"
    using acquire_cases [OF a] by (auto simp: is_conflict_def)
  obtain row where row: "tab1 = tab((u, cj_conversation_id job) \<mapsto> row)" "ls_fencing_token row = wk_uid env 2"
    "ls_expires_at row = wk_clock env 0 + wk_lease_ttl_seconds env * second" "ls_released_at row = None"
    "ls_worker_id row = wk_uid env 1"
    using acquire_new_row [OF a [unfolded r]] assms(2) by (auto simp: fresh_worker_def)
  show thesis
    using assms(1,2,6) row unfolding handle_published [OF assms(4,5)] acq r
    by (intro that [of row]) (auto simp: Let_def release_lease_def db_healthy_def fresh_worker_def)
qed

lemma on_message_handle:
  assumes "MessageConsumer_on_message env (Some (PDict payload)) tab = (dv, tab', inp)"
  obtains x where "JobConsumerWorker_handle_job env payload tab = (x, tab', inp)"
    and "dv = Acked \<longleftrightarrow> (\<exists>y. x = Inr y)"
  using assms by (auto simp: MessageConsumer_on_message_def split: prod.splits sum.splits)

section \<open>Properties\<close>

definition sample_worker :: "string \<Rightarrow> time \<Rightarrow> worker_env" where
  "sample_worker w now = \<lparr>wk_has_db = True, wk_lease_ttl_seconds = 300, wk_clock = (\<lambda>_. now),
     wk_uid = (\<lambda>n. if n = 1 then w else ''tok''), wk_db_acquire_fails = False,
     wk_db_release_fails = False, wk_others = id, wk_ainvoke = (\<lambda>_ _. Inr ())\<rparr>"

definition sample_job :: ConversationJob where
  "sample_job = \<lparr>cj_tenant_id = ''12345678-1234-5678-1234-56781234567f'', cj_conversation_id = ''c9'',
     cj_correlation_id = ''r'', cj_idempotency_key = ''k'', cj_event_ref = ''h'', cj_content = Some ''Oi'',
     cj_attachments = [], cj_sender_type = ''contact'', cj_sender_ref = ''5'', cj_scheduled_at = ''now''\<rparr>"

lemma sample_uuid: "py_UUID (cj_tenant_id sample_job) = Some (cj_tenant_id sample_job)"
  by code_simp

lemma sample_worker_ok: "db_healthy (sample_worker w now)" "fresh_worker (sample_worker w now) Map.empty"
  by (simp_all add: sample_worker_def db_healthy_def fresh_worker_def)

lemma sample_invoked: "\<exists>tab' inp. MessageConsumer_on_message (sample_worker w now)
    (Some (PDict (ConversationJob_to_dict sample_job))) Map.empty = (Acked, tab', Some inp)"
proof -
  have "acquire_lease (sample_worker w now) (cj_tenant_id sample_job) (cj_conversation_id sample_job) Map.empty
    \<noteq> (Skip_conflict, tab)" for tab
    using acquire_lease_healthy [OF _ _ sample_uuid, of "sample_worker w now"]
    by (simp add: sample_worker_def LeaseRepository_acquire_def lease_select_def lease_upsert_def)
  moreover have "cj_tenant_id sample_job \<noteq> []" "cj_conversation_id sample_job \<noteq> []"
    by (simp_all add: sample_job_def)
  ultimately show ?thesis
    by (auto simp: MessageConsumer_on_message_def handle_published Let_def sample_worker_def
        split: prod.splits lease_attempt.splits)
qed



text \<open>A job that meets a live lease is dropped: the conflict is swallowed, the graph is not
  invoked and the message is acknowledged, so the broker never redelivers it. Since a released
  lease still blocks until its TTL is over, this is the fate of every message of a conversation that
  arrives within one TTL after the previous one was processed.\<close>

theorem second_message_within_ttl_dropped:
  assumes "db_healthy env1" and "db_healthy env2" and "fresh_worker env1 tab" and "wk_others env1 = id"
    and "py_UUID t = Some u" and "t \<noteq> []" and "c \<noteq> []"
    and "cj_tenant_id job1 = t" and "cj_conversation_id job1 = c"
    and "cj_tenant_id job2 = t" and "cj_conversation_id job2 = c"
    and "MessageConsumer_on_message env1 (Some (PDict (ConversationJob_to_dict job1))) tab = (dv1, tab1, Some inp)"
    and "wk_uid env2 1 \<noteq> wk_uid env1 1"
    and "wk_clock env2 0 < wk_clock env1 0 + wk_lease_ttl_seconds env1 * second"
  shows "MessageConsumer_on_message env2 (Some (PDict (ConversationJob_to_dict job2))) tab1 = (Acked, tab1, None)"
proof -
  obtain x where h: "JobConsumerWorker_handle_job env1 (ConversationJob_to_dict job1) tab = (x, tab1, Some inp)"
    using on_message_handle [OF assms(12)] by blast
  obtain row where "ls_worker_id row = wk_uid env1 1"
    "ls_expires_at row = wk_clock env1 0 + wk_lease_ttl_seconds env1 * second"
    and tab1: "tab1 = LeaseRepository_release (wk_clock env1 1) u c (wk_uid env1 2) (tab((u, c) \<mapsto> row))"
    using invoked_lease [OF assms(1,3) _ _ _ h] assms(4-9) by (metis id_apply)
  then obtain row' where "tab1 (u, c) = Some row'" "ls_worker_id row' = wk_uid env1 1"
    "ls_expires_at row' = wk_clock env1 0 + wk_lease_ttl_seconds env1 * second"
    using release_keeps_row [of "tab((u, c) \<mapsto> row)" u c row] by auto
  then obtain e where "LeaseRepository_acquire (wk_lease_ttl_seconds env2) (wk_uid env2 1) (wk_clock env2 0)
      (wk_uid env2 2) (wk_uid env2 3) u c tab1 = (Inl e, tab1)"
    using acquire_unexpired_conflict assms(13,14) by metis
  then have "acquire_lease env2 t c tab1 = (Skip_conflict, tab1)"
    using acquire_lease_healthy [of env2 t u c tab1] assms(2,5) by (simp add: db_healthy_def)
  then show ?thesis
    using handle_published [of job2 env2 tab1] assms(6,7,10,11) by (simp add: MessageConsumer_on_message_def)
qed

theorem second_message_within_ttl_dropped_witness:
  "\<exists>tab1 inp. MessageConsumer_on_message (sample_worker ''w'' 5)
      (Some (PDict (ConversationJob_to_dict sample_job))) Map.empty = (Acked, tab1, Some inp) \<and>
    MessageConsumer_on_message (sample_worker ''v'' 9)
      (Some (PDict (ConversationJob_to_dict sample_job))) tab1 = (Acked, tab1, None)"
proof -
  obtain tab1 inp where m: "MessageConsumer_on_message (sample_worker ''w'' 5)
    (Some (PDict (ConversationJob_to_dict sample_job))) Map.empty = (Acked, tab1, Some inp)"
    using sample_invoked by blast
  have "MessageConsumer_on_message (sample_worker ''v'' 9)
      (Some (PDict (ConversationJob_to_dict sample_job))) tab1 = (Acked, tab1, None)"
    by (rule second_message_within_ttl_dropped [OF sample_worker_ok(1,1,2) _ sample_uuid _ _ refl refl refl refl m])
      (simp_all add: sample_worker_def sample_job_def)
  with m show ?thesis by blast
qed

end
