(* ===== verification/CommandAuth.thy ===== *)
theory CommandAuth
  imports Contracts
begin

text \<open>
  Admin commands: the authorization guard (\<open>security/command_auth.py\<close>) and the command assistant that
  answers them (\<open>graph/nodes/command_assistant.py\<close>). Texts are transliterated to Latin-1 (an asterisk
  for the bullet, bracketed names for the pictographs).
\<close>

section \<open>Authorization\<close>

definition ADMIN_PREFIXES :: "string list" where
  "ADMIN_PREFIXES = [''/iara '', ''/admin '', ''@iara '']"

record AuthorizationResult =
  ar_allowed :: bool
  ar_reason :: string
  ar_is_admin_command :: bool

record CommandRequesterBinding =
  crb_tenant_id :: string
  crb_authorized_sender_types :: "string list"
  crb_authorized_sender_refs :: "string list"

definition CommandRequesterBinding_init :: "string \<Rightarrow> CommandRequesterBinding" where
  "CommandRequesterBinding_init tenant_id = \<lparr>crb_tenant_id = tenant_id,
     crb_authorized_sender_types = [''agent'', ''agent_bot''], crb_authorized_sender_refs = []\<rparr>"

type_synonym CommandAuthorizationGuard = "(string \<times> CommandRequesterBinding) list"

definition CommandAuthorizationGuard_register ::
    "CommandRequesterBinding \<Rightarrow> CommandAuthorizationGuard \<Rightarrow> CommandAuthorizationGuard" where
  "CommandAuthorizationGuard_register binding guard = AList.update (crb_tenant_id binding) binding guard"

definition is_admin_prefix :: "string \<Rightarrow> bool" where
  "is_admin_prefix content \<longleftrightarrow>
     list_ex (\<lambda>pfx. py_startswith (py_lower content) pfx) ADMIN_PREFIXES \<and> 8 \<le> length content"

definition CommandAuthorizationGuard_check ::
    "CommandAuthorizationGuard \<Rightarrow> string \<Rightarrow> string \<Rightarrow> string \<Rightarrow> string \<Rightarrow> AuthorizationResult" where
  "CommandAuthorizationGuard_check guard tenant_id sender_type sender_ref message_content =
     (let content = py_strip message_content in
      if \<not> is_admin_prefix content
      then \<lparr>ar_allowed = True, ar_reason = ''not_admin_command'', ar_is_admin_command = False\<rparr>
      else
        let binding = (case map_of guard tenant_id of Some b \<Rightarrow> b | None \<Rightarrow> CommandRequesterBinding_init tenant_id);
            type_ok = sender_type \<in> set (crb_authorized_sender_types binding);
            ref_ok = crb_authorized_sender_refs binding = [] \<or> sender_ref \<in> set (crb_authorized_sender_refs binding)
        in if type_ok \<and> ref_ok
           then \<lparr>ar_allowed = True, ar_reason = ''admin_authorized'', ar_is_admin_command = True\<rparr>
           else \<lparr>ar_allowed = False, ar_reason = ''unauthorized_sender'', ar_is_admin_command = True\<rparr>)"

section \<open>Command assistant\<close>

definition ADMIN_COMMANDS :: "(string \<times> string) list" where
  "ADMIN_COMMANDS = [
     (''status'', ''Retorna o status do sistema IAra.''),
     (''help'', ''Lista os comandos de administra'' @ [CHR 0xE7] @ [CHR 0xE3] @ ''o dispon'' @ [CHR 0xED] @ ''veis.''),
     (''list_campaigns'', ''Lista as campanhas ativas.''),
     (''enable_campaign'', ''Ativa uma campanha pelo ID.''),
     (''disable_campaign'', ''Desativa uma campanha pelo ID.''),
     (''set_mode'', ''Define o modo de opera'' @ [CHR 0xE7] @ [CHR 0xE3] @ ''o (suggest_only, write_sandbox, write_confirmed).''),
     (''get_config'', ''Retorna a configura'' @ [CHR 0xE7] @ [CHR 0xE3] @ ''o atual do agente.'')]"

text \<open>\<open>str.split()\<close>: the maximal runs of non-space characters.\<close>

lemma length_drop_word:
  assumes "t = dropWhile p s" "t \<noteq> []"
  shows "length (dropWhile (\<lambda>c. \<not> p c) t) < length s"
proof -
  obtain c u where cu: "t = c # u" using assms(2) by (cases t) auto
  then have "\<not> p c" using hd_dropWhile [of p s] assms by simp
  then have "length (dropWhile (\<lambda>c. \<not> p c) t) < length t"
    using cu length_dropWhile_le [of "\<lambda>c. \<not> p c" u] by simp
  moreover have "length t \<le> length s" using assms(1) by (simp add: length_dropWhile_le)
  ultimately show ?thesis by simp
qed

function py_split :: "string \<Rightarrow> string list" where
  "py_split s = (let t = dropWhile py_space s in
     if t = [] then [] else takeWhile (\<lambda>c. \<not> py_space c) t # py_split (dropWhile (\<lambda>c. \<not> py_space c) t))"
  by pat_completeness auto
termination
  by (relation "measure length") (auto intro: length_drop_word)

declare py_split.simps [simp del]

fun strip_prefixes :: "string list \<Rightarrow> string \<Rightarrow> string" where
  "strip_prefixes [] s = s"
| "strip_prefixes (pfx # pfxs) s = (if py_startswith (py_lower s) pfx then py_strip (drop (length pfx) s) else strip_prefixes pfxs s)"

definition parse_admin_command :: "string \<Rightarrow> string \<times> string list" where
  "parse_admin_command content = (case py_split (strip_prefixes ADMIN_PREFIXES (py_strip content)) of
     [] \<Rightarrow> ([], []) | cmd # args \<Rightarrow> (py_lower cmd, args))"

definition VALID_MODES :: "string list" where
  "VALID_MODES = [''suggest_only'', ''write_sandbox'', ''write_confirmed'']"

definition quoted :: "string \<Rightarrow> string" where
  "quoted s = [CHR 0x60] @ s @ [CHR 0x60]"

definition dispatch_command :: "string \<Rightarrow> string list \<Rightarrow> string \<Rightarrow> string \<Rightarrow> pydict \<Rightarrow> string" where
  "dispatch_command cmd args tenant_id conversation_id metadata =
     (let nl = [CHR 0x0A] in
      if cmd = ''help'' \<or> cmd = [] then join_with nl ([''*Comandos de administra'' @ [CHR 0xE7] @ [CHR 0xE3] @ ''o dispon'' @ [CHR 0xED] @ ''veis:*'', []] @
           map (\<lambda>(name, desc). ''* '' @ quoted (''/'' @ name) @ '' - '' @ desc) ADMIN_COMMANDS)
      else if cmd = ''status'' then
        ''[ok] *IAra Runtime - Status*'' @ nl @ nl @ ''* Tenant: '' @ quoted (take 16 tenant_id @ ''...'') @ nl @ ''* Conversa: ''
         @ quoted conversation_id @ nl @ ''* Modo: operacional'' @ nl @ ''* Checkpoints: Postgres'' @ nl @ ''* Mem'' @
         [CHR 0xF3] @ ''ria: habilitada via configura'' @ [CHR 0xE7] @ [CHR 0xE3] @ ''o'' @ nl
      else if cmd = ''list_campaigns'' then
        ''[i] Listagem de campanhas n'' @ [CHR 0xE3] @ ''o est'' @ [CHR 0xE1] @ '' dispon'' @ [CHR 0xED] @ ''vel via comando no momento. Acesse o painel de configura''
         @ [CHR 0xE7] @ [CHR 0xE3] @ ''o para gerenciar campanhas.''
      else if cmd = ''enable_campaign'' \<or> cmd = ''disable_campaign'' then
        (case args of [] \<Rightarrow> ''[x] Uso: '' @ quoted (''/'' @ cmd @ '' <campaign_id>'')
         | campaign_id # _ \<Rightarrow> ''[ok] Solicita'' @ [CHR 0xE7] @ [CHR 0xE3] @ ''o de '' @ quoted cmd @ '' para campanha '' @ quoted campaign_id @ '' enfileirada. ''
         @ ''A campanha ser'' @ [CHR 0xE1] @ '' '' @ (if cmd = ''enable_campaign'' then ''ativada'' else
         ''desativada'') @ '' em instantes via outbox.'')
      else if cmd = ''set_mode'' then
        (case args of mode # _ \<Rightarrow> if mode \<in> set VALID_MODES then ''[ok] Modo de opera'' @ [CHR 0xE7] @ [CHR 0xE3] @ ''o alterado para '' @ quoted mode @ ''. A mudan'' @ [CHR 0xE7] @
         ''a entrar'' @ [CHR 0xE1] @ '' em vigor na pr'' @ [CHR 0xF3] @ ''xima conversa.'' else ''[x] Uso: '' @ quoted ''/set_mode <modo>'' @ nl @ ''Modos v'' @ [CHR 0xE1] @ ''lidos: '' @ join_with '', '' (map
         quoted VALID_MODES)
         | [] \<Rightarrow> ''[x] Uso: '' @ quoted ''/set_mode <modo>'' @ nl @ ''Modos v'' @ [CHR 0xE1] @ ''lidos: '' @ join_with '', '' (map
         quoted VALID_MODES))
      else if cmd = ''get_config'' then
        ''[i] Configura'' @ [CHR 0xE7] @ [CHR 0xE3] @ ''o atual:'' @ nl @ ''* Modo kanban: '' @ quoted (py_str (dict_get_or
         metadata ''kanban_mode'' (PStr ''N/A''))) @ nl @ ''* Modo campanha: '' @ quoted (py_str (dict_get_or metadata
         ''campaign_mode'' (PStr ''N/A''))) @ nl
      else ''[x] Comando '' @ quoted cmd @ '' n'' @ [CHR 0xE3] @ ''o reconhecido. Use '' @ [CHR 0x60] @ ''/iara help'' @ [CHR 0x60] @ '' para ver os comandos dispon''
         @ [CHR 0xED] @ ''veis.'')"

section \<open>Behaviour\<close>

lemma py_split_spaces: "list_all py_space s \<Longrightarrow> py_split s = []"
  by (subst py_split.simps) (simp add: list_all_iff dropWhile_eq_Nil_conv)

lemma py_split_word:
  assumes "w \<noteq> []" "list_all (\<lambda>c. \<not> py_space c) w" "s = [] \<or> py_space (hd s)"
  shows "py_split (w @ s) = w # py_split s"
proof -
  have t: "dropWhile py_space (w @ s) = w @ s"
    using assms(1,2) by (cases w) auto
  have tw: "takeWhile (\<lambda>c. \<not> py_space c) (w @ s) = w" "dropWhile (\<lambda>c. \<not> py_space c) (w @ s) = s"
    using assms(2,3) by (auto simp: list_all_iff takeWhile_append dropWhile_append dropWhile_eq_self_iff takeWhile_eq_Nil_iff)
  show ?thesis
    by (subst py_split.simps) (use assms(1) t tw in \<open>simp add: Let_def\<close>)
qed

lemma py_split_space: "py_space c \<Longrightarrow> py_split (c # s) = py_split s"
  by (subst (1 2) py_split.simps) (simp add: Let_def)

definition word_ok :: "string \<Rightarrow> bool" where
  "word_ok w \<longleftrightarrow> w \<noteq> [] \<and> list_all (\<lambda>c. \<not> py_space c) w"

lemma py_split_join: "list_all word_ok ws \<Longrightarrow> py_split (join_with '' '' ws) = ws"
proof (induction ws rule: induct_list012)
  case (3 x y ys)
  have sp: "py_space CHR '' ''" by (simp add: py_space_def)
  have "py_split (x @ CHR '' '' # join_with '' '' (y # ys)) = x # py_split (CHR '' '' # join_with '' '' (y # ys))"
    using 3(3) sp by (intro py_split_word) (auto simp: word_ok_def)
  then show ?case using 3 sp by (simp add: py_split_space)
next
  case (2 x)
  then show ?case using py_split_word [of x "[]"] by (simp add: word_ok_def py_split_spaces)
qed (simp add: py_split_spaces)

lemma join_ends:
  "list_all word_ok (w # ws) \<Longrightarrow> join_with '' '' (w # ws) \<noteq> [] \<and> \<not> py_space (hd (join_with '' '' (w # ws))) \<and>
    \<not> py_space (last (join_with '' '' (w # ws)))"
proof (induction ws arbitrary: w)
  case Nil
  then show ?case by (auto simp: word_ok_def list_all_iff)
next
  case (Cons v ws)
  then have "\<not> py_space (hd w)" "w \<noteq> []" by (auto simp: word_ok_def list_all_iff)
  then show ?case using Cons by simp
qed

lemma dropWhile_head: "s \<noteq> [] \<Longrightarrow> \<not> p (hd s) \<Longrightarrow> dropWhile p s = s"
  by (cases s) auto

lemma py_strip_id: "s \<noteq> [] \<Longrightarrow> \<not> py_space (hd s) \<Longrightarrow> \<not> py_space (last s) \<Longrightarrow> py_strip s = s"
  by (simp add: py_strip_def dropWhile_head hd_rev)

lemma lower_char_space: "py_space c \<Longrightarrow> lower_char c = c"
  by (auto simp: lower_char_def py_space_def Let_def)

lemma strip_admin_prefix:
  assumes "pfx \<in> set ADMIN_PREFIXES" "py_lower lead = pfx"
  shows "strip_prefixes ADMIN_PREFIXES (lead @ s) = py_strip s"
proof -
  have len: "length lead = length pfx" using assms(2) by (auto simp: py_lower_def)
  have low: "py_lower (lead @ s) = pfx @ py_lower s" using assms(2) by (simp add: py_lower_def)
  show ?thesis using assms(1) len low by (auto simp: ADMIN_PREFIXES_def py_startswith_def)
qed

text \<open>Round trip: a command word and its arguments, written after one of the admin prefixes in any letter
  case and joined by blanks, are read back exactly, the command word in lower case.\<close>

theorem admin_command_roundtrip:
  assumes "py_lower lead \<in> set ADMIN_PREFIXES" "list_all word_ok (cmd # args)"
  shows "parse_admin_command (lead @ join_with '' '' (cmd # args)) = (py_lower cmd, args)"
proof -
  have lead0: "lead \<noteq> []" using assms(1) by (auto simp: ADMIN_PREFIXES_def py_lower_def)
  have "\<not> py_space (hd (py_lower lead))"
    using assms(1) by (auto simp: ADMIN_PREFIXES_def py_space_def)
  then have "\<not> py_space (hd lead)" using lead0 lower_char_space by (cases lead) (auto simp: py_lower_def)
  note lead = lead0 this
  note e = join_ends [OF assms(2)]
  have "py_strip (lead @ join_with '' '' (cmd # args)) = lead @ join_with '' '' (cmd # args)"
    by (rule py_strip_id) (use lead e in auto)
  then show ?thesis
    using strip_admin_prefix [OF assms(1) refl] py_strip_id e py_split_join [OF assms(2)]
    by (simp add: parse_admin_command_def)
qed

theorem admin_command_roundtrip_witness:
  "parse_admin_command (''/IARA '' @ join_with '' '' [''Set_Mode'', ''write_sandbox'']) = (py_lower ''Set_Mode'', [''write_sandbox''])"
  by (rule admin_command_roundtrip) code_simp+

text \<open>A message counts as an authorized admin command exactly when it carries an admin prefix and at least
  eight characters, and its sender's type and reference are in the tenant's binding (agents and bots of any
  reference when the tenant has none).\<close>

theorem admin_authorized_iff:
  fixes guard :: CommandAuthorizationGuard
  shows "CommandAuthorizationGuard_check guard t ty rf msg =
      \<lparr>ar_allowed = True, ar_reason = ''admin_authorized'', ar_is_admin_command = True\<rparr> \<longleftrightarrow>
     is_admin_prefix (py_strip msg) \<and>
     (case map_of guard t of
        None \<Rightarrow> ty \<in> {''agent'', ''agent_bot''}
      | Some b \<Rightarrow> ty \<in> set (crb_authorized_sender_types b) \<and>
          (crb_authorized_sender_refs b = [] \<or> rf \<in> set (crb_authorized_sender_refs b)))"
  by (auto simp: CommandAuthorizationGuard_check_def CommandRequesterBinding_init_def Let_def split: option.splits)

lemma register_other_tenant:
  "crb_tenant_id b \<noteq> t \<Longrightarrow>
    CommandAuthorizationGuard_check (CommandAuthorizationGuard_register b guard) t ty rf msg =
    CommandAuthorizationGuard_check guard t ty rf msg"
  by (simp add: CommandAuthorizationGuard_check_def CommandAuthorizationGuard_register_def update_conv')

end
