(* ===== verification/Guardrails.thy ===== *)
theory Guardrails
  imports Regex
begin

text \<open>
  The text checks of the guardrails node (\<open>graph/nodes/guardrails.py\<close>) and the content filter
  (\<open>security/content_filter.py\<close>): removal of lines with internal markers, the blocklist, the near-duplicate
  test and the hedging patterns. The lines of the blocklist file are an argument. The pattern language
  the code uses (literals, classes, word boundaries, alternatives, options, optional case folding) is
  the type \<open>re\<close>; \<open>difflib.SequenceMatcher.ratio\<close> is \<open>matched\<close> over the lengths, compared as an exact
  fraction.
\<close>

section \<open>Content filter\<close>

definition BLOCKED_RESPONSE :: string where
  "BLOCKED_RESPONSE = ''Desculpe, n'' @ [CHR 0xE3] @ ''o posso te ajudar com esse assunto.''"

text \<open>The base character of the canonical decomposition of a Latin-1 character.\<close>

definition base_char :: "char \<Rightarrow> char" where
  "base_char c = (let n = (of_char c :: nat) in
     if 192 \<le> n \<and> n \<le> 197 then CHR ''A'' else if n = 199 then CHR ''C'' else if 200 \<le> n \<and> n \<le> 203 then CHR ''E''
     else if 204 \<le> n \<and> n \<le> 207 then CHR ''I'' else if n = 209 then CHR ''N'' else if 210 \<le> n \<and> n \<le> 214 then CHR ''O''
     else if 217 \<le> n \<and> n \<le> 220 then CHR ''U'' else if n = 221 then CHR ''Y''
     else if 224 \<le> n \<and> n \<le> 229 then CHR ''a'' else if n = 231 then CHR ''c'' else if 232 \<le> n \<and> n \<le> 235 then CHR ''e''
     else if 236 \<le> n \<and> n \<le> 239 then CHR ''i'' else if n = 241 then CHR ''n'' else if 242 \<le> n \<and> n \<le> 246 then CHR ''o''
     else if 249 \<le> n \<and> n \<le> 252 then CHR ''u'' else if n = 253 \<or> n = 255 then CHR ''y'' else c)"

fun collapse_spaces :: "string \<Rightarrow> string" where
  "collapse_spaces [] = []"
| "collapse_spaces [c] = [if py_space c then CHR '' '' else c]"
| "collapse_spaces (c # d # s) = (if py_space c \<and> py_space d then collapse_spaces (d # s)
     else (if py_space c then CHR '' '' else c) # collapse_spaces (d # s))"

definition normalize_text :: "string \<Rightarrow> string" where
  "normalize_text text = py_strip (collapse_spaces (py_lower (map base_char text)))"

definition load_entries :: "string list option \<Rightarrow> string list" where
  "load_entries file = (case file of None \<Rightarrow> []
     | Some lines \<Rightarrow> filter (\<lambda>e. e \<noteq> []) (map normalize_text
         (filter (\<lambda>l. l \<noteq> [] \<and> \<not> py_startswith l ''#'') (map py_strip lines))))"

definition entry_pattern :: "string \<Rightarrow> re" where
  "entry_pattern e = (if CHR '' '' \<in> set e then R_lit e else R_seq [R_bound, R_lit e, R_bound])"

definition compile_pattern :: "string list \<Rightarrow> re option" where
  "compile_pattern entries = (if entries = [] then None
     else Some (foldr (\<lambda>e r. R_alt (entry_pattern e) r) (butlast entries) (entry_pattern (last entries))))"

record ContentFilter =
  cf_file :: "string list option"
  cf_pattern :: "re option"

definition ContentFilter_load :: "ContentFilter \<Rightarrow> ContentFilter" where
  "ContentFilter_load cf = cf\<lparr>cf_pattern := compile_pattern (load_entries (cf_file cf))\<rparr>"

definition ContentFilter_init :: "string list option \<Rightarrow> ContentFilter" where
  "ContentFilter_init file = ContentFilter_load \<lparr>cf_file = file, cf_pattern = None\<rparr>"

definition ContentFilter_reload :: "string list option \<Rightarrow> ContentFilter \<Rightarrow> ContentFilter" where
  "ContentFilter_reload file cf = ContentFilter_load (cf\<lparr>cf_file := file\<rparr>)"

definition ContentFilter_contains_blocked_content :: "ContentFilter \<Rightarrow> string \<Rightarrow> bool" where
  "ContentFilter_contains_blocked_content cf text = (case cf_pattern cf of None \<Rightarrow> False
     | Some r \<Rightarrow> text \<noteq> [] \<and> re_search False r None (normalize_text text))"

definition ContentFilter_first_match :: "ContentFilter \<Rightarrow> string \<Rightarrow> string option" where
  "ContentFilter_first_match cf text = (if text = [] then None
     else case cf_pattern cf of None \<Rightarrow> None | Some r \<Rightarrow> re_find False r None (normalize_text text))"

section \<open>Guardrails\<close>

definition INTERNAL_MARKERS :: "string list" where
  "INTERNAL_MARKERS = [''<system>'', ''</system>'', ''<internal>'', ''chain-of-thought'', ''TOOL_CALL:'', ''INTERNAL:'']"

definition LOOP_WINDOW :: nat where
  "LOOP_WINDOW = 3"

definition LOW_CONFIDENCE_PATTERNS :: "re list" where
  "LOW_CONFIDENCE_PATTERNS = [
     R_seq [R_bound, R_lit ''n'', R_class (''a'' @ [CHR 0xE3]), R_lit ''o '', R_alt (R_lit ''sei'') (R_alt (R_lit ''tenho certeza'')
        (R_alt (R_lit ''estou seguro'') (R_lit ''consigo confirmar''))), R_bound],
     R_seq [R_bound, R_lit ''n'', R_class (''a'' @ [CHR 0xE3]), R_lit ''o tenho '', R_alt (R_seq [R_lit ''informa'',
        R_class (''c'' @ [CHR 0xE7]), R_class (''o'' @ [CHR 0xF5]), R_lit ''es'']) (R_alt (R_lit ''dados'') (R_lit
        ''contexto'')), R_lit '' suficiente'', R_opt (R_lit ''s''), R_bound],
     R_seq [R_bound, R_lit ''pode'', R_opt (R_lit ''ria''), R_lit '' '', R_alt (R_lit ''ser'') (R_lit ''estar''), R_lit '' errado'',
        R_bound],
     R_seq [R_bound, R_alt (R_lit ''talvez'') (R_alt (R_lit ''provavelmente'') (R_lit ''possivelmente'')), R_lit '' '',
        R_alt (R_lit ''sim'') (R_alt (R_seq [R_lit ''n'', R_class (''a'' @ [CHR 0xE3]), R_lit ''o'']) (R_alt (R_lit
        ''seja'') (R_lit ''esteja''))), R_bound],
     R_seq [R_bound, R_alt (R_lit ''recomendo'') (R_lit ''sugiro''), R_lit '' '', R_alt (R_lit ''consultar'') (R_alt (R_lit
        ''verificar com'') (R_lit ''falar com'')), R_lit '' '', R_opt (R_seq [R_lit ''u'', R_opt (R_lit ''m''), R_lit
        '' '']), R_alt (R_seq [R_lit ''m'', R_class (''e'' @ [CHR 0xE9]), R_lit ''dico'']) (R_alt (R_lit ''advogado'')
        (R_alt (R_lit ''especialista'') (R_alt (R_lit ''profissional'') (R_alt (R_lit ''humano'') (R_lit
        ''atendente''))))), R_bound],
     R_seq [R_bound, R_lit ''n'', R_class (''a'' @ [CHR 0xE3]), R_lit ''o '', R_alt (R_lit ''posso'') (R_lit ''consigo''),
        R_lit '' '', R_alt (R_lit ''garantir'') (R_alt (R_lit ''confirmar'') (R_lit ''afirmar'')), R_bound],
     R_seq [R_bound, R_lit ''i '', R_alt (R_seq [R_lit ''don'', R_opt (R_lit [CHR 0x27]), R_lit ''t'']) (R_lit ''do not''),
        R_lit '' know'', R_bound],
     R_seq [R_bound, R_lit ''i'', R_opt (R_lit [CHR 0x27]), R_lit ''m not sure'', R_bound],
     R_seq [R_bound, R_lit ''i cannot '', R_alt (R_lit ''be certain'') (R_alt (R_lit ''confirm'') (R_lit ''guarantee'')),
        R_bound],
     R_seq [R_bound, R_lit ''I '', R_alt (R_lit ''may'') (R_lit ''might''), R_lit '' be wrong'', R_bound],
     R_seq [R_bound, R_lit ''you '', R_alt (R_lit ''should'') (R_lit ''may want to''), R_lit '' '', R_alt (R_lit
        ''consult'') (R_alt (R_lit ''ask'') (R_alt (R_lit ''verify'') (R_lit ''check with''))), R_lit '' '', R_seq
        [R_lit ''a '', R_alt (R_lit ''doctor'') (R_alt (R_lit ''lawyer'') (R_alt (R_lit ''professional'') (R_alt
        (R_lit ''specialist'') (R_lit ''human''))))], R_bound],
     R_seq [R_bound, R_lit ''I don'', R_opt (R_lit [CHR 0x27]), R_lit ''t have '', R_alt (R_lit ''enough'') (R_alt (R_lit
        ''sufficient'') (R_lit ''the right'')), R_lit '' '', R_alt (R_lit ''information'') (R_alt (R_lit ''data'')
        (R_lit ''context'')), R_bound]]"

definition HITL_ESCALATION_RESPONSE :: string where
  "HITL_ESCALATION_RESPONSE = ''Quero ter certeza de que vou resolver isso da melhor forma. Vou conectar voc'' @ [CHR 0xEA] @ '' com um membro da equipe que pode ajudar.''"

definition drop_marked_lines :: "string \<Rightarrow> string \<Rightarrow> string" where
  "drop_marked_lines marker result = (if py_contains (py_lower marker) (py_lower result)
     then join_with [CHR 0x0A] (filter (\<lambda>line. \<not> py_contains (py_lower marker) (py_lower line)) (split_on (CHR 0x0A) result))
     else result)"

definition strip_internal_markers :: "string \<Rightarrow> string" where
  "strip_internal_markers text = py_strip (fold drop_marked_lines INTERNAL_MARKERS text)"

text \<open>\<open>find_longest_match\<close> without junk: the longest common block, the earliest in the first text and
  then the earliest in the second; \<open>matched\<close> is the total size of the matching blocks.\<close>

fun common_prefix :: "string \<Rightarrow> string \<Rightarrow> nat" where
  "common_prefix (c # a) (d # b) = (if c = d then Suc (common_prefix a b) else 0)"
| "common_prefix _ _ = 0"

definition all_blocks :: "string \<Rightarrow> string \<Rightarrow> (nat \<times> nat \<times> nat) list" where
  "all_blocks a b = concat (map (\<lambda>i. map (\<lambda>j. (i, j, common_prefix (drop i a) (drop j b))) [0..<length b]) [0..<length a])"

definition longest_match :: "string \<Rightarrow> string \<Rightarrow> nat \<times> nat \<times> nat" where
  "longest_match a b = foldl (\<lambda>best m. if snd (snd m) > snd (snd best) then m else best) (0, 0, 0) (all_blocks a b)"

lemma common_prefix_le: "common_prefix a b \<le> length a" "common_prefix a b \<le> length b"
  by (induction a b rule: common_prefix.induct) auto

lemma longest_match_in:
  "longest_match a b = (0, 0, 0) \<or> longest_match a b \<in> set (all_blocks a b)"
proof -
  have "foldl (\<lambda>best m. if snd (snd m) > snd (snd best) then m else best) x ms = x \<or>
      foldl (\<lambda>best m. if snd (snd m) > snd (snd best) then m else best) x ms \<in> set ms"
    for x :: "nat \<times> nat \<times> nat" and ms
  proof (induction ms arbitrary: x)
    case (Cons m ms)
    show ?case using Cons.IH [of m] Cons.IH [of x] by simp blast
  qed simp
  then show ?thesis unfolding longest_match_def .
qed

lemma longest_match_bounds:
  assumes "longest_match a b = (i, j, k)" and "0 < k"
  shows "i < length a" "i + k \<le> length a" "j + k \<le> length b"
  using longest_match_in [of a b] assms common_prefix_le [of "drop i a" "drop j b"]
  by (auto simp: all_blocks_def)

function matched :: "string \<Rightarrow> string \<Rightarrow> nat" where
  "matched a b = (case longest_match a b of (i, j, k) \<Rightarrow>
     if k = 0 then 0 else k + matched (take i a) (take j b) + matched (drop (i + k) a) (drop (j + k) b))"
  by pat_completeness auto
termination
  by (relation "measure (\<lambda>(a, b). length a)") (auto dest!: longest_match_bounds(1) [OF sym])

declare matched.simps [simp del]

definition near_duplicate :: "string \<Rightarrow> string \<Rightarrow> bool" where
  "near_duplicate a b = (17 * (length a + length b) \<le> 40 * matched a b)"

definition is_looping :: "string \<Rightarrow> string list \<Rightarrow> bool" where
  "is_looping response history =
     list_ex (\<lambda>past. near_duplicate (py_lower response) (py_lower past)) (last_n LOOP_WINDOW history)"

definition is_low_confidence :: "string \<Rightarrow> bool" where
  "is_low_confidence response = list_ex (\<lambda>r. re_search True r None response) LOW_CONFIDENCE_PATTERNS"

section \<open>Lemmas on texts\<close>

lemma py_contains_iff: "py_contains p s \<longleftrightarrow> (\<exists>u v. s = u @ p @ v)"
proof (induction s)
  case (Cons c s)
  have "(\<exists>u v. c # s = u @ p @ v) \<longleftrightarrow> (\<exists>v. c # s = p @ v) \<or> (\<exists>u v. s = u @ p @ v)"
    by (metis append_Cons append_Nil list.exhaust_sel list.inject list.sel(3) list.distinct(1))
  moreover have "(\<exists>v. c # s = p @ v) \<longleftrightarrow> py_startswith (c # s) p"
    by (auto simp: py_startswith_def) (metis append_take_drop_id)
  ultimately show ?case using Cons by simp
qed auto

lemma contains_trans: "py_contains p l \<Longrightarrow> s = u @ l @ v \<Longrightarrow> py_contains p s"
  unfolding py_contains_iff by (metis append.assoc)

lemma contains_around:
  assumes "c \<notin> set p" and "py_contains p (xs @ c # ys)"
  shows "py_contains p xs \<or> py_contains p ys"
proof -
  obtain u v where e: "xs @ c # ys = u @ p @ v" using assms(2) unfolding py_contains_iff by blast
  show ?thesis
  proof (cases "length (u @ p) \<le> length xs")
    case True
    then have "\<exists>w. xs = (u @ p) @ w" using e by (metis append.assoc append_eq_append_conv_if append_take_drop_id)
    then show ?thesis unfolding py_contains_iff by auto
  next
    case False
    have "length xs < length u"
    proof (rule ccontr)
      assume "\<not> length xs < length u"
      then have "length xs - length u < length p" using False by auto
      moreover have "(u @ p @ v) ! length xs = c" by (metis e nth_append_length)
      ultimately have "p ! (length xs - length u) = c"
        using \<open>\<not> length xs < length u\<close> by (simp add: nth_append)
      then show False using assms(1) \<open>length xs - length u < length p\<close> nth_mem by blast
    qed
    then have "ys = drop (Suc (length xs)) u @ p @ v"
      using arg_cong [OF e, of "drop (Suc (length xs))"] by simp
    then show ?thesis unfolding py_contains_iff by blast
  qed
qed

lemma contains_join:
  assumes "c \<notin> set p" and "p \<noteq> []" and "py_contains p (join_with [c] ls)"
  shows "\<exists>l\<in>set ls. py_contains p l"
  using assms(3)
proof (induction "[c]" ls rule: join_with.induct)
  case (3 x y ys)
  then show ?case using contains_around [OF assms(1), of x "join_with [c] (y # ys)"] by auto
qed (use assms(2) in auto)

lemma split_on_sub: "l \<in> set (split_on c s) \<Longrightarrow> \<exists>u v. s = u @ l @ v"
proof (induction s arbitrary: l)
  case (Cons d s)
  show ?case
  proof (cases "d = c \<and> l \<noteq> []")
    case True
    then have "l \<in> set (split_on c s)" using Cons.prems by auto
    from Cons.IH [OF this] show ?thesis by (metis append_Cons)
  next
    case other: False
    obtain x xs where x: "split_on c s = x # xs" by (cases "split_on c s") auto
    have "\<exists>v. s = x @ v"
    proof (cases xs)
      case Nil
      then show ?thesis using join_split_on [of c s] x by simp
    next
      case (Cons y ys)
      then show ?thesis using join_split_on [of c s] x by simp metis
    qed
    then show ?thesis using Cons.prems Cons.IH x other
      by (cases "d = c") (auto, metis append_Cons append_Nil, metis append_Cons)
  qed
qed simp

lemma py_strip_sub: "\<exists>u v. s = u @ py_strip s @ v"
proof -
  let ?t = "dropWhile py_space s"
  have "s = takeWhile py_space s @ ?t" by simp
  moreover have "?t = rev (dropWhile py_space (rev ?t)) @ rev (takeWhile py_space (rev ?t))"
    by (metis rev_append rev_rev_ident takeWhile_dropWhile_id)
  ultimately show ?thesis unfolding py_strip_def by metis
qed

lemma py_lower_append: "py_lower (a @ b) = py_lower a @ py_lower b"
  by (simp add: py_lower_def)

lemma lower_newline: "lower_char (CHR 0x0A) = CHR 0x0A"
  by code_simp

lemma py_lower_join: "py_lower (join_with [CHR 0x0A] ls) = join_with [CHR 0x0A] (map py_lower ls)"
  by (induction "[CHR 0x0A]" ls rule: join_with.induct) (simp_all add: py_lower_def lower_newline)

text \<open>Whether a text shows a marker, whatever its case.\<close>

definition shows_marker :: "string \<Rightarrow> string \<Rightarrow> bool" where
  "shows_marker marker text = py_contains (py_lower marker) (py_lower text)"

lemma shows_marker_sub:
  assumes "shows_marker m l" and "s = u @ l @ v"
  shows "shows_marker m s"
  using assms contains_trans [of "py_lower m" "py_lower l" "py_lower s" "py_lower u" "py_lower v"]
  by (simp add: shows_marker_def py_lower_append)

lemma shows_marker_join:
  assumes "CHR 0x0A \<notin> set (py_lower m)" and "m \<noteq> []" and "shows_marker m (join_with [CHR 0x0A] ls)"
  shows "\<exists>l\<in>set ls. shows_marker m l"
  using contains_join [OF assms(1), of "map py_lower ls"] assms(2,3)
  by (auto simp: shows_marker_def py_lower_join) (simp add: py_lower_def)

lemma drop_marked_lines_sound:
  assumes "CHR 0x0A \<notin> set (py_lower m)" and "m \<noteq> []"
  shows "\<not> shows_marker m (drop_marked_lines m text)"
  by (auto simp: drop_marked_lines_def simp flip: shows_marker_def dest!: shows_marker_join [OF assms])

lemma drop_marked_lines_keeps:
  assumes "CHR 0x0A \<notin> set (py_lower m)" and "m \<noteq> []" and "\<not> shows_marker m text"
  shows "\<not> shows_marker m (drop_marked_lines m' text)"
proof
  assume "shows_marker m (drop_marked_lines m' text)"
  then obtain l where "l \<in> set (split_on (CHR 0x0A) text)" "shows_marker m l"
    using assms(3) by (auto simp: drop_marked_lines_def split: if_splits dest!: shows_marker_join [OF assms(1,2)])
  then show False using assms(3) split_on_sub shows_marker_sub by metis
qed

lemma fold_drop_marked_lines:
  assumes "\<forall>m\<in>set ms \<union> M. CHR 0x0A \<notin> set (py_lower m) \<and> m \<noteq> []" and "\<forall>m\<in>M. \<not> shows_marker m body"
  shows "\<forall>m\<in>set ms \<union> M. \<not> shows_marker m (fold drop_marked_lines ms body)"
  using assms
proof (induction ms arbitrary: body M)
  case (Cons m ms)
  have "\<forall>m'\<in>insert m M. \<not> shows_marker m' (drop_marked_lines m body)"
    using Cons.prems drop_marked_lines_sound drop_marked_lines_keeps by auto
  from Cons.IH [OF _ this] Cons.prems(1) show ?case by auto
qed simp


lemma marker_needs_chars: "shows_marker m text \<Longrightarrow> set (py_lower m) \<subseteq> set (py_lower text)"
  by (auto simp: shows_marker_def py_contains_iff)

lemma blocked_response_plain: "\<forall>c\<in>set (py_lower BLOCKED_RESPONSE). c \<notin> set ''<-:''"
  by (simp add: py_lower_def BLOCKED_RESPONSE_def lower_char_def char_of_eq_iff)

lemma markers_marked: "\<forall>m\<in>set INTERNAL_MARKERS. \<exists>c\<in>set ''<-:''. c \<in> set (py_lower m)"
  by (simp add: INTERNAL_MARKERS_def py_lower_def lower_char_def)

lemma blocked_response_unmarked: "list_all (\<lambda>m. \<not> shows_marker m BLOCKED_RESPONSE) INTERNAL_MARKERS"
  unfolding list_all_iff using marker_needs_chars blocked_response_plain markers_marked by blast

lemma marker_shapes: "\<forall>m\<in>set INTERNAL_MARKERS. CHR 0x0A \<notin> set (py_lower m) \<and> m \<noteq> []"
  by code_simp

lemma strip_hides_markers: "m \<in> set INTERNAL_MARKERS \<Longrightarrow> \<not> shows_marker m (strip_internal_markers response)"
  using fold_drop_marked_lines [of INTERNAL_MARKERS "{}" response] marker_shapes
  unfolding strip_internal_markers_def by (metis UN_I Un_empty_right py_strip_sub shows_marker_sub empty_iff)

section \<open>Lemmas on near duplicates\<close>

lemma common_prefix_same [simp]: "common_prefix a a = length a"
  by (induction a) auto

lemma longest_match_same: "a \<noteq> [] \<Longrightarrow> longest_match a a = (0, 0, length a)"
proof -
  assume "a \<noteq> []"
  have keep: "foldl (\<lambda>best m. if snd (snd m) > snd (snd best) then m else best) (0, 0, length a) ms = (0, 0, length a)"
    if "\<forall>m\<in>set ms. snd (snd m) \<le> length a" for ms :: "(nat \<times> nat \<times> nat) list"
    using that by (induction ms) auto
  have u: "[0..<length a] = 0 # [Suc 0..<length a]" using \<open>a \<noteq> []\<close> by (simp add: upt_conv_Cons)
  have b: "all_blocks a a = (0, 0, length a) # tl (all_blocks a a)"
    by (simp add: all_blocks_def u)
  have "\<forall>m\<in>set (all_blocks a a). snd (snd m) \<le> length a"
    using common_prefix_le(1) le_trans by (fastforce simp: all_blocks_def)
  then have "\<forall>m\<in>set (tl (all_blocks a a)). snd (snd m) \<le> length a"
    by (metis list.set_sel(2) tl_Nil)
  then have "foldl (\<lambda>best m. if snd (snd m) > snd (snd best) then m else best) (0, 0, 0)
      ((0, 0, length a) # tl (all_blocks a a)) = (0, 0, length a)"
    using keep \<open>a \<noteq> []\<close> by simp
  then show ?thesis unfolding longest_match_def b [symmetric] .
qed

lemma matched_Nil: "matched [] b = 0" "matched a [] = 0"
proof -
  have "all_blocks [] b = []" "all_blocks a [] = []" by (auto simp: all_blocks_def concat_eq_Nil_conv)
  then show "matched [] b = 0" "matched a [] = 0" by (simp_all add: matched.simps longest_match_def)
qed

lemma matched_same: "matched a a = length a"
proof (cases "a = []")
  case False
  then show ?thesis by (subst matched.simps) (simp add: longest_match_same matched_Nil)
qed (simp add: matched_Nil)

lemma near_duplicate_refl: "near_duplicate a a"
  by (simp add: near_duplicate_def matched_same)

section \<open>Lemmas on patterns\<close>

text \<open>A word of a text: neither its first nor its last character continues a run of word characters.\<close>

definition whole_word :: "string \<Rightarrow> string \<Rightarrow> string \<Rightarrow> bool" where
  "whole_word u e v \<longleftrightarrow> at_boundary (last_opt None u, e @ v) \<and> at_boundary (last_opt None (u @ e), v)"

lemma entry_pattern_iff:
  "re_ends False (entry_pattern e) (last_opt None u, v) \<noteq> [] \<longleftrightarrow>
     (\<exists>w. v = e @ w \<and> (CHR '' '' \<in> set e \<or> whole_word u e w))"
proof (cases "CHR '' '' \<in> set e")
  case True
  then show ?thesis by (simp only: entry_pattern_def if_True re_ends_lit) simp
next
  case False
  have "re_ends False (entry_pattern e) (last_opt None u, v) \<noteq> [] \<longleftrightarrow>
      at_boundary (last_opt None u, v) \<and> take (length e) v = e \<and> at_boundary (advance (length e) (last_opt None u, v))"
    using False
    by (cases "at_boundary (last_opt None u, v)"; cases "take (length e) v = e";
        cases "at_boundary (advance (length e) (last_opt None u, v))") (simp_all add: entry_pattern_def)
  also have "\<dots> \<longleftrightarrow> (\<exists>w. v = e @ w \<and> whole_word u e w)"
    by (auto simp: whole_word_def advance_append last_opt_append) (metis advance_append append_take_drop_id)
  finally show ?thesis using False by simp
qed

lemma compile_pattern_iff:
  assumes "compile_pattern es = Some r"
  shows "re_ends False r pos \<noteq> [] \<longleftrightarrow> (\<exists>e\<in>set es. re_ends False (entry_pattern e) pos \<noteq> [])"
proof -
  have "re_ends False (foldr (\<lambda>e r. R_alt (entry_pattern e) r) xs r0) pos \<noteq> [] \<longleftrightarrow>
      (\<exists>e\<in>set xs. re_ends False (entry_pattern e) pos \<noteq> []) \<or> re_ends False r0 pos \<noteq> []" for xs r0
    by (induction xs) auto
  moreover have "set es = insert (last es) (set (butlast es))" if "es \<noteq> []"
    using that by (metis append_butlast_last_id list.set(2) set_append sup_commute Un_insert_left sup_bot_left set_simps(1))
  ultimately show ?thesis using assms by (auto simp: compile_pattern_def split: if_splits)
qed

text \<open>The reported match is an entry of the blocklist, and there is one exactly when the text is blocked.\<close>

lemma entry_pattern_cut:
  assumes "(q, t) \<in> set (re_ends False (entry_pattern e) (p, v))"
  shows "take (length v - length t) v = e"
proof -
  have "take (length e) v = e \<and> t = drop (length e) v"
  proof (cases "CHR '' '' \<in> set e")
    case True
    then show ?thesis using assms
      by (auto simp: entry_pattern_def split: if_splits) (metis advance_append append_take_drop_id snd_conv)
  next
    case False
    then show ?thesis using assms
      by (auto simp: entry_pattern_def split: if_splits) (metis advance_append append_take_drop_id snd_conv)
  qed
  then show ?thesis by (metis append_take_drop_id length_append diff_add_inverse2 append_eq_conv_conj)
qed

lemma compile_pattern_ends:
  assumes "compile_pattern es = Some r" and "x \<in> set (re_ends False r pos)"
  shows "\<exists>e\<in>set es. x \<in> set (re_ends False (entry_pattern e) pos)"
proof -
  have alt: "set (re_ends False (foldr (\<lambda>e r. R_alt (entry_pattern e) r) xs r0) pos) =
      (\<Union>e\<in>set xs. set (re_ends False (entry_pattern e) pos)) \<union> set (re_ends False r0 pos)" for xs r0
    by (induction xs) auto
  have es: "es \<noteq> []" and r: "r = foldr (\<lambda>e r. R_alt (entry_pattern e) r) (butlast es) (entry_pattern (last es))"
    using assms(1) by (auto simp: compile_pattern_def split: if_splits)
  show ?thesis using assms(2) es in_set_butlastD last_in_set unfolding r alt by fast
qed

lemma first_match_blocked:
  "(ContentFilter_first_match cf text \<noteq> None) = ContentFilter_contains_blocked_content cf text"
  by (auto simp: ContentFilter_first_match_def ContentFilter_contains_blocked_content_def re_find_search [symmetric]
      split: option.split)

lemma first_match_entry:
  assumes "ContentFilter_first_match (ContentFilter_init file) text = Some w"
  shows "w \<in> set (load_entries file)"
proof -
  obtain r where r: "compile_pattern (load_entries file) = Some r" "re_find False r None (normalize_text text) = Some w"
    using assms by (auto simp: ContentFilter_first_match_def ContentFilter_init_def ContentFilter_load_def split: if_splits option.splits)
  from re_find_Some [OF r(2)] obtain u v q t
    where "(q, t) \<in> set (re_ends False r (last_opt None u, v))" "w = take (length v - length t) v" by blast
  then show ?thesis using compile_pattern_ends [OF r(1)] entry_pattern_cut by blast
qed


lemma load_entries_not_Nil: "e \<in> set (load_entries file) \<Longrightarrow> e \<noteq> []"
  by (auto simp: load_entries_def split: option.splits)

lemma normalize_Nil: "normalize_text [] = []"
  by (simp add: normalize_text_def py_lower_def)

lemma lower_vowels:
  "lower_char (CHR ''A'') = CHR ''a''" "lower_char (CHR ''C'') = CHR ''c''" "lower_char (CHR ''E'') = CHR ''e''"
  "lower_char (CHR ''I'') = CHR ''i''" "lower_char (CHR ''N'') = CHR ''n''" "lower_char (CHR ''O'') = CHR ''o''"
  "lower_char (CHR ''U'') = CHR ''u''" "lower_char (CHR ''Y'') = CHR ''y''" "lower_char (CHR ''a'') = CHR ''a''"
  "lower_char (CHR ''c'') = CHR ''c''" "lower_char (CHR ''e'') = CHR ''e''" "lower_char (CHR ''i'') = CHR ''i''"
  "lower_char (CHR ''n'') = CHR ''n''" "lower_char (CHR ''o'') = CHR ''o''" "lower_char (CHR ''u'') = CHR ''u''"
  "lower_char (CHR ''y'') = CHR ''y''"
  by (code_simp+)

lemma lower_char_idem: "lower_char (lower_char c) = lower_char c"
  by (auto simp: lower_char_def Let_def)

lemma base_lower_char: "lower_char (base_char (lower_char c)) = lower_char (base_char c)"
proof -
  let ?n = "of_char c :: nat"
  consider "65 \<le> ?n \<and> ?n \<le> 90" | "192 \<le> ?n \<and> ?n \<le> 222 \<and> ?n \<noteq> 215"
    | "\<not> (65 \<le> ?n \<and> ?n \<le> 90)" "\<not> (192 \<le> ?n \<and> ?n \<le> 222 \<and> ?n \<noteq> 215)" by blast
  then show ?thesis
  proof cases
    case 1
    then have "base_char (lower_char c) = lower_char c" "base_char c = c"
      by (auto simp: lower_char_def base_char_def Let_def)
    then show ?thesis by (simp add: lower_char_idem)
  next
    case 2
    define d where "d = lower_char c"
    have "d = char_of (?n + 32)" using 2 by (simp add: d_def lower_char_def Let_def)
    then have n: "of_char d = ?n + 32" using 2 by simp
    have "lower_char d = d" by (simp add: d_def lower_char_idem)
    then have "lower_char (base_char d) = lower_char (base_char c)"
      using 2 d_def unfolding base_char_def [of d] base_char_def [of c] n Let_def
      by (auto simp: lower_vowels)
    then show ?thesis by (simp add: d_def)
  next
    case 3
    then have "lower_char c = c" by (auto simp: lower_char_def Let_def)
    then show ?thesis by simp
  qed
qed

section \<open>Properties\<close>

text \<open>C17: No internal marker survives: whatever the agent answered, the sanitized response shows none of
  the six markers in any mixture of cases, on any line.\<close>

theorem no_marker_leak:
  "list_all (\<lambda>m. \<not> shows_marker m (strip_internal_markers response)) INTERNAL_MARKERS"
  using strip_hides_markers by (simp add: list_all_iff)

text \<open>C16: The compiled blocklist pattern means what the blocklist says: a response is blocked exactly
  when its normalized text contains a normalized entry, as a whole word if the entry is one word and
  anywhere if it is a phrase; the case of the response makes no difference.\<close>

theorem blocked_content_exact:
  "(ContentFilter_contains_blocked_content (ContentFilter_init file) response \<longleftrightarrow>
     (\<exists>e\<in>set (load_entries file). \<exists>u v. normalize_text response = u @ e @ v \<and>
        (CHR '' '' \<in> set e \<or> whole_word u e v))) \<and>
   ContentFilter_contains_blocked_content (ContentFilter_init file) (py_lower response) =
     ContentFilter_contains_blocked_content (ContentFilter_init file) response"
proof (intro conjI)
  let ?es = "load_entries file"
  show "ContentFilter_contains_blocked_content (ContentFilter_init file) response \<longleftrightarrow>
     (\<exists>e\<in>set ?es. \<exists>u v. normalize_text response = u @ e @ v \<and> (CHR '' '' \<in> set e \<or> whole_word u e v))"
  proof (cases "compile_pattern ?es")
    case None
    then show ?thesis
      by (auto simp: ContentFilter_contains_blocked_content_def ContentFilter_init_def ContentFilter_load_def
          compile_pattern_def split: if_splits)
  next
    case (Some r)
    have "re_search False r None (normalize_text response) \<longleftrightarrow>
        (\<exists>e\<in>set ?es. \<exists>u v. normalize_text response = u @ v \<and> re_ends False (entry_pattern e) (last_opt None u, v) \<noteq> [])"
      unfolding re_search_iff compile_pattern_iff [OF Some] by blast
    also have "\<dots> \<longleftrightarrow> (\<exists>e\<in>set ?es. \<exists>u v. normalize_text response = u @ e @ v \<and> (CHR '' '' \<in> set e \<or> whole_word u e v))"
      unfolding entry_pattern_iff by blast
    finally show ?thesis
      using Some load_entries_not_Nil
      by (cases "response = []")
        (auto simp: ContentFilter_contains_blocked_content_def ContentFilter_init_def ContentFilter_load_def normalize_Nil)
  qed
  have "normalize_text (py_lower response) = normalize_text response"
    by (simp add: normalize_text_def py_lower_def base_lower_char comp_def)
  then show "ContentFilter_contains_blocked_content (ContentFilter_init file) (py_lower response) =
     ContentFilter_contains_blocked_content (ContentFilter_init file) response"
    by (auto simp: ContentFilter_contains_blocked_content_def split: option.splits) (simp add: py_lower_def)+
qed

end
