(* ===== verification/Memory.thy ===== *)
theory Memory
  imports Tenancy
begin

text \<open>
  The governed memory: the in-process store (\<open>memory/store.py\<close>) and the table-backed one
  (\<open>memory/postgres_store.py\<close>). What both promise (a stored item is recalled until it expires, erasure
  and anonymization act on one key) is the locale \<open>governed_memory\<close>; its client lemmas show that
  erasure and anonymization are durable under any later operations that do not store the key again.
\<close>

section \<open>Contract\<close>

definition ANONYMIZED :: string where
  "ANONYMIZED = ''[ANONYMIZED]''"

datatype memory_op = M_store time string string | M_purge string | M_anonymize string

locale governed_memory =
  fixes inv :: "'s \<Rightarrow> bool" and ttl :: "'s \<Rightarrow> int"
    and put :: "time \<Rightarrow> string \<Rightarrow> string \<Rightarrow> 's \<Rightarrow> 's" and recall :: "'s \<Rightarrow> time \<Rightarrow> string \<Rightarrow> string option"
    and erase :: "string \<Rightarrow> 's \<Rightarrow> 's" and anon :: "string \<Rightarrow> 's \<Rightarrow> 's"
  assumes inv_put: "inv s \<Longrightarrow> inv (put now k c s)" and inv_erase: "inv s \<Longrightarrow> inv (erase k s)"
    and inv_anon: "inv s \<Longrightarrow> inv (anon k s)"
    and recall_put: "inv s \<Longrightarrow> t < now + ttl s \<Longrightarrow> recall (put now k c s) t k = Some c"
    and recall_put_other: "inv s \<Longrightarrow> k' \<noteq> k \<Longrightarrow> recall (put now k c s) t k' = recall s t k'"
    and recall_erase: "inv s \<Longrightarrow> recall (erase k s) t k' = (if k' = k then None else recall s t k')"
    and recall_anon: "inv s \<Longrightarrow> recall (anon k s) t k' =
      (if k' = k then map_option (\<lambda>_. ANONYMIZED) (recall s t k) else recall s t k')"
begin

fun apply_op :: "memory_op \<Rightarrow> 's \<Rightarrow> 's" where
  "apply_op (M_store now k c) s = put now k c s"
| "apply_op (M_purge k) s = erase k s"
| "apply_op (M_anonymize k) s = anon k s"

definition stores :: "string \<Rightarrow> memory_op \<Rightarrow> bool" where
  "stores k m \<longleftrightarrow> (\<exists>now c. m = M_store now k c)"

lemma inv_op: "inv s \<Longrightarrow> inv (apply_op m s)"
  by (cases m) (auto simp: inv_put inv_erase inv_anon)

lemma op_keeps_erased:
  assumes "inv s" and "\<not> stores k m" and "recall s t k = None"
  shows "recall (apply_op m s) t k = None"
  using assms by (cases m) (auto simp: stores_def recall_put_other recall_erase recall_anon)

lemma op_keeps_anonymized:
  assumes "inv s" and "\<not> stores k m" and "recall s t k \<in> {None, Some ANONYMIZED}"
  shows "recall (apply_op m s) t k \<in> {None, Some ANONYMIZED}"
  using assms by (cases m) (auto simp: stores_def recall_put_other recall_erase recall_anon)

lemma fold_keeps:
  assumes step: "\<And>m s. m \<in> set ms \<Longrightarrow> inv s \<Longrightarrow> P s \<Longrightarrow> P (apply_op m s)" and "inv s" and "P s"
  shows "P (fold apply_op ms s) \<and> inv (fold apply_op ms s)"
  using assms by (induction ms arbitrary: s) (auto simp: inv_op)

lemma erased_for_good:
  assumes "inv s" and "\<forall>m\<in>set ms. \<not> stores k m"
  shows "recall (fold apply_op ms (erase k s)) t k = None"
  using fold_keeps [of ms "\<lambda>s. recall s t k = None" "erase k s"] assms
  by (simp add: op_keeps_erased recall_erase inv_erase)

lemma anonymized_for_good:
  assumes "inv s" and "\<forall>m\<in>set ms. \<not> stores k m"
  shows "recall (fold apply_op ms (anon k s)) t k \<in> {None, Some ANONYMIZED}"
proof -
  have "recall (anon k s) t k \<in> {None, Some ANONYMIZED}" using assms(1)
    by (cases "recall s t k") (simp_all add: recall_anon)
  then show ?thesis
    using fold_keeps [of ms "\<lambda>s. recall s t k \<in> {None, Some ANONYMIZED}" "anon k s"] assms op_keeps_anonymized
    by (auto simp: inv_anon)
qed

end

section \<open>In-process store\<close>

record MemoryItem =
  mi_key :: string
  mi_namespace :: string
  mi_content :: string
  mi_ttl_days :: int
  mi_created_at :: time
  mi_expires_at :: time
  mi_consent_ref :: "string option"
  mi_is_anonymized :: bool

record MemoryStore =
  mst_tenant_id :: string
  mst_namespace :: string
  mst_enabled :: bool
  mst_ttl_days :: int
  mst_items :: "(string \<times> MemoryItem) list"

definition MemoryItem_init :: "time \<Rightarrow> string \<Rightarrow> string \<Rightarrow> string \<Rightarrow> int \<Rightarrow> string option \<Rightarrow> MemoryItem" where
  "MemoryItem_init now key namespace content ttl_days consent_ref =
     \<lparr>mi_key = key, mi_namespace = namespace, mi_content = content, mi_ttl_days = ttl_days, mi_created_at = now,
      mi_expires_at = now + ttl_days * day, mi_consent_ref = consent_ref, mi_is_anonymized = False\<rparr>"

definition MemoryStore_init :: "string \<Rightarrow> string option \<Rightarrow> bool \<Rightarrow> int \<Rightarrow> MemoryStore" where
  "MemoryStore_init tenant_id namespace enabled ttl_days =
     \<lparr>mst_tenant_id = tenant_id, mst_namespace = (case namespace of Some (c # n) \<Rightarrow> c # n | _ \<Rightarrow> tenant_id),
      mst_enabled = enabled, mst_ttl_days = ttl_days, mst_items = []\<rparr>"

definition MemoryStore_store :: "time \<Rightarrow> string \<Rightarrow> string \<Rightarrow> string option \<Rightarrow> MemoryStore \<Rightarrow> bool \<times> MemoryStore" where
  "MemoryStore_store now key content consent_ref st =
     (if \<not> mst_enabled st then (False, st)
      else (True, st\<lparr>mst_items := AList.update key
        (MemoryItem_init now key (mst_namespace st) content (mst_ttl_days st) consent_ref) (mst_items st)\<rparr>))"

definition MemoryStore_retrieve :: "time \<Rightarrow> string \<Rightarrow> MemoryStore \<Rightarrow> MemoryItem option \<times> MemoryStore" where
  "MemoryStore_retrieve now key st =
     (if \<not> mst_enabled st then (None, st)
      else case map_of (mst_items st) key of
        None \<Rightarrow> (None, st)
      | Some item \<Rightarrow> if now > mi_expires_at item
          then (None, st\<lparr>mst_items := AList.delete key (mst_items st)\<rparr>) else (Some item, st))"

definition MemoryStore_purge :: "string \<Rightarrow> MemoryStore \<Rightarrow> bool \<times> MemoryStore" where
  "MemoryStore_purge key st = (case map_of (mst_items st) key of None \<Rightarrow> (False, st)
     | Some _ \<Rightarrow> (True, st\<lparr>mst_items := AList.delete key (mst_items st)\<rparr>))"

definition MemoryStore_anonymize :: "string \<Rightarrow> MemoryStore \<Rightarrow> bool \<times> MemoryStore" where
  "MemoryStore_anonymize key st = (case map_of (mst_items st) key of None \<Rightarrow> (False, st)
     | Some item \<Rightarrow> (True, st\<lparr>mst_items := AList.update key
          (item\<lparr>mi_content := ANONYMIZED, mi_is_anonymized := True\<rparr>) (mst_items st)\<rparr>))"

definition mem_recall :: "MemoryStore \<Rightarrow> time \<Rightarrow> string \<Rightarrow> string option" where
  "mem_recall st t key = map_option mi_content (fst (MemoryStore_retrieve t key st))"

interpretation mem: governed_memory mst_enabled "\<lambda>st. mst_ttl_days st * day"
  "\<lambda>now k c st. snd (MemoryStore_store now k c consent st)" mem_recall
  "\<lambda>k st. snd (MemoryStore_purge k st)" "\<lambda>k st. snd (MemoryStore_anonymize k st)" for consent
  by unfold_locales
    (auto simp: MemoryStore_store_def MemoryStore_purge_def MemoryStore_anonymize_def mem_recall_def MemoryItem_init_def
      MemoryStore_retrieve_def update_conv' delete_conv' split: option.splits)

section \<open>Table-backed store\<close>

record AgentMemoryItem =
  am_id :: uuid
  am_tenant_id :: uuid
  am_namespace :: string
  am_item_key :: string
  am_content :: string
  am_ttl_days :: int
  am_consent_ref :: "string option"
  am_is_anonymized :: bool
  am_updated_at :: time
  am_expires_at :: time

type_synonym memory_table = "AgentMemoryItem list"

record PostgresMemoryStore =
  pms_tenant_id :: string
  pms_namespace :: string
  pms_enabled :: bool
  pms_ttl_days :: int

definition memory_row :: "PostgresMemoryStore \<Rightarrow> string \<Rightarrow> AgentMemoryItem \<Rightarrow> bool" where
  "memory_row ms key r \<longleftrightarrow> am_namespace r = pms_namespace ms \<and> am_item_key r = key"

definition PostgresMemoryStore_init :: "string \<Rightarrow> string option \<Rightarrow> bool \<Rightarrow> int \<Rightarrow> PostgresMemoryStore" where
  "PostgresMemoryStore_init tenant_id namespace enabled ttl_days =
     \<lparr>pms_tenant_id = tenant_id, pms_namespace = (case namespace of Some (c # n) \<Rightarrow> c # n | _ \<Rightarrow> tenant_id),
      pms_enabled = enabled, pms_ttl_days = ttl_days\<rparr>"

definition PostgresMemoryStore_store ::
    "PostgresMemoryStore \<Rightarrow> uuid \<Rightarrow> time \<Rightarrow> string \<Rightarrow> string \<Rightarrow> string option \<Rightarrow> memory_table \<Rightarrow> bool res \<times> memory_table" where
  "PostgresMemoryStore_store ms new_id now key content consent_ref rows =
     (if \<not> pms_enabled ms then (Inr False, rows)
      else let expires_at = now + pms_ttl_days ms * day in
        case find (memory_row ms key) rows of
          Some existing \<Rightarrow> (Inr True, upd_where (memory_row ms key)
            (\<lambda>r. r\<lparr>am_content := content, am_updated_at := now, am_expires_at := expires_at, am_consent_ref := consent_ref\<rparr>) rows)
        | None \<Rightarrow> (case UUID_of (pms_tenant_id ms) of
            Inl e \<Rightarrow> (Inl e, rows)
          | Inr u \<Rightarrow> (Inr True, rows @ [\<lparr>am_id = new_id, am_tenant_id = u, am_namespace = pms_namespace ms,
              am_item_key = key, am_content = content, am_ttl_days = pms_ttl_days ms, am_consent_ref = consent_ref,
              am_is_anonymized = False, am_updated_at = now, am_expires_at = expires_at\<rparr>])))"

definition PostgresMemoryStore_retrieve ::
    "PostgresMemoryStore \<Rightarrow> time \<Rightarrow> string \<Rightarrow> memory_table \<Rightarrow> AgentMemoryItem option" where
  "PostgresMemoryStore_retrieve ms now key rows =
     (if \<not> pms_enabled ms then None else find (\<lambda>r. memory_row ms key r \<and> am_expires_at r > now) rows)"

definition PostgresMemoryStore_list_recent ::
    "PostgresMemoryStore \<Rightarrow> time \<Rightarrow> nat \<Rightarrow> memory_table \<Rightarrow> AgentMemoryItem list" where
  "PostgresMemoryStore_list_recent ms now limit rows =
     (if \<not> pms_enabled ms then []
      else order_limit (\<lambda>r. - am_updated_at r) limit (filter (\<lambda>r. am_namespace r = pms_namespace ms \<and>
             am_expires_at r > now \<and> \<not> am_is_anonymized r) rows))"

definition PostgresMemoryStore_purge :: "PostgresMemoryStore \<Rightarrow> string \<Rightarrow> memory_table \<Rightarrow> bool \<times> memory_table" where
  "PostgresMemoryStore_purge ms key rows =
     (rows_matching (memory_row ms key) rows > 0, filter (\<lambda>r. \<not> memory_row ms key r) rows)"

definition PostgresMemoryStore_purge_tenant :: "PostgresMemoryStore \<Rightarrow> memory_table \<Rightarrow> nat res \<times> memory_table" where
  "PostgresMemoryStore_purge_tenant ms rows = (case UUID_of (pms_tenant_id ms) of
     Inl e \<Rightarrow> (Inl e, rows)
   | Inr u \<Rightarrow> (Inr (rows_matching (\<lambda>r. am_tenant_id r = u) rows), filter (\<lambda>r. am_tenant_id r \<noteq> u) rows))"

definition PostgresMemoryStore_anonymize :: "PostgresMemoryStore \<Rightarrow> string \<Rightarrow> memory_table \<Rightarrow> bool \<times> memory_table" where
  "PostgresMemoryStore_anonymize ms key rows =
     (rows_matching (memory_row ms key) rows > 0,
      upd_where (memory_row ms key) (\<lambda>r. r\<lparr>am_content := ANONYMIZED, am_is_anonymized := True\<rparr>) rows)"


definition memory_ok :: "PostgresMemoryStore \<Rightarrow> memory_table \<Rightarrow> bool" where
  "memory_ok ms rows \<longleftrightarrow> pms_enabled ms \<and> (\<exists>u. UUID_of (pms_tenant_id ms) = Inr u) \<and>
     distinct (map (\<lambda>r. (am_namespace r, am_item_key r)) rows)"

definition pg_recall :: "PostgresMemoryStore \<Rightarrow> memory_table \<Rightarrow> time \<Rightarrow> string \<Rightarrow> string option" where
  "pg_recall ms rows t key = map_option am_content (PostgresMemoryStore_retrieve ms t key rows)"

lemma find_memory_row:
  assumes "distinct (map (\<lambda>r. (am_namespace r, am_item_key r)) rows)" and "r \<in> set rows" and "memory_row ms k r" and "P r"
  shows "find (\<lambda>r. memory_row ms k r \<and> P r) rows = Some r"
  using assms by (induction rows) (force simp: memory_row_def)+

lemma pg_store_cases:
  assumes "memory_ok ms rows"
  shows "(\<exists>r. find (memory_row ms key) rows = Some r \<and>
      snd (PostgresMemoryStore_store ms i now key content c rows) = upd_where (memory_row ms key)
        (\<lambda>r. r\<lparr>am_content := content, am_updated_at := now, am_expires_at := now + pms_ttl_days ms * day, am_consent_ref := c\<rparr>) rows) \<or>
    (find (memory_row ms key) rows = None \<and>
      (\<exists>r. snd (PostgresMemoryStore_store ms i now key content c rows) = rows @ [r] \<and> memory_row ms key r \<and>
         am_content r = content \<and> am_expires_at r = now + pms_ttl_days ms * day))"
  using assms
  by (cases "find (memory_row ms key) rows")
    (auto simp: PostgresMemoryStore_store_def memory_ok_def memory_row_def Let_def)

lemma memory_ok_store:
  assumes "memory_ok ms rows"
  shows "memory_ok ms (snd (PostgresMemoryStore_store ms i now key content c rows))"
  using pg_store_cases [OF assms, of key i now content c] assms
proof (elim disjE exE conjE)
  fix r assume "snd (PostgresMemoryStore_store ms i now key content c rows) = rows @ [r]" "memory_row ms key r"
    "find (memory_row ms key) rows = None" "memory_ok ms rows"
  then show ?thesis by (auto simp: memory_ok_def memory_row_def find_None_iff)
qed (auto simp: memory_ok_def map_upd_where_key)

lemma memory_row_upd [simp]:
  "memory_row ms k (r\<lparr>am_content := x, am_updated_at := t, am_expires_at := e, am_consent_ref := c\<rparr>) = memory_row ms k r"
  "memory_row ms k (r\<lparr>am_content := x, am_is_anonymized := b\<rparr>) = memory_row ms k r"
  by (simp_all add: memory_row_def)

lemma memory_ok_purge: "memory_ok ms rows \<Longrightarrow> memory_ok ms (snd (PostgresMemoryStore_purge ms k rows))"
  by (auto simp: memory_ok_def PostgresMemoryStore_purge_def distinct_map_filter)

lemma memory_ok_anonymize: "memory_ok ms rows \<Longrightarrow> memory_ok ms (snd (PostgresMemoryStore_anonymize ms k rows))"
  by (auto simp: memory_ok_def PostgresMemoryStore_anonymize_def map_upd_where_key)

lemma memory_row_other: "memory_row ms k r \<Longrightarrow> k' \<noteq> k \<Longrightarrow> \<not> memory_row ms k' r"
  by (auto simp: memory_row_def)

lemma pg_recall_store:
  assumes "memory_ok ms rows" and "t < now + pms_ttl_days ms * day"
  shows "pg_recall ms (snd (PostgresMemoryStore_store ms i now k content c rows)) t k = Some content"
proof -
  let ?rows = "snd (PostgresMemoryStore_store ms i now k content c rows)"
  obtain r where "r \<in> set ?rows" "memory_row ms k r" "am_content r = content" "am_expires_at r = now + pms_ttl_days ms * day"
  proof -
    from pg_store_cases [OF assms(1), of k i now content c] show ?thesis
    proof (elim disjE exE conjE)
      fix r assume f: "find (memory_row ms k) rows = Some r" and e: "?rows = upd_where (memory_row ms k)
        (\<lambda>r. r\<lparr>am_content := content, am_updated_at := now, am_expires_at := now + pms_ttl_days ms * day, am_consent_ref := c\<rparr>) rows"
      from f have "r \<in> set rows" "memory_row ms k r" by (auto simp: find_Some_iff)
      then show ?thesis
        by (intro that [of "r\<lparr>am_content := content, am_updated_at := now,
              am_expires_at := now + pms_ttl_days ms * day, am_consent_ref := c\<rparr>"])
          (auto simp: e set_upd_where memory_row_def image_iff intro!: bexI [of _ r])
    qed (auto intro: that)
  qed
  moreover have "distinct (map (\<lambda>r. (am_namespace r, am_item_key r)) ?rows)"
    using memory_ok_store [OF assms(1)] by (simp add: memory_ok_def)
  ultimately show ?thesis
    using find_memory_row [of ?rows r ms k "\<lambda>r. am_expires_at r > t"] assms
    by (simp add: pg_recall_def PostgresMemoryStore_retrieve_def memory_ok_def)
qed

lemma pg_recall_store_other:
  assumes "memory_ok ms rows" and "k' \<noteq> k"
  shows "pg_recall ms (snd (PostgresMemoryStore_store ms i now k content c rows)) t k' = pg_recall ms rows t k'"
proof -
  have u: "find (\<lambda>r. memory_row ms k' r \<and> am_expires_at r > t) (upd_where (memory_row ms k) f rs) =
      find (\<lambda>r. memory_row ms k' r \<and> am_expires_at r > t) rs"
    if "\<And>r. memory_row ms k (f r) = memory_row ms k r" for f rs
    using that memory_row_other [OF _ assms(2), of ms] by (induction rs) auto
  from pg_store_cases [OF assms(1), of k i now content c] show ?thesis
  proof (elim disjE exE conjE)
    fix r assume "snd (PostgresMemoryStore_store ms i now k content c rows) = rows @ [r]" "memory_row ms k r"
    then show ?thesis using memory_row_other [OF _ assms(2)]
      by (auto simp: pg_recall_def PostgresMemoryStore_retrieve_def find_append split: option.splits)
  qed (simp add: pg_recall_def PostgresMemoryStore_retrieve_def u)
qed

lemma pg_recall_purge:
  "pg_recall ms (snd (PostgresMemoryStore_purge ms k rows)) t k' = (if k' = k then None else pg_recall ms rows t k')"
proof -
  have "find (\<lambda>r. memory_row ms k' r \<and> am_expires_at r > t) (filter (\<lambda>r. \<not> memory_row ms k r) rows) =
      (if k' = k then None else find (\<lambda>r. memory_row ms k' r \<and> am_expires_at r > t) rows)"
    by (cases "k' = k"; induction rows) (auto dest: memory_row_other)
  then show ?thesis
    by (cases "k' = k") (simp_all add: pg_recall_def PostgresMemoryStore_retrieve_def PostgresMemoryStore_purge_def)
qed

lemma pg_recall_anonymize:
  "pg_recall ms (snd (PostgresMemoryStore_anonymize ms k rows)) t k' =
     (if k' = k then map_option (\<lambda>_. ANONYMIZED) (pg_recall ms rows t k) else pg_recall ms rows t k')"
proof -
  have "find (\<lambda>r. memory_row ms k' r \<and> am_expires_at r > t) (upd_where (memory_row ms k)
      (\<lambda>r. r\<lparr>am_content := ANONYMIZED, am_is_anonymized := True\<rparr>) rows) =
    map_option (\<lambda>r. if k' = k then r\<lparr>am_content := ANONYMIZED, am_is_anonymized := True\<rparr> else r)
      (find (\<lambda>r. memory_row ms k' r \<and> am_expires_at r > t) rows)"
    by (cases "k' = k"; induction rows) (auto dest: memory_row_other)
  then show ?thesis
    by (cases "k' = k")
      (simp_all add: pg_recall_def PostgresMemoryStore_retrieve_def PostgresMemoryStore_anonymize_def option.map_comp comp_def)
qed

interpretation pg: governed_memory "memory_ok ms" "\<lambda>_. pms_ttl_days ms * day"
  "\<lambda>now k c rows. snd (PostgresMemoryStore_store ms (i now k) now k c consent rows)" "pg_recall ms"
  "\<lambda>k rows. snd (PostgresMemoryStore_purge ms k rows)" "\<lambda>k rows. snd (PostgresMemoryStore_anonymize ms k rows)"
  for ms i consent
  by unfold_locales
    (simp_all add: memory_ok_store memory_ok_purge memory_ok_anonymize pg_recall_store pg_recall_store_other
      pg_recall_purge pg_recall_anonymize)


section \<open>Properties\<close>

fun memory_step :: "PostgresMemoryStore \<Rightarrow> (time \<Rightarrow> string \<Rightarrow> uuid) \<Rightarrow> memory_op \<Rightarrow> memory_table \<Rightarrow> memory_table" where
  "memory_step ms i (M_store now k c) rows = snd (PostgresMemoryStore_store ms (i now k) now k c None rows)"
| "memory_step ms i (M_purge k) rows = snd (PostgresMemoryStore_purge ms k rows)"
| "memory_step ms i (M_anonymize k) rows = snd (PostgresMemoryStore_anonymize ms k rows)"

fun stored_key :: "memory_op \<Rightarrow> string option" where
  "stored_key (M_store now k c) = Some k"
| "stored_key _ = None"

lemma memory_step_apply: "memory_step ms i = pg.apply_op ms i None"
proof (intro ext)
  show "memory_step ms i m rows = pg.apply_op ms i None m rows" for m rows by (cases m) simp_all
qed

lemma stores_stored_key: "pg.stores k m \<longleftrightarrow> stored_key m = Some k"
  by (cases m) (auto simp: pg.stores_def)

lemma list_recent_mem:
  assumes "r \<in> set (PostgresMemoryStore_list_recent ms now n rows)"
  shows "r \<in> set rows \<and> am_namespace r = pms_namespace ms \<and> am_expires_at r > now \<and> \<not> am_is_anonymized r"
  using assms
  by (auto simp: PostgresMemoryStore_list_recent_def split: if_splits dest!: subsetD [OF set_order_limit])

lemma mem_upd_where: "x \<in> set (upd_where P f rows) \<longleftrightarrow> (\<exists>y\<in>set rows. P y \<and> x = f y) \<or> x \<in> set rows \<and> \<not> P x"
  by (auto simp: set_upd_where)

lemma recall_None_unlisted:
  assumes "pg_recall ms rows now k = None" and "r \<in> set (PostgresMemoryStore_list_recent ms now n rows)"
  shows "am_item_key r \<noteq> k"
  using assms set_order_limit
  by (fastforce simp: pg_recall_def PostgresMemoryStore_retrieve_def PostgresMemoryStore_list_recent_def find_None_iff
      memory_row_def split: if_splits)

text \<open>C37: Erasure is durable: once an item is purged, no sequence of later operations that does not store
  its key again brings it back, neither to a lookup at any time nor to the list the prompt is built
  from; and an anonymized item yields nothing but the placeholder.\<close>

theorem erased_memory_stays_erased:
  assumes "memory_ok ms rows" and "\<forall>m\<in>set ops. stored_key m \<noteq> Some k"
  shows "PostgresMemoryStore_retrieve ms now k (fold (memory_step ms i) ops (snd (PostgresMemoryStore_purge ms k rows))) = None \<and>
    k \<notin> am_item_key ` set (PostgresMemoryStore_list_recent ms now n
      (fold (memory_step ms i) ops (snd (PostgresMemoryStore_purge ms k rows)))) \<and>
    map_option am_content (PostgresMemoryStore_retrieve ms now k
      (fold (memory_step ms i) ops (snd (PostgresMemoryStore_anonymize ms k rows)))) \<in> {None, Some ANONYMIZED}"
proof -
  have ops: "\<forall>m\<in>set ops. \<not> pg.stores k m" using assms(2) by (simp add: stores_stored_key)
  have gone: "pg_recall ms (fold (memory_step ms i) ops (snd (PostgresMemoryStore_purge ms k rows))) now k = None"
    unfolding memory_step_apply by (rule pg.erased_for_good [OF assms(1) ops])
  moreover have "pg_recall ms (fold (memory_step ms i) ops (snd (PostgresMemoryStore_anonymize ms k rows))) now k
      \<in> {None, Some ANONYMIZED}"
    unfolding memory_step_apply by (rule pg.anonymized_for_good [OF assms(1) ops])
  ultimately show ?thesis using recall_None_unlisted [OF gone] by (auto simp: pg_recall_def)
qed

definition sample_memory :: PostgresMemoryStore where
  "sample_memory = PostgresMemoryStore_init ''00000000-0000-4000-8000-000000000001'' None True 90"

lemma sample_memory_ok: "memory_ok sample_memory []"
proof -
  have "py_UUID ''00000000-0000-4000-8000-000000000001'' = Some ''00000000-0000-4000-8000-000000000001''" by code_simp
  then show ?thesis by (simp add: memory_ok_def sample_memory_def PostgresMemoryStore_init_def UUID_of_def)
qed

theorem erased_memory_stays_erased_witness:
  "PostgresMemoryStore_retrieve sample_memory 9 ''k'' (fold (memory_step sample_memory (\<lambda>_ _. ''u''))
     [M_store 5 ''other'' ''x''] (snd (PostgresMemoryStore_purge sample_memory ''k''
       (snd (PostgresMemoryStore_store sample_memory ''u'' 1 ''k'' ''fact'' None []))))) = None"
  using erased_memory_stays_erased [OF memory_ok_store [OF sample_memory_ok, of "''u''" 1 "''k''" "''fact''" None],
      of "[M_store 5 ''other'' ''x'']" "''k''" 9 "\<lambda>_ _. ''u''"] by simp

text \<open>Storing an item again after it was anonymized does not make it visible: the row keeps its
  anonymized flag, so a lookup returns the new content but the list the prompt is built from never
  shows it, while the in-process store returns a fresh item that is not flagged.\<close>

theorem restored_item_stays_hidden:
  assumes "memory_ok ms rows" and "memory_row ms k r" and "r \<in> set rows"
    and "t < now + pms_ttl_days ms * day" and "mst_enabled st"
  shows "map_option am_content (PostgresMemoryStore_retrieve ms t k (snd (PostgresMemoryStore_store ms i now k c None
      (snd (PostgresMemoryStore_anonymize ms k rows))))) = Some c \<and>
    k \<notin> am_item_key ` set (PostgresMemoryStore_list_recent ms t n (snd (PostgresMemoryStore_store ms i now k c None
      (snd (PostgresMemoryStore_anonymize ms k rows))))) \<and>
    map_option mi_is_anonymized (map_of (mst_items (snd (MemoryStore_store now k c None
      (snd (MemoryStore_anonymize k st))))) k) = Some False"
proof -
  let ?rows = "snd (PostgresMemoryStore_anonymize ms k rows)"
  have "find (memory_row ms k) ?rows \<noteq> None"
    using assms(2,3) by (auto simp: find_None_iff PostgresMemoryStore_anonymize_def set_upd_where)
  then have "snd (PostgresMemoryStore_store ms i now k c None ?rows) = upd_where (memory_row ms k)
      (\<lambda>r. r\<lparr>am_content := c, am_updated_at := now, am_expires_at := now + pms_ttl_days ms * day, am_consent_ref := None\<rparr>) ?rows"
    using pg_store_cases [OF memory_ok_anonymize [OF assms(1)], of k k i now c None] by auto
  note st = this
  have "am_item_key x \<noteq> k" if "x \<in> set (PostgresMemoryStore_list_recent ms t n
      (snd (PostgresMemoryStore_store ms i now k c None ?rows)))" for x
  proof
    assume "am_item_key x = k"
    have "x \<in> set (snd (PostgresMemoryStore_store ms i now k c None ?rows))" and n: "am_namespace x = pms_namespace ms"
      and a: "\<not> am_is_anonymized x" using list_recent_mem [OF that] by blast+
    moreover have "memory_row ms k x" using n \<open>am_item_key x = k\<close> by (simp add: memory_row_def)
    ultimately obtain y where y: "y \<in> set ?rows" "memory_row ms k y" and "x = y\<lparr>am_content := c, am_updated_at := now,
        am_expires_at := now + pms_ttl_days ms * day, am_consent_ref := None\<rparr>"
      unfolding st mem_upd_where by blast
    then have "\<not> am_is_anonymized y" using a by simp
    moreover obtain z where "y = z\<lparr>am_content := ANONYMIZED, am_is_anonymized := True\<rparr>"
      using y unfolding PostgresMemoryStore_anonymize_def snd_conv mem_upd_where by blast
    ultimately show False by simp
  qed
  moreover have "pg_recall ms (snd (PostgresMemoryStore_store ms i now k c None ?rows)) t k = Some c"
    by (rule pg_recall_store [OF memory_ok_anonymize [OF assms(1)] assms(4)])
  ultimately show ?thesis using assms(5)
    by (auto simp: pg_recall_def MemoryStore_store_def MemoryStore_anonymize_def MemoryItem_init_def update_conv'
        split: option.splits)
qed

theorem restored_item_stays_hidden_witness:
  "''k'' \<notin> am_item_key ` set (PostgresMemoryStore_list_recent sample_memory 2 5 (snd (PostgresMemoryStore_store sample_memory
     ''u'' 2 ''k'' ''new'' None (snd (PostgresMemoryStore_anonymize sample_memory ''k''
       (snd (PostgresMemoryStore_store sample_memory ''u'' 1 ''k'' ''fact'' None [])))))))"
proof -
  let ?rows = "snd (PostgresMemoryStore_store sample_memory ''u'' 1 ''k'' ''fact'' None [])"
  obtain r where "r \<in> set ?rows" "memory_row sample_memory ''k'' r"
    using pg_store_cases [OF sample_memory_ok, of "''k''" "''u''" 1 "''fact''" None] by auto
  from restored_item_stays_hidden [OF memory_ok_store [OF sample_memory_ok] this(2,1),
      of 2 2 "MemoryStore_init ''t'' None True 90" "''u''" "''new''" 5]
  show ?thesis by (simp add: sample_memory_def PostgresMemoryStore_init_def MemoryStore_init_def)
qed

end
