(* ===== verification/Hitl.thy ===== *)
theory Hitl
  imports Tenancy
begin

text \<open>
  Human-in-the-loop holds: the repository (\<open>persistence/repositories/hitl_holds.py\<close>) and the router that
  lists, approves and rejects them (\<open>api/routers/hitl.py\<close>) with its in-process registry. The holds table
  is the list of its rows, unique in the run id. Whether a database is configured and whether its
  statements fail are arguments; resuming the compiled graph is recorded as the pair of run and thread
  it was invoked with.
\<close>

section \<open>Repository\<close>

datatype hold_status = HS_PENDING | HS_APPROVED | HS_REJECTED

primrec hold_status_value :: "hold_status \<Rightarrow> string" where
  "hold_status_value HS_PENDING = ''pending''"
| "hold_status_value HS_APPROVED = ''approved''"
| "hold_status_value HS_REJECTED = ''rejected''"

record HitlHoldRecord =
  hh_id :: uuid
  hh_run_id :: string
  hh_tenant_id :: uuid
  hh_conversation_id :: string
  hh_thread_id :: string
  hh_reason :: "string option"
  hh_status :: hold_status
  hh_resolved_by :: "string option"
  hh_context_snapshot :: pydict
  hh_requested_at :: time
  hh_resolved_at :: "time option"

type_synonym holds = "HitlHoldRecord list"

text \<open>An error of the insert itself is suppressed; the tenant id is parsed before.\<close>

definition HitlHoldRepository_register ::
    "bool \<Rightarrow> uuid \<Rightarrow> time \<Rightarrow> string \<Rightarrow> string \<Rightarrow> string \<Rightarrow> string \<Rightarrow> string option \<Rightarrow> pydict option \<Rightarrow> holds
     \<Rightarrow> string res \<times> holds" where
  "HitlHoldRepository_register insert_fails hold_id now run_id tenant_id conversation_id thread_id reason snapshot rows =
     (case UUID_of tenant_id of
        Inl e \<Rightarrow> (Inl e, rows)
      | Inr u \<Rightarrow> (Inr hold_id, if insert_fails then rows else fst (insert_ignore hh_run_id
          \<lparr>hh_id = hold_id, hh_run_id = run_id, hh_tenant_id = u, hh_conversation_id = conversation_id,
           hh_thread_id = thread_id, hh_reason = reason, hh_status = HS_PENDING, hh_resolved_by = None,
           hh_context_snapshot = (case snapshot of None \<Rightarrow> [] | Some s \<Rightarrow> s), hh_requested_at = now,
           hh_resolved_at = None\<rparr> rows)))"

definition HitlHoldRepository_list_pending :: "string \<Rightarrow> holds \<Rightarrow> holds res" where
  "HitlHoldRepository_list_pending tenant_id rows = res_bind (UUID_of tenant_id) (\<lambda>u.
     Inr (sort_key hh_requested_at (filter (\<lambda>r. hh_tenant_id r = u \<and> hh_status r = HS_PENDING) rows)))"

definition HitlHoldRepository_list_pending_all :: "holds \<Rightarrow> holds" where
  "HitlHoldRepository_list_pending_all rows = sort_key hh_requested_at (filter (\<lambda>r. hh_status r = HS_PENDING) rows)"

definition HitlHoldRepository_get :: "string \<Rightarrow> holds \<Rightarrow> HitlHoldRecord option" where
  "HitlHoldRepository_get run_id rows = find (\<lambda>r. hh_run_id r = run_id) rows"

definition pending_run :: "string \<Rightarrow> HitlHoldRecord \<Rightarrow> bool" where
  "pending_run run_id r \<longleftrightarrow> hh_run_id r = run_id \<and> hh_status r = HS_PENDING"

definition HitlHoldRepository_approve ::
    "time \<Rightarrow> string \<Rightarrow> string \<Rightarrow> holds \<Rightarrow> HitlHoldRecord option \<times> holds" where
  "HitlHoldRepository_approve now run_id approved_by rows =
     (let f = (\<lambda>r. r\<lparr>hh_status := HS_APPROVED, hh_resolved_by := Some (take 256 approved_by), hh_resolved_at := Some now\<rparr>)
      in (map_option f (find (pending_run run_id) rows), upd_where (pending_run run_id) f rows))"

definition HitlHoldRepository_reject ::
    "time \<Rightarrow> string \<Rightarrow> string \<Rightarrow> string option \<Rightarrow> holds \<Rightarrow> HitlHoldRecord option \<times> holds" where
  "HitlHoldRepository_reject now run_id rejected_by reason rows =
     (let f = (\<lambda>r. (case reason of Some (c # s) \<Rightarrow> r\<lparr>hh_reason := Some (take 500 (c # s))\<rparr> | _ \<Rightarrow> r)
            \<lparr>hh_status := HS_REJECTED, hh_resolved_by := Some (take 256 rejected_by), hh_resolved_at := Some now\<rparr>)
      in (map_option f (find (pending_run run_id) rows), upd_where (pending_run run_id) f rows))"

section \<open>Registry and router\<close>

record HitlHold =
  hd_run_id :: string
  hd_tenant_id :: string
  hd_conversation_id :: string
  hd_thread_id :: string
  hd_reason :: "string option"
  hd_status :: hold_status
  hd_requested_at :: string
  hd_resolved_at :: "string option"
  hd_resolved_by :: "string option"

record hitl_world =
  hw_has_db :: bool
  hw_rows :: holds
  hw_holds :: "(string \<times> HitlHold) list"
  hw_has_graph :: bool
  hw_resumes :: "(string \<times> string) list"

definition HitlHoldRegistry_register ::
    "time \<Rightarrow> string \<Rightarrow> string \<Rightarrow> string \<Rightarrow> string \<Rightarrow> string option \<Rightarrow> hitl_world \<Rightarrow> HitlHold \<times> hitl_world" where
  "HitlHoldRegistry_register now run_id tenant_id conversation_id thread_id reason w =
     (let hold = \<lparr>hd_run_id = run_id, hd_tenant_id = tenant_id, hd_conversation_id = conversation_id,
        hd_thread_id = thread_id, hd_reason = reason, hd_status = HS_PENDING, hd_requested_at = isoformat now,
        hd_resolved_at = None, hd_resolved_by = None\<rparr>
      in (hold, w\<lparr>hw_holds := AList.update run_id hold (hw_holds w)\<rparr>))"

definition HitlHoldRegistry_list_pending :: "hitl_world \<Rightarrow> HitlHold list" where
  "HitlHoldRegistry_list_pending w = filter (\<lambda>h. hd_status h = HS_PENDING) (map snd (hw_holds w))"

text \<open>The state update and the invocation of the graph; what they raise is swallowed.\<close>

definition HitlHoldRegistry_resume_graph :: "string \<Rightarrow> string \<Rightarrow> hitl_world \<Rightarrow> hitl_world" where
  "HitlHoldRegistry_resume_graph run_id thread_id w =
     (if hw_has_graph w then w\<lparr>hw_resumes := hw_resumes w @ [(run_id, thread_id)]\<rparr> else w)"

definition hold_of_record :: "HitlHoldRecord \<Rightarrow> HitlHold" where
  "hold_of_record r = \<lparr>hd_run_id = hh_run_id r, hd_tenant_id = hh_tenant_id r, hd_conversation_id = hh_conversation_id r,
     hd_thread_id = hh_thread_id r, hd_reason = hh_reason r, hd_status = hh_status r,
     hd_requested_at = isoformat (hh_requested_at r), hd_resolved_at = map_option isoformat (hh_resolved_at r),
     hd_resolved_by = hh_resolved_by r\<rparr>"

definition register_hold ::
    "bool \<Rightarrow> uuid \<Rightarrow> uuid \<Rightarrow> time \<Rightarrow> string \<Rightarrow> string \<Rightarrow> string \<Rightarrow> string option \<Rightarrow> hitl_world \<Rightarrow> HitlHold \<times> hitl_world" where
  "register_hold db_fails run_id hold_id now tenant_id conversation_id thread_id reason w =
     HitlHoldRegistry_register now run_id tenant_id conversation_id thread_id reason
       (if hw_has_db w \<and> \<not> db_fails
        then w\<lparr>hw_rows := snd (HitlHoldRepository_register False hold_id now run_id tenant_id conversation_id thread_id
               reason None (hw_rows w))\<rparr>
        else w)"

definition list_pending :: "bool \<Rightarrow> hitl_world \<Rightarrow> HitlHold list" where
  "list_pending db_fails w = (if hw_has_db w \<and> \<not> db_fails
     then map hold_of_record (HitlHoldRepository_list_pending_all (hw_rows w)) else HitlHoldRegistry_list_pending w)"

definition not_found :: "string \<Rightarrow> string \<Rightarrow> py_exc" where
  "not_found run_id what = HTTPException 404 (''HITL hold '' @ repr_str run_id @ what)"

definition get_hold :: "bool \<Rightarrow> string \<Rightarrow> hitl_world \<Rightarrow> HitlHold res" where
  "get_hold db_fails run_id w =
     (case (if hw_has_db w \<and> \<not> db_fails then HitlHoldRepository_get run_id (hw_rows w) else None) of
        Some r \<Rightarrow> Inr (hold_of_record r)
      | None \<Rightarrow> (case map_of (hw_holds w) run_id of
          None \<Rightarrow> Inl (not_found run_id '' not found'') | Some h \<Rightarrow> Inr h))"

definition already_resolved :: "string \<Rightarrow> HitlHold \<Rightarrow> py_exc" where
  "already_resolved run_id h = HTTPException 409 (''Hold '' @ repr_str run_id @ '' is already '' @
     repr_str (hold_status_value (hd_status h)))"

text \<open>The part of the approval after the database: the in-process copy and the graph.\<close>

definition approve_memory ::
    "time \<Rightarrow> string \<Rightarrow> string \<Rightarrow> string option \<Rightarrow> hitl_world \<Rightarrow> HitlHold res \<times> hitl_world" where
  "approve_memory now run_id decided_by thread_id w =
     (let thread_or = (\<lambda>d. case thread_id of Some (c # t) \<Rightarrow> c # t | _ \<Rightarrow> d);
          mem_hold = (case map_of (hw_holds w) run_id of Some h \<Rightarrow> h
            | None \<Rightarrow> \<lparr>hd_run_id = run_id, hd_tenant_id = [], hd_conversation_id = [], hd_thread_id = thread_or run_id,
                hd_reason = None, hd_status = HS_PENDING, hd_requested_at = isoformat now, hd_resolved_at = None,
                hd_resolved_by = None\<rparr>)
      in if hd_status mem_hold \<noteq> HS_PENDING \<and> \<not> hw_has_db w then (Inl (already_resolved run_id mem_hold), w)
         else let h = mem_hold\<lparr>hd_status := HS_APPROVED, hd_resolved_at := Some (isoformat now), hd_resolved_by := Some decided_by\<rparr>
              in (Inr h, HitlHoldRegistry_resume_graph run_id (thread_or (hd_thread_id h))
                    (w\<lparr>hw_holds := AList.update run_id h (hw_holds w)\<rparr>)))"

definition approve_hold :: "bool \<Rightarrow> time \<Rightarrow> string \<Rightarrow> string \<Rightarrow> hitl_world \<Rightarrow> HitlHold res \<times> hitl_world" where
  "approve_hold db_fails now run_id decided_by w =
     (if hw_has_db w \<and> \<not> db_fails
      then (case HitlHoldRepository_approve now run_id decided_by (hw_rows w) of
          (None, rows) \<Rightarrow> (Inl (not_found run_id '' not found or already resolved''), w\<lparr>hw_rows := rows\<rparr>)
        | (Some r, rows) \<Rightarrow> approve_memory now run_id decided_by (Some (hh_thread_id r)) (w\<lparr>hw_rows := rows\<rparr>))
      else approve_memory now run_id decided_by None w)"

definition reject_memory ::
    "time \<Rightarrow> string \<Rightarrow> string \<Rightarrow> string option \<Rightarrow> hitl_world \<Rightarrow> HitlHold res \<times> hitl_world" where
  "reject_memory now run_id decided_by reason w =
     (case map_of (hw_holds w) run_id of
        None \<Rightarrow> if \<not> hw_has_db w then (Inl (not_found run_id '' not found''), w)
          else (Inr \<lparr>hd_run_id = run_id, hd_tenant_id = [], hd_conversation_id = [], hd_thread_id = run_id,
                 hd_reason = reason, hd_status = HS_REJECTED, hd_requested_at = isoformat now,
                 hd_resolved_at = Some (isoformat now), hd_resolved_by = Some decided_by\<rparr>, w)
      | Some m \<Rightarrow> if hd_status m \<noteq> HS_PENDING \<and> \<not> hw_has_db w then (Inl (already_resolved run_id m), w)
          else let h = (case reason of Some (c # s) \<Rightarrow> m\<lparr>hd_reason := Some (c # s)\<rparr> | _ \<Rightarrow> m)
                 \<lparr>hd_status := HS_REJECTED, hd_resolved_at := Some (isoformat now), hd_resolved_by := Some decided_by\<rparr>
               in (Inr h, w\<lparr>hw_holds := AList.update run_id h (hw_holds w)\<rparr>))"

definition reject_hold ::
    "bool \<Rightarrow> time \<Rightarrow> string \<Rightarrow> string \<Rightarrow> string option \<Rightarrow> hitl_world \<Rightarrow> HitlHold res \<times> hitl_world" where
  "reject_hold db_fails now run_id decided_by reason w =
     (if hw_has_db w \<and> \<not> db_fails
      then (case HitlHoldRepository_reject now run_id decided_by reason (hw_rows w) of
          (None, rows) \<Rightarrow> (Inl (not_found run_id '' not found or already resolved''), w\<lparr>hw_rows := rows\<rparr>)
        | (Some r, rows) \<Rightarrow> reject_memory now run_id decided_by reason (w\<lparr>hw_rows := rows\<rparr>))
      else reject_memory now run_id decided_by reason w)"


section \<open>Runs of the router\<close>

text \<open>Requests, and registrations by the graph, against a working database.\<close>

inductive hitl_step :: "hitl_world \<Rightarrow> hitl_world \<Rightarrow> bool" where
  hs_register: "register_hold False r i now t c th rs w = (h, w') \<Longrightarrow> hitl_step w w'"
| hs_node: "HitlHoldRepository_register b i now r t c th rs sn (hw_rows w) = (x, rows) \<Longrightarrow> hitl_step w (w\<lparr>hw_rows := rows\<rparr>)"
| hs_approve: "approve_hold False now r u w = (x, w') \<Longrightarrow> hitl_step w w'"
| hs_reject: "reject_hold False now r u rs w = (x, w') \<Longrightarrow> hitl_step w w'"

inductive_cases hitl_stepE: "hitl_step w w'"

definition hitl_inv :: "hitl_world \<Rightarrow> bool" where
  "hitl_inv w \<longleftrightarrow> hw_has_db w \<and> distinct (map hh_run_id (hw_rows w)) \<and> distinct (map fst (hw_resumes w)) \<and>
     (\<forall>(r, t)\<in>set (hw_resumes w). \<exists>row\<in>set (hw_rows w). hh_run_id row = r \<and> hh_status row = HS_APPROVED)"

text \<open>Decided rows stay as they are.\<close>

definition decided_kept :: "hitl_world \<Rightarrow> hitl_world \<Rightarrow> bool" where
  "decided_kept w w' \<longleftrightarrow> (\<forall>row\<in>set (hw_rows w). hh_status row \<noteq> HS_PENDING \<longrightarrow> row \<in> set (hw_rows w'))"

lemma register_rows:
  assumes "HitlHoldRepository_register b i now r t c th rs sn rows = (x, rows')"
  shows "set rows \<subseteq> set rows'" "distinct (map hh_run_id rows) \<Longrightarrow> distinct (map hh_run_id rows')"
  using assms
  by (auto simp: HitlHoldRepository_register_def insert_ignore_def split: sum.splits if_splits)

lemma upd_pending_keeps:
  assumes "row \<in> set rows" and "hh_status row \<noteq> HS_PENDING"
  shows "row \<in> set (upd_where (pending_run r) f rows)"
  using assms by (force simp: set_upd_where pending_run_def)

lemma approve_memory_frame:
  assumes "approve_memory now r u th w = (x, w')"
  shows "hw_rows w' = hw_rows w \<and> hw_has_db w' = hw_has_db w \<and>
    (hw_resumes w' = hw_resumes w \<or> (\<exists>t. hw_resumes w' = hw_resumes w @ [(r, t)]))"
  using assms
  by (auto simp: approve_memory_def HitlHoldRegistry_resume_graph_def Let_def split: if_splits)

lemma reject_memory_frame:
  assumes "reject_memory now r u rs w = (x, w')"
  shows "hw_rows w' = hw_rows w \<and> hw_has_db w' = hw_has_db w \<and> hw_resumes w' = hw_resumes w"
  using assms by (auto simp: reject_memory_def Let_def split: option.splits if_splits)

lemma approve_cases:
  assumes "approve_hold False now r u w = (x, w')" and "hw_has_db w"
  shows "hw_has_db w' \<and> hw_rows w' = snd (HitlHoldRepository_approve now r u (hw_rows w)) \<and>
    (hw_resumes w' = hw_resumes w \<or>
     (\<exists>t row. hw_resumes w' = hw_resumes w @ [(r, t)] \<and> row \<in> set (hw_rows w) \<and> pending_run r row))"
proof (cases "HitlHoldRepository_approve now r u (hw_rows w)")
  case (Pair rec rows)
  show ?thesis
  proof (cases rec)
    case None
    then show ?thesis using assms Pair by (auto simp: approve_hold_def)
  next
    case (Some row)
    then have "approve_memory now r u (Some (hh_thread_id row)) (w\<lparr>hw_rows := rows\<rparr>) = (x, w')"
      using assms Pair by (simp add: approve_hold_def)
    note fr = approve_memory_frame [OF this]
    obtain row0 where "find (pending_run r) (hw_rows w) = Some row0"
      using Pair Some by (auto simp: HitlHoldRepository_approve_def Let_def)
    then have "row0 \<in> set (hw_rows w) \<and> pending_run r row0" by (auto simp: find_Some_iff)
    then show ?thesis using fr Pair assms(2) by auto
  qed
qed

lemma reject_cases:
  assumes "reject_hold False now r u rs w = (x, w')" and "hw_has_db w"
  shows "hw_has_db w' \<and> hw_rows w' = snd (HitlHoldRepository_reject now r u rs (hw_rows w)) \<and> hw_resumes w' = hw_resumes w"
  using assms
  by (auto simp: reject_hold_def split: prod.splits option.splits dest!: reject_memory_frame)

lemma hitl_step_inv:
  assumes "hitl_step w w'" and "hitl_inv w"
  shows "hitl_inv w' \<and> decided_kept w w'"
  using assms
proof (induction rule: hitl_step.induct)
  case (hs_register r i now t c th rs w h w')
  then have "hw_resumes w' = hw_resumes w" "hw_has_db w'" "set (hw_rows w) \<subseteq> set (hw_rows w')"
    "distinct (map hh_run_id (hw_rows w'))"
    using hs_register(2) register_rows [of False i now r t c th rs None "hw_rows w", OF prod.collapse [symmetric]]
    by (auto simp: register_hold_def HitlHoldRegistry_register_def hitl_inv_def Let_def)
  then show ?case using hs_register(2) unfolding hitl_inv_def decided_kept_def by fastforce
next
  case (hs_node b i now r t c th rs sn w x rows)
  then show ?case using register_rows [OF hs_node(1)] unfolding hitl_inv_def decided_kept_def by fastforce
next
  case (hs_approve now r u w x w')
  have db: "hw_has_db w" using hs_approve(2) by (simp add: hitl_inv_def)
  note c = approve_cases [OF hs_approve(1) db]
  have rows: "hw_rows w' = upd_where (pending_run r) (\<lambda>r. r\<lparr>hh_status := HS_APPROVED,
      hh_resolved_by := Some (take 256 u), hh_resolved_at := Some now\<rparr>) (hw_rows w)"
    using c by (simp add: HitlHoldRepository_approve_def Let_def)
  have kept: "decided_kept w w'" unfolding decided_kept_def rows by (auto intro: upd_pending_keeps)
  have d: "distinct (map hh_run_id (hw_rows w'))"
    using hs_approve(2) unfolding rows hitl_inv_def by (simp add: map_upd_where_key)
  have old: "\<exists>row\<in>set (hw_rows w'). hh_run_id row = x \<and> hh_status row = HS_APPROVED" if "(x, t) \<in> set (hw_resumes w)" for x t
    using that hs_approve(2) kept unfolding hitl_inv_def decided_kept_def by fastforce
  show ?case
  proof (cases "hw_resumes w' = hw_resumes w")
    case True
    then show ?thesis using kept d c hs_approve(2) old unfolding hitl_inv_def by auto
  next
    case False
    then obtain t row where n: "hw_resumes w' = hw_resumes w @ [(r, t)]" "row \<in> set (hw_rows w)" "pending_run r row"
      using c by blast
    have "r \<notin> fst ` set (hw_resumes w)"
    proof
      assume "r \<in> fst ` set (hw_resumes w)"
      then obtain row' where "row' \<in> set (hw_rows w)" "hh_run_id row' = r" "hh_status row' = HS_APPROVED"
        using hs_approve(2) unfolding hitl_inv_def by fastforce
      then show False using n(2,3) hs_approve(2) distinct_key_unique [of hh_run_id "hw_rows w" row' row]
        by (auto simp: hitl_inv_def pending_run_def)
    qed
    moreover have "\<exists>row\<in>set (hw_rows w'). hh_run_id row = r \<and> hh_status row = HS_APPROVED"
      using n(2,3) unfolding rows set_upd_where by (intro bexI [of _ "row\<lparr>hh_status := HS_APPROVED,
        hh_resolved_by := Some (take 256 u), hh_resolved_at := Some now\<rparr>"]) (auto simp: pending_run_def image_iff)
    ultimately show ?thesis using kept d c hs_approve(2) old n(1) unfolding hitl_inv_def by auto
  qed
next
  case (hs_reject now r u rs w x w')
  have db: "hw_has_db w" using hs_reject(2) by (simp add: hitl_inv_def)
  note c = reject_cases [OF hs_reject(1) db]
  have "map hh_run_id (snd (HitlHoldRepository_reject now r u rs (hw_rows w))) = map hh_run_id (hw_rows w)"
    by (auto simp: HitlHoldRepository_reject_def Let_def split: option.splits list.splits intro!: map_upd_where_key)
  moreover have kept: "decided_kept w w'"
    using c unfolding decided_kept_def by (auto simp: HitlHoldRepository_reject_def Let_def intro: upd_pending_keeps)
  ultimately show ?case using c hs_reject(2) unfolding hitl_inv_def decided_kept_def by fastforce
qed

lemma hitl_run_inv:
  assumes "hitl_step\<^sup>*\<^sup>* w w'" and "hitl_inv w"
  shows "hitl_inv w' \<and> decided_kept w w'"
  using assms
proof (induction rule: rtranclp_induct)
  case (step y z)
  then show ?case using hitl_step_inv [OF step(2)] unfolding decided_kept_def by blast
qed (simp add: decided_kept_def)

section \<open>Properties\<close>

text \<open>C19: A hold is decided once: over any interleaving of registrations, approvals and rejections against
  a working database, every run is resumed at most once, only runs whose hold is approved are resumed,
  and a decided hold never changes again.\<close>

theorem hold_decided_once:
  assumes "hitl_step\<^sup>*\<^sup>* w w'" and "hw_has_db w" and "distinct (map hh_run_id (hw_rows w))" and "hw_resumes w = []"
  shows "distinct (map fst (hw_resumes w')) \<and>
    (\<forall>(r, t)\<in>set (hw_resumes w'). \<exists>row\<in>set (hw_rows w'). hh_run_id row = r \<and> hh_status row = HS_APPROVED) \<and>
    (\<forall>row\<in>set (hw_rows w). hh_status row \<noteq> HS_PENDING \<longrightarrow> row \<in> set (hw_rows w'))"
proof -
  have "hitl_inv w" using assms(2-4) by (simp add: hitl_inv_def)
  from hitl_run_inv [OF assms(1) this] show ?thesis unfolding hitl_inv_def decided_kept_def by blast
qed


definition empty_hitl :: hitl_world where
  "empty_hitl = \<lparr>hw_has_db = True, hw_rows = [], hw_holds = [], hw_has_graph = True, hw_resumes = []\<rparr>"

definition sample_hitl :: hitl_world where
  "sample_hitl = snd (approve_hold False 3 ''run'' ''ana'' (snd (approve_hold False 2 ''run'' ''ana''
     (snd (register_hold False ''run'' ''h'' 1 ''00000000-0000-4000-8000-000000000001'' ''9'' ''th'' None empty_hitl)))))"

theorem hold_decided_once_witness:
  "distinct (map fst (hw_resumes sample_hitl)) \<and> hw_resumes sample_hitl = [(''run'', ''th'')]"
proof -
  have u: "py_UUID ''00000000-0000-4000-8000-000000000001'' = Some ''00000000-0000-4000-8000-000000000001''" by code_simp
  have "hitl_step\<^sup>*\<^sup>* empty_hitl sample_hitl"
    unfolding sample_hitl_def
    by (rule rtranclp.rtrancl_into_rtrancl [OF rtranclp.rtrancl_into_rtrancl [OF rtranclp.rtrancl_into_rtrancl
          [OF rtranclp.rtrancl_refl]]]; (rule hs_register hs_approve)?; rule prod.collapse [symmetric])
  from hold_decided_once [OF this] have "distinct (map fst (hw_resumes sample_hitl))" by (simp add: empty_hitl_def)
  moreover have "hw_resumes sample_hitl = [(''run'', ''th'')]"
    by (simp add: sample_hitl_def register_hold_def HitlHoldRepository_register_def UUID_of_def u empty_hitl_def
        insert_ignore_def HitlHoldRegistry_register_def approve_hold_def HitlHoldRepository_approve_def pending_run_def
        approve_memory_def HitlHoldRegistry_resume_graph_def Let_def)
  ultimately show ?thesis by blast
qed

text \<open>Without a database, or when it fails, approval does not depend on a hold: any run id that the
  registry does not know is accepted without a database, and with a failing one a run is resumed again
  at every approval, whatever became of its hold.\<close>

theorem approval_without_hold:
  assumes "hw_has_graph w" and "if hw_has_db w then db_fails else map_of (hw_holds w) run_id = None"
  shows "\<exists>h w'. approve_hold db_fails now run_id by w = (Inr h, w') \<and> hd_status h = HS_APPROVED \<and>
    (\<exists>th. hw_resumes w' = hw_resumes w @ [(run_id, th)])"
  using assms
  by (auto simp: approve_hold_def approve_memory_def HitlHoldRegistry_resume_graph_def Let_def split: if_splits option.splits)

theorem approval_without_hold_witness:
  "\<exists>h w'. approve_hold False 1 ''ghost'' ''ana'' (empty_hitl\<lparr>hw_has_db := False\<rparr>) = (Inr h, w') \<and>
     (\<exists>th. hw_resumes w' = [(''ghost'', th)])"
  using approval_without_hold [of "empty_hitl\<lparr>hw_has_db := False\<rparr>" False "''ghost''" 1 "''ana''"]
  by (auto simp: empty_hitl_def)

end
