(* ===== verification/Graph.thy ===== *)
theory Graph
  imports GraphNodes JobConsumer
begin

text \<open>
  The conversational graph: edges (\<open>graph/edges.py\<close>), assembly (\<open>graph/builder.py\<close>), and one invocation on a
  checkpointed thread. The run is a function with
  fuel; fifteen nodes are proved to be enough for every state with a step count that is not negative. What
  the scheduler does with a label that has no entry in the path map is left open (\<open>No_target\<close>).
\<close>

section \<open>Edges\<close>

datatype node = N_eligibility | N_command_assistant | N_media_understanding | N_context_builder | N_agent
  | N_tool_executor | N_guardrails | N_hitl | N_command_dispatch | N_memory_writer

datatype target = Goto node | END

definition should_continue_after_eligibility :: "GraphState \<Rightarrow> string" where
  "should_continue_after_eligibility s =
     (if gs_eligibility_status s \<noteq> Some ''accepted'' then ''end''
      else if gs_is_admin_command s then ''command_assistant'' else ''media_understanding'')"

definition should_continue_after_media :: "GraphState \<Rightarrow> string" where
  "should_continue_after_media s = (if given (gs_error s) then ''end'' else ''context_builder'')"

definition should_continue_after_context :: "GraphState \<Rightarrow> string" where
  "should_continue_after_context s = (if given (gs_error s) then ''end'' else ''agent'')"

definition should_continue_after_agent :: "GraphState \<Rightarrow> string" where
  "should_continue_after_agent s =
     (if given (gs_error s) then ''end''
      else if gs_hitl_requested s then ''hitl_interrupt''
      else if gs_tool_calls_pending s \<noteq> [] then ''tool_executor'' else ''guardrails'')"

definition should_continue_after_tools :: "GraphState \<Rightarrow> string" where
  "should_continue_after_tools s = (if given (gs_error s) then ''end'' else ''agent'')"

definition should_continue_after_guardrails :: "GraphState \<Rightarrow> string" where
  "should_continue_after_guardrails s =
     (if given (gs_error s) then ''end'' else if gs_hitl_requested s then ''hitl'' else ''command_dispatch'')"

definition should_continue_after_dispatch :: "GraphState \<Rightarrow> string" where
  "should_continue_after_dispatch s = (if given (gs_error s) then ''end'' else ''memory_writer'')"

lemmas edge_defs = should_continue_after_eligibility_def should_continue_after_media_def
  should_continue_after_context_def should_continue_after_agent_def should_continue_after_tools_def
  should_continue_after_guardrails_def should_continue_after_dispatch_def

section \<open>Assembly\<close>

primrec node_fn :: "node \<Rightarrow> graph_node" where
  "node_fn N_eligibility = eligibility_node"
| "node_fn N_command_assistant = command_assistant_node"
| "node_fn N_media_understanding = media_understanding_node"
| "node_fn N_context_builder = context_builder_node"
| "node_fn N_agent = agent_node"
| "node_fn N_tool_executor = tool_executor_node"
| "node_fn N_guardrails = guardrails_node"
| "node_fn N_hitl = hitl_node"
| "node_fn N_command_dispatch = command_dispatch_node"
| "node_fn N_memory_writer = memory_writer_node"

primrec next_target :: "node \<Rightarrow> GraphState \<Rightarrow> target option" where
  "next_target N_eligibility s = map_of [(''command_assistant'', Goto N_command_assistant),
     (''media_understanding'', Goto N_media_understanding), (''end'', END)] (should_continue_after_eligibility s)"
| "next_target N_command_assistant s = Some END"
| "next_target N_media_understanding s =
     map_of [(''context_builder'', Goto N_context_builder), (''end'', END)] (should_continue_after_media s)"
| "next_target N_context_builder s = map_of [(''agent'', Goto N_agent), (''end'', END)] (should_continue_after_context s)"
| "next_target N_agent s = map_of [(''tool_executor'', Goto N_tool_executor), (''guardrails'', Goto N_guardrails),
     (''hitl_interrupt'', END), (''end'', END)] (should_continue_after_agent s)"
| "next_target N_tool_executor s = map_of [(''agent'', Goto N_agent), (''end'', END)] (should_continue_after_tools s)"
| "next_target N_guardrails s = map_of [(''hitl'', Goto N_hitl), (''command_dispatch'', Goto N_command_dispatch),
     (''end'', END)] (should_continue_after_guardrails s)"
| "next_target N_hitl s = Some END"
| "next_target N_command_dispatch s = map_of [(''memory_writer'', Goto N_memory_writer)] (should_continue_after_dispatch s)"
| "next_target N_memory_writer s = Some END"

datatype outcome = Finished | Raised py_exc | No_target | Out_of_fuel

text \<open>The outcome, the last state that was merged, and the world.\<close>

fun run_from :: "nat \<Rightarrow> graph_env \<Rightarrow> node \<Rightarrow> GraphState \<Rightarrow> graph_world \<Rightarrow> outcome \<times> GraphState \<times> graph_world" where
  "run_from 0 env n s w = (Out_of_fuel, s, w)"
| "run_from (Suc k) env n s w = (case node_fn n env s w of
     (Inl e, w') \<Rightarrow> (Raised e, s, w')
   | (Inr s', w') \<Rightarrow> (case next_target n s' of
       None \<Rightarrow> (No_target, s', w')
     | Some END \<Rightarrow> (Finished, s', w')
     | Some (Goto n') \<Rightarrow> run_from k env n' s' w'))"

type_synonym config = "node \<times> GraphState \<times> graph_world"

text \<open>The same as a step relation between configurations.\<close>

inductive graph_step :: "graph_env \<Rightarrow> config \<Rightarrow> config \<Rightarrow> bool" for env where
  go: "node_fn n env s w = (Inr s', w') \<Longrightarrow> next_target n s' = Some (Goto n') \<Longrightarrow>
    graph_step env (n, s, w) (n', s', w')"

inductive_cases graph_stepE: "graph_step env (n, s, w) c'"

section \<open>Threads\<close>

definition fresh_state :: GraphState where
  "fresh_state = \<lparr>gs_run_id = [], gs_tenant_id = [], gs_conversation_id = [], gs_correlation_id = [],
     gs_eligibility_status = None, gs_media_processed = False, gs_context_built = False, gs_agent_response = None,
     gs_tool_calls_pending = [], gs_tool_results = [], gs_response_sent = False, gs_error = None,
     gs_hitl_requested = False, gs_hitl_approved = False, gs_hitl_reason = None, gs_step_count = 0,
     gs_response_history = [], gs_messages = [], gs_is_admin_command = False, gs_metadata = []\<rparr>"

definition role_message :: "string \<times> string \<Rightarrow> pydict" where
  "role_message m = [(''role'', PStr (fst m)), (''content'', PStr (snd m))]"

text \<open>A worker's initial state merged into the checkpoint of the thread: the keys it has are replaced, the
  messages appended, and every other key of the last turn persists.\<close>

definition merge_input :: "graph_input \<Rightarrow> GraphState \<Rightarrow> GraphState" where
  "merge_input inp checkpoint = checkpoint\<lparr>gs_run_id := gi_run_id inp, gs_tenant_id := gi_tenant_id inp,
     gs_conversation_id := gi_conversation_id inp, gs_correlation_id := gi_correlation_id inp,
     gs_eligibility_status := Some ''pending'', gs_media_processed := False, gs_context_built := False,
     gs_messages := gs_messages checkpoint @ map role_message (gi_messages inp),
     gs_metadata := [(''idempotency_key'', gi_idempotency_key inp), (''event_ref'', gi_event_ref inp),
       (''attachments'', gi_attachments inp), (''sender_type'', gi_sender_type inp), (''sender_ref'', gi_sender_ref inp)]\<rparr>"

definition MAX_NODES :: nat where
  "MAX_NODES = 15"

definition graph_ainvoke ::
    "graph_env \<Rightarrow> graph_input \<Rightarrow> GraphState \<Rightarrow> graph_world \<Rightarrow> outcome \<times> GraphState \<times> graph_world" where
  "graph_ainvoke env inp checkpoint w = run_from MAX_NODES env N_eligibility (merge_input inp checkpoint) w"

text \<open>Successive turns of one thread, each with its own collaborators.\<close>

fun thread_turns :: "(graph_env \<times> graph_input) list \<Rightarrow> GraphState \<Rightarrow> graph_world \<Rightarrow> GraphState \<times> graph_world" where
  "thread_turns [] s w = (s, w)"
| "thread_turns ((env, inp) # turns) s w =
     (let (_, s', w') = graph_ainvoke env inp s w in thread_turns turns s' w')"

section \<open>Termination\<close>

definition agent_budget :: "int \<Rightarrow> nat" where
  "agent_budget n = (if 10 \<le> n then 4 else nat (10 - n) + 5)"

primrec budget :: "node \<Rightarrow> int \<Rightarrow> nat" where
  "budget N_eligibility n = agent_budget (n + 3) + 3"
| "budget N_command_assistant n = 1"
| "budget N_media_understanding n = agent_budget (n + 2) + 2"
| "budget N_context_builder n = agent_budget (n + 1) + 1"
| "budget N_agent n = agent_budget n"
| "budget N_tool_executor n = agent_budget (n + 1) + 1"
| "budget N_guardrails n = 3"
| "budget N_hitl n = 1"
| "budget N_command_dispatch n = 2"
| "budget N_memory_writer n = 1"

text \<open>Every node counts one step, and the agent stops asking for tools at ten.\<close>

lemmas node_defs = eligibility_node_def command_assistant_node_def media_understanding_node_def
  context_builder_node_def agent_node_def tool_executor_node_def guardrails_node_def hitl_node_def
  command_dispatch_node_def memory_writer_node_def

text \<open>What every node keeps of the state.\<close>

definition kept :: "GraphState \<Rightarrow> GraphState \<Rightarrow> bool" where
  "kept s s' \<longleftrightarrow> gs_step_count s' = gs_step_count s + 1 \<and> gs_run_id s' = gs_run_id s \<and> gs_tenant_id s' = gs_tenant_id s \<and>
     gs_conversation_id s' = gs_conversation_id s \<and> gs_correlation_id s' = gs_correlation_id s \<and>
     (gs_response_sent s \<longrightarrow> gs_response_sent s')"

lemma node_kept: "node_fn n env s w = (Inr s', w') \<Longrightarrow> kept s s'"
proof (induction n)
  case N_eligibility
  then show ?case
    by (auto simp: kept_def eligibility_node_def Let_def res_bind_Inr_iff split: option.splits if_splits)
next
  case N_media_understanding
  then show ?case by (auto simp: kept_def media_understanding_node_def Let_def split: option.splits if_splits sum.splits)
next
  case N_memory_writer
  then show ?case by (auto simp: kept_def memory_writer_node_def split: option.splits if_splits sum.splits)
next
  case N_agent
  then show ?case
    by (auto simp: kept_def agent_node_def Let_def res_bind_Inr_iff split: option.splits if_splits sum.splits)
next
  case N_context_builder
  then show ?case by (auto simp: kept_def context_builder_node_def Let_def res_bind_Inr_iff)
next
  case N_command_dispatch
  then show ?case
    by (auto simp: kept_def command_dispatch_node_def Let_def split: option.splits if_splits sum.splits prod.splits)
qed (auto simp: kept_def command_assistant_node_def tool_executor_node_def guardrails_node_def hitl_node_def Let_def
    res_bind_Inr_iff case_prod_beta split: option.splits if_splits prod.splits)

lemma agent_stops:
  assumes "agent_node env s w = (Inr s', w')" and "10 \<le> gs_step_count s"
  shows "gs_tool_calls_pending s' = []"
  using assms by (auto simp: agent_node_def MAX_TOOL_ITERATIONS_def split: option.splits)

lemma next_node:
  "next_target n s = Some (Goto n') \<Longrightarrow>
     (n = N_eligibility \<and> n' \<in> {N_command_assistant, N_media_understanding}) \<or> (n = N_media_understanding \<and> n' = N_context_builder) \<or>
     (n = N_context_builder \<and> n' = N_agent) \<or> (n = N_agent \<and> n' = N_guardrails) \<or>
     (n = N_agent \<and> n' = N_tool_executor \<and> gs_tool_calls_pending s \<noteq> []) \<or> (n = N_tool_executor \<and> n' = N_agent) \<or>
     (n = N_guardrails \<and> n' = N_hitl \<and> gs_hitl_requested s) \<or>
     (n = N_guardrails \<and> n' = N_command_dispatch \<and> \<not> gs_hitl_requested s) \<or>
     (n = N_command_dispatch \<and> n' = N_memory_writer)"
  by (cases n) (auto simp: edge_defs split: if_splits)

lemma budget_decreases:
  assumes "node_fn n env s w = (Inr s', w')" and "next_target n s' = Some (Goto n')"
  shows "budget n' (gs_step_count s') < budget n (gs_step_count s)"
  using next_node [OF assms(2)] node_kept [OF assms(1)] assms(1) agent_stops [of env s w s' w']
  by (auto simp: agent_budget_def kept_def)

lemma run_ends: "budget n (gs_step_count s) \<le> k \<Longrightarrow> fst (run_from k env n s w) \<noteq> Out_of_fuel"
proof (induction k arbitrary: n s w)
  case 0
  then show ?case by (cases n) (auto simp: agent_budget_def split: if_splits)
next
  case (Suc k)
  then show ?case
  proof (cases "node_fn n env s w")
    case (Pair r w')
    show ?thesis
    proof (cases r)
      case (Inr s')
      then have "budget n' (gs_step_count s') \<le> k" if "next_target n s' = Some (Goto n')" for n'
        using budget_decreases [of n env s w s' w' n'] that Pair Suc.prems by simp
      then show ?thesis using Pair Inr Suc.IH by (auto split: option.split target.split)
    qed (use Pair in simp)
  qed
qed

section \<open>What a run sends\<close>

definition sends :: "graph_world \<Rightarrow> outbox" where
  "sends w = filter (\<lambda>r. ob_capability_name r = ''send_message'') (tw_outbox (gd_tools w))"

definition gateways_ok :: "graph_env \<Rightarrow> bool" where
  "gateways_ok env \<longleftrightarrow> (\<forall>gateway n. ge_gateway env = Some gateway \<longrightarrow> registry_ok (gw_registry (gateway n)))"

text \<open>What the guardrails let through.\<close>

definition released :: "graph_env \<Rightarrow> string \<Rightarrow> bool" where
  "released env c \<longleftrightarrow> c \<noteq> [] \<and> list_all (\<lambda>m. \<not> shows_marker m c) INTERNAL_MARKERS \<and>
     (c = BLOCKED_RESPONSE \<or>
      \<not> ContentFilter_contains_blocked_content (ge_content_filter env) c \<and> \<not> is_low_confidence c)"

text \<open>The command that carries a response.\<close>

definition response_row :: "GraphState \<Rightarrow> string \<Rightarrow> ProviderCommandOutbox \<Rightarrow> bool" where
  "response_row s c r \<longleftrightarrow> UUID_of (gs_tenant_id s) = Inr (ob_tenant_id r) \<and> ob_capability_name r = ''send_message'' \<and>
     ob_parameters r = response_parameters (gs_conversation_id s) c \<and> ob_idempotency_key r = response_key (gs_run_id s) \<and>
     ob_correlation_id r = gs_correlation_id s \<and> ob_status r = CS_PENDING"

lemma response_row_kept: "kept s s' \<Longrightarrow> response_row s' c r = response_row s c r"
  by (simp add: response_row_def kept_def)

lemma real_execution_name: "real_execution guard tool \<Longrightarrow> atd_tool_name tool \<noteq> ''send_message''"
  by (auto simp: real_execution_def py_startswith_def)

lemma invoke_sends:
  assumes "registry_ok (gw_registry gw)" and "AgentToolMcpGateway_invoke gw request w = (r, w')"
  shows "filter (\<lambda>r. ob_capability_name r = ''send_message'') (tw_outbox w') =
    filter (\<lambda>r. ob_capability_name r = ''send_message'') (tw_outbox w)"
proof (cases "tw_outbox w' = tw_outbox w")
  case False
  then have "w' \<noteq> w" by blast
  from invoke_cases [OF assms(2) this] obtain tool policy where
    t: "AgentToolRegistry_get_tool (gw_registry gw) (tir_tool_name request) = Some tool"
      "ToolPolicyGuard_check (gw_policy_guard gw) tool (tir_arguments request) = Inr policy" "pcr_approved policy"
      "ToolExecutor_execute (gw_executor gw) request tool policy w = (r, w')" by blast
  note e = execute_outbox [OF t(4) False]
  then have "real_execution (gw_policy_guard gw) tool"
    using guard_real_execution(1) [OF t(2)] t(3) by blast
  then have n: "tir_tool_name request \<noteq> ''send_message''"
    using real_execution_name get_tool_name [OF assms(1) t(1)] by metis
  have "execute_with_outbox (gw_executor gw) request policy w = (r, w')" using e by blast
  from execute_with_outbox_row [OF this False] n show ?thesis by force
qed simp

lemma run_tools_sends:
  assumes "\<And>n. registry_ok (gw_registry (gateway n))"
  shows "run_tools env gateway s tcs w = (rs, w') \<Longrightarrow> sends w' = sends w"
proof (induction tcs arbitrary: w rs)
  case (Cons tc tcs)
  obtain r w1 where r: "run_tool env gateway s tc w = (r, w1)" by fastforce
  have "sends w1 = sends w"
    using r invoke_sends [OF assms]
    by (auto simp: run_tool_def sends_def split: sum.splits prod.splits)
  then show ?case using Cons r by (auto split: prod.splits)
qed simp

lemma store_facts_tools: "gd_tools (store_facts env ms c i items w) = gd_tools w"
  by (induction env ms c i items w rule: store_facts.induct) (auto split: prod.splits sum.splits)

text \<open>Only the dispatch node sends, and it sends the agent's response once.\<close>

lemma other_nodes_send_nothing:
  assumes "gateways_ok env" and "n \<noteq> N_command_dispatch" and "node_fn n env s w = (x, w')"
  shows "sends w' = sends w"
proof (cases "n = N_tool_executor")
  case True
  then show ?thesis using assms run_tools_sends [of _ env s "gs_tool_calls_pending s" w]
    by (auto simp: tool_executor_node_def gateways_ok_def Let_def split: if_splits option.splits prod.splits)
next
  case False
  then have "gd_tools w' = gd_tools w" using assms(2,3)
    by (cases n) (auto simp: eligibility_node_def command_assistant_node_def media_understanding_node_def
        context_builder_node_def agent_node_def guardrails_node_def hitl_node_def memory_writer_node_def Let_def
        store_facts_tools split: option.splits if_splits sum.splits)
  then show ?thesis by (simp add: sends_def)
qed

lemma dispatch_sends:
  assumes "command_dispatch_node env s w = (x, w')"
  shows "sends w' = sends w \<or> (\<exists>c r. gs_agent_response s = Some c \<and> c \<noteq> [] \<and> \<not> gs_response_sent s \<and>
    sends w' = sends w @ [r] \<and> response_row s c r)"
  using assms
  by (auto simp: command_dispatch_node_def Let_def sends_def OutboxService_enqueue_def OutboxRepository_enqueue_def
      insert_ignore_def outbox_command_def response_row_def split: option.splits if_splits sum.splits)

lemma guardrails_release:
  assumes "guardrails_node env s w = (Inr s', w')" and "next_target N_guardrails s' = Some (Goto N_command_dispatch)"
    and "gs_agent_response s' = Some c" and "c \<noteq> []"
  shows "released env c"
  using assms next_node [OF assms(2)] strip_hides_markers blocked_response_unmarked
  by (auto simp: guardrails_node_def released_def list_all_iff Let_def split: option.splits if_splits)

text \<open>One node further.\<close>

lemma run_from_cases:
  assumes "run_from (Suc k) env n s w = (out, s', w')"
  obtains (stop) "node_fn n env s w = (Inr s', w')" and "out \<in> {Finished, No_target}"
    and "next_target n s' \<in> {None, Some END}"
  | (raised) e where "node_fn n env s w = (Inl e, w')" and "s' = s" and "out = Raised e"
  | (step) n1 s1 w1 where "node_fn n env s w = (Inr s1, w1)" and "next_target n s1 = Some (Goto n1)"
      and "run_from k env n1 s1 w1 = (out, s', w')"
  using assms by (auto split: prod.splits sum.splits option.splits target.splits)

lemma run_step:
  "next_target n s' = Some (Goto n') \<Longrightarrow> node_fn n env s w = (Inr s', w') \<Longrightarrow>
    run_from (Suc k) env n s w = run_from k env n' s' w'"
  by simp

lemma run_from_writer:
  assumes "gateways_ok env" and "run_from k env N_memory_writer s w = (out, s', w')"
  shows "sends w' = sends w \<and> (gs_response_sent s \<longrightarrow> gs_response_sent s')"
proof (cases k)
  case (Suc j)
  from assms(2) [unfolded Suc] show ?thesis
  proof (cases rule: run_from_cases)
    case stop
    then show ?thesis using other_nodes_send_nothing [OF assms(1) _ stop(1)] node_kept [OF stop(1)] by (simp add: kept_def)
  next
    case raised
    then show ?thesis using other_nodes_send_nothing [OF assms(1) _ raised(1)] by simp
  qed simp
qed (use assms in simp)

lemma dispatch_marks:
  assumes "command_dispatch_node env s w = (x, w')" and "sends w' \<noteq> sends w"
  shows "\<exists>s'. x = Inr s' \<and> gs_response_sent s'"
  using assms
  by (auto simp: command_dispatch_node_def Let_def sends_def split: option.splits if_splits sum.splits prod.splits)

text \<open>At most one response leaves a run, and only through the guardrails.\<close>

definition run_sends :: "graph_env \<Rightarrow> GraphState \<Rightarrow> graph_world \<Rightarrow> GraphState \<Rightarrow> graph_world \<Rightarrow> bool" where
  "run_sends env s w s' w' \<longleftrightarrow> sends w' = sends w \<or>
     (\<exists>c r. sends w' = sends w @ [r] \<and> response_row s c r \<and> released env c \<and> \<not> gs_response_sent s \<and> gs_response_sent s')"

lemma dispatch_run_sends:
  assumes g: "gateways_ok env" and r: "run_from k env N_command_dispatch s w = (out, s', w')"
    and rel: "\<And>c. gs_agent_response s = Some c \<Longrightarrow> c \<noteq> [] \<Longrightarrow> released env c"
  shows "run_sends env s w s' w'"
proof (cases k)
  case (Suc j)
  have sent: "run_sends env s w s'' w''"
    if "node_fn N_command_dispatch env s w = (Inr s1, w1)" and "sends w'' = sends w1" and "gs_response_sent s1 \<longrightarrow> gs_response_sent s''"
    for s1 w1 s'' w''
    using dispatch_sends [of env s w "Inr s1" w1] dispatch_marks [of env s w "Inr s1" w1] that rel
    by (auto simp: run_sends_def)
  from r [unfolded Suc] show ?thesis
  proof (cases rule: run_from_cases)
    case (step n1 s1 w1)
    then have "n1 = N_memory_writer" using next_node by fastforce
    then show ?thesis using run_from_writer [OF g] step sent [OF step(1)] by simp
  next
    case (raised e)
    then show ?thesis using dispatch_marks [of env s w "Inl e" w'] by (auto simp: run_sends_def)
  qed (use sent in simp)
qed (use r in \<open>simp add: run_sends_def\<close>)

lemma run_sends_vetted:
  assumes "gateways_ok env" and "run_from k env n s w = (out, s', w')"
    and "n = N_command_dispatch \<Longrightarrow> (\<And>c. gs_agent_response s = Some c \<Longrightarrow> c \<noteq> [] \<Longrightarrow> released env c)"
  shows "run_sends env s w s' w'"
  using assms(2,3)
proof (induction k arbitrary: n s w)
  case (Suc k)
  show ?case
  proof (cases "n = N_command_dispatch")
    case True
    then show ?thesis using dispatch_run_sends [OF assms(1)] Suc.prems by metis
  next
    case False
    from Suc.prems(1) show ?thesis
    proof (cases rule: run_from_cases)
      case (step n1 s1 w1)
      have "run_sends env s1 w1 s' w'"
      proof (rule Suc.IH [OF step(3)])
        fix c assume c: "n1 = N_command_dispatch" "gs_agent_response s1 = Some c" "c \<noteq> []"
        then have "n = N_guardrails" using next_node [OF step(2)] by auto
        then show "released env c" using guardrails_release step c by simp
      qed
      then show ?thesis
        using other_nodes_send_nothing [OF assms(1) False step(1)] response_row_kept [OF node_kept [OF step(1)]]
          node_kept [OF step(1)] by (auto simp: run_sends_def kept_def)
    qed (use other_nodes_send_nothing [OF assms(1) False] in \<open>simp_all add: run_sends_def\<close>)
  qed
qed (simp add: run_sends_def)

lemma run_keeps_sent:
  "run_from k env n s w = (out, s', w') \<Longrightarrow> gs_response_sent s \<Longrightarrow> gs_response_sent s'"
proof (induction k arbitrary: n s w)
  case (Suc k)
  from Suc.prems(1) show ?case
  proof (cases rule: run_from_cases)
    case (step n1 s1 w1)
    then show ?thesis using Suc node_kept [OF step(1)] by (simp add: kept_def)
  qed (use Suc.prems(2) node_kept in \<open>auto simp: kept_def\<close>)
qed simp

lemma merge_input_sent [simp]: "gs_response_sent (merge_input inp s) = gs_response_sent s"
  by (simp add: merge_input_def)

lemma run_more_fuel:
  "fst (run_from k env n s w) \<noteq> Out_of_fuel \<Longrightarrow> k \<le> j \<Longrightarrow> run_from j env n s w = run_from k env n s w"
proof (induction k arbitrary: j n s w)
  case (Suc k)
  obtain i where j: "j = Suc i" "k \<le> i" using Suc.prems(2) by (cases j) auto
  show ?case using Suc.IH [OF _ j(2)] Suc.prems(1)
    by (auto simp: j(1) split: prod.splits sum.splits option.splits target.splits)
qed simp

lemma strip_markers_Nil: "strip_internal_markers [] = []"
  by code_simp

text \<open>A plain turn of a fresh thread, node by node.\<close>

lemma eligibility_plain:
  assumes "gs_eligibility_status s = Some ''pending''" and "gs_messages s = [role_message (''user'', msg)]"
    and "\<not> is_admin_prefix (py_strip msg)"
  shows "eligibility_node env s w =
    (Inr (stepped (s\<lparr>gs_eligibility_status := Some ''accepted'', gs_is_admin_command := False\<rparr>)), w)"
proof -
  have "last_user_content (gs_messages s) = PStr msg"
    using assms(2) by (simp add: last_user_content_def role_message_def dict_get_def dict_get_or_def)
  moreover have "py_or (PStr msg) (PStr []) = PStr msg" by (simp add: py_or_def)
  moreover have "guard_verdict guard s msg =
      Inr \<lparr>ar_allowed = True, ar_reason = ''not_admin_command'', ar_is_admin_command = False\<rparr>" for guard
    using assms(3) by (simp add: guard_verdict_def CommandAuthorizationGuard_check_def Let_def split: pyval.split)
  ultimately show ?thesis using assms(1)
    by (simp add: eligibility_node_def as_str_def Let_def split: option.split)
qed

lemma media_plain:
  assumes "\<not> truthy (dict_get_or (gs_metadata s) ''attachments'' (PList []))"
  shows "media_understanding_node env s w = (Inr (stepped (s\<lparr>gs_media_processed := True\<rparr>)), w)"
  using assms by (simp add: media_understanding_node_def Let_def split: option.split)

lemma context_plain:
  assumes "map_of (gs_metadata s) ''media_contexts'' = None"
  shows "\<exists>md. context_builder_node env s w = (Inr (stepped (s\<lparr>gs_context_built := True, gs_metadata := md\<rparr>)), tick w)"
  by (rule exI [of _ "gs_metadata (projr (fst (context_builder_node env s w)))"])
    (use assms in \<open>simp add: context_builder_node_def dict_get_or_def build_media_section_def Let_def\<close>)

lemma agent_plain:
  assumes "ge_llm env = Some llm" and "gs_step_count s < 10" and "py_strip t \<noteq> []"
    and "\<And>d m. llm (gd_tick w) d m = Inr \<lparr>lr_content = PStr t, lr_tool_calls = []\<rparr>"
  shows "agent_node env s w = (Inr (stepped (s\<lparr>gs_agent_response := Some (py_strip t), gs_tool_calls_pending := [],
      gs_messages := gs_messages s @ [role_message (''assistant'', py_strip t)]\<rparr>)), tick w)"
  using assms by (simp add: agent_node_def MAX_TOOL_ITERATIONS_def extract_text_def text_or_none_def agent_messages_def
      role_message_def Let_def)

lemma guardrails_plain:
  assumes "gs_agent_response s = Some a" and "a \<noteq> []" and "gs_response_history s = []" and "c = strip_internal_markers a"
    and "\<not> ContentFilter_contains_blocked_content (ge_content_filter env) c" and "\<not> is_low_confidence c"
  shows "guardrails_node env s w = (Inr (stepped (s\<lparr>gs_agent_response := Some c, gs_response_history := [c]\<rparr>)), w)"
  using assms by (simp add: guardrails_node_def is_looping_def last_n_def LOOP_WINDOW_def Let_def)

lemma dispatch_plain:
  assumes "gs_agent_response s = Some c" and "c \<noteq> []" and "\<not> gs_response_sent s" and "ge_has_outbox env"
    and "\<not> ge_db_fails env (gd_tick w)" and "UUID_of (gs_tenant_id s) = Inr u"
    and "(u, response_key (gs_run_id s)) \<notin> set (map ob_key (tw_outbox (gd_tools w)))"
  shows "\<exists>w' r. command_dispatch_node env s w = (Inr (stepped (s\<lparr>gs_response_sent := True\<rparr>)), w') \<and>
    tw_outbox (gd_tools w') = tw_outbox (gd_tools w) @ [r] \<and> response_row s c r"
  using assms
  by (auto simp: command_dispatch_node_def Let_def OutboxService_enqueue_def OutboxRepository_enqueue_def
      insert_ignore_def outbox_command_def response_row_def)

lemma conversation_line_role:
  "conversation_line (role_message m) = Inr ((if fst m = ''user'' then ''Contato: '' else ''IAra: '') @ take 500 (snd m))"
  by (simp add: conversation_line_def role_message_def dict_get_def py_or_def py_str_def)

lemma memory_writer_plain:
  assumes "gs_messages s = map role_message ms" and "\<forall>m\<in>set ms. fst m \<in> {''user'', ''assistant''}"
  shows "\<exists>w'. memory_writer_node env s w = (Inr (stepped s), w') \<and> gd_tools w' = gd_tools w"
proof -
  have lines: "\<exists>ls. res_map conversation_line (map role_message ns) = Inr ls" for ns
    by (induction ns) (auto simp: conversation_line_role)
  have all: "filter (\<lambda>m. dict_get m ''role'' \<in> {PStr ''user'', PStr ''assistant''}) (gs_messages s) = map role_message ms"
    using assms by (simp add: filter_id_conv dict_get_def role_message_def)
  have "last_n (10 * 2) (map role_message ms) = map role_message (last_n 20 ms)"
    by (simp add: last_n_def drop_map)
  then have "\<exists>t. format_conversation (gs_messages s) 10 = Inr t"
    unfolding format_conversation_def all using lines [of "last_n 20 ms"] by auto
  then show ?thesis
    by (auto simp: memory_writer_node_def store_facts_tools split: option.split sum.split)
qed

text \<open>The run as far as the guardrails, on a thread that has only answered before.\<close>

definition at_guardrails :: "graph_input \<Rightarrow> string \<Rightarrow> string \<Rightarrow> string list \<Rightarrow> GraphState \<Rightarrow> bool" where
  "at_guardrails inp msg answer history s \<longleftrightarrow> gs_run_id s = gi_run_id inp \<and> gs_tenant_id s = gi_tenant_id inp \<and>
     gs_conversation_id s = gi_conversation_id inp \<and> gs_correlation_id s = gi_correlation_id inp \<and>
     gs_agent_response s = Some answer \<and> gs_response_history s = history \<and> gs_error s = None \<and>
     \<not> gs_hitl_requested s \<and> \<not> gs_response_sent s \<and>
     gs_messages s = map role_message [(''user'', msg), (''assistant'', answer)]"

lemma reach_guardrails:
  assumes llm: "ge_llm env = Some llm"
      "\<And>d m. llm (Suc (gd_tick w)) d m = Inr \<lparr>lr_content = PStr t, lr_tool_calls = []\<rparr>" "py_strip t \<noteq> []"
    and inp: "gi_messages inp = [(''user'', msg)]" "\<not> is_admin_prefix (py_strip msg)" "\<not> truthy (gi_attachments inp)"
  shows "\<exists>s4. graph_ainvoke env inp (fresh_state\<lparr>gs_response_history := history\<rparr>) w =
      run_from 11 env N_guardrails s4 (tick (tick w)) \<and> at_guardrails inp msg (py_strip t) history s4"
proof -
  define s0 where "s0 = merge_input inp (fresh_state\<lparr>gs_response_history := history\<rparr>)"
  define s1 where "s1 = stepped (s0\<lparr>gs_eligibility_status := Some ''accepted'', gs_is_admin_command := False\<rparr>)"
  define s2 where "s2 = stepped (s1\<lparr>gs_media_processed := True\<rparr>)"
  note upto2 = s0_def s1_def s2_def merge_input_def fresh_state_def
  have e1: "eligibility_node env s0 w = (Inr s1, w)"
    unfolding s1_def by (rule eligibility_plain [OF _ _ inp(2)]) (simp_all add: upto2 inp)
  have e2: "media_understanding_node env s1 w = (Inr s2, w)"
    unfolding s2_def by (rule media_plain) (simp add: upto2 inp dict_get_or_def)
  obtain md where e3: "context_builder_node env s2 w = (Inr (stepped (s2\<lparr>gs_context_built := True, gs_metadata := md\<rparr>)), tick w)"
    using context_plain [of s2 env w] by (auto simp: upto2)
  define s3 where "s3 = stepped (s2\<lparr>gs_context_built := True, gs_metadata := md\<rparr>)"
  define s4 where "s4 = stepped (s3\<lparr>gs_agent_response := Some (py_strip t), gs_tool_calls_pending := [],
      gs_messages := gs_messages s3 @ [role_message (''assistant'', py_strip t)]\<rparr>)"
  note upto4 = upto2 s3_def s4_def
  from e3 have e3: "context_builder_node env s2 w = (Inr s3, tick w)" by (simp only: s3_def)
  have e4: "agent_node env s3 (tick w) = (Inr s4, tick (tick w))"
    unfolding s4_def by (rule agent_plain [OF llm(1) _ llm(3)]) (simp_all add: upto4 llm)
  have "next_target N_eligibility s1 = Some (Goto N_media_understanding)" "next_target N_media_understanding s2 = Some (Goto N_context_builder)"
    "next_target N_context_builder s3 = Some (Goto N_agent)" "next_target N_agent s4 = Some (Goto N_guardrails)"
    by (simp_all add: upto4 edge_defs given_def)
  note t = this [THEN run_step]
  have "run_from 15 env N_eligibility s0 w = run_from 11 env N_guardrails s4 (tick (tick w))"
    using t(1) [of env s0 w w 14] t(2) [of env s1 w w 13] t(3) [of env s2 w "tick w" 12]
      t(4) [of env s3 "tick w" "tick (tick w)" 11] e1 e2 e3 e4 by simp
  moreover have "at_guardrails inp msg (py_strip t) history s4" by (simp add: at_guardrails_def upto4 inp)
  ultimately show ?thesis by (auto simp: graph_ainvoke_def MAX_NODES_def s0_def)
qed

text \<open>Escalations.\<close>

lemma hitl_flag:
  assumes "node_fn n env s w = (Inr s', w')" and "n \<noteq> N_guardrails" and "n \<noteq> N_hitl"
  shows "gs_hitl_requested s' = gs_hitl_requested s"
  using assms
proof (induction n)
  case N_eligibility
  then show ?case
    by (auto simp: eligibility_node_def Let_def res_bind_Inr_iff split: option.splits if_splits)
next
  case N_agent
  then show ?case
    by (auto simp: agent_node_def Let_def res_bind_Inr_iff split: option.splits if_splits sum.splits)
next
  case N_context_builder
  then show ?case by (auto simp: context_builder_node_def Let_def res_bind_Inr_iff)
qed (auto simp: command_assistant_node_def media_understanding_node_def tool_executor_node_def command_dispatch_node_def
    memory_writer_node_def Let_def res_bind_Inr_iff case_prod_beta split: option.splits if_splits sum.splits prod.splits)

lemma run_tools_holds: "gd_holds (snd (run_tools env gateway s tcs w)) = gd_holds w"
proof (induction tcs arbitrary: w)
  case (Cons tc tcs)
  have "gd_holds (snd (run_tool env gateway s tc w)) = gd_holds w"
    by (simp add: run_tool_def case_prod_beta Let_def split: sum.split)
  then show ?case using Cons by (simp add: case_prod_beta Let_def)
qed simp

lemma store_facts_holds: "gd_holds (store_facts env ms c i items w) = gd_holds w"
  by (induction env ms c i items w rule: store_facts.induct) (auto split: prod.splits sum.splits)

lemma other_nodes_hold_nothing:
  assumes "node_fn n env s w = (x, w')" and "n \<noteq> N_hitl"
  shows "gd_holds w' = gd_holds w"
  using assms
  by (cases n) (auto simp: eligibility_node_def command_assistant_node_def media_understanding_node_def
      context_builder_node_def agent_node_def guardrails_node_def tool_executor_node_def command_dispatch_node_def
      memory_writer_node_def Let_def case_prod_beta store_facts_holds run_tools_holds
      split: option.splits if_splits sum.splits prod.splits)

text \<open>The hold that a run registers.\<close>

definition run_hold :: "GraphState \<Rightarrow> HitlHoldRecord \<Rightarrow> bool" where
  "run_hold s h \<longleftrightarrow> hh_run_id h = gs_run_id s \<and> hh_thread_id h = gs_run_id s \<and> hh_conversation_id h = gs_conversation_id s \<and>
     UUID_of (gs_tenant_id s) = Inr (hh_tenant_id h) \<and> hh_status h = HS_PENDING \<and>
     hh_reason h \<in> {Some ''anti_loop'', Some ''low_confidence''}"

lemma run_hold_kept: "kept s s' \<Longrightarrow> run_hold s' h = run_hold s h"
  by (simp add: run_hold_def kept_def)

definition holds_ready :: "graph_env \<Rightarrow> GraphState \<Rightarrow> graph_world \<Rightarrow> bool" where
  "holds_ready env s w \<longleftrightarrow> ge_has_session_factory env \<and> (\<forall>n. \<not> ge_db_fails env n) \<and>
     (\<exists>u. UUID_of (gs_tenant_id s) = Inr u) \<and> gs_run_id s \<notin> set (map hh_run_id (gd_holds w))"

lemma guardrails_escalate:
  assumes "guardrails_node env s w = (Inr s1, w1)" and "gs_hitl_requested s1" and "\<not> gs_hitl_requested s"
  shows "gs_agent_response s1 = Some HITL_ESCALATION_RESPONSE \<and> gs_hitl_reason s1 \<in> {Some ''anti_loop'', Some ''low_confidence''} \<and>
    gs_error s1 = gs_error s \<and> w1 = w"
  using assms by (auto simp: guardrails_node_def Let_def split: option.splits if_splits)

lemma hitl_registers:
  assumes "hitl_node env s w = (Inr s', w')" and "holds_ready env s w" and "gs_hitl_reason s \<in> {Some ''anti_loop'', Some ''low_confidence''}"
  shows "(\<exists>h. gd_holds w' = gd_holds w @ [h] \<and> run_hold s h) \<and> gs_agent_response s' = gs_agent_response s"
  using assms
  by (auto simp: hitl_node_def Let_def holds_ready_def HitlHoldRepository_register_def insert_ignore_def run_hold_def)

lemma tail_hitl:
  "run_from k env n s w = (out, s', w') \<Longrightarrow> n \<in> {N_command_dispatch, N_memory_writer} \<Longrightarrow>
    gs_hitl_requested s' = gs_hitl_requested s"
proof (induction k arbitrary: n s w)
  case (Suc k)
  from Suc.prems(1) show ?case
  proof (cases rule: run_from_cases)
    case stop
    then show ?thesis using hitl_flag Suc.prems(2) by blast
  next
    case (step n1 s1 w1)
    then have "n1 \<in> {N_command_dispatch, N_memory_writer}" using next_node [OF step(2)] Suc.prems(2) by auto
    then show ?thesis using Suc.IH [OF step(3)] hitl_flag [OF step(1)] Suc.prems(2) by auto
  qed simp
qed simp

lemma run_escalates:
  assumes "run_from k env n s w = (out, s', w')" and "out \<noteq> Out_of_fuel" and "holds_ready env s w" and "gateways_ok env"
    and "\<not> gs_hitl_requested s" and "gs_hitl_requested s'" and "n \<noteq> N_hitl" and "n = N_guardrails \<Longrightarrow> \<not> given (gs_error s)"
    and "n \<noteq> N_command_dispatch"
  shows "sends w' = sends w \<and> (\<exists>h. gd_holds w' = gd_holds w @ [h] \<and> run_hold s h) \<and>
    gs_agent_response s' = Some HITL_ESCALATION_RESPONSE"
  using assms
proof (induction k arbitrary: n s w)
  case (Suc k)
  note sn = other_nodes_send_nothing [OF Suc.prems(4) Suc.prems(9)]
  note hn = other_nodes_hold_nothing [OF _ Suc.prems(7)]
  from Suc.prems(1) show ?case
  proof (cases rule: run_from_cases)
    case stop
    then have "n = N_guardrails" using hitl_flag Suc.prems(5-7) by metis
    then show ?thesis using stop Suc.prems guardrails_escalate [of env s w s' w']
      by (auto simp: should_continue_after_guardrails_def split: if_splits)
  next
    case (raised e)
    then show ?thesis using Suc.prems by simp
  next
    case (step n1 s1 w1)
    note k1 = node_kept [OF step(1)]
    have ready: "holds_ready env s1 w1" using Suc.prems(3) k1 hn [OF step(1)] by (simp add: holds_ready_def kept_def)
    show ?thesis
    proof (cases "gs_hitl_requested s1")
      case True
      then have g: "n = N_guardrails" using hitl_flag [OF step(1)] Suc.prems(5,7) by metis
      note e = guardrails_escalate [of env s w s1 w1]
      have n1: "n1 = N_hitl" using next_node [OF step(2)] g True by auto
      obtain j where k: "k = Suc j" using step(3) Suc.prems(2) by (cases k) auto
      from step(3) [unfolded k n1] show ?thesis
      proof (cases rule: run_from_cases)
        case stop
        have "sends w' = sends w1" using other_nodes_send_nothing [OF Suc.prems(4) _ stop(1)] by simp
        then show ?thesis
          using hitl_registers [OF _ ready, of s' w'] stop(1) e step(1) g True Suc.prems(5) sn [OF step(1)] hn [OF step(1)]
            run_hold_kept [OF k1] by auto
      qed (simp_all add: hitl_node_def Let_def)
    next
      case False
      have n1: "n1 \<noteq> N_hitl" "n1 = N_guardrails \<Longrightarrow> \<not> given (gs_error s1)"
        using next_node [OF step(2)] step(2) False by (auto simp: edge_defs split: if_splits)
      have nd: "n1 \<noteq> N_command_dispatch"
        using tail_hitl [OF step(3)] False Suc.prems(6) by auto
      show ?thesis using Suc.IH [OF step(3) Suc.prems(2) ready Suc.prems(4) False Suc.prems(6) n1(1) n1(2) nd]
          sn [OF step(1)] hn [OF step(1)] run_hold_kept [OF k1] by simp
    qed
  qed
qed simp

text \<open>An answer that repeats one of the last three is escalated.\<close>

lemma repeated_answer_escalates:
  assumes llm: "ge_llm env = Some llm"
      "\<And>d m. llm (Suc (gd_tick w)) d m = Inr \<lparr>lr_content = PStr t, lr_tool_calls = []\<rparr>"
    and inp: "gi_messages inp = [(''user'', msg)]" "\<not> is_admin_prefix (py_strip msg)" "\<not> truthy (gi_attachments inp)"
    and c: "strip_internal_markers (py_strip t) \<in> set (last_n LOOP_WINDOW history)" "strip_internal_markers (py_strip t) \<noteq> []"
      "\<not> ContentFilter_contains_blocked_content (ge_content_filter env) (strip_internal_markers (py_strip t))"
  shows "\<exists>s' w'. graph_ainvoke env inp (fresh_state\<lparr>gs_response_history := history\<rparr>) w = (Finished, s', w') \<and> gs_hitl_requested s'"
proof -
  have ne: "py_strip t \<noteq> []" using c(2) by (auto simp: strip_markers_Nil)
  obtain s4 where r: "graph_ainvoke env inp (fresh_state\<lparr>gs_response_history := history\<rparr>) w =
      run_from 11 env N_guardrails s4 (tick (tick w))" and s4: "at_guardrails inp msg (py_strip t) history s4"
    using reach_guardrails [OF llm ne inp] by blast
  have "is_looping (strip_internal_markers (py_strip t)) history"
    using c(1) near_duplicate_refl by (auto simp: is_looping_def list_ex_iff)
  then have "\<exists>s5. guardrails_node env s4 (tick (tick w)) = (Inr s5, tick (tick w)) \<and> next_target N_guardrails s5 = Some (Goto N_hitl)"
    using s4 ne c(3) by (simp add: guardrails_node_def at_guardrails_def Let_def edge_defs given_def)
  then obtain s5 where "run_from 11 env N_guardrails s4 (tick (tick w)) = run_from 10 env N_hitl s5 (tick (tick w))"
    using run_step [of N_guardrails _ N_hitl env s4 "tick (tick w)" "tick (tick w)" 10] by fastforce
  then show ?thesis using r by (simp add: eval_nat_numeral hitl_node_def Let_def)
qed

section \<open>Properties\<close>

text \<open>C4: Every invocation ends: from a step count that is not negative the run is over after at most fifteen
  nodes, whatever the model answers and whichever tools it asks for, and more fuel changes nothing.\<close>

theorem graph_run_ends:
  assumes "0 \<le> gs_step_count s" and "MAX_NODES \<le> k"
  shows "fst (run_from k env N_eligibility s w) \<noteq> Out_of_fuel \<and>
    run_from k env N_eligibility s w = run_from MAX_NODES env N_eligibility s w"
proof -
  have "fst (run_from MAX_NODES env N_eligibility s w) \<noteq> Out_of_fuel"
    by (rule run_ends) (use assms(1) in \<open>auto simp: agent_budget_def MAX_NODES_def\<close>)
  then show ?thesis using run_more_fuel [OF _ assms(2)] by metis
qed

definition sample_llm :: "string \<Rightarrow> pydict list \<Rightarrow> llm" where
  "sample_llm t calls n d m = Inr \<lparr>lr_content = PStr t, lr_tool_calls = calls\<rparr>"

definition sample_graph :: "llm \<Rightarrow> graph_env" where
  "sample_graph model = \<lparr>ge_auth_guard = None, ge_media_subgraph = None, ge_registry = None, ge_skill_resolver = None,
     ge_memory_store = None, ge_llm = Some model, ge_gateway = None, ge_has_outbox = True, ge_has_session_factory = True,
     ge_content_filter = ContentFilter_init (Some [''spam'']), ge_now = (\<lambda>n. int n), ge_uid = (\<lambda>n i. ''id''),
     ge_db_fails = (\<lambda>n. False)\<rparr>"

definition sample_world :: graph_world where
  "sample_world = \<lparr>gd_tools = \<lparr>tw_outbox = [], tw_follow_ups = []\<rparr>, gd_holds = [], gd_memory = [], gd_tick = 0\<rparr>"

definition sample_input :: "string \<Rightarrow> string \<Rightarrow> graph_input" where
  "sample_input run msg = \<lparr>gi_run_id = run, gi_tenant_id = ''00000000-0000-4000-8000-000000000001'', gi_conversation_id = ''9'',
     gi_correlation_id = ''k'', gi_messages = [(''user'', msg)], gi_idempotency_key = PStr ''i'', gi_event_ref = PStr [],
     gi_attachments = PList [], gi_sender_type = PStr ''contact'', gi_sender_ref = PStr []\<rparr>"

theorem graph_run_ends_witness:
  "fst (run_from 20 (sample_graph (sample_llm [] [[(''name'', PStr ''availability'')]])) N_eligibility fresh_state sample_world) \<noteq> Out_of_fuel \<and>
   run_from 20 (sample_graph (sample_llm [] [[(''name'', PStr ''availability'')]])) N_eligibility fresh_state sample_world =
   run_from MAX_NODES (sample_graph (sample_llm [] [[(''name'', PStr ''availability'')]])) N_eligibility fresh_state sample_world"
  by (rule graph_run_ends) (simp_all add: fresh_state_def MAX_NODES_def)

text \<open>C1: A run sends at most one message, and only one that the guardrails let through: the pending command is
  for the run's tenant and conversation under the run's own idempotency key, its text is not empty, shows no
  internal marker and, unless it is the fixed refusal, is neither blocked nor hedging. Tools, holds and memory
  never send a message.\<close>

theorem graph_sends_vetted:
  assumes "gateways_ok env" and "graph_ainvoke env inp checkpoint w = (out, s', w')"
  shows "sends w' = sends w \<or> (\<exists>c r. sends w' = sends w @ [r] \<and> response_row (merge_input inp checkpoint) c r \<and>
     released env c \<and> \<not> gs_response_sent checkpoint \<and> gs_response_sent s')"
  using run_sends_vetted [OF assms(1) assms(2) [unfolded graph_ainvoke_def]] by (simp add: run_sends_def)

text \<open>C5: A first turn is answered: on a fresh thread, when the text is no admin command and has no attachments, the
  model answers with a text and no tool calls, its sanitized form is neither empty nor blocked nor hedging,
  and the outbox takes the command, the run finishes and exactly that text is the one new pending command.\<close>

theorem first_turn_answered:
  assumes llm: "ge_llm env = Some llm"
      "\<And>d m. llm (Suc (gd_tick w)) d m = Inr \<lparr>lr_content = PStr t, lr_tool_calls = []\<rparr>"
    and inp: "gi_messages inp = [(''user'', msg)]" "\<not> is_admin_prefix (py_strip msg)" "\<not> truthy (gi_attachments inp)"
      "UUID_of (gi_tenant_id inp) = Inr u"
    and c: "c = strip_internal_markers (py_strip t)" "c \<noteq> []"
      "\<not> ContentFilter_contains_blocked_content (ge_content_filter env) c" "\<not> is_low_confidence c"
    and outbox: "ge_has_outbox env" "\<not> ge_db_fails env (Suc (Suc (gd_tick w)))"
      "(u, response_key (gi_run_id inp)) \<notin> set (map ob_key (tw_outbox (gd_tools w)))"
  shows "\<exists>s' w' r. graph_ainvoke env inp fresh_state w = (Finished, s', w') \<and> gs_response_sent s' \<and>
    tw_outbox (gd_tools w') = tw_outbox (gd_tools w) @ [r] \<and> response_row (merge_input inp fresh_state) c r"
proof -
  have ne: "py_strip t \<noteq> []" using c(1,2) by (auto simp: strip_markers_Nil)
  obtain s4 where r: "graph_ainvoke env inp (fresh_state\<lparr>gs_response_history := []\<rparr>) w = run_from 11 env N_guardrails s4 (tick (tick w))"
    and s4: "at_guardrails inp msg (py_strip t) [] s4" using reach_guardrails [OF llm ne inp(1-3)] by blast
  define s5 where "s5 = stepped (s4\<lparr>gs_agent_response := Some c, gs_response_history := [c]\<rparr>)"
  define s6 where "s6 = stepped (s5\<lparr>gs_response_sent := True\<rparr>)"
  note at4 = s4 [unfolded at_guardrails_def]
  have e5: "guardrails_node env s4 (tick (tick w)) = (Inr s5, tick (tick w))"
    unfolding s5_def by (rule guardrails_plain [OF _ ne _ c(1) c(3,4)]) (simp_all add: at4)
  obtain w6 x where e6: "command_dispatch_node env s5 (tick (tick w)) = (Inr s6, w6)"
      "tw_outbox (gd_tools w6) = tw_outbox (gd_tools w) @ [x]" "response_row s5 c x"
    using dispatch_plain [of s5 c env "tick (tick w)" u] c inp outbox at4 by (auto simp: s5_def s6_def)
  obtain w7 where e7: "memory_writer_node env s6 w6 = (Inr (stepped s6), w7)" "gd_tools w7 = gd_tools w6"
    using memory_writer_plain [of s6 "[(''user'', msg), (''assistant'', py_strip t)]" env w6] at4 by (auto simp: s5_def s6_def)
  have "next_target N_guardrails s5 = Some (Goto N_command_dispatch)" "next_target N_command_dispatch s6 = Some (Goto N_memory_writer)"
    using at4 by (simp_all add: s5_def s6_def edge_defs given_def)
  note n = this [THEN run_step]
  have "graph_ainvoke env inp fresh_state w = run_from 9 env N_memory_writer s6 w6"
    using r n(1) [of env s4 "tick (tick w)" "tick (tick w)" 10] n(2) [of env s5 "tick (tick w)" w6 9] e5 e6(1)
    by (simp add: fresh_state_def)
  then have "graph_ainvoke env inp fresh_state w = (Finished, stepped s6, w7)" using e7(1) by (simp add: eval_nat_numeral)
  moreover have "response_row (merge_input inp fresh_state) c x"
    using e6(3) at4 by (simp add: response_row_def s5_def merge_input_def)
  ultimately show ?thesis using e6(2) e7(2) by (auto simp: s6_def)
qed

lemma sample_gateways_ok: "gateways_ok (sample_graph model)"
  by (simp add: gateways_ok_def sample_graph_def)

theorem graph_sends_vetted_witness:
  "let e = sample_graph (sample_llm ''Oi!'' []); i = sample_input ''run'' ''Bom dia''; (out, s', w') = graph_ainvoke e i fresh_state sample_world
   in sends w' = sends sample_world \<or> (\<exists>c r. sends w' = sends sample_world @ [r] \<and> response_row (merge_input i fresh_state) c r \<and>
      released e c \<and> \<not> gs_response_sent fresh_state \<and> gs_response_sent s')"
  using graph_sends_vetted [OF sample_gateways_ok, of "sample_llm ''Oi!'' []" "sample_input ''run'' ''Bom dia''" fresh_state sample_world]
  by (auto simp: Let_def split: prod.split)

lemma sample_text: "strip_internal_markers (py_strip ''Oi!'') = ''Oi!''"
  by code_simp

lemma sample_text_confident: "\<not> is_low_confidence ''Oi!''"
  by (simp add: is_low_confidence_def LOW_CONFIDENCE_PATTERNS_def re_lit_eval re_seq_eval at_boundary_def word_char_def
      fold_case_def lower_char_def del: re_ends.simps(1,4))

lemma sample_text_allowed: "\<not> ContentFilter_contains_blocked_content (ContentFilter_init (Some [''spam''])) ''Oi!''"
  by code_simp

lemma sample_message: "\<not> is_admin_prefix (py_strip ''Bom dia'')"
  by code_simp

theorem first_turn_answered_witness:
  "\<exists>s' w' r. graph_ainvoke (sample_graph (sample_llm ''Oi!'' [])) (sample_input ''run'' ''Bom dia'') fresh_state sample_world = (Finished, s', w') \<and>
    gs_response_sent s' \<and> tw_outbox (gd_tools w') = tw_outbox (gd_tools sample_world) @ [r] \<and>
    response_row (merge_input (sample_input ''run'' ''Bom dia'') fresh_state) ''Oi!'' r"
  by (rule first_turn_answered [where llm = "sample_llm ''Oi!'' []" and t = "''Oi!''" and msg = "''Bom dia''"
        and u = "''00000000-0000-4000-8000-000000000001''"])
    (simp_all add: sample_graph_def sample_llm_def sample_input_def sample_world_def sample_text sample_text_confident
      sample_text_allowed sample_message sample_uuid_ok)

text \<open>C38: A thread is answered once: the flag that a response was sent stays in the checkpoint, no node and no new
  input clears it, so after it is set no later turn of the conversation enqueues a message, whatever the
  contact writes and the model answers.\<close>

theorem later_turns_unanswered:
  assumes "gs_response_sent checkpoint" and "\<forall>t\<in>set turns. gateways_ok (fst t)"
  shows "sends (snd (thread_turns turns checkpoint w)) = sends w"
  using assms
proof (induction turns arbitrary: checkpoint w)
  case (Cons t turns)
  obtain env inp where t: "t = (env, inp)" by (cases t)
  obtain out s' w' where r: "graph_ainvoke env inp checkpoint w = (out, s', w')" by (cases "graph_ainvoke env inp checkpoint w") auto
  note r' = r [unfolded graph_ainvoke_def]
  have "gs_response_sent s'" using run_keeps_sent [OF r'] Cons.prems(1) by simp
  moreover have "sends w' = sends w"
    using run_sends_vetted [OF _ r'] Cons.prems t by (auto simp: run_sends_def)
  ultimately show ?case using Cons r t by simp
qed simp

theorem later_turns_unanswered_witness:
  "sends (snd (thread_turns [(sample_graph (sample_llm ''Oi!'' []), sample_input ''r2'' ''Oi?'')] (fresh_state\<lparr>gs_response_sent := True\<rparr>)
     sample_world)) = sends sample_world"
  by (rule later_turns_unanswered) (simp_all add: sample_gateways_ok)

text \<open>C18: An escalated answer is held, not sent: when the guardrails of a run ask for a human, nothing is enqueued,
  the escalation text stays in the state, and exactly one pending hold is registered, whose thread is
  the run and not the conversation's thread.\<close>

theorem escalation_held_unsent:
  assumes "graph_ainvoke env inp checkpoint w = (out, s', w')" and "0 \<le> gs_step_count checkpoint" and "gateways_ok env"
    and "holds_ready env (merge_input inp checkpoint) w" and "\<not> gs_hitl_requested checkpoint" and "gs_hitl_requested s'"
  shows "sends w' = sends w \<and> gs_agent_response s' = Some HITL_ESCALATION_RESPONSE \<and>
    (\<exists>h. gd_holds w' = gd_holds w @ [h] \<and> run_hold (merge_input inp checkpoint) h)"
proof -
  note r = assms(1) [unfolded graph_ainvoke_def]
  have "budget N_eligibility (gs_step_count (merge_input inp checkpoint)) \<le> MAX_NODES"
    using assms(2) by (auto simp: merge_input_def agent_budget_def MAX_NODES_def)
  from run_ends [OF this, of env w] have "out \<noteq> Out_of_fuel" using r by simp
  from run_escalates [OF r this assms(4,3) _ assms(6)] assms(5) show ?thesis by (auto simp: merge_input_def)
qed

theorem escalation_held_unsent_witness:
  "let e = sample_graph (sample_llm ''Oi!'' []); i = sample_input ''run'' ''Bom dia''; k = fresh_state\<lparr>gs_response_history := [''Oi!'']\<rparr>;
     (out, s', w') = graph_ainvoke e i k sample_world
   in sends w' = sends sample_world \<and> gs_agent_response s' = Some HITL_ESCALATION_RESPONSE \<and>
     (\<exists>h. gd_holds w' = gd_holds sample_world @ [h] \<and> run_hold (merge_input i k) h)"
proof -
  let ?e = "sample_graph (sample_llm ''Oi!'' [])" and ?i = "sample_input ''run'' ''Bom dia''"
    and ?k = "fresh_state\<lparr>gs_response_history := [''Oi!'']\<rparr>"
  obtain s' w' where r: "graph_ainvoke ?e ?i ?k sample_world = (Finished, s', w')" and h: "gs_hitl_requested s'"
    using repeated_answer_escalates [of ?e "sample_llm ''Oi!'' []" sample_world "''Oi!''" ?i "''Bom dia''" "[''Oi!'']"]
    by (auto simp: sample_graph_def sample_llm_def sample_input_def sample_text sample_text_allowed sample_message last_n_def LOOP_WINDOW_def)
  have "holds_ready ?e (merge_input ?i ?k) sample_world"
    by (simp add: holds_ready_def sample_graph_def merge_input_def sample_input_def sample_uuid_ok sample_world_def)
  moreover have "0 \<le> gs_step_count ?k" "\<not> gs_hitl_requested ?k" by (simp_all add: fresh_state_def)
  ultimately show ?thesis using escalation_held_unsent [OF r _ sample_gateways_ok _ _ h] by (simp add: Let_def r)
qed

end
