(* ===== verification/Media.thy ===== *)
theory Media
  imports GraphNodes ChatwootAdapter Eligibility
begin

text \<open>
  The media subgraph (\<open>media/subgraph.py\<close>) and its result type (\<open>contracts/state.py\<close>). The download stream, the
  OpenAI client and pypdf are the fields of \<open>media_env\<close>; a stream is the chunks it delivers and the exception that
  ends it, if any (a refused connection or an error status delivers none). The state is the list of the calls made to
  them so far. UTF-8 decoding with \<open>errors="replace"\<close> and base64 are written out. Texts are transliterated to
  Latin-1: a code point beyond it is a question mark, a dash a hyphen.
\<close>

section \<open>Results\<close>

datatype MediaStatus = MS_PENDING | MS_PROCESSING | MS_COMPLETE | MS_PARTIAL | MS_UNSUPPORTED | MS_FAILED

primrec MediaStatus_value :: "MediaStatus \<Rightarrow> string" where
  "MediaStatus_value MS_PENDING = ''pending''"
| "MediaStatus_value MS_PROCESSING = ''processing''"
| "MediaStatus_value MS_COMPLETE = ''complete''"
| "MediaStatus_value MS_PARTIAL = ''partial''"
| "MediaStatus_value MS_UNSUPPORTED = ''unsupported''"
| "MediaStatus_value MS_FAILED = ''failed''"

record MediaContext =
  mx_attachment_ref :: string
  mx_media_type :: string
  mx_status :: MediaStatus
  mx_extracted_text :: "string option"
  mx_description :: "string option"
  mx_fallback_reason :: "string option"

text \<open>The constructor validates: a reference or a media type that is no text raises.\<close>

definition MediaContext_new :: "pyval \<Rightarrow> pyval \<Rightarrow> MediaStatus \<Rightarrow> string option \<Rightarrow> string option \<Rightarrow> string option \<Rightarrow> MediaContext res" where
  "MediaContext_new ref media_type status extracted_text description fallback_reason =
     (case (ref, media_type) of
        (PStr r, PStr t) \<Rightarrow> Inr \<lparr>mx_attachment_ref = r, mx_media_type = t, mx_status = status,
           mx_extracted_text = extracted_text, mx_description = description, mx_fallback_reason = fallback_reason\<rparr>
      | _ \<Rightarrow> Inl (ValidationError ''MediaContext''))"

definition opt_str :: "string option \<Rightarrow> pyval" where
  "opt_str v = (case v of None \<Rightarrow> PNone | Some s \<Rightarrow> PStr s)"

definition MediaContext_model_dump :: "MediaContext \<Rightarrow> pydict" where
  "MediaContext_model_dump c = [(''attachment_ref'', PStr (mx_attachment_ref c)), (''media_type'', PStr (mx_media_type c)),
     (''status'', PStr (MediaStatus_value (mx_status c))), (''extracted_text'', opt_str (mx_extracted_text c)),
     (''description'', opt_str (mx_description c)), (''fallback_reason'', opt_str (mx_fallback_reason c))]"

section \<open>Media types\<close>

definition SUPPORTED_TEXT_MIME_TYPES :: "string list" where
  "SUPPORTED_TEXT_MIME_TYPES = [''application/pdf'', ''application/msword'',
     ''application/vnd.openxmlformats-officedocument.wordprocessingml.document'', ''application/vnd.ms-powerpoint'',
     ''application/vnd.openxmlformats-officedocument.presentationml.presentation'', ''application/vnd.ms-excel'',
     ''application/vnd.openxmlformats-officedocument.spreadsheetml.sheet'', ''text/plain'', ''text/csv'']"

definition SUPPORTED_AUDIO_MIME_TYPES :: "string list" where
  "SUPPORTED_AUDIO_MIME_TYPES = [''audio/ogg'', ''audio/mpeg'', ''audio/mp4'', ''audio/wav'', ''audio/webm'', ''audio/x-m4a'']"

definition SUPPORTED_IMAGE_MIME_TYPES :: "string list" where
  "SUPPORTED_IMAGE_MIME_TYPES = [''image/jpeg'', ''image/png'', ''image/gif'', ''image/webp'']"

definition AUDIO_EXT_MAP :: "(string \<times> string) list" where
  "AUDIO_EXT_MAP = [(''audio/ogg'', ''ogg''), (''audio/mpeg'', ''mp3''), (''audio/mp4'', ''m4a''), (''audio/wav'', ''wav''),
     (''audio/webm'', ''webm''), (''audio/x-m4a'', ''m4a'')]"

text \<open>Membership in a set and the lookup in a dictionary hash the value first.\<close>

definition mime_in :: "pyval \<Rightarrow> string list \<Rightarrow> bool res" where
  "mime_in v types = (if hashable v then Inr (v \<in> set (map PStr types)) else Inl (TypeError ''unhashable type''))"

definition audio_filename :: "pyval \<Rightarrow> string res" where
  "audio_filename v = (if \<not> hashable v then Inl (TypeError ''unhashable type'')
     else Inr (''audio.'' @ (case v of PStr t \<Rightarrow> (case map_of AUDIO_EXT_MAP t of Some e \<Rightarrow> e | None \<Rightarrow> ''ogg'') | _ \<Rightarrow> ''ogg'')))"

section \<open>Decoding and encoding bytes\<close>

text \<open>
  The code point that starts at a byte, and how many of the following bytes belong to it; an ill-formed sequence is
  replaced by U+FFFD, one for each maximal part of a well-formed one.
\<close>

definition is_cont :: "nat \<Rightarrow> bool" where
  "is_cont b \<longleftrightarrow> 128 \<le> b \<and> b < 192"

definition second_ok :: "nat \<Rightarrow> nat \<Rightarrow> bool" where
  "second_ok b c \<longleftrightarrow> (if b = 224 then 160 \<le> c \<and> c < 192 else if b = 237 then 128 \<le> c \<and> c < 160
     else if b = 240 then 144 \<le> c \<and> c < 192 else if b = 244 then 128 \<le> c \<and> c < 144 else is_cont c)"

abbreviation replacement :: nat where
  "replacement \<equiv> 65533"

definition utf8_next :: "nat \<Rightarrow> nat list \<Rightarrow> nat \<times> nat" where
  "utf8_next b bs =
     (if b < 128 then (b, 0)
      else if 194 \<le> b \<and> b < 224 then
        (case bs of c # _ \<Rightarrow> if is_cont c then ((b - 192) * 64 + (c - 128), 1) else (replacement, 0) | [] \<Rightarrow> (replacement, 0))
      else if 224 \<le> b \<and> b < 240 then
        (case bs of c # cs \<Rightarrow> if \<not> second_ok b c then (replacement, 0)
           else (case cs of d # _ \<Rightarrow> if is_cont d then ((b - 224) * 4096 + (c - 128) * 64 + (d - 128), 2) else (replacement, 1)
             | [] \<Rightarrow> (replacement, 1)) | [] \<Rightarrow> (replacement, 0))
      else if 240 \<le> b \<and> b < 245 then
        (case bs of c # cs \<Rightarrow> if \<not> second_ok b c then (replacement, 0)
           else (case cs of d # ds \<Rightarrow> if \<not> is_cont d then (replacement, 1)
               else (case ds of e # _ \<Rightarrow> if is_cont e
                   then ((b - 240) * 262144 + (c - 128) * 4096 + (d - 128) * 64 + (e - 128), 3) else (replacement, 2)
                 | [] \<Rightarrow> (replacement, 2))
             | [] \<Rightarrow> (replacement, 1)) | [] \<Rightarrow> (replacement, 0))
      else (replacement, 0))"

function utf8_decode :: "nat list \<Rightarrow> nat list" where
  "utf8_decode [] = []"
| "utf8_decode (b # bs) = fst (utf8_next b bs) # utf8_decode (drop (snd (utf8_next b bs)) bs)"
  by pat_completeness auto
termination by (relation "measure length") auto

definition latin_char :: "nat \<Rightarrow> char" where
  "latin_char n = char_of (if n < 256 then n else 63)"

definition py_decode :: "nat list \<Rightarrow> string" where
  "py_decode bs = map latin_char (utf8_decode bs)"

definition b64_char :: "nat \<Rightarrow> char" where
  "b64_char n = ''ABCDEFGHIJKLMNOPQRSTUVWXYZabcdefghijklmnopqrstuvwxyz0123456789+/'' ! (n mod 64)"

fun b64encode :: "nat list \<Rightarrow> string" where
  "b64encode [] = []"
| "b64encode [a] = [b64_char (a div 4), b64_char (a mod 4 * 16), CHR ''='', CHR ''='']"
| "b64encode [a, b] = [b64_char (a div 4), b64_char (a mod 4 * 16 + b div 16), b64_char (b mod 16 * 4), CHR ''='']"
| "b64encode (a # b # c # bs) = [b64_char (a div 4), b64_char (a mod 4 * 16 + b div 16),
     b64_char (b mod 16 * 4 + c div 64), b64_char (c mod 64)] @ b64encode bs"

section \<open>External calls\<close>

datatype media_call =
    Call_download pyval
  | Call_transcribe string "nat list" pyval
  | Call_chat string pyval nat

record media_env =
  me_stream :: "media_call list \<Rightarrow> pyval \<Rightarrow> nat list list \<times> py_exc option"
  me_transcribe :: "media_call list \<Rightarrow> string \<Rightarrow> nat list \<Rightarrow> pyval \<Rightarrow> string res"
  me_chat :: "media_call list \<Rightarrow> string \<Rightarrow> pyval \<Rightarrow> nat \<Rightarrow> string option res"
  me_pdf_pages :: "nat list \<Rightarrow> string option res list res"
  me_exc_text :: "py_exc \<Rightarrow> string"

type_synonym 'a media = "media_call list \<Rightarrow> 'a res \<times> media_call list"

definition m_lift :: "'a res \<Rightarrow> 'a media" where
  "m_lift r l = (r, l)"

definition m_bind :: "'a media \<Rightarrow> ('a \<Rightarrow> 'b media) \<Rightarrow> 'b media" where
  "m_bind m f l = (case m l of (Inl e, l') \<Rightarrow> (Inl e, l') | (Inr x, l') \<Rightarrow> f x l')"

definition m_catch :: "'a media \<Rightarrow> (py_exc \<Rightarrow> 'a media) \<Rightarrow> 'a media" where
  "m_catch m h l = (case m l of (Inl e, l') \<Rightarrow> h e l' | (Inr x, l') \<Rightarrow> (Inr x, l'))"

fun read_chunks :: "int \<Rightarrow> int \<Rightarrow> nat list \<Rightarrow> nat list list \<Rightarrow> py_exc option \<Rightarrow> nat list res" where
  "read_chunks max_bytes seen acc [] fin = (case fin of None \<Rightarrow> Inr acc | Some e \<Rightarrow> Inl e)"
| "read_chunks max_bytes seen acc (chunk # rest) fin =
     (let seen' = seen + int (length chunk) in
      if seen' > max_bytes
      then Inl (ValueError (''File exceeds size limit ('' @ show_int (max_bytes div (1024 * 1024)) @ '' MB)''))
      else read_chunks max_bytes seen' (acc @ chunk) rest fin)"

definition download_bytes :: "media_env \<Rightarrow> pyval \<Rightarrow> int \<Rightarrow> nat list media" where
  "download_bytes env url max_bytes l =
     (case me_stream env l url of (cs, fin) \<Rightarrow> (read_chunks max_bytes 0 [] cs fin, l @ [Call_download url]))"

definition transcribe :: "media_env \<Rightarrow> string \<Rightarrow> nat list \<Rightarrow> pyval \<Rightarrow> string media" where
  "transcribe env filename bytes content_type l =
     (me_transcribe env l filename bytes content_type, l @ [Call_transcribe filename bytes content_type])"

definition chat_completion :: "media_env \<Rightarrow> string \<Rightarrow> pyval \<Rightarrow> nat \<Rightarrow> string media" where
  "chat_completion env prompt image_url max_tokens l =
     (res_bind (me_chat env l prompt image_url max_tokens) (\<lambda>content. Inr (case content of None \<Rightarrow> [] | Some t \<Rightarrow> t)),
      l @ [Call_chat prompt image_url max_tokens])"

section \<open>Subgraph\<close>

record MediaUnderstandingSubgraph =
  ms_openai_key :: "string option"
  ms_audio_enabled :: bool
  ms_vision_enabled :: bool
  ms_doc_enabled :: bool
  ms_max_bytes :: int

definition MediaUnderstandingSubgraph_init :: "string option \<Rightarrow> bool \<Rightarrow> bool \<Rightarrow> bool \<Rightarrow> int \<Rightarrow> MediaUnderstandingSubgraph" where
  "MediaUnderstandingSubgraph_init openai_api_key audio_transcription_enabled vision_enabled document_extraction_enabled max_media_size_mb =
     \<lparr>ms_openai_key = openai_api_key, ms_audio_enabled = audio_transcription_enabled, ms_vision_enabled = vision_enabled,
      ms_doc_enabled = document_extraction_enabled, ms_max_bytes = max_media_size_mb * 1024 * 1024\<rparr>"

text \<open>\<open>ref[:8]\<close>, the prefix that is logged.\<close>

definition ref_prefix :: "pyval \<Rightarrow> unit res" where
  "ref_prefix v = (case v of PStr _ \<Rightarrow> Inr () | PList _ \<Rightarrow> Inr () | PDict _ \<Rightarrow> Inl (KeyError ''slice'')
     | _ \<Rightarrow> Inl (TypeError ''not subscriptable''))"

abbreviation fallback_context :: "pyval \<Rightarrow> pyval \<Rightarrow> MediaStatus \<Rightarrow> string \<Rightarrow> MediaContext media" where
  "fallback_context ref content_type status reason \<equiv> m_lift (MediaContext_new ref content_type status None None (Some reason))"

definition process_audio :: "media_env \<Rightarrow> MediaUnderstandingSubgraph \<Rightarrow> pyval \<Rightarrow> pyval \<Rightarrow> pyval \<Rightarrow> MediaContext media" where
  "process_audio env ms ref url content_type =
     (if \<not> ms_audio_enabled ms then fallback_context ref content_type MS_UNSUPPORTED ''Audio transcription is disabled''
      else if \<not> given (ms_openai_key ms)
      then fallback_context ref content_type MS_PARTIAL ''OpenAI API key not configured for audio transcription''
      else m_bind (m_lift (ref_prefix ref)) (\<lambda>_.
           m_bind (download_bytes env url (ms_max_bytes ms)) (\<lambda>audio_bytes.
           m_bind (m_lift (audio_filename content_type)) (\<lambda>filename.
           m_bind (transcribe env filename audio_bytes content_type) (\<lambda>txt.
             m_lift (MediaContext_new ref content_type MS_COMPLETE (Some txt) None None))))))"

definition image_prompt :: string where
  "image_prompt = ''Descreva esta imagem de forma detalhada. Extraia todo texto vis'' @ [CHR 0xED] @
     ''vel na imagem. Seja objetivo e factual. Responda em portugu'' @ [CHR 0xEA] @ ''s.''"

definition process_image :: "media_env \<Rightarrow> MediaUnderstandingSubgraph \<Rightarrow> pyval \<Rightarrow> pyval \<Rightarrow> pyval \<Rightarrow> MediaContext media" where
  "process_image env ms ref url content_type =
     (if \<not> ms_vision_enabled ms then fallback_context ref content_type MS_UNSUPPORTED ''Visual description is disabled in current config''
      else if \<not> given (ms_openai_key ms)
      then fallback_context ref content_type MS_PARTIAL ''OpenAI API key not configured for vision''
      else m_bind (m_lift (ref_prefix ref)) (\<lambda>_.
           m_bind (chat_completion env image_prompt url 1000) (\<lambda>description.
             m_lift (MediaContext_new ref content_type MS_COMPLETE (Some description) (Some description) None))))"

definition pdf_prompt :: string where
  "pdf_prompt = ''Extraia e resuma todo o conte'' @ [CHR 0xFA] @ ''do textual deste documento PDF. Seja abrangente e preciso. Responda em portugu'' @
     [CHR 0xEA] @ ''s.''"

definition pdf_vision_fallback :: "media_env \<Rightarrow> MediaUnderstandingSubgraph \<Rightarrow> pyval \<Rightarrow> pyval \<Rightarrow> nat list \<Rightarrow> MediaContext media" where
  "pdf_vision_fallback env ms ref content_type pdf_bytes =
     (if \<not> given (ms_openai_key ms)
      then fallback_context ref content_type MS_PARTIAL ''PDF appears to be scanned; OpenAI key required for extraction''
      else m_catch
        (m_bind (chat_completion env pdf_prompt (PStr (''data:application/pdf;base64,'' @ b64encode pdf_bytes)) 2000) (\<lambda>txt.
           m_lift (MediaContext_new ref content_type MS_COMPLETE (Some txt) None None)))
        (\<lambda>e. fallback_context ref content_type MS_PARTIAL (''PDF vision extraction failed: '' @ exc_name e)))"

text \<open>The text of the pages that have any; a page that cannot be read fails the whole file.\<close>

definition pdf_text :: "media_env \<Rightarrow> nat list \<Rightarrow> string res" where
  "pdf_text env pdf_bytes =
     res_bind (me_pdf_pages env pdf_bytes) (\<lambda>pages. res_bind (res_map (\<lambda>p. p) pages) (\<lambda>texts.
       Inr (py_strip (join_with [CHR 0x0A, CHR 0x0A] (filter (\<lambda>t. py_strip t \<noteq> [])
         (map (\<lambda>t. case t of None \<Rightarrow> [] | Some s \<Rightarrow> s) texts))))))"

text \<open>
  The logging of \<open>ref[:8]\<close> before the download decided whether the reference can be sliced, so the later ones are left out.
  An exception of the fallback itself is caught by the same \<open>try\<close>, and the fallback runs again.
\<close>

definition extract_pdf :: "media_env \<Rightarrow> MediaUnderstandingSubgraph \<Rightarrow> pyval \<Rightarrow> pyval \<Rightarrow> nat list \<Rightarrow> MediaContext media" where
  "extract_pdf env ms ref content_type pdf_bytes =
     m_catch
       (m_bind (m_lift (pdf_text env pdf_bytes)) (\<lambda>extracted.
          if extracted \<noteq> [] then m_lift (MediaContext_new ref content_type MS_COMPLETE (Some (take 8000 extracted)) None None)
          else pdf_vision_fallback env ms ref content_type pdf_bytes))
       (\<lambda>_. pdf_vision_fallback env ms ref content_type pdf_bytes)"

definition process_document :: "media_env \<Rightarrow> MediaUnderstandingSubgraph \<Rightarrow> pyval \<Rightarrow> pyval \<Rightarrow> pyval \<Rightarrow> MediaContext media" where
  "process_document env ms ref url content_type =
     (if \<not> ms_doc_enabled ms then fallback_context ref content_type MS_UNSUPPORTED ''Document extraction is disabled''
      else m_bind (m_lift (mime_in content_type SUPPORTED_TEXT_MIME_TYPES)) (\<lambda>supported.
        if \<not> supported then fallback_context ref content_type MS_UNSUPPORTED
          (''Document type '' @ [CHR 0x27] @ py_str content_type @ [CHR 0x27] @ '' is not supported'')
        else m_bind (m_lift (ref_prefix ref)) (\<lambda>_.
             m_bind (download_bytes env url (ms_max_bytes ms)) (\<lambda>doc_bytes.
               if content_type \<in> {PStr ''text/plain'', PStr ''text/csv''}
               then m_lift (MediaContext_new ref content_type MS_COMPLETE (Some (take 8000 (py_decode doc_bytes))) None None)
               else if content_type = PStr ''application/pdf'' then extract_pdf env ms ref content_type doc_bytes
               else m_lift (MediaContext_new ref content_type MS_PARTIAL
                 (Some (''[Documento '' @ py_str content_type @ '' - extra'' @ [CHR 0xE7, CHR 0xE3] @ ''o completa n'' @ [CHR 0xE3] @
                    ''o dispon'' @ [CHR 0xED] @ ''vel nesta vers'' @ [CHR 0xE3] @ ''o]''))
                 None (Some (''Full extraction not implemented for '' @ py_str content_type)))))))"

datatype media_route = Route_audio | Route_image | Route_document | Route_none

definition media_route_of :: "pyval \<Rightarrow> pyval \<Rightarrow> media_route res" where
  "media_route_of content_type atype =
     (let type_or = (\<lambda>t types. if atype = PStr (AttachmentType_value t) then Inr True else mime_in content_type types) in
      res_bind (type_or AT_AUDIO SUPPORTED_AUDIO_MIME_TYPES) (\<lambda>audio. if audio then Inr Route_audio else
      res_bind (type_or AT_IMAGE SUPPORTED_IMAGE_MIME_TYPES) (\<lambda>image. if image then Inr Route_image else
      res_bind (type_or AT_FILE SUPPORTED_TEXT_MIME_TYPES) (\<lambda>doc. Inr (if doc then Route_document else Route_none)))))"

definition processing_failed :: "media_env \<Rightarrow> pyval \<Rightarrow> pyval \<Rightarrow> py_exc \<Rightarrow> MediaContext media" where
  "processing_failed env ref content_type e =
     m_bind (m_lift (ref_prefix ref)) (\<lambda>_. fallback_context ref content_type MS_FAILED
       (''Processing failed: '' @ exc_name e @ '': '' @ take 100 (me_exc_text env e)))"

definition process_by_type :: "media_env \<Rightarrow> MediaUnderstandingSubgraph \<Rightarrow> pyval \<Rightarrow> pyval \<Rightarrow> pyval \<Rightarrow> pyval \<Rightarrow> MediaContext media" where
  "process_by_type env ms ref url content_type atype =
     m_catch
       (m_bind (m_lift (media_route_of content_type atype)) (\<lambda>route. case route of
            Route_audio \<Rightarrow> process_audio env ms ref url content_type
          | Route_image \<Rightarrow> process_image env ms ref url content_type
          | Route_document \<Rightarrow> process_document env ms ref url content_type
          | Route_none \<Rightarrow> fallback_context ref content_type MS_UNSUPPORTED
              (''Media type '' @ [CHR 0x27] @ py_str content_type @ [CHR 0x27] @ '' is not supported'')))
       (processing_failed env ref content_type)"

fun m_map :: "('a \<Rightarrow> 'b media) \<Rightarrow> 'a list \<Rightarrow> 'b list media" where
  "m_map f [] = m_lift (Inr [])"
| "m_map f (x # xs) = m_bind (f x) (\<lambda>y. m_bind (m_map f xs) (\<lambda>ys. m_lift (Inr (y # ys))))"

definition process_dict :: "media_env \<Rightarrow> MediaUnderstandingSubgraph \<Rightarrow> pyval \<Rightarrow> MediaContext media" where
  "process_dict env ms v = m_bind (m_lift (as_dict v)) (\<lambda>att.
     let ref = dict_get_or att ''ref'' (PStr ''unknown''); url = dict_get att ''url'';
         content_type = py_or (dict_get att ''content_type'') (PStr ''application/octet-stream'');
         atype = dict_get_or att ''type'' (PStr ''file'')
     in if \<not> truthy url then fallback_context ref content_type MS_FAILED ''No download URL available''
        else process_by_type env ms ref url content_type atype)"

definition MediaUnderstandingSubgraph_process_from_dicts ::
    "media_env \<Rightarrow> MediaUnderstandingSubgraph \<Rightarrow> pyval \<Rightarrow> MediaContext list media" where
  "MediaUnderstandingSubgraph_process_from_dicts env ms attachment_dicts =
     m_bind (m_lift (py_iter attachment_dicts)) (m_map (process_dict env ms))"

text \<open>The private attribute \<open>_raw_url\<close> of an attachment, \<open>None\<close> unless it was set, is the argument \<open>raw_url\<close>.\<close>

definition MediaUnderstandingSubgraph_process_attachment ::
    "media_env \<Rightarrow> MediaUnderstandingSubgraph \<Rightarrow> string option \<Rightarrow> CanonicalAttachment \<Rightarrow> MediaContext media" where
  "MediaUnderstandingSubgraph_process_attachment env ms raw_url att =
     (let ref = PStr (att_ref att);
          media_type = PStr (if given (att_content_type att) then the (att_content_type att) else ''application/octet-stream'')
      in if (case att_file_size_bytes att of None \<Rightarrow> False | Some n \<Rightarrow> n \<noteq> 0 \<and> n > ms_max_bytes ms)
         then fallback_context ref media_type MS_FAILED
           (''Media exceeds size limit ('' @ show_int (ms_max_bytes ms div (1024 * 1024)) @ '' MB)'')
         else if \<not> given raw_url
         then (if att_is_processed att \<and> given (att_processing_result att)
           then m_lift (MediaContext_new ref media_type MS_COMPLETE (att_processing_result att) None None)
           else fallback_context ref media_type MS_PARTIAL ''No download URL available for media processing'')
         else process_by_type env ms ref (PStr (the raw_url)) media_type (PStr (AttachmentType_value (att_type att))))"

definition MediaUnderstandingSubgraph_process ::
    "media_env \<Rightarrow> MediaUnderstandingSubgraph \<Rightarrow> (string option \<times> CanonicalAttachment) list \<Rightarrow> MediaContext list media" where
  "MediaUnderstandingSubgraph_process env ms = m_map (\<lambda>(raw_url, att). MediaUnderstandingSubgraph_process_attachment env ms raw_url att)"

text \<open>The subgraph as the media node calls it.\<close>

definition media_subgraph :: "media_env \<Rightarrow> MediaUnderstandingSubgraph \<Rightarrow> media_call list \<Rightarrow> pyval \<Rightarrow> pydict list res" where
  "media_subgraph env ms l attachment_dicts =
     res_bind (fst (MediaUnderstandingSubgraph_process_from_dicts env ms attachment_dicts l)) (\<lambda>cs. Inr (map MediaContext_model_dump cs))"

section \<open>Rules for computations with external calls\<close>

text \<open>Every call that the computation makes satisfies \<open>C\<close> and its result satisfies \<open>Q\<close>.\<close>

definition m_ok :: "(media_call \<Rightarrow> bool) \<Rightarrow> ('a res \<Rightarrow> bool) \<Rightarrow> 'a media \<Rightarrow> bool" where
  "m_ok C Q m \<longleftrightarrow> (\<forall>l. Q (fst (m l)) \<and> (\<exists>new. snd (m l) = l @ new \<and> (\<forall>c\<in>set new. C c)))"

named_theorems media_rules \<open>introduction rules for computations with external calls\<close>

lemma m_ok_lift [media_rules]: "Q r \<Longrightarrow> m_ok C Q (m_lift r)"
  by (simp add: m_ok_def m_lift_def)

lemma m_ok_bind:
  assumes "m_ok C P m" and "\<And>x. P (Inr x) \<Longrightarrow> m_ok C Q (f x)" and "\<And>e. P (Inl e) \<Longrightarrow> Q (Inl e)"
  shows "m_ok C Q (m_bind m f)"
  unfolding m_ok_def
proof (intro allI)
  fix l
  obtain r l' where m: "m l = (r, l')" by fastforce
  obtain new where new: "P r" "l' = l @ new" "\<forall>c\<in>set new. C c" using assms(1) m unfolding m_ok_def by (metis fst_conv snd_conv)
  show "Q (fst (m_bind m f l)) \<and> (\<exists>new. snd (m_bind m f l) = l @ new \<and> (\<forall>c\<in>set new. C c))"
  proof (cases r)
    case (Inr x)
    obtain more where "Q (fst (f x l'))" "snd (f x l') = l' @ more" "\<forall>c\<in>set more. C c"
      using assms(2) [of x] new(1) Inr unfolding m_ok_def by blast
    then show ?thesis using m new Inr by (auto simp: m_bind_def)
  qed (use m new assms(3) in \<open>simp add: m_bind_def\<close>)
qed

lemma m_ok_catch:
  assumes "m_ok C P m" and "\<And>e. P (Inl e) \<Longrightarrow> m_ok C Q (h e)" and "\<And>x. P (Inr x) \<Longrightarrow> Q (Inr x)"
  shows "m_ok C Q (m_catch m h)"
  unfolding m_ok_def
proof (intro allI)
  fix l
  obtain r l' where m: "m l = (r, l')" by fastforce
  obtain new where new: "P r" "l' = l @ new" "\<forall>c\<in>set new. C c" using assms(1) m unfolding m_ok_def by (metis fst_conv snd_conv)
  show "Q (fst (m_catch m h l)) \<and> (\<exists>new. snd (m_catch m h l) = l @ new \<and> (\<forall>c\<in>set new. C c))"
  proof (cases r)
    case (Inl e)
    obtain more where "Q (fst (h e l'))" "snd (h e l') = l' @ more" "\<forall>c\<in>set more. C c"
      using assms(2) [of e] new(1) Inl unfolding m_ok_def by blast
    then show ?thesis using m new Inl by (auto simp: m_catch_def)
  qed (use m new assms(3) in \<open>simp add: m_catch_def\<close>)
qed

lemma m_ok_weaken: "m_ok C P m \<Longrightarrow> (\<And>r. P r \<Longrightarrow> Q r) \<Longrightarrow> (\<And>c. C c \<Longrightarrow> D c) \<Longrightarrow> m_ok D Q m"
  unfolding m_ok_def by blast

lemma m_ok_map:
  assumes "\<And>x. x \<in> set xs \<Longrightarrow> m_ok C (\<lambda>r. \<forall>y. r = Inr y \<longrightarrow> R x y) (f x)"
  shows "m_ok C (\<lambda>r. \<forall>ys. r = Inr ys \<longrightarrow> list_all2 R xs ys) (m_map f xs)"
  using assms
proof (induction xs)
  case (Cons x xs)
  show ?case
    unfolding m_map.simps
    by (rule m_ok_bind [OF Cons.prems [of x]], simp,
        rule m_ok_bind [OF Cons.IH [OF Cons.prems]], simp, rule m_ok_lift) auto
qed (simp add: m_ok_lift)

lemma m_map_total:
  assumes "\<And>x l. x \<in> set xs \<Longrightarrow> \<exists>y. fst (f x l) = Inr y"
  shows "\<exists>ys. fst (m_map f xs l) = Inr ys"
  using assms
proof (induction xs arbitrary: l)
  case (Cons x xs)
  obtain y l' where y: "f x l = (Inr y, l')" using Cons.prems [of x l] by (metis list.set_intros(1) prod.collapse)
  obtain ys l'' where "m_map f xs l' = (Inr ys, l'')" using Cons.IH [of l'] Cons.prems by (metis list.set_intros(2) prod.collapse)
  then show ?case using y by (simp add: m_bind_def m_lift_def)
qed (simp add: m_lift_def)

section \<open>Contract of the processors\<close>

text \<open>A context of an attachment: it names the attachment and is final, complete exactly when it gives no reason, and then it has a text.\<close>

definition context_ok :: "pyval \<Rightarrow> pyval \<Rightarrow> MediaContext \<Rightarrow> bool" where
  "context_ok ref content_type c \<longleftrightarrow> ref = PStr (mx_attachment_ref c) \<and> content_type = PStr (mx_media_type c) \<and>
     mx_status c \<in> {MS_COMPLETE, MS_PARTIAL, MS_UNSUPPORTED, MS_FAILED} \<and>
     (mx_status c = MS_COMPLETE \<longleftrightarrow> mx_fallback_reason c = None) \<and> (mx_status c = MS_COMPLETE \<longrightarrow> mx_extracted_text c \<noteq> None)"

abbreviation answer_ok :: "pyval \<Rightarrow> pyval \<Rightarrow> MediaContext res \<Rightarrow> bool" where
  "answer_ok ref content_type r \<equiv> \<forall>c. r = Inr c \<longrightarrow> context_ok ref content_type c"

definition within_limit :: "MediaUnderstandingSubgraph \<Rightarrow> nat list \<Rightarrow> bool" where
  "within_limit ms bytes \<longleftrightarrow> int (length bytes) \<le> max 0 (ms_max_bytes ms)"

text \<open>The calls that the configuration allows for attachments with the given addresses.\<close>

fun call_ok :: "MediaUnderstandingSubgraph \<Rightarrow> pyval set \<Rightarrow> media_call \<Rightarrow> bool" where
  "call_ok ms urls (Call_download u) \<longleftrightarrow> u \<in> urls \<and> (ms_audio_enabled ms \<and> given (ms_openai_key ms) \<or> ms_doc_enabled ms)"
| "call_ok ms urls (Call_transcribe f bytes t) \<longleftrightarrow> ms_audio_enabled ms \<and> given (ms_openai_key ms) \<and> within_limit ms bytes"
| "call_ok ms urls (Call_chat p u n) \<longleftrightarrow> given (ms_openai_key ms) \<and>
     (p = image_prompt \<and> ms_vision_enabled ms \<and> u \<in> urls \<or>
      p = pdf_prompt \<and> ms_doc_enabled ms \<and> (\<exists>bytes. u = PStr (''data:application/pdf;base64,'' @ b64encode bytes) \<and> within_limit ms bytes))"

lemma new_context_ok:
  "answer_ok ref content_type (MediaContext_new ref content_type MS_COMPLETE (Some x) d None)"
  "st \<in> {MS_PARTIAL, MS_UNSUPPORTED, MS_FAILED} \<Longrightarrow> answer_ok ref content_type (MediaContext_new ref content_type st x1 d (Some reason))"
  by (auto simp: MediaContext_new_def context_ok_def split: pyval.splits)

locale media_processor =
  fixes proc :: "media_env \<Rightarrow> MediaUnderstandingSubgraph \<Rightarrow> pyval \<Rightarrow> pyval \<Rightarrow> pyval \<Rightarrow> MediaContext media"
  assumes proc_ok: "m_ok (call_ok ms {url}) (answer_ok ref content_type) (proc env ms ref url content_type)"
begin

text \<open>Guarded by the handler of \<open>process_by_type\<close>, a processor answers every attachment that is named by texts.\<close>

lemma guarded_ok:
  "m_ok (call_ok ms {url}) (answer_ok ref content_type)
     (m_catch (proc env ms ref url content_type) (processing_failed env ref content_type))"
proof (rule m_ok_catch [OF proc_ok])
  show "m_ok (call_ok ms {url}) (answer_ok ref content_type) (processing_failed env ref content_type e)" for e
    unfolding processing_failed_def
    by (rule m_ok_bind [OF m_ok_lift [where Q = "\<lambda>_. True"]]; (rule m_ok_lift, rule new_context_ok)?) simp_all
qed simp

lemma guarded_answers:
  "\<exists>c. fst (m_catch (proc env ms (PStr r) url (PStr t)) (processing_failed env (PStr r) (PStr t)) l) = Inr c"
  by (auto simp: m_catch_def processing_failed_def m_bind_def m_lift_def ref_prefix_def MediaContext_new_def
      split: prod.split sum.split)

end

lemma read_chunks_exact:
  "read_chunks m seen acc cs fin = Inr bytes \<longleftrightarrow> fin = None \<and> bytes = acc @ concat cs \<and> (cs \<noteq> [] \<longrightarrow> seen + int (length (concat cs)) \<le> m)"
proof (induction cs arbitrary: seen acc)
  case (Cons c cs)
  then show ?case by (cases cs) (auto simp: Let_def)
qed (auto split: option.split)

lemma download_ok:
  "m_ok (\<lambda>c. c = Call_download url) (\<lambda>r. \<forall>bytes. r = Inr bytes \<longrightarrow> int (length bytes) \<le> max 0 m) (download_bytes env url m)"
proof -
  have "int (length bytes) \<le> max 0 m" if "read_chunks m 0 [] cs fin = Inr bytes" for cs fin bytes
    using that by (cases cs) (auto simp: read_chunks_exact simp del: read_chunks.simps)
  then show ?thesis by (auto simp: m_ok_def download_bytes_def split: prod.split)
qed

lemma transcribe_ok: "m_ok (\<lambda>c. c = Call_transcribe f bytes t) (\<lambda>_. True) (transcribe env f bytes t)"
  by (simp add: m_ok_def transcribe_def)

lemma chat_ok: "m_ok (\<lambda>c. c = Call_chat p u n) (\<lambda>_. True) (chat_completion env p u n)"
  by (simp add: m_ok_def chat_completion_def)

text \<open>Steps of a processor: a pure one, a call, a download.\<close>

lemma m_ok_pure [media_rules]:
  "(\<And>x. r = Inr x \<Longrightarrow> m_ok C (answer_ok ref t) (f x)) \<Longrightarrow> m_ok C (answer_ok ref t) (m_bind (m_lift r) f)"
  by (rule m_ok_bind [OF m_ok_lift [where Q = "\<lambda>r'. r' = r"]]) auto

lemma m_ok_transcribe [media_rules]:
  "C (Call_transcribe f bytes u) \<Longrightarrow> (\<And>x. m_ok C (answer_ok ref t) (g x)) \<Longrightarrow> m_ok C (answer_ok ref t) (m_bind (transcribe env f bytes u) g)"
  by (rule m_ok_bind [OF m_ok_weaken [OF transcribe_ok, of "\<lambda>_. True"]]) auto

lemma m_ok_chat [media_rules]:
  "C (Call_chat p u n) \<Longrightarrow> (\<And>x. m_ok C (answer_ok ref t) (g x)) \<Longrightarrow> m_ok C (answer_ok ref t) (m_bind (chat_completion env p u n) g)"
  by (rule m_ok_bind [OF m_ok_weaken [OF chat_ok, of "\<lambda>_. True"]]) auto

lemma m_ok_download [media_rules]:
  assumes "C (Call_download u)" and "\<And>bytes. int (length bytes) \<le> max 0 m \<Longrightarrow> m_ok C (answer_ok ref t) (g bytes)"
  shows "m_ok C (answer_ok ref t) (m_bind (download_bytes env u m) g)"
  by (rule m_ok_bind [OF m_ok_weaken [OF download_ok, where Q = "\<lambda>r. \<forall>bytes. r = Inr bytes \<longrightarrow> int (length bytes) \<le> max 0 m"]])
    (use assms in auto)

lemma m_ok_handler [media_rules]:
  "m_ok C (answer_ok ref t) m \<Longrightarrow> (\<And>e. m_ok C (answer_ok ref t) (h e)) \<Longrightarrow> m_ok C (answer_ok ref t) (m_catch m h)"
  by (rule m_ok_catch [where P = "answer_ok ref t"]) auto

lemma m_ok_if [media_rules]: "(b \<Longrightarrow> m_ok C Q m) \<Longrightarrow> (\<not> b \<Longrightarrow> m_ok C Q n) \<Longrightarrow> m_ok C Q (if b then m else n)"
  by simp

interpretation audio: media_processor process_audio
  by unfold_locales (auto simp: process_audio_def within_limit_def intro!: media_rules new_context_ok)

interpretation image: media_processor process_image
  by unfold_locales (auto simp: process_image_def intro!: media_rules new_context_ok)

lemma pdf_fallback_ok:
  "ms_doc_enabled ms \<Longrightarrow> within_limit ms bytes \<Longrightarrow>
     m_ok (call_ok ms {url}) (answer_ok ref t) (pdf_vision_fallback env ms ref t bytes)"
  by (auto simp: pdf_vision_fallback_def intro!: media_rules new_context_ok)

lemma extract_pdf_ok:
  "ms_doc_enabled ms \<Longrightarrow> within_limit ms bytes \<Longrightarrow> m_ok (call_ok ms {url}) (answer_ok ref t) (extract_pdf env ms ref t bytes)"
  by (auto simp: extract_pdf_def intro!: media_rules new_context_ok pdf_fallback_ok)

interpretation document: media_processor process_document
  by unfold_locales (auto simp: process_document_def within_limit_def intro!: media_rules new_context_ok extract_pdf_ok)

lemma by_type_ok: "m_ok (call_ok ms {url}) (answer_ok ref t) (process_by_type env ms ref url t ty)"
  unfolding process_by_type_def processing_failed_def
  by (intro media_rules new_context_ok)
    (auto split: media_route.split intro!: audio.proc_ok image.proc_ok document.proc_ok media_rules new_context_ok)

lemma by_type_answers: "\<exists>c. fst (process_by_type env ms (PStr r) url (PStr t) ty l) = Inr c"
  by (auto simp: process_by_type_def m_catch_def processing_failed_def m_bind_def m_lift_def ref_prefix_def MediaContext_new_def
      split: prod.split sum.split)

section \<open>Attachments of a message\<close>

abbreviation dict_ref :: "pydict \<Rightarrow> pyval" where
  "dict_ref d \<equiv> dict_get_or d ''ref'' (PStr ''unknown'')"

abbreviation dict_type :: "pydict \<Rightarrow> pyval" where
  "dict_type d \<equiv> py_or (dict_get d ''content_type'') (PStr ''application/octet-stream'')"

definition dict_urls :: "pyval list \<Rightarrow> pyval set" where
  "dict_urls atts = {dict_get d ''url'' | d. PDict d \<in> set atts}"

definition answers_dict :: "pyval \<Rightarrow> MediaContext \<Rightarrow> bool" where
  "answers_dict v c \<longleftrightarrow> (\<exists>d. v = PDict d \<and> context_ok (dict_ref d) (dict_type d) c)"

lemma call_ok_mono: "call_ok ms A c \<Longrightarrow> A \<subseteq> B \<Longrightarrow> call_ok ms B c"
  by (cases c) auto

lemma process_dict_ok:
  assumes "v \<in> set atts"
  shows "m_ok (call_ok ms (dict_urls atts)) (\<lambda>r. \<forall>c. r = Inr c \<longrightarrow> answers_dict v c) (process_dict env ms v)"
proof (cases "\<exists>d. v = PDict d")
  case True
  then obtain d where v: "v = PDict d" by blast
  have "dict_get d ''url'' \<in> dict_urls atts" using assms v by (auto simp: dict_urls_def)
  then have "m_ok (call_ok ms (dict_urls atts)) (answer_ok (dict_ref d) (dict_type d)) (process_dict env ms v)"
    unfolding v process_dict_def Let_def as_dict_simps
    by (intro media_rules new_context_ok) (auto intro!: media_rules new_context_ok intro: call_ok_mono m_ok_weaken [OF by_type_ok])
  then show ?thesis by (rule m_ok_weaken) (auto simp: answers_dict_def v)
next
  case False
  then have "\<exists>e. as_dict v = Inl e" by (auto simp: as_dict_def split: pyval.split)
  then show ?thesis by (auto simp: m_ok_def process_dict_def m_bind_def m_lift_def)
qed

lemma process_dict_answers:
  assumes "dict_ref d = PStr r" and "dict_type d = PStr t"
  shows "\<exists>c. fst (process_dict env ms (PDict d) l) = Inr c"
proof (cases "truthy (dict_get d ''url'')")
  case True
  then show ?thesis using by_type_answers [of env ms r "dict_get d ''url''" t "dict_get_or d ''type'' (PStr ''file'')" l]
    by (simp add: process_dict_def m_bind_def m_lift_def assms Let_def)
next
  case False
  then show ?thesis by (simp add: process_dict_def m_bind_def m_lift_def assms Let_def MediaContext_new_def)
qed

section \<open>Decoding\<close>

lemma utf8_next_char:
  assumes "128 \<le> n" and "n < 256"
  shows "utf8_next (192 + n div 64) ((128 + n mod 64) # bs) = (n, 1)"
proof -
  have "n div 64 = 2 \<or> n div 64 = 3" using assms by linarith
  moreover have "n = n div 64 * 64 + n mod 64" by simp
  ultimately show ?thesis by (auto simp: utf8_next_def is_cont_def)
qed

lemma utf8_decode_char: "utf8_decode (utf8_char c @ bs) = of_char c # utf8_decode bs"
proof (cases "(of_char c :: nat) < 128")
  case True
  then show ?thesis by (simp add: utf8_char_def Let_def utf8_next_def)
next
  case False
  moreover have "(of_char c :: nat) < 256" by simp
  ultimately show ?thesis using utf8_next_char [of "of_char c" bs] by (simp add: utf8_char_def Let_def)
qed

lemma py_decode_encode [simp]: "py_decode (py_encode s) = s"
  by (induction s) (simp_all add: py_decode_def py_encode_def utf8_decode_char latin_char_def)

section \<open>Properties\<close>

definition sample_media :: MediaUnderstandingSubgraph where
  "sample_media = MediaUnderstandingSubgraph_init (Some ''k'') True True True 50"

definition sample_media_env :: "py_exc option \<Rightarrow> media_env" where
  "sample_media_env fin = \<lparr>me_stream = (\<lambda>_ _. (if fin = None then [[79], [105]] else [], fin)),
     me_transcribe = (\<lambda>_ _ _ _. Inl ConnectError), me_chat = (\<lambda>_ _ _ _. Inl ConnectError), me_pdf_pages = (\<lambda>_. Inr []),
     me_exc_text = (\<lambda>_. ''404 for url https://f/1'')\<rparr>"

abbreviation text_attachment :: pyval where
  "text_attachment \<equiv> PDict [(''ref'', PStr ''a''), (''url'', PStr ''https://f/1''), (''content_type'', PStr ''text/plain''), (''type'', PStr ''file'')]"

lemmas sample_media_simps = sample_media_def sample_media_env_def MediaUnderstandingSubgraph_init_def

abbreviation text_context :: "string \<Rightarrow> string \<Rightarrow> MediaContext" where
  "text_context ref s \<equiv> \<lparr>mx_attachment_ref = ref, mx_media_type = ''text/plain'', mx_status = MS_COMPLETE,
    mx_extracted_text = Some (take 8000 s), mx_description = None, mx_fallback_reason = None\<rparr>"

lemma text_document_run:
  assumes "me_stream me l url = (cs, None)" and "concat cs = py_encode s" and "int (length (py_encode s)) \<le> ms_max_bytes ms"
    and "ms_doc_enabled ms" and "truthy url"
  shows "MediaUnderstandingSubgraph_process_from_dicts me ms (PList [PDict [(''ref'', PStr ref), (''url'', url),
        (''content_type'', PStr ''text/plain''), (''type'', PStr ''file'')]]) l = (Inr [text_context ref s], l @ [Call_download url])"
proof -
  have d: "download_bytes me url (ms_max_bytes ms) l = (Inr (py_encode s), l @ [Call_download url])"
    using assms(1-3) by (auto simp: download_bytes_def read_chunks_exact simp del: read_chunks.simps)
  have t: "PStr ''text/plain'' \<in> set (map PStr SUPPORTED_TEXT_MIME_TYPES)" "PStr ''text/plain'' \<notin> set (map PStr SUPPORTED_AUDIO_MIME_TYPES)"
    "PStr ''text/plain'' \<notin> set (map PStr SUPPORTED_IMAGE_MIME_TYPES)"
    by (simp_all add: SUPPORTED_TEXT_MIME_TYPES_def SUPPORTED_AUDIO_MIME_TYPES_def SUPPORTED_IMAGE_MIME_TYPES_def)
  have "process_document me ms (PStr ref) url (PStr ''text/plain'') l = (Inr (text_context ref s), l @ [Call_download url])"
    using assms(4) d t(1) by (simp add: process_document_def mime_in_def hashable_def m_bind_def m_lift_def ref_prefix_def MediaContext_new_def)
  then have "process_by_type me ms (PStr ref) url (PStr ''text/plain'') (PStr ''file'') l = (Inr (text_context ref s), l @ [Call_download url])"
    using t by (simp add: process_by_type_def media_route_of_def Let_def mime_in_def hashable_def m_catch_def m_bind_def m_lift_def)
  then show ?thesis
    using assms(5) by (simp add: MediaUnderstandingSubgraph_process_from_dicts_def py_iter_def process_dict_def m_bind_def m_lift_def
        dict_get_or_def dict_get_def py_or_def Let_def)
qed

lemma sample_text_run:
  "MediaUnderstandingSubgraph_process_from_dicts (sample_media_env None) sample_media (PList [text_attachment]) [] =
     (Inr [text_context ''a'' ''Oi''], [Call_download (PStr ''https://f/1'')])"
  using text_document_run [of "sample_media_env None" "[]" "PStr ''https://f/1''" "[[79], [105]]" "''Oi''" sample_media "''a''"]
  by (simp add: sample_media_simps py_encode_def utf8_char_def)



text \<open>A text file arrives in the prompt: when the stream delivers the UTF-8 bytes of a text within the size limit, in
  whatever chunks, the attachment's context is complete with the first 8000 characters, and the media section of the
  prompt quotes the first 2000.\<close>

theorem text_document_roundtrip:
  assumes "me_stream me l url = (cs, None)" and "concat cs = py_encode s" and "int (length (py_encode s)) \<le> ms_max_bytes ms"
    and "ms_doc_enabled ms" and "truthy url" and "s \<noteq> []"
  shows "\<exists>c. MediaUnderstandingSubgraph_process_from_dicts me ms (PList [PDict [(''ref'', PStr ref), (''url'', url),
        (''content_type'', PStr ''text/plain''), (''type'', PStr ''file'')]]) l = (Inr [c], l @ [Call_download url]) \<and>
      mx_status c = MS_COMPLETE \<and> mx_extracted_text c = Some (take 8000 s) \<and>
      media_line (MediaContext_model_dump c) = Inr (Some (''- Documento (text/plain): '' @ take 2000 s))"
proof -
  have "media_line (MediaContext_model_dump (text_context ref s)) = Inr (Some (''- Documento (text/plain): '' @ take 2000 s))"
    using assms(6) by (simp add: media_line_def MediaContext_model_dump_def opt_str_def dict_get_or_def dict_get_def py_or_def Let_def
        as_str_def py_startswith_def min_def)
  then show ?thesis using text_document_run [OF assms(1-5), of ref] by (intro exI [of _ "text_context ref s"]) simp
qed

theorem text_document_roundtrip_witness:
  "\<exists>c. fst (MediaUnderstandingSubgraph_process_from_dicts (sample_media_env None) sample_media (PList [text_attachment]) []) = Inr [c] \<and>
     mx_extracted_text c = Some ''Oi''"
  using text_document_roundtrip [of "sample_media_env None" "[]" "PStr ''https://f/1''" "[[79], [105]]" "''Oi''" sample_media "''a''"]
  by (auto simp: sample_media_simps py_encode_def utf8_char_def)

text \<open>A failed download puts the address into the state: when the exception's text names the address within its first
  hundred characters, the failed context carries it in its reason, which the media node stores.\<close>

theorem media_url_leaked:
  assumes "ms_audio_enabled ms" and "given (ms_openai_key ms)" and "me_stream me l (PStr url) = ([], Some e)" and "url \<noteq> []"
    and "take 100 (me_exc_text me e) = before @ url @ after"
  shows "\<exists>c before' after'. MediaUnderstandingSubgraph_process_from_dicts me ms (PList [PDict [(''ref'', PStr ref), (''url'', PStr url),
        (''content_type'', PStr ''audio/ogg''), (''type'', PStr ''audio'')]]) l = (Inr [c], l @ [Call_download (PStr url)]) \<and>
      mx_status c = MS_FAILED \<and> dict_get (MediaContext_model_dump c) ''fallback_reason'' = PStr (before' @ url @ after')"
proof -
  let ?reason = "''Processing failed: '' @ exc_name e @ '': '' @ take 100 (me_exc_text me e)"
  let ?c = "\<lparr>mx_attachment_ref = ref, mx_media_type = ''audio/ogg'', mx_status = MS_FAILED,
    mx_extracted_text = None, mx_description = None, mx_fallback_reason = Some ?reason\<rparr>"
  have "process_audio me ms (PStr ref) (PStr url) (PStr ''audio/ogg'') l = (Inl e, l @ [Call_download (PStr url)])"
    using assms(1-3) by (simp add: process_audio_def m_bind_def m_lift_def ref_prefix_def download_bytes_def)
  then have "process_by_type me ms (PStr ref) (PStr url) (PStr ''audio/ogg'') (PStr ''audio'') l = (Inr ?c, l @ [Call_download (PStr url)])"
    by (simp add: process_by_type_def media_route_of_def Let_def m_catch_def m_bind_def m_lift_def processing_failed_def ref_prefix_def
        MediaContext_new_def)
  then have p: "MediaUnderstandingSubgraph_process_from_dicts me ms (PList [PDict [(''ref'', PStr ref), (''url'', PStr url),
        (''content_type'', PStr ''audio/ogg''), (''type'', PStr ''audio'')]]) l = (Inr [?c], l @ [Call_download (PStr url)])"
    using assms(4) by (simp add: MediaUnderstandingSubgraph_process_from_dicts_def py_iter_def process_dict_def m_bind_def m_lift_def
        dict_get_or_def dict_get_def py_or_def Let_def)
  have "dict_get (MediaContext_model_dump ?c) ''fallback_reason'' = PStr ?reason"
    by (simp add: MediaContext_model_dump_def dict_get_def opt_str_def)
  moreover have "?reason = (''Processing failed: '' @ exc_name e @ '': '' @ before) @ url @ after"
    by (simp add: assms(5))
  ultimately show ?thesis using p by (metis MediaContext.select_convs(3))
qed

theorem media_url_leaked_witness:
  "\<exists>c before after. fst (MediaUnderstandingSubgraph_process_from_dicts (sample_media_env (Some (HTTPStatusError 404))) sample_media
      (PList [PDict [(''ref'', PStr ''a''), (''url'', PStr ''https://f/1''), (''content_type'', PStr ''audio/ogg''), (''type'', PStr ''audio'')]]) []) =
      Inr [c] \<and> dict_get (MediaContext_model_dump c) ''fallback_reason'' = PStr (before @ ''https://f/1'' @ after)"
proof -
  let ?me = "sample_media_env (Some (HTTPStatusError 404))"
  have "ms_audio_enabled sample_media" "given (ms_openai_key sample_media)" "me_stream ?me [] (PStr ''https://f/1'') = ([], Some (HTTPStatusError 404))"
    "''https://f/1'' \<noteq> []" "take 100 (me_exc_text ?me (HTTPStatusError 404)) = ''404 for url '' @ ''https://f/1'' @ []"
    by (simp_all add: sample_media_simps given_def)
  from media_url_leaked [OF this, of "''a''"] show ?thesis by (metis fst_conv)
qed

end
