(* ===== verification/Production.thy ===== *)
theory Production
  imports Graph Media RuntimeSettings
begin

text \<open>
  The production wiring of the graph (\<open>build_production_graph\<close> in \<open>graph/builder.py\<close>): the dependencies that the
  settings choose, injected into the graph. What the processes outside the program do (the model behind a client, the
  download streams, the calendar services, clocks, identifiers and failures of the database, each at the tick of the
  world) is the record \<open>production_runtime\<close>. The theorems combine the wiring with those on the graph, the tools, the
  memory and the media subgraph.
\<close>

section \<open>Wiring\<close>

record production_runtime =
  pr_llm :: "llm_client \<Rightarrow> llm"
  pr_media :: media_env
  pr_media_calls :: "media_call list"
  pr_calendar :: calendar_env
  pr_fromisoformat :: "string \<Rightarrow> (int \<times> int option) option"
  pr_float_text :: "string \<Rightarrow> rat option"
  pr_content_filter :: ContentFilter
  pr_now :: "nat \<Rightarrow> time"
  pr_uid :: "nat \<Rightarrow> nat \<Rightarrow> uuid"
  pr_db_fails :: "nat \<Rightarrow> bool"

definition production_executor :: "production_runtime \<Rightarrow> read_adapter \<Rightarrow> nat \<Rightarrow> tool_env" where
  "production_executor rt scheduling_adapter n = \<lparr>te_tenant_id = ''__production__'', te_has_outbox = True, te_has_follow_up_repo = True,
     te_check_availability = read_availability (pr_calendar rt) scheduling_adapter, te_fromisoformat = pr_fromisoformat rt,
     te_float_text = pr_float_text rt, te_now = pr_now rt n, te_uid = pr_uid rt n, te_outbox_fails = pr_db_fails rt n,
     te_follow_up_fails = pr_db_fails rt n\<rparr>"

definition production_memory :: "Settings \<Rightarrow> PostgresMemoryStore option" where
  "production_memory s = (if iara_memory_enabled s
     then Some (PostgresMemoryStore_init ''__production__'' (Some (iara_memory_namespace s)) True (iara_memory_ttl_days s)) else None)"

definition production_media :: "Settings \<Rightarrow> MediaUnderstandingSubgraph" where
  "production_media s = MediaUnderstandingSubgraph_init (openai_api_key s) (iara_audio_transcription_enabled s) (iara_vision_enabled s)
     (iara_document_extraction_enabled s) (iara_media_max_size_mb s)"

definition build_production_graph ::
    "production_runtime \<Rightarrow> os_environ \<Rightarrow> (string \<Rightarrow> pyval option) \<Rightarrow> Settings \<Rightarrow> graph_env res" where
  "build_production_graph rt environ json_loads s =
     (case (OperationMode_of (KanbanMode_value (iara_kanban_default_mode s)), OperationMode_of (CampaignMode_value (iara_campaign_default_mode s))) of
        (Some kanban_mode, Some campaign_mode) \<Rightarrow>
          (let registry = AgentToolRegistry_build_default ''__production__'';
               policy_guard = \<lparr>tpg_tenant_id = ''__production__'', tpg_kanban_mode = kanban_mode, tpg_campaign_mode = campaign_mode\<rparr>;
               scheduling_adapter = build_scheduling_adapter json_loads environ (scheduling s)
           in Inr \<lparr>ge_auth_guard = Some (CommandAuthorizationGuard_register (CommandRequesterBinding_init ''__production__'') []),
                ge_media_subgraph = Some (media_subgraph (pr_media rt) (production_media s) (pr_media_calls rt)),
                ge_registry = Some registry, ge_skill_resolver = Some (ToolSkillResolver_init None),
                ge_memory_store = production_memory s, ge_llm = Some (pr_llm rt (build_llm environ s)),
                ge_gateway = Some (\<lambda>n. \<lparr>gw_registry = registry, gw_policy_guard = policy_guard,
                  gw_executor = production_executor rt scheduling_adapter n\<rparr>),
                ge_has_outbox = True, ge_has_session_factory = True, ge_content_filter = pr_content_filter rt,
                ge_now = pr_now rt, ge_uid = pr_uid rt, ge_db_fails = pr_db_fails rt\<rparr>)
      | (None, _) \<Rightarrow> Inl (ValueError (repr_str (KanbanMode_value (iara_kanban_default_mode s)) @ '' is not a valid OperationMode''))
      | (_, None) \<Rightarrow> Inl (ValueError (repr_str (CampaignMode_value (iara_campaign_default_mode s)) @ '' is not a valid OperationMode'')))"

section \<open>Lemmas\<close>

lemma no_production_uuid: "\<exists>e. UUID_of ''__production__'' = Inl e"
proof -
  have "py_UUID ''__production__'' = None" by code_simp
  then show ?thesis by (simp add: UUID_of_def)
qed

lemma production_env:
  assumes "build_production_graph rt environ json_loads s = Inr env"
  shows "ge_memory_store env = production_memory s"
    and "\<exists>gateway. ge_gateway env = Some gateway \<and> (\<forall>n. registry_ok (gw_registry (gateway n)) \<and>
      te_tenant_id (gw_executor (gateway n)) = ''__production__'')"
  using assms
  by (auto simp: build_production_graph_def production_executor_def Let_def registry_ok_default split: option.splits)

lemma production_gateways_ok: "build_production_graph rt environ json_loads s = Inr env \<Longrightarrow> gateways_ok env"
  using production_env(2) unfolding gateways_ok_def by fastforce

lemma run_tools_idle:
  assumes "\<And>n. te_tenant_id (gw_executor (gateway n)) = ''__production__''"
  shows "gd_tools (snd (run_tools env gateway s tcs w)) = gd_tools w \<and> gd_memory (snd (run_tools env gateway s tcs w)) = gd_memory w"
proof (induction tcs arbitrary: w)
  case (Cons tc tcs)
  have "gd_tools (snd (run_tool env gateway s tc w)) = gd_tools w \<and> gd_memory (snd (run_tool env gateway s tc w)) = gd_memory w"
    using invoke_without_uuid [OF assms] by (simp add: run_tool_def case_prod_beta Let_def split: sum.split)
  then show ?case using Cons by (simp add: case_prod_beta Let_def)
qed simp

text \<open>A store for a tenant that is no UUID cannot insert, so it stays empty when it is.\<close>

definition namespace_empty :: "Settings \<Rightarrow> graph_world \<Rightarrow> bool" where
  "namespace_empty s w \<longleftrightarrow> (\<forall>ms. production_memory s = Some ms \<longrightarrow> (\<forall>r\<in>set (gd_memory w). am_namespace r \<noteq> pms_namespace ms))"

lemma store_facts_idle:
  assumes "pms_tenant_id ms = ''__production__''" and "\<forall>r\<in>set (gd_memory w). am_namespace r \<noteq> pms_namespace ms"
  shows "gd_memory (store_facts env ms c i items w) = gd_memory w"
proof -
  obtain e where u: "UUID_of (pms_tenant_id ms) = Inl e" using no_production_uuid assms(1) by metis
  have idle: "rows' = rows" if "PostgresMemoryStore_store ms j now k x y rows = (r, rows')" "\<forall>r\<in>set rows. am_namespace r \<noteq> pms_namespace ms"
    for j now k x y rows r rows'
  proof -
    have "find (memory_row ms k) rows = None" using that(2) by (auto simp: find_None_iff memory_row_def)
    then show ?thesis using that(1) u by (auto simp: PostgresMemoryStore_store_def Let_def split: if_splits)
  qed
  from assms(2) show ?thesis
  proof (induction items arbitrary: i w)
    case (Cons item items)
    obtain r rows where e: "PostgresMemoryStore_store ms (ge_uid env (gd_tick w) 0) (ge_now env (gd_tick w))
        (c @ '':fact_'' @ show_int (int i)) item None (gd_memory w) = (r, rows)" by fastforce
    have "rows = gd_memory w" by (rule idle [OF e Cons.prems])
    then show ?case using Cons.IH [of "(tick w)\<lparr>gd_memory := rows\<rparr>" "Suc i"] Cons.prems e by (cases r) auto
  qed simp
qed

text \<open>In production only the dispatch node touches the tables of the tools, and no node the memory.\<close>

lemma production_node_idle:
  assumes env: "build_production_graph rt environ json_loads st = Inr env" and w: "namespace_empty st w"
    and n: "node_fn n env s w = (x, w')"
  shows "gd_memory w' = gd_memory w" and "n \<noteq> N_command_dispatch \<Longrightarrow> gd_tools w' = gd_tools w"
proof -
  obtain gateway where g: "ge_gateway env = Some gateway" "\<And>n. te_tenant_id (gw_executor (gateway n)) = ''__production__''"
    using production_env(2) [OF env] by blast
  note tools = run_tools_idle [of gateway env s "gs_tool_calls_pending s" w, OF g(2)]
  have mem: "gd_memory (store_facts env ms c i items (tick w)) = gd_memory w" if "ge_memory_store env = Some ms" for ms c i items
  proof -
    have "production_memory st = Some ms" using that production_env(1) [OF env] by simp
    then have "pms_tenant_id ms = ''__production__''" "\<forall>r\<in>set (gd_memory (tick w)). am_namespace r \<noteq> pms_namespace ms"
      using w by (auto simp: namespace_empty_def production_memory_def PostgresMemoryStore_init_def split: if_splits)
    then show ?thesis using store_facts_idle by fastforce
  qed
  show "gd_memory w' = gd_memory w"
    using n mem tools g(1)
    by (cases n) (auto simp: eligibility_node_def command_assistant_node_def media_understanding_node_def context_builder_node_def
        agent_node_def guardrails_node_def hitl_node_def memory_writer_node_def tool_executor_node_def command_dispatch_node_def
        Let_def case_prod_beta split: option.splits if_splits sum.splits prod.splits)
  show "gd_tools w' = gd_tools w" if "n \<noteq> N_command_dispatch"
    using n tools g(1) that
    by (cases n) (auto simp: eligibility_node_def command_assistant_node_def media_understanding_node_def context_builder_node_def
        agent_node_def guardrails_node_def hitl_node_def memory_writer_node_def tool_executor_node_def store_facts_tools
        Let_def case_prod_beta split: option.splits if_splits sum.splits prod.splits)
qed

lemma namespace_empty_kept: "namespace_empty st w \<Longrightarrow> gd_memory w' = gd_memory w \<Longrightarrow> namespace_empty st w'"
  by (simp add: namespace_empty_def)

text \<open>The tables after a run: nothing but at most one response.\<close>

definition one_response :: "graph_world \<Rightarrow> graph_world \<Rightarrow> bool" where
  "one_response w w' \<longleftrightarrow> gd_memory w' = gd_memory w \<and> tw_follow_ups (gd_tools w') = tw_follow_ups (gd_tools w) \<and>
     (tw_outbox (gd_tools w') = tw_outbox (gd_tools w) \<or>
      (\<exists>r. ob_capability_name r = ''send_message'' \<and> tw_outbox (gd_tools w') = tw_outbox (gd_tools w) @ [r]))"

lemma dispatch_one_response:
  "command_dispatch_node env s w = (x, w') \<Longrightarrow> one_response w w'"
  by (auto simp: one_response_def command_dispatch_node_def Let_def OutboxService_enqueue_def OutboxRepository_enqueue_def
      insert_ignore_def outbox_command_def split: option.splits if_splits sum.splits)

lemma production_run_tables:
  assumes env: "build_production_graph rt environ json_loads st = Inr env" and "namespace_empty st w"
    and "run_from k env n s w = (out, s', w')"
  shows "one_response w w' \<and> (n = N_memory_writer \<longrightarrow> gd_tools w' = gd_tools w)"
  using assms(2,3)
proof (induction k arbitrary: n s w)
  case (Suc k)
  note idle = production_node_idle [OF env Suc.prems(1)]
  have first: "one_response w w1" if "node_fn n env s w = (x, w1)" for x w1
    using idle [OF that] dispatch_one_response [of env s w x w1] that by (cases "n = N_command_dispatch") (auto simp: one_response_def)
  from Suc.prems(2) show ?case
  proof (cases rule: run_from_cases)
    case (step n1 s1 w1)
    have rest: "one_response w1 w' \<and> (n1 = N_memory_writer \<longrightarrow> gd_tools w' = gd_tools w1)"
      by (rule Suc.IH [OF namespace_empty_kept [OF Suc.prems(1) idle(1) [OF step(1)]] step(3)])
    have nw: "n \<noteq> N_memory_writer" using step(2) by auto
    show ?thesis
    proof (cases "n = N_command_dispatch")
      case True
      then have "n1 = N_memory_writer" using next_node [OF step(2)] by auto
      then show ?thesis using rest first [OF step(1)] nw by (simp add: one_response_def)
    next
      case False
      then show ?thesis using rest idle [OF step(1)] nw by (simp add: one_response_def)
    qed
  qed (use first idle in auto)
qed (simp add: one_response_def)

lemma prompt_ends_with_section:
  "\<exists>p. system_prompt_text guidance section = p @ section" "\<exists>p. no_tools_prompt_text section = p @ section"
  unfolding system_prompt_text_def no_tools_prompt_text_def append_assoc [symmetric] by blast+

lemma memory_section_quotes:
  assumes "item \<in> set items"
  shows "\<exists>before after. memory_section_of items = before @ am_content item @ after"
proof -
  have joined: "\<exists>before after. join_with sep xs = before @ x @ after" if "x \<in> set xs" for sep x and xs :: "string list"
    using that
  proof (induction sep xs rule: join_with.induct)
    case (3 sep y z zs)
    show ?case
    proof (cases "x = y")
      case False
      then obtain b a where "join_with sep (z # zs) = b @ x @ a" using 3 by auto
      then show ?thesis by (intro exI [of _ "y @ sep @ b"] exI [of _ a]) simp
    qed (auto intro: exI [of _ "[]"])
  qed (auto intro: exI [of _ "[]"])
  have "''- '' @ am_content item \<in> set (([CHR 0x0A] @ ''MEM'' @ [CHR 0xD3] @ ''RIA DO CONTATO (conversas anteriores):'') #
      map (\<lambda>i. ''- '' @ am_content i) items)" using assms by simp
  from joined [OF this, of "[CHR 0x0A]"] obtain b a where "memory_section_of items = b @ (''- '' @ am_content item) @ a @ [CHR 0x0A]"
    using assms unfolding memory_section_of_def by (metis append_assoc list.set_cases neq_Nil_conv)
  then show ?thesis by (intro exI [of _ "b @ ''- ''"] exI [of _ "a @ [CHR 0x0A]"]) simp
qed

lemma context_prompt:
  assumes "context_builder_node env s w = (Inr s', w')" and "ge_memory_store env = Some ms"
  shows "\<exists>media b g md. gs_metadata s' = AList.update ''system_prompt'' (PStr (if b
      then no_tools_prompt_text ((if ge_db_fails env (gd_tick w) then []
        else memory_section_of (PostgresMemoryStore_list_recent ms (ge_now env (gd_tick w)) 5 (gd_memory w))) @ media)
      else system_prompt_text g ((if ge_db_fails env (gd_tick w) then []
        else memory_section_of (PostgresMemoryStore_list_recent ms (ge_now env (gd_tick w)) 5 (gd_memory w))) @ media))) md"
proof -
  have sel: "gs_metadata (stepped (s\<lparr>gs_context_built := True, gs_metadata := m\<rparr>)) = m" for m by simp
  show ?thesis
    using assms(1) unfolding context_builder_node_def Let_def prod.inject res_bind_Inr_iff sum.inject assms(2) option.case
    by - (elim conjE exE, hypsubst, unfold sel, intro exI, rule refl)
qed

section \<open>Properties\<close>

text \<open>The production graph is built for every setting of the modes but one: with the Kanban mode \<open>write_sandbox\<close>, which the
  settings accept, the wiring raises, because the tools have no operation mode of that name.\<close>

theorem production_graph_built:
  "(\<exists>env. build_production_graph rt environ json_loads s = Inr env) \<longleftrightarrow> iara_kanban_default_mode s \<noteq> KM_WRITE_SANDBOX"
  by (cases "iara_kanban_default_mode s"; cases "iara_campaign_default_mode s")
    (simp_all add: build_production_graph_def OperationMode_of_def Let_def)

text \<open>C20: The only effect of a production run on the tables is at most one vetted response. Whatever the model answers and
  whichever tools it calls, a run of the graph with the production wiring adds nothing to the follow-up queue and nothing to
  the memory (when its namespace holds no rows), and appends to the outbox nothing or one response of the run that
  the guardrails released.\<close>

theorem production_run_effects:
  assumes "build_production_graph rt environ json_loads st = Inr env" and "namespace_empty st w"
    and "graph_ainvoke env inp checkpoint w = (out, s', w')"
  shows "gd_memory w' = gd_memory w \<and> tw_follow_ups (gd_tools w') = tw_follow_ups (gd_tools w) \<and>
    (tw_outbox (gd_tools w') = tw_outbox (gd_tools w) \<or>
     (\<exists>c r. tw_outbox (gd_tools w') = tw_outbox (gd_tools w) @ [r] \<and> response_row (merge_input inp checkpoint) c r \<and>
        released env c \<and> \<not> gs_response_sent checkpoint))"
proof -
  note run = assms(3) [unfolded graph_ainvoke_def]
  have one: "one_response w w'" using production_run_tables [OF assms(1,2) run] by blast
  have vetted: "run_sends env (merge_input inp checkpoint) w s' w'"
    by (rule run_sends_vetted [OF production_gateways_ok [OF assms(1)] run]) simp
  have "\<exists>c. response_row (merge_input inp checkpoint) c r \<and> released env c \<and> \<not> gs_response_sent checkpoint"
    if "ob_capability_name r = ''send_message''" "tw_outbox (gd_tools w') = tw_outbox (gd_tools w) @ [r]" for r
    using vetted that by (auto simp: run_sends_def sends_def)
  then show ?thesis using one unfolding one_response_def by blast
qed

definition sample_runtime :: production_runtime where
  "sample_runtime = \<lparr>pr_llm = (\<lambda>_. sample_llm ''Oi'' []), pr_media = sample_media_env None, pr_media_calls = [],
     pr_calendar = sample_calendar (\<lambda>_ _. Net_raise ConnectError), pr_fromisoformat = (\<lambda>_. None), pr_float_text = (\<lambda>_. None),
     pr_content_filter = ContentFilter_init None, pr_now = (\<lambda>n. int n), pr_uid = (\<lambda>_ _. ''id''), pr_db_fails = (\<lambda>_. False)\<rparr>"

theorem production_run_effects_witness:
  "\<exists>env out s' w'. build_production_graph sample_runtime (\<lambda>_. None) (\<lambda>_. None) default_settings = Inr env \<and>
     graph_ainvoke env (sample_input ''r'' ''Oi'') fresh_state sample_world = (out, s', w') \<and> length (tw_outbox (gd_tools w')) \<le> 1"
proof -
  obtain env where b: "build_production_graph sample_runtime (\<lambda>_. None) (\<lambda>_. None) default_settings = Inr env"
    by (simp add: build_production_graph_def default_settings_def OperationMode_of_def Let_def)
  obtain out s' w' where g: "graph_ainvoke env (sample_input ''r'' ''Oi'') fresh_state sample_world = (out, s', w')"
    by (metis prod_cases3)
  have "namespace_empty default_settings sample_world" by (simp add: namespace_empty_def sample_world_def)
  from production_run_effects [OF b this g] b g show ?thesis by (auto simp: sample_world_def)
qed

text \<open>Remembered facts cross conversations. The memory of a contact is listed by namespace only: a fact that a turn of one
  conversation stored is quoted in the system prompt that the context builder makes for any state, of whichever conversation
  and tenant, that shares the store.\<close>

theorem memory_crosses_conversations:
  assumes "ge_memory_store env = Some ms" and "pms_enabled ms" and "UUID_of (pms_tenant_id ms) = Inr u" and "gd_memory w = []"
    and "\<forall>n. \<not> ge_db_fails env n" and "gd_memory w2 = gd_memory (store_facts env ms cid 0 [item] w)"
    and "ge_now env (gd_tick w2) < ge_now env (gd_tick w) + pms_ttl_days ms * day"
    and "context_builder_node env s w2 = (Inr s', w')"
  shows "\<exists>before after. map_of (gs_metadata s') ''system_prompt'' = Some (PStr (before @ item @ after))"
proof -
  define r where "r = \<lparr>am_id = ge_uid env (gd_tick w) 0, am_tenant_id = u, am_namespace = pms_namespace ms,
    am_item_key = cid @ '':fact_'' @ show_int 0, am_content = item, am_ttl_days = pms_ttl_days ms, am_consent_ref = None,
    am_is_anonymized = False, am_updated_at = ge_now env (gd_tick w), am_expires_at = ge_now env (gd_tick w) + pms_ttl_days ms * day\<rparr>"
  have "gd_memory w2 = [r]"
    using assms(2-6) by (simp add: PostgresMemoryStore_store_def Let_def r_def)
  then have recent: "PostgresMemoryStore_list_recent ms (ge_now env (gd_tick w2)) 5 (gd_memory w2) = [r]"
    using assms(2,7) by (simp add: PostgresMemoryStore_list_recent_def order_limit_def r_def)
  obtain b1 a where m: "memory_section_of [r] = b1 @ item @ a" using memory_section_quotes [of r "[r]"] by (auto simp: r_def)
  have sec: "(if ge_db_fails env (gd_tick w2) then []
      else memory_section_of (PostgresMemoryStore_list_recent ms (ge_now env (gd_tick w2)) 5 (gd_memory w2))) = memory_section_of [r]"
    using assms(5) recent by simp
  obtain media b g md where "gs_metadata s' = AList.update ''system_prompt'' (PStr (if b then no_tools_prompt_text (memory_section_of [r] @ media)
      else system_prompt_text g (memory_section_of [r] @ media))) md"
    using context_prompt [OF assms(8,1)] unfolding sec by blast
  then have "map_of (gs_metadata s') ''system_prompt'' = Some (PStr (if b then no_tools_prompt_text (memory_section_of [r] @ media)
      else system_prompt_text g (memory_section_of [r] @ media)))"
    by (simp add: update_conv')
  moreover obtain p where "(if b then no_tools_prompt_text (memory_section_of [r] @ media)
      else system_prompt_text g (memory_section_of [r] @ media)) = p @ memory_section_of [r] @ media"
    using prompt_ends_with_section by (cases b) metis+
  ultimately show ?thesis using m by (intro exI [of _ "p @ b1"] exI [of _ "a @ media"]) simp
qed

definition memory_graph :: graph_env where
  "memory_graph = (sample_graph (sample_llm ''Oi'' []))\<lparr>ge_memory_store :=
     Some (PostgresMemoryStore_init ''00000000-0000-4000-8000-000000000001'' (Some ''default'') True 90)\<rparr>"

theorem memory_crosses_conversations_witness:
  "\<exists>s' w' before after. context_builder_node memory_graph (fresh_state\<lparr>gs_conversation_id := ''b''\<rparr>)
      (store_facts memory_graph (PostgresMemoryStore_init ''00000000-0000-4000-8000-000000000001'' (Some ''default'') True 90)
        ''a'' 0 [''Prefere tardes''] sample_world) = (Inr s', w') \<and>
    map_of (gs_metadata s') ''system_prompt'' = Some (PStr (before @ ''Prefere tardes'' @ after))"
proof -
  let ?ms = "PostgresMemoryStore_init ''00000000-0000-4000-8000-000000000001'' (Some ''default'') True 90"
  let ?w2 = "store_facts memory_graph ?ms ''a'' 0 [''Prefere tardes''] sample_world"
  have ms: "ge_memory_store memory_graph = Some ?ms" "pms_enabled ?ms" "UUID_of (pms_tenant_id ?ms) = Inr ''00000000-0000-4000-8000-000000000001''"
      "gd_memory sample_world = []" "\<forall>n. \<not> ge_db_fails memory_graph n" "gd_memory ?w2 = gd_memory ?w2"
    by (simp_all add: memory_graph_def sample_graph_def PostgresMemoryStore_init_def sample_world_def sample_uuid_ok)
  have fresh: "ge_now memory_graph (gd_tick ?w2) < ge_now memory_graph (gd_tick sample_world) + pms_ttl_days ?ms * day"
    by (simp add: memory_graph_def sample_graph_def PostgresMemoryStore_init_def sample_world_def PostgresMemoryStore_store_def
        sample_uuid_ok Let_def)
  obtain s' where c: "context_builder_node memory_graph (fresh_state\<lparr>gs_conversation_id := ''b''\<rparr>) ?w2 = (Inr s', tick ?w2)"
    by (simp add: context_builder_node_def Let_def fresh_state_def dict_get_or_def build_media_section_def memory_graph_def sample_graph_def)
  from memory_crosses_conversations [OF ms fresh c] c show ?thesis by blast
qed

end
