(* ===== verification/Workers.thy ===== *)
theory Workers
  imports JobConsumer Production
begin

text \<open>
  The worker process around the modelled handlers: the poll loops of the drainer and of the follow-up scheduler
  (\<open>start\<close> in \<open>workers/outbox_drainer.py\<close> and \<open>workers/follow_up_scheduler.py\<close>), the start of the job consumer with its
  checkpointer (\<open>workers/job_consumer.py\<close>, \<open>persistence/checkpointer.py\<close>), the calls that declare the broker topology
  (\<open>messaging/topology.py\<close>) and the construction of the registry in \<open>workers/main.py\<close>. A loop runs until the shutdown event
  is set: it is a function of the list of the passes it makes, each with what the pass observes and what other
  processes did to the tables before it.
\<close>

section \<open>Poll loops\<close>

fun poll_loop :: "('e \<Rightarrow> 's \<Rightarrow> unit res \<times> 's) \<Rightarrow> 'e list \<Rightarrow> 's \<Rightarrow> 's" where
  "poll_loop pass [] st = st"
| "poll_loop pass (e # es) st = poll_loop pass es (snd (pass e st))"

definition OutboxDrainerWorker_init ::
    "(string \<times> 'w adapter) list option \<Rightarrow> 'w adapter option \<Rightarrow> (string \<times> 'w adapter) list" where
  "OutboxDrainerWorker_init adapters adapter =
     (case adapters of Some ads \<Rightarrow> ads | None \<Rightarrow> (case adapter of Some ad \<Rightarrow> [(''chatwoot'', ad)] | None \<Rightarrow> []))"

record 'w drain_pass =
  dp_others :: "'w drain_state \<Rightarrow> 'w drain_state"
  dp_faults :: "ProviderCommandOutbox \<Rightarrow> drain_faults \<times> uuid"
  dp_now :: time

definition OutboxDrainerWorker_start :: "'w drain_env \<Rightarrow> 'w drain_pass list \<Rightarrow> 'w drain_state \<Rightarrow> 'w drain_state" where
  "OutboxDrainerWorker_start env =
     poll_loop (\<lambda>p st. OutboxDrainerWorker_drain_batch env (dp_faults p) (dp_now p) (dp_others p st))"

definition FollowUpSchedulerWorker_start ::
    "((FollowUpQueueItem \<Rightarrow> promote_faults \<times> uuid) \<times> time) list \<Rightarrow> follow_up_state \<Rightarrow> follow_up_state" where
  "FollowUpSchedulerWorker_start = poll_loop (\<lambda>(env, now) st. FollowUpSchedulerWorker_process_batch env now st)"

section \<open>Broker topology\<close>

datatype broker_call =
    Declare_exchange string string
  | Declare_queue string "(string \<times> pyval) list"
  | Bind_queue string string string
  | Set_qos int
  | Get_queue string

definition EXCHANGE_JOBS :: string where "EXCHANGE_JOBS = ''iara.jobs''"
definition EXCHANGE_DLX :: string where "EXCHANGE_DLX = ''iara.dlx''"
definition EXCHANGE_RETRY :: string where "EXCHANGE_RETRY = ''iara.retry''"
definition QUEUE_CONVERSATION_JOBS :: string where "QUEUE_CONVERSATION_JOBS = ''iara.jobs.conversation''"
definition QUEUE_DEAD_LETTERS :: string where "QUEUE_DEAD_LETTERS = ''iara.jobs.dead''"
definition QUEUE_RETRY_DELAY :: string where "QUEUE_RETRY_DELAY = ''iara.jobs.retry.delay''"
definition ROUTING_CONVERSATION_JOB :: string where "ROUTING_CONVERSATION_JOB = ''job.conversation''"

definition RabbitMQTopology_declare :: "broker_call list" where
  "RabbitMQTopology_declare = [
     Declare_exchange EXCHANGE_DLX ''fanout'', Declare_exchange EXCHANGE_JOBS ''topic'', Declare_exchange EXCHANGE_RETRY ''topic'',
     Declare_queue QUEUE_DEAD_LETTERS [], Bind_queue QUEUE_DEAD_LETTERS EXCHANGE_DLX [],
     Declare_queue QUEUE_RETRY_DELAY [(''x-message-ttl'', PInt 30000), (''x-dead-letter-exchange'', PStr EXCHANGE_JOBS)],
     Bind_queue QUEUE_RETRY_DELAY EXCHANGE_RETRY ''#'',
     Declare_queue QUEUE_CONVERSATION_JOBS [(''x-dead-letter-exchange'', PStr EXCHANGE_DLX)],
     Bind_queue QUEUE_CONVERSATION_JOBS EXCHANGE_JOBS ROUTING_CONVERSATION_JOB]"

definition MessageConsumer_consume :: "int \<Rightarrow> broker_call list" where
  "MessageConsumer_consume prefetch_count = [Set_qos prefetch_count, Get_queue QUEUE_CONVERSATION_JOBS]"

text \<open>Every exchange that a queue is bound to or dead-letters to, and every queue that is consumed, was declared before.\<close>

fun calls_closed :: "string list \<Rightarrow> string list \<Rightarrow> broker_call list \<Rightarrow> bool" where
  "calls_closed exs qs [] = True"
| "calls_closed exs qs (Declare_exchange e k # cs) = calls_closed (e # exs) qs cs"
| "calls_closed exs qs (Declare_queue q args # cs) =
     ((case map_of args ''x-dead-letter-exchange'' of Some (PStr e) \<Rightarrow> e \<in> set exs | Some _ \<Rightarrow> False | None \<Rightarrow> True) \<and> calls_closed exs (q # qs) cs)"
| "calls_closed exs qs (Bind_queue q e k # cs) = (e \<in> set exs \<and> q \<in> set qs \<and> calls_closed exs qs cs)"
| "calls_closed exs qs (Set_qos n # cs) = calls_closed exs qs cs"
| "calls_closed exs qs (Get_queue q # cs) = (q \<in> set qs \<and> calls_closed exs qs cs)"

section \<open>Start of the job consumer\<close>

datatype checkpointing = Postgres_saver string | Memory_saver

text \<open>What the start observes: whether the saver is installed, how opening it ends, whether the database engine
  can be created, and how the consumer that is the i-th to run ends (with the broker, and with closing the saver behind it).\<close>

record consumer_env =
  cn_saver_installed :: bool
  cn_open :: "string \<Rightarrow> py_exc option"
  cn_engine_fails :: bool
  cn_consumer_ends :: "nat \<Rightarrow> unit res"

text \<open>A consumer that ran: its graph, its checkpointer (none for an injected graph), whether it had a session factory for
  the leases, and the calls it made to the broker before the first message.\<close>

record consumer_run =
  cr_graph :: graph_env
  cr_checkpointer :: "checkpointing option"
  cr_session_factory :: bool
  cr_calls :: "broker_call list"

definition to_psycopg_url :: "string \<Rightarrow> string" where
  "to_psycopg_url url = py_replace ''+asyncpg'' [] url"

definition postgres_checkpointer :: "consumer_env \<Rightarrow> string \<Rightarrow> checkpointing res" where
  "postgres_checkpointer env url =
     (if \<not> cn_saver_installed env then Inl (OtherExc ''ImportError'')
      else case cn_open env (to_psycopg_url url) of
        Some e \<Rightarrow> Inl e | None \<Rightarrow> Inr (Postgres_saver (to_psycopg_url url)))"

definition run_consumer_calls :: "Settings \<Rightarrow> broker_call list" where
  "run_consumer_calls s = RabbitMQTopology_declare @ MessageConsumer_consume (rabbitmq_prefetch_count s)"

text \<open>One attempt to build the graph and to consume, after the runs before it: its result and all the runs.\<close>

definition build_and_run ::
    "consumer_env \<Rightarrow> graph_env res \<Rightarrow> Settings \<Rightarrow> consumer_run list \<Rightarrow> checkpointing \<Rightarrow> unit res \<times> consumer_run list" where
  "build_and_run env graph s runs cp = (case graph of
     Inl e \<Rightarrow> (Inl e, runs)
   | Inr g \<Rightarrow> (cn_consumer_ends env (length runs), runs @ [\<lparr>cr_graph = g, cr_checkpointer = Some cp,
       cr_session_factory = (\<not> cn_engine_fails env), cr_calls = run_consumer_calls s\<rparr>]))"

definition build_graph_with_checkpointer :: "consumer_env \<Rightarrow> graph_env res \<Rightarrow> Settings \<Rightarrow> unit res \<times> consumer_run list" where
  "build_graph_with_checkpointer env graph s =
     (case postgres_checkpointer env (database_url s) of
        Inl e \<Rightarrow> build_and_run env graph s [] Memory_saver
      | Inr cp \<Rightarrow> (case build_and_run env graph s [] cp of
          (Inr u, runs) \<Rightarrow> (Inr u, runs)
        | (Inl e, runs) \<Rightarrow> build_and_run env graph s runs Memory_saver))"

definition JobConsumerWorker_start ::
    "consumer_env \<Rightarrow> graph_env option \<Rightarrow> production_runtime \<Rightarrow> os_environ \<Rightarrow> (string \<Rightarrow> pyval option) \<Rightarrow> Settings \<Rightarrow>
     unit res \<times> consumer_run list" where
  "JobConsumerWorker_start env injected rt environ json_loads s = (case injected of
     None \<Rightarrow> build_graph_with_checkpointer env (build_production_graph rt environ json_loads s) s
   | Some g \<Rightarrow> (cn_consumer_ends env 0, [\<lparr>cr_graph = g, cr_checkpointer = None, cr_session_factory = False,
       cr_calls = run_consumer_calls s\<rparr>]))"

section \<open>Start of the process\<close>

text \<open>\<open>ChatwootMcpRegistry()\<close>: both required arguments are missing, and the call raises.\<close>

definition main_registry :: "ChatwootMcpRegistry res" where
  "main_registry = Inl (TypeError (''ChatwootMcpRegistry.__init__() missing 2 required positional arguments: '' @
     repr_str ''tenant_id'' @ '' and '' @ repr_str ''account_id_ref''))"

definition worker_main :: "(ChatwootMcpRegistry \<Rightarrow> unit res) \<Rightarrow> unit res" where
  "worker_main run_workers = res_bind main_registry run_workers"

section \<open>Lemmas\<close>

lemma topology_closed: "calls_closed [] [] (run_consumer_calls s)"
  by (simp add: run_consumer_calls_def RabbitMQTopology_declare_def MessageConsumer_consume_def EXCHANGE_JOBS_def EXCHANGE_DLX_def EXCHANGE_RETRY_def QUEUE_CONVERSATION_JOBS_def
      QUEUE_DEAD_LETTERS_def QUEUE_RETRY_DELAY_def)

lemma worker_never_starts: "\<exists>m. worker_main run_workers = Inl (TypeError m)"
  by (simp add: worker_main_def main_registry_def)

text \<open>A failure of the running consumer is taken for one of the checkpointer: a second consumer runs without the
  threads of the conversations.\<close>

lemma consumer_failure_forgets:
  assumes "postgres_checkpointer env (database_url s) = Inr cp" and "build_production_graph rt environ json_loads s = Inr g"
    and "cn_consumer_ends env 0 = Inl e"
  shows "\<exists>runs. JobConsumerWorker_start env None rt environ json_loads s = (cn_consumer_ends env 1, runs) \<and>
    map cr_checkpointer runs = [Some cp, Some Memory_saver]"
  using assms by (simp add: JobConsumerWorker_start_def build_graph_with_checkpointer_def build_and_run_def)

text \<open>Without a graph nothing is consumed, and an injected graph runs without the session factory, hence without leases.\<close>

lemma consumer_needs_graph:
  assumes "build_production_graph rt environ json_loads s = Inl e"
  shows "JobConsumerWorker_start env None rt environ json_loads s = (Inl e, [])"
  using assms by (auto simp: JobConsumerWorker_start_def build_graph_with_checkpointer_def build_and_run_def split: sum.split)

lemma consumer_runs:
  assumes "JobConsumerWorker_start env injected rt environ json_loads s = (r, runs)" and "x \<in> set runs"
  shows "calls_closed [] [] (cr_calls x)" and "cr_session_factory x \<longrightarrow> injected = None \<and> \<not> cn_engine_fails env" and "length runs \<le> 2"
  using assms topology_closed
  by (auto simp: JobConsumerWorker_start_def build_graph_with_checkpointer_def build_and_run_def split: sum.splits option.splits)

lemma poll_loop_invariant:
  assumes "P st" and "\<And>e st. e \<in> set es \<Longrightarrow> P st \<Longrightarrow> P (snd (pass e st))"
  shows "P (poll_loop pass es st)"
  using assms by (induction es arbitrary: st) auto

lemma follow_up_loop: "follow_up_run st (FollowUpSchedulerWorker_start passes st)"
  unfolding FollowUpSchedulerWorker_start_def
  by (rule poll_loop_invariant [where P = "follow_up_run st", OF follow_up_run.start])
    (auto intro: follow_up_run.batch [OF _ prod.collapse [symmetric]] split: prod.split)

text \<open>How a row may change: a settled one not at all, a pending one keeps its identity and its command and is never tried less often.\<close>

definition row_progress :: "ProviderCommandOutbox \<Rightarrow> ProviderCommandOutbox \<Rightarrow> bool" where
  "row_progress r r' \<longleftrightarrow> ob_command_id r' = ob_command_id r \<and> (ob_status r \<noteq> CS_PENDING \<longrightarrow> r' = r) \<and>
     row_command r' = (row_command r)\<lparr>cmd_retry_count := int (ob_retry_count r')\<rparr> \<and> ob_retry_count r \<le> ob_retry_count r'"

definition outbox_progress :: "outbox \<Rightarrow> outbox \<Rightarrow> bool" where
  "outbox_progress rows rows' \<longleftrightarrow> (\<forall>r\<in>set rows. \<exists>r'\<in>set rows'. row_progress r r')"

lemma row_progress_refl [simp]: "row_progress r r"
  by (simp add: row_progress_def row_command_def)

lemma row_progress_trans: "row_progress a b \<Longrightarrow> row_progress b c \<Longrightarrow> row_progress a c"
  by (auto simp: row_progress_def row_command_def)

lemma outbox_progress_refl [simp]: "outbox_progress rows rows"
  by (auto simp: outbox_progress_def intro: row_progress_refl)

lemma outbox_progress_trans: "outbox_progress a b \<Longrightarrow> outbox_progress b c \<Longrightarrow> outbox_progress a c"
  unfolding outbox_progress_def using row_progress_trans by blast

lemma outbox_progress_sub: "set a \<subseteq> set b \<Longrightarrow> outbox_progress a b"
  unfolding outbox_progress_def using row_progress_refl by blast

lemma upd_progress:
  assumes "distinct (map ob_command_id rows)" and "c \<in> set rows" and "row_progress c (f c)"
  shows "outbox_progress rows (upd_where (\<lambda>r. ob_command_id r = ob_command_id c) f rows)"
  unfolding upd_unique_row [OF assms(1,2)] outbox_progress_def
proof
  fix r assume "r \<in> set rows"
  then show "\<exists>r'\<in>set (map (\<lambda>r. if r = c then f c else r) rows). row_progress r r'"
    using assms(3) by (intro bexI [of _ "if r = c then f c else r"]) auto
qed

text \<open>Processing a pending row: the others stay, and so do the identifiers.\<close>

lemma process_progress:
  assumes d: "distinct (map ob_command_id (ds_outbox st))" and c: "c \<in> set (ds_outbox st)" "ob_status c = CS_PENDING"
    and p: "OutboxDrainerWorker_process_command env df u now c st = (x, st')"
  shows "outbox_progress (ds_outbox st) (ds_outbox st')" and "map ob_command_id (ds_outbox st') = map ob_command_id (ds_outbox st)"
    and "\<forall>r\<in>set (ds_outbox st). ob_command_id r \<noteq> ob_command_id c \<longrightarrow> r \<in> set (ds_outbox st')"
proof -
  obtain f where f: "ds_outbox st' = ds_outbox st \<or> ds_outbox st' = upd_where (\<lambda>r. ob_command_id r = ob_command_id c) f (ds_outbox st)"
    "row_progress c (f c)" "\<And>r. ob_command_id (f r) = ob_command_id r"
  proof -
    have f1: "row_progress c (c\<lparr>ob_status := CS_DEAD_LETTERED\<rparr>)" "row_progress c (c\<lparr>ob_status := CS_SENT, ob_sent_at := Some now\<rparr>)"
      "row_progress c (c\<lparr>ob_status := CS_PENDING, ob_retry_count := ob_retry_count c + 1, ob_scheduled_at := t\<rparr>)" for t
      using c(2) by (simp_all add: row_progress_def row_command_def row_risk_def)
    show thesis
      using p that [of "\<lambda>r. r\<lparr>ob_status := CS_DEAD_LETTERED\<rparr>"] that [of "\<lambda>r. r\<lparr>ob_status := CS_SENT, ob_sent_at := Some now\<rparr>"]
        that [of "\<lambda>r. r\<lparr>ob_status := CS_PENDING, ob_retry_count := ob_retry_count r + 1,
          ob_scheduled_at := now + 30 * 2 ^ ob_retry_count c * second\<rparr>"] f1
      by (auto simp: OutboxDrainerWorker_process_command_def attempt_failed_def outbox_marks Let_def
          split: if_splits option.splits sum.splits prod.splits)
  qed
  show "outbox_progress (ds_outbox st) (ds_outbox st')"
    using f upd_progress [OF d c(1)] by auto
  show "map ob_command_id (ds_outbox st') = map ob_command_id (ds_outbox st)"
    using f(1,3) by (auto simp: map_upd_where_key)
  show "\<forall>r\<in>set (ds_outbox st). ob_command_id r \<noteq> ob_command_id c \<longrightarrow> r \<in> set (ds_outbox st')"
    using f(1) by (auto simp: set_upd_where)
qed

lemma drain_all_progress:
  assumes "distinct (map ob_command_id (ds_outbox st))" and "distinct (map ob_command_id cs)"
    and "\<forall>c\<in>set cs. c \<in> set (ds_outbox st) \<and> ob_status c = CS_PENDING" and "drain_all env faults now cs st = (x, st')"
  shows "outbox_progress (ds_outbox st) (ds_outbox st') \<and> map ob_command_id (ds_outbox st') = map ob_command_id (ds_outbox st)"
  using assms
proof (induction cs arbitrary: st)
  case (Cons c cs)
  obtain y st1 where p: "OutboxDrainerWorker_process_command env (fst (faults c)) (snd (faults c)) now c st = (y, st1)" by fastforce
  have c: "c \<in> set (ds_outbox st)" "ob_status c = CS_PENDING" using Cons.prems(3) by simp_all
  note pr = process_progress [OF Cons.prems(1) c p]
  show ?case
  proof (cases y)
    case (Inr v)
    have "ob_command_id d \<noteq> ob_command_id c" if "d \<in> set cs" for d using Cons.prems(2) that by (auto simp: image_iff)
    then have "\<forall>d\<in>set cs. d \<in> set (ds_outbox st1) \<and> ob_status d = CS_PENDING"
      using pr(3) Cons.prems(3) by simp
    then have "outbox_progress (ds_outbox st1) (ds_outbox st') \<and> map ob_command_id (ds_outbox st') = map ob_command_id (ds_outbox st1)"
      using Cons.IH [of st1] Cons.prems Inr p pr(2) by simp
    then show ?thesis using pr(1,2) outbox_progress_trans by metis
  qed (use Cons.prems p pr in auto)
qed simp

lemma drain_batch_progress:
  assumes "distinct (map ob_command_id (ds_outbox st))" and "OutboxDrainerWorker_drain_batch env faults now st = (x, st')"
  shows "outbox_progress (ds_outbox st) (ds_outbox st') \<and> distinct (map ob_command_id (ds_outbox st'))"
proof (cases "dr_adapters env = []")
  case False
  have "distinct (map ob_command_id (OutboxRepository_fetch_pending_all now 50 (ds_outbox st)))"
    unfolding OutboxRepository_fetch_pending_all_def by (rule distinct_order_limit, rule distinct_map_filter, rule assms(1))
  then show ?thesis
    using drain_all_progress [OF assms(1), of _ env faults now x st'] assms fetch_pending_all_sub False
    by (simp add: OutboxDrainerWorker_drain_batch_def)
qed (use assms in \<open>simp add: OutboxDrainerWorker_drain_batch_def\<close>)

section \<open>Properties\<close>

text \<open>What other processes may do to the outbox between two passes: add rows of new commands.\<close>

definition only_adds :: "('w drain_state \<Rightarrow> 'w drain_state) \<Rightarrow> bool" where
  "only_adds f \<longleftrightarrow> (\<forall>st. distinct (map ob_command_id (ds_outbox st)) \<longrightarrow>
     distinct (map ob_command_id (ds_outbox (f st))) \<and> set (ds_outbox st) \<subseteq> set (ds_outbox (f st)))"

text \<open>C21: Over any run of the drainer's loop, with whatever providers and failures, the outbox only makes progress: no row
  is lost, a row that was sent, failed for good or dead-lettered stays exactly as it is (so it is not sent again), and a
  pending row keeps its command while its retry count never goes down.\<close>

theorem drainer_rows_final:
  fixes st :: "'w drain_state"
  assumes "distinct (map ob_command_id (ds_outbox st))" and "\<forall>p\<in>set passes. only_adds (dp_others p)"
  shows "\<forall>r\<in>set (ds_outbox st). \<exists>r'\<in>set (ds_outbox (OutboxDrainerWorker_start env passes st)).
    ob_command_id r' = ob_command_id r \<and> (ob_status r \<noteq> CS_PENDING \<longrightarrow> r' = r) \<and>
    row_command r' = (row_command r)\<lparr>cmd_retry_count := int (ob_retry_count r')\<rparr> \<and> ob_retry_count r \<le> ob_retry_count r'"
proof -
  have "outbox_progress (ds_outbox st) (ds_outbox (OutboxDrainerWorker_start env passes st)) \<and>
      distinct (map ob_command_id (ds_outbox (OutboxDrainerWorker_start env passes st)))"
    unfolding OutboxDrainerWorker_start_def
  proof (rule poll_loop_invariant)
    fix p and s :: "'w drain_state" assume p: "p \<in> set passes" and s: "outbox_progress (ds_outbox st) (ds_outbox s) \<and> distinct (map ob_command_id (ds_outbox s))"
    let ?s = "dp_others p s"
    have o: "distinct (map ob_command_id (ds_outbox ?s))" "outbox_progress (ds_outbox s) (ds_outbox ?s)"
      using assms(2) p s outbox_progress_sub by (auto simp: only_adds_def)
    show "outbox_progress (ds_outbox st) (ds_outbox (snd (OutboxDrainerWorker_drain_batch env (dp_faults p) (dp_now p) ?s))) \<and>
        distinct (map ob_command_id (ds_outbox (snd (OutboxDrainerWorker_drain_batch env (dp_faults p) (dp_now p) ?s))))"
      using drain_batch_progress [OF o(1) prod.collapse [symmetric], of env "dp_faults p" "dp_now p"] s o(2) outbox_progress_trans by blast
  qed (use assms(1) in simp)
  then show ?thesis unfolding outbox_progress_def row_progress_def by blast
qed

theorem drainer_rows_final_witness:
  "\<exists>r'\<in>set (ds_outbox (OutboxDrainerWorker_start no_calendar_env
      [\<lparr>dp_others = (\<lambda>st. st), dp_faults = (\<lambda>_. (no_drain_faults, ''f'')), dp_now = 9\<rparr>]
      \<lparr>ds_outbox = [sample_row\<lparr>ob_status := CS_SENT\<rparr>], ds_follow_ups = [], ds_world = quiet_world\<rparr>)). r' = sample_row\<lparr>ob_status := CS_SENT\<rparr>"
proof -
  let ?st = "\<lparr>ds_outbox = [sample_row\<lparr>ob_status := CS_SENT\<rparr>], ds_follow_ups = [], ds_world = quiet_world\<rparr>"
  let ?p = "\<lparr>dp_others = (\<lambda>st. st), dp_faults = (\<lambda>_. (no_drain_faults, ''f'')), dp_now = 9\<rparr> :: provider_world drain_pass"
  have "distinct (map ob_command_id (ds_outbox ?st))" "\<forall>p\<in>set [?p]. only_adds (dp_others p)" by (simp_all add: only_adds_def)
  from drainer_rows_final [OF this, of no_calendar_env] show ?thesis by simp
qed

end
