(* ===== verification/Catalog.thy ===== *)
theory Catalog
  imports Drainer Tools
begin

text \<open>
  The command builders of the tool catalog (\<open>tools/catalog/\<close>): payloads of outbox commands in which free
  text is replaced by hash references. Identifiers from \<open>uuid4\<close> are arguments; \<open>.encode()\<close> of an argument
  that is no text raises. The last section follows such a reference to the Chatwoot adapter.
\<close>

section \<open>Payloads\<close>

record builder_context =
  bc_tenant_id :: string
  bc_conversation_id :: string
  bc_idempotency_key :: string
  bc_correlation_id :: string

definition command_payload :: "uuid \<Rightarrow> string \<Rightarrow> string \<Rightarrow> builder_context \<Rightarrow> pydict \<Rightarrow> pydict" where
  "command_payload command_id prov cap ctx params =
     [(''command_id'', PStr command_id), (''provider'', PStr prov), (''capability_name'', PStr cap),
      (''tenant_id'', PStr (bc_tenant_id ctx)), (''conversation_id'', PStr (bc_conversation_id ctx)),
      (''idempotency_key'', PStr (bc_idempotency_key ctx)), (''correlation_id'', PStr (bc_correlation_id ctx)),
      (''parameters'', PDict params)]"

text \<open>\<open>prefix + sha256(text.encode()).hexdigest()[:n]\<close>, and the variant that maps an empty value to the empty text.\<close>

definition hash_ref :: "string \<Rightarrow> nat \<Rightarrow> pyval \<Rightarrow> pyval res" where
  "hash_ref prefix n v = res_bind (str_attr v) (\<lambda>s. Inr (PStr (prefix @ take n (sha256_hex s))))"

definition hash_ref_or_empty :: "string \<Rightarrow> nat \<Rightarrow> pyval \<Rightarrow> pyval res" where
  "hash_ref_or_empty prefix n v = (if \<not> truthy v then Inr (PStr []) else hash_ref prefix n v)"

definition hash_notes :: "pyval \<Rightarrow> pyval res" where
  "hash_notes = hash_ref_or_empty ''notes:'' 16"

definition hash_content :: "pyval \<Rightarrow> pyval res" where
  "hash_content = hash_ref_or_empty ''ref:'' 16"

definition text_length :: "pyval \<Rightarrow> pyval res" where
  "text_length v = res_bind (str_attr v) (\<lambda>s. Inr (PInt (int (length s))))"

abbreviation text_arg :: "pydict \<Rightarrow> string \<Rightarrow> pyval" where
  "text_arg arguments k \<equiv> dict_get_or arguments k (PStr [])"

section \<open>Scheduling\<close>

definition build_schedule_command :: "uuid \<Rightarrow> pydict \<Rightarrow> builder_context \<Rightarrow> pydict res" where
  "build_schedule_command uid arguments ctx = res_bind (hash_notes (text_arg arguments ''notes'')) (\<lambda>notes_ref.
     Inr (command_payload uid ''google_calendar'' ''schedule_appointment'' ctx
       [(''datetime_iso'', dict_get arguments ''datetime_iso''),
        (''service_type'', dict_get_or arguments ''service_type'' (PStr ''general'')), (''notes_ref'', notes_ref)]))"

definition build_cancel_command :: "uuid \<Rightarrow> pydict \<Rightarrow> builder_context \<Rightarrow> pydict res" where
  "build_cancel_command uid arguments ctx = res_bind (hash_notes (text_arg arguments ''reason'')) (\<lambda>reason_ref.
     Inr (command_payload uid ''google_calendar'' ''cancel_appointment'' ctx
       [(''appointment_ref'', dict_get arguments ''appointment_ref''), (''reason_ref'', reason_ref)]))"

definition build_reschedule_command :: "uuid \<Rightarrow> pydict \<Rightarrow> builder_context \<Rightarrow> pydict res" where
  "build_reschedule_command uid arguments ctx = Inr (command_payload uid ''google_calendar'' ''reschedule_appointment'' ctx
     [(''appointment_ref'', dict_get arguments ''appointment_ref''), (''new_datetime_iso'', dict_get arguments ''new_datetime_iso'')])"

section \<open>Qualification\<close>

definition build_qualify_command :: "uuid \<Rightarrow> pydict \<Rightarrow> builder_context \<Rightarrow> pydict res" where
  "build_qualify_command uid arguments ctx = res_bind (hash_content (text_arg arguments ''qualification_note'')) (\<lambda>note_hash.
     Inr (command_payload uid ''chatwoot'' ''label_conversation'' ctx
       [(''label'', dict_get_or arguments ''label'' (PStr ''qualified'')), (''private_note_hash'', note_hash)]))"

definition build_disqualify_command :: "uuid \<Rightarrow> pydict \<Rightarrow> builder_context \<Rightarrow> pydict res" where
  "build_disqualify_command uid arguments ctx = res_bind (hash_content (text_arg arguments ''reason'')) (\<lambda>reason_ref.
     Inr (command_payload uid ''chatwoot'' ''label_conversation'' ctx
       [(''label'', dict_get_or arguments ''label'' (PStr ''disqualified'')), (''reason_ref'', reason_ref)]))"

section \<open>Kanban\<close>

text \<open>An unknown stage is only logged.\<close>

definition build_kanban_update_command :: "uuid \<Rightarrow> pydict \<Rightarrow> builder_context \<Rightarrow> pydict res" where
  "build_kanban_update_command uid arguments ctx = Inr (command_payload uid ''chatwoot'' ''kanban_update_status'' ctx
     [(''conversation_id'', PStr (bc_conversation_id ctx)), (''stage'', text_arg arguments ''stage'')])"

definition build_kanban_comment_command :: "uuid \<Rightarrow> pydict \<Rightarrow> builder_context \<Rightarrow> pydict res" where
  "build_kanban_comment_command uid arguments ctx = (let comment = text_arg arguments ''comment'' in
     res_bind (hash_ref ''comment:'' 16 comment) (\<lambda>comment_ref. res_bind (text_length comment) (\<lambda>content_length.
       Inr (command_payload uid ''chatwoot'' ''kanban_comment'' ctx
         [(''conversation_id'', PStr (bc_conversation_id ctx)), (''note_ref'', comment_ref), (''content_length'', content_length),
          (''private'', PBool True)]))))"

section \<open>Campaigns\<close>

definition build_campaign_create_command :: "uuid \<Rightarrow> pydict \<Rightarrow> builder_context \<Rightarrow> pydict res" where
  "build_campaign_create_command uid arguments ctx =
     res_bind (hash_ref ''campaign:'' 12 (text_arg arguments ''campaign_name'')) (\<lambda>name_ref.
     res_bind (hash_ref ''template:'' 12 (text_arg arguments ''message_template'')) (\<lambda>template_ref.
     res_bind (hash_ref [] 12 (text_arg arguments ''target_description'')) (\<lambda>target_ref.
       Inr (command_payload uid ''chatwoot'' ''create_campaign_draft'' ctx
         [(''name_ref'', name_ref), (''template_ref'', template_ref), (''target_description_ref'', target_ref)]))))"

definition build_campaign_approval_command :: "uuid \<Rightarrow> pydict \<Rightarrow> builder_context \<Rightarrow> pydict res" where
  "build_campaign_approval_command uid arguments ctx = Inr (command_payload uid ''chatwoot'' ''request_campaign_approval'' ctx
     [(''campaign_draft_ref'', text_arg arguments ''campaign_draft_ref''), (''approver_ref'', text_arg arguments ''approver_ref'')])"

definition build_campaign_dispatch_command :: "uuid \<Rightarrow> pydict \<Rightarrow> builder_context \<Rightarrow> pydict res" where
  "build_campaign_dispatch_command uid arguments ctx = res_bind (py_int (dict_get_or arguments ''batch_size'' (PInt 10))) (\<lambda>n.
     Inr (command_payload uid ''chatwoot'' ''dispatch_campaign_batch'' ctx
       [(''campaign_run_ref'', text_arg arguments ''campaign_run_ref''), (''batch_size'', PInt (min n 100))]))"

definition build_campaign_cancel_command :: "uuid \<Rightarrow> pydict \<Rightarrow> builder_context \<Rightarrow> pydict res" where
  "build_campaign_cancel_command uid arguments ctx = res_bind (hash_ref_or_empty [] 16 (text_arg arguments ''reason'')) (\<lambda>reason_ref.
     Inr (command_payload uid ''chatwoot'' ''cancel_campaign_pending'' ctx
       [(''campaign_run_ref'', text_arg arguments ''campaign_run_ref''), (''reason_ref'', reason_ref)]))"

section \<open>Follow-up, voice and knowledge base\<close>

definition build_followup_command :: "uuid \<Rightarrow> pydict \<Rightarrow> builder_context \<Rightarrow> pydict res" where
  "build_followup_command uid arguments ctx = (let message = text_arg arguments ''message'' in
     res_bind (hash_ref ''msg:'' 16 message) (\<lambda>message_ref. res_bind (text_length message) (\<lambda>message_length.
     res_bind (hash_ref_or_empty [] 16 (text_arg arguments ''reason'')) (\<lambda>reason_ref.
       Inr (command_payload uid ''chatwoot'' ''followup_reengage_conversation'' ctx
         [(''conversation_id'', PStr (bc_conversation_id ctx)), (''message_ref'', message_ref), (''message_length'', message_length),
          (''reason_ref'', reason_ref)])))))"

definition build_voice_command :: "bool \<Rightarrow> uuid \<Rightarrow> pydict \<Rightarrow> builder_context \<Rightarrow> pydict res" where
  "build_voice_command voice_output_enabled uid arguments ctx = (let text_content = text_arg arguments ''text_content'' in
     res_bind (hash_ref ''audio_content:'' 16 text_content) (\<lambda>content_ref. res_bind (text_length text_content) (\<lambda>content_length.
       Inr (if \<not> voice_output_enabled
         then command_payload uid ''chatwoot'' ''send_outbound_message'' ctx
           [(''content_ref'', content_ref), (''content_length'', content_length), (''fallback_reason'', PStr ''voice_output_policy_not_active'')]
         else command_payload uid ''voice_tts'' ''generate_and_send_audio'' ctx
           [(''content_ref'', content_ref), (''content_length'', content_length),
            (''voice_ref'', dict_get_or arguments ''voice_ref'' (PStr ''default''))]))))"

text \<open>\<open>draft_uid\<close> is drawn before the command id.\<close>

definition build_kb_suggest_command :: "uuid \<Rightarrow> uuid \<Rightarrow> pydict \<Rightarrow> builder_context \<Rightarrow> pydict res" where
  "build_kb_suggest_command draft_uid uid arguments ctx = (let suggested_content = text_arg arguments ''suggested_content'' in
     res_bind (hash_ref ''topic:'' 16 (text_arg arguments ''topic'')) (\<lambda>topic_ref.
     res_bind (hash_ref ''kb_content:'' 16 suggested_content) (\<lambda>content_ref.
     res_bind (hash_ref_or_empty [] 16 (text_arg arguments ''rationale'')) (\<lambda>rationale_ref.
     res_bind (text_length suggested_content) (\<lambda>content_length.
       Inr (command_payload uid ''internal_kb'' ''create_kb_draft'' ctx
         [(''topic_ref'', topic_ref), (''content_ref'', content_ref), (''rationale_ref'', rationale_ref),
          (''draft_id'', PStr (take 8 draft_uid)), (''content_length'', content_length)]))))))"

section \<open>Lemmas\<close>

lemma campaign_batch_bounded:
  assumes "build_campaign_dispatch_command uid arguments ctx = Inr payload"
  shows "\<exists>params n. map_of payload ''parameters'' = Some (PDict params) \<and> map_of params ''batch_size'' = Some (PInt n) \<and> n \<le> 100"
  using assms by (auto simp: build_campaign_dispatch_command_def command_payload_def res_bind_Inr_iff)

lemma call_tool_makes_request:
  assumes "0 < cw_max_retries ad" and "ChatwootMcpAdapter_call_tool net ad tool args reqs = (r, reqs')"
  shows "reqs' \<noteq> []"
proof -
  obtain n where "cw_max_retries ad = Suc n" using assms(1) gr0_implies_Suc by blast
  then show ?thesis
    using assms(2) post_loop_requests unfolding ChatwootMcpAdapter_call_tool_def
    by (fastforce simp: Let_def split: net_reply.splits if_splits)
qed

text \<open>What the adapter reads of a command.\<close>

lemma execute_resolved_cong:
  assumes "build_mcp_arguments (cmd_capability_name c) tool (cmd_parameters c) =
      build_mcp_arguments (cmd_capability_name c') tool (cmd_parameters c')"
    and "dict_get_or (cmd_parameters c) ''conversation_id'' (PStr []) = dict_get_or (cmd_parameters c') ''conversation_id'' (PStr [])"
    and "cmd_command_id c = cmd_command_id c'" and "cmd_idempotency_key c = cmd_idempotency_key c'"
  shows "execute_resolved net ad c b tool reqs = execute_resolved net ad c' b tool reqs"
proof -
  have "verify_readback net ad c tool = verify_readback net ad c' tool"
    by (rule ext) (simp add: verify_readback_def assms(2))
  then show ?thesis
    by (simp only: execute_resolved_def assms)
qed

lemma follow_up_message_request:
  assumes "map_of (rg_by_intent (cw_registry ad)) ''followup_reengage_conversation'' =
      Some (capability ''followup_reengage_conversation'' ''conversation_message_send'' RC_LOW_WRITE True)"
    and "cmd_capability_name c = ''followup_reengage_conversation''"
    and "ChatwootMcpAdapter_execute_command net ad c sec reqs = (r, reqs')" and "q \<in> set reqs'" and "q \<notin> set reqs"
  shows "snd q = rpc_payload ''conversation_message_send''
      (build_mcp_arguments ''followup_reengage_conversation'' ''conversation_message_send'' (cmd_parameters c)) \<or>
    snd q = rpc_payload ''conversations_get''
      [(''id'', dict_get_or (cmd_parameters c) ''conversation_id'' (PStr [])), (''query'', PDict []), (''body'', PDict [])]"
proof -
  let ?tool = "''conversation_message_send''"
  let ?args = "build_mcp_arguments ''followup_reengage_conversation'' ?tool (cmd_parameters c)"
  let ?get = "[(''id'', dict_get_or (cmd_parameters c) ''conversation_id'' (PStr [])), (''query'', PDict []), (''body'', PDict [])]"
  have calls: "q' \<in> set l \<or> snd q' = rpc_payload tool args"
    if "ChatwootMcpAdapter_call_tool net ad tool args l = (x, l')" "q' \<in> set l'" for tool args l x l' q'
    using that post_loop_requests unfolding ChatwootMcpAdapter_call_tool_def by fastforce
  have rb: "q' \<in> set l \<or> snd q' = rpc_payload ''conversations_get'' ?get"
    if "verify_readback net ad c ?tool l = (ok, l')" "q' \<in> set l'" for l ok l' q'
    using that calls by (auto simp: verify_readback_def Let_def split: if_splits sum.splits prod.splits)
  from assms(3-5) obtain b x reqs2 where call: "ChatwootMcpAdapter_call_tool net ad ?tool ?args reqs = (x, reqs2)"
    and "reqs' = reqs2 \<or> reqs' = snd (verify_readback net ad c ?tool reqs2)"
    by (auto simp: ChatwootMcpAdapter_execute_command_def ChatwootMcpRegistry_resolve_intent_def assms(1,2) capability_def
        execute_resolved_def Let_def CapabilityResolution_denied_def split: if_splits sum.splits prod.splits)
  then show ?thesis
    using calls [OF call] rb [of reqs2 _ reqs'] assms(4,5) by (metis prod.collapse)
qed

section \<open>Properties\<close>

text \<open>The text of a scheduled follow-up never reaches the customer. The queue keeps only a hash reference and
  a length of the message, and the adapter sends the parameter \<open>content\<close>, which the follow-up command does not have:
  with the default capabilities every request for a promoted follow-up either posts a message whose content is empty or
  reads the conversation back, and replacing the message by any other changes neither the requests nor the result.\<close>

theorem follow_up_text_lost:
  assumes "cw_registry ad = ChatwootMcpRegistry_init t a None deny"
    and "ChatwootMcpAdapter_execute_command net ad (follow_up_command item n) sec [] = (r, reqs)"
  shows "(\<forall>q\<in>set reqs. \<exists>tool args. snd q = rpc_payload tool args \<and>
      (tool = ''conversation_message_send'' \<and> map_of args ''content'' = Some (PStr []) \<or> tool = ''conversations_get'')) \<and>
    ChatwootMcpAdapter_execute_command net ad
      (follow_up_command (item\<lparr>fu_message_ref := message_ref, fu_message_length := message_length\<rparr>) n) sec [] = (r, reqs)"
proof
  let ?i = "''followup_reengage_conversation''"
  have m: "map_of (rg_by_intent (cw_registry ad)) ?i = Some (capability ?i ''conversation_message_send'' RC_LOW_WRITE True)"
    by (simp add: assms(1) ChatwootMcpRegistry_init_def map_of_registry DEFAULT_CHATWOOT_CAPABILITIES_def capability_def)
  have c: "cmd_capability_name (follow_up_command item n) = ?i"
    by (simp add: follow_up_command_def)
  have e: "map_of (build_mcp_arguments ?i ''conversation_message_send'' (cmd_parameters (follow_up_command item n)))
      ''content'' = Some (PStr [])"
    by (simp add: build_mcp_arguments_def Let_def follow_up_command_def dict_get_or_def)
  show "\<forall>q\<in>set reqs. \<exists>tool args. snd q = rpc_payload tool args \<and>
      (tool = ''conversation_message_send'' \<and> map_of args ''content'' = Some (PStr []) \<or> tool = ''conversations_get'')"
    using follow_up_message_request [OF m c assms(2)] e by fastforce
  let ?item' = "item\<lparr>fu_message_ref := message_ref, fu_message_length := message_length\<rparr>"
  have "execute_resolved net ad (follow_up_command ?item' n) b ''conversation_message_send'' [] =
      execute_resolved net ad (follow_up_command item n) b ''conversation_message_send'' []" for b
    by (rule execute_resolved_cong) (simp_all add: build_mcp_arguments_def Let_def follow_up_command_def dict_get_or_def)
  moreover have "cmd_tenant_id (follow_up_command ?item' n) = cmd_tenant_id (follow_up_command item n)"
    "cmd_account_id_ref (follow_up_command ?item' n) = cmd_account_id_ref (follow_up_command item n)"
    "cmd_capability_name (follow_up_command ?item' n) = ?i"
    by (simp_all add: follow_up_command_def)
  ultimately have "ChatwootMcpAdapter_execute_command net ad (follow_up_command ?item' n) sec [] =
      ChatwootMcpAdapter_execute_command net ad (follow_up_command item n) sec []"
    by (simp add: ChatwootMcpAdapter_execute_command_def ChatwootMcpRegistry_resolve_intent_def
        CapabilityResolution_denied_def c m capability_def)
  with assms(2) show "ChatwootMcpAdapter_execute_command net ad (follow_up_command ?item' n) sec [] = (r, reqs)"
    by (simp only:)
qed

theorem follow_up_text_lost_witness:
  "\<exists>q. snd (ChatwootMcpAdapter_execute_command ok_transport sample_adapter (follow_up_command sample_item 1)
      (sample_sec ''t'') []) = q \<and> q \<noteq> [] \<and>
    (\<forall>p\<in>set q. \<exists>tool args. snd p = rpc_payload tool args \<and>
      (tool = ''conversation_message_send'' \<and> map_of args ''content'' = Some (PStr []) \<or> tool = ''conversations_get''))"
proof -
  obtain r reqs where e: "ChatwootMcpAdapter_execute_command ok_transport sample_adapter (follow_up_command sample_item 1)
      (sample_sec ''t'') [] = (r, reqs)" by fastforce
  have a: "cw_registry sample_adapter = ChatwootMcpRegistry_init ''t'' [] None None"
    by (simp add: sample_adapter_def ChatwootMcpAdapter_init_def)
  have m: "map_of (rg_by_intent (cw_registry sample_adapter)) ''followup_reengage_conversation'' =
      Some (capability ''followup_reengage_conversation'' ''conversation_message_send'' RC_LOW_WRITE True)"
    by (simp add: a ChatwootMcpRegistry_init_def map_of_registry DEFAULT_CHATWOOT_CAPABILITIES_def capability_def)
  have "execute_resolved ok_transport sample_adapter (follow_up_command sample_item 1) True
      ''conversation_message_send'' [] = (r, reqs)"
    using e m by (simp add: ChatwootMcpAdapter_execute_command_def ChatwootMcpRegistry_resolve_intent_def a
        ChatwootMcpRegistry_init_def capability_def follow_up_command_def sample_item_def sample_sec_def py_strip_def
        py_space_def)
  moreover have "0 < cw_max_retries sample_adapter"
    by (simp add: sample_adapter_def ChatwootMcpAdapter_init_def)
  ultimately have "reqs \<noteq> []"
    by (auto simp: execute_resolved_def Let_def verify_readback_def dest: call_tool_makes_request
        split: sum.splits prod.splits if_splits)
  with conjunct1 [OF follow_up_text_lost [OF a e]] e show ?thesis by simp
qed

end
