(* ===== verification/Chat.thy ===== *)
theory Chat
  imports Graph
begin

text \<open>
  The synchronous chat endpoint (\<open>api/routers/chat.py\<close>): resolve the tenant, run the graph on a thread of its
  own and return the agent's response. What the scheduler returns for a label without a target is the
  argument \<open>unmapped\<close>; the message text of an exception is the argument \<open>exc_text\<close>.
\<close>

record ChatRequest =
  chr_conversation_id :: string
  chr_messages :: "(string \<times> string) list"

record ChatResponse =
  chs_reply :: string
  chs_conversation_id :: string
  chs_run_id :: string

definition chat_state :: "string \<Rightarrow> string \<Rightarrow> string \<Rightarrow> ChatRequest \<Rightarrow> GraphState" where
  "chat_state run_id correlation_id tenant_id body = fresh_state\<lparr>gs_run_id := run_id, gs_tenant_id := tenant_id,
     gs_conversation_id := chr_conversation_id body, gs_correlation_id := correlation_id,
     gs_eligibility_status := Some ''pending'', gs_messages := map role_message (chr_messages body),
     gs_metadata := [(''idempotency_key'', PStr run_id)]\<rparr>"

definition chat_reply :: "(py_exc \<Rightarrow> string) \<Rightarrow> string \<Rightarrow> ChatRequest \<Rightarrow> GraphState res \<Rightarrow> ChatResponse res" where
  "chat_reply exc_text run_id body result = (case result of
     Inl e \<Rightarrow> Inl (HTTPException 500 (exc_text e))
   | Inr s \<Rightarrow> if given (gs_error s) then Inl (HTTPException 500 (the (gs_error s)))
       else Inr \<lparr>chs_reply = (case gs_agent_response s of None \<Rightarrow> [] | Some r \<Rightarrow> r),
              chs_conversation_id = chr_conversation_id body, chs_run_id = run_id\<rparr>)"

definition chat ::
    "graph_env \<Rightarrow> (py_exc \<Rightarrow> string) \<Rightarrow> (GraphState \<Rightarrow> GraphState res) \<Rightarrow> tenant_repo \<Rightarrow> time \<Rightarrow> time \<Rightarrow> uuid \<Rightarrow> uuid \<Rightarrow> string \<Rightarrow> ChatRequest
     \<Rightarrow> TenantResolver \<Rightarrow> graph_world \<Rightarrow> ChatResponse res \<times> TenantResolver \<times> graph_world" where
  "chat env exc_text unmapped repo now now_utc run_id correlation_id tenant_key body rs w =
     (case TenantResolver_resolve repo now now_utc tenant_key rs of
        (Inl (IaraExc (FailClosedError m)), rs') \<Rightarrow> (Inl (HTTPException 404 ''Tenant not found''), rs', w)
      | (Inl e, rs') \<Rightarrow> (Inl e, rs', w)
      | (Inr ctx, rs') \<Rightarrow>
          (let (out, s, w') = run_from MAX_NODES env N_eligibility (chat_state run_id correlation_id (tc_tenant_id ctx) body) w
           in (chat_reply exc_text run_id body (case out of Raised e \<Rightarrow> Inl e | No_target \<Rightarrow> unmapped s | _ \<Rightarrow> Inr s), rs', w')))"

section \<open>Lemmas\<close>

text \<open>What is known of the response when a node is entered, and when the run is over.\<close>

definition quiet :: "GraphState \<Rightarrow> bool" where
  "quiet s \<longleftrightarrow> gs_agent_response s \<in> {None, Some []}"

definition vetted :: "graph_env \<Rightarrow> GraphState \<Rightarrow> bool" where
  "vetted env s \<longleftrightarrow> quiet s \<or> (\<exists>c. gs_agent_response s = Some c \<and> (c = HITL_ESCALATION_RESPONSE \<or> released env c))"

primrec entered :: "graph_env \<Rightarrow> node \<Rightarrow> GraphState \<Rightarrow> bool" where
  "entered env N_eligibility s \<longleftrightarrow> quiet s \<and> \<not> gs_hitl_requested s"
| "entered env N_command_assistant s \<longleftrightarrow> gs_is_admin_command s"
| "entered env N_media_understanding s \<longleftrightarrow> \<not> gs_hitl_requested s"
| "entered env N_context_builder s \<longleftrightarrow> \<not> gs_hitl_requested s"
| "entered env N_agent s \<longleftrightarrow> \<not> gs_hitl_requested s"
| "entered env N_tool_executor s \<longleftrightarrow> \<not> gs_hitl_requested s"
| "entered env N_guardrails s \<longleftrightarrow> \<not> gs_hitl_requested s"
| "entered env N_hitl s \<longleftrightarrow> vetted env s"
| "entered env N_command_dispatch s \<longleftrightarrow> vetted env s"
| "entered env N_memory_writer s \<longleftrightarrow> vetted env s"

lemma tail_response:
  assumes "node_fn n env s w = (Inr s', w')" and "n \<in> {N_hitl, N_command_dispatch, N_memory_writer}"
  shows "gs_agent_response s' = gs_agent_response s"
  using assms by (auto simp: hitl_node_def command_dispatch_node_def memory_writer_node_def Let_def
      split: option.splits if_splits sum.splits prod.splits)

lemma eligibility_response:
  assumes "eligibility_node env s w = (Inr s', w')"
  shows "gs_agent_response s' = gs_agent_response s"
  using assms by (auto simp: eligibility_node_def Let_def res_bind_Inr_iff split: option.splits if_splits)

lemma guardrails_vetted:
  assumes "guardrails_node env s w = (Inr s', w')" and "\<not> gs_hitl_requested s"
  shows "vetted env s'"
proof (cases "gs_hitl_requested s'")
  case True
  then show ?thesis using guardrails_escalate [OF assms(1) _ assms(2)] by (simp add: vetted_def)
next
  case False
  show ?thesis
  proof (cases "given (gs_agent_response s')")
    case True
    then obtain c where c: "gs_agent_response s' = Some c" "c \<noteq> []" by (auto simp: given_def)
    have "guardrails_node env (s\<lparr>gs_error := None\<rparr>) w = (Inr (s'\<lparr>gs_error := None\<rparr>), w')"
      using assms(1) by (auto simp: guardrails_node_def Let_def split: option.splits if_splits)
    from guardrails_release [OF this, of c] c False show ?thesis
      by (simp add: vetted_def should_continue_after_guardrails_def given_def)
  qed (auto simp: vetted_def quiet_def given_def)
qed

lemma entered_step:
  assumes "entered env n s" and "node_fn n env s w = (Inr s', w')" and "next_target n s' = Some (Goto n')"
  shows "entered env n' s'"
  using next_node [OF assms(3)] assms hitl_flag [OF assms(2)] guardrails_vetted [of env s w s' w'] tail_response [OF assms(2)]
  by (auto simp: vetted_def quiet_def edge_defs split: if_splits)

lemma entered_stop:
  assumes "entered env n s" and "node_fn n env s w = (Inr s', w')" and "next_target n s' \<in> {None, Some END}"
  shows "given (gs_error s') \<or> gs_is_admin_command s' \<or> vetted env s'"
proof (cases n)
  case N_command_assistant
  then show ?thesis using assms(1,2) by (auto simp: command_assistant_node_def res_bind_Inr_iff case_prod_beta)
next
  case N_eligibility
  then show ?thesis using assms(1,2) eligibility_response by (simp add: vetted_def quiet_def)
next
  case N_agent
  then show ?thesis using assms hitl_flag [OF assms(2)] by (auto simp: edge_defs split: if_splits)
next
  case N_guardrails
  then show ?thesis using assms guardrails_vetted by simp
qed (use assms tail_response [OF assms(2)] in \<open>auto simp: edge_defs vetted_def quiet_def split: if_splits\<close>)

lemma run_vetted:
  "run_from k env n s w = (out, s', w') \<Longrightarrow> entered env n s \<Longrightarrow> out \<in> {Finished, No_target} \<Longrightarrow>
    given (gs_error s') \<or> gs_is_admin_command s' \<or> vetted env s'"
proof (induction k arbitrary: n s w)
  case (Suc k)
  from Suc.prems(1) show ?case
  proof (cases rule: run_from_cases)
    case stop
    then show ?thesis using entered_stop [OF Suc.prems(2)] by blast
  next
    case (step n1 s1 w1)
    then show ?thesis using Suc.IH [OF step(3)] entered_step [OF Suc.prems(2)] Suc.prems(3) by blast
  qed (use Suc.prems(3) in auto)
qed simp

section \<open>Properties\<close>

text \<open>The chat endpoint answers only vetted texts: when the run finished and the request was no admin command,
  the reply is empty, the escalation text, or a text that the guardrails released; a tenant that cannot
  be resolved is a 404 and a run that set an error a 500, never a reply.\<close>

theorem chat_reply_vetted:
  assumes "chat env exc_text unmapped repo now nu run corr key body rs w = (Inr resp, rs', w')"
    and "\<And>s. isl (unmapped s)"
  shows "\<exists>ctx s. TenantResolver_resolve repo now nu key rs = (Inr ctx, rs') \<and>
    run_from MAX_NODES env N_eligibility (chat_state run corr (tc_tenant_id ctx) body) w = (Finished, s, w') \<and>
    \<not> given (gs_error s) \<and> chs_run_id resp = run \<and>
    (gs_is_admin_command s \<or> chs_reply resp \<in> {[], HITL_ESCALATION_RESPONSE} \<or> released env (chs_reply resp))"
proof -
  obtain ctx where ctx: "TenantResolver_resolve repo now nu key rs = (Inr ctx, rs')"
    using assms(1) by (auto simp: chat_def split: prod.splits sum.splits py_exc.splits iara_error.splits)
  obtain out s w1 where r: "run_from MAX_NODES env N_eligibility (chat_state run corr (tc_tenant_id ctx) body) w = (out, s, w1)"
    by (cases "run_from MAX_NODES env N_eligibility (chat_state run corr (tc_tenant_id ctx) body) w") auto
  have c: "chat_reply exc_text run body (case out of Raised e \<Rightarrow> Inl e | No_target \<Rightarrow> unmapped s | _ \<Rightarrow> Inr s) = Inr resp" "w' = w1"
    using assms(1) ctx r by (simp_all add: chat_def)
  have "out \<noteq> Out_of_fuel"
    using run_ends [of N_eligibility "chat_state run corr (tc_tenant_id ctx) body" MAX_NODES env w] r
    by (simp add: chat_state_def fresh_state_def agent_budget_def MAX_NODES_def)
  then have out: "out = Finished" using c(1) assms(2) [of s] by (cases out) (auto simp: chat_reply_def isl_def)
  have "entered env N_eligibility (chat_state run corr (tc_tenant_id ctx) body)"
    by (simp add: chat_state_def fresh_state_def quiet_def)
  from run_vetted [OF r this] out c r show ?thesis
    by (intro exI [of _ ctx] exI [of _ s]) (auto simp: ctx chat_reply_def vetted_def quiet_def split: if_splits)
qed

definition sample_chat :: "ChatResponse res \<times> TenantResolver \<times> graph_world" where
  "sample_chat = chat ((sample_graph (sample_llm ''Oi!'' []))\<lparr>ge_auth_guard := Some []\<rparr>) (\<lambda>_. []) (\<lambda>_. Inl (KeyError ''end''))
     (InMemoryTenantRepository_get_by_key [(''pilot'', pilot_record)]) 9 5 ''run'' ''corr'' ''pilot''
     \<lparr>chr_conversation_id = ''9'', chr_messages = [(''user'', ''/iara status'')]\<rparr> (TenantResolver_init 60) sample_world"

lemma sample_chat_denied: "CommandAuthorizationGuard_check [] t ''contact'' [] ''/iara status'' =
    \<lparr>ar_allowed = False, ar_reason = ''unauthorized_sender'', ar_is_admin_command = True\<rparr>"
  by (simp add: CommandAuthorizationGuard_check_def CommandRequesterBinding_init_def is_admin_prefix_def py_strip_def py_space_def
      ADMIN_PREFIXES_def py_startswith_def py_lower_def lower_char_def Let_def)

theorem chat_reply_vetted_witness:
  "\<exists>resp rs' w' (ctx::TenantContext) s. sample_chat = (Inr resp, rs', w') \<and> \<not> given (gs_error s) \<and> chs_run_id resp = ''run'' \<and>
    run_from MAX_NODES ((sample_graph (sample_llm ''Oi!'' []))\<lparr>ge_auth_guard := Some []\<rparr>) N_eligibility
      (chat_state ''run'' ''corr'' (tc_tenant_id ctx) \<lparr>chr_conversation_id = ''9'', chr_messages = [(''user'', ''/iara status'')]\<rparr>)
      sample_world = (Finished, s, w')"
proof -
  obtain resp rs' w' where r: "sample_chat = (Inr resp, rs', w')"
    by (simp add: sample_chat_def chat_def TenantResolver_resolve_def TenantResolver_init_def TenantResolver_fetch_def
        pilot_context InMemoryTenantRepository_get_by_key_def TenantContext_assert_active_def py_strip_def py_space_def
        chat_state_def fresh_state_def MAX_NODES_def eval_nat_numeral eligibility_node_def guard_verdict_def sample_graph_def
        last_user_content_def role_message_def dict_get_def dict_get_or_def as_str_def py_or_def py_str_def sample_chat_denied
        edge_defs chat_reply_def given_def Let_def)
  obtain ctx :: TenantContext and s where "\<not> given (gs_error s)" "chs_run_id resp = ''run''"
    "run_from MAX_NODES ((sample_graph (sample_llm ''Oi!'' []))\<lparr>ge_auth_guard := Some []\<rparr>) N_eligibility
      (chat_state ''run'' ''corr'' (tc_tenant_id ctx) \<lparr>chr_conversation_id = ''9'', chr_messages = [(''user'', ''/iara status'')]\<rparr>)
      sample_world = (Finished, s, w')"
    using chat_reply_vetted [OF r [unfolded sample_chat_def]] by auto
  then show ?thesis using r by blast
qed

end
