(* ===== verification/Spec2Isabelle.thy ===== *)
theory Spec2Isabelle
  imports Startup Schema ConfigSchema ChatwootClient Logging Playground Workers Media Scheduling Catalog Redaction JobConsumer Drainer Tools
    Guardrails Memory Hitl CommandAuth Graph Chat ConfigPublishing Production RuntimeSettings
begin

text \<open>
  Verification of the IAra runtime, a multi-tenant conversational agent that answers the customers of a
  clinic through Chatwoot. All paths below are relative to \<open>src/src/iara/\<close> unless they start elsewhere.

  \<^bold>\<open>The program.\<close> Chatwoot posts an event to the webhook (\<open>api/routers/webhooks.py\<close>). The tenant of its URL
  is resolved, the payload is normalized, eight eligibility rules are checked against two ledgers, and an
  accepted message becomes a job in RabbitMQ. A worker (\<open>workers/job_consumer.py\<close>) takes the job, leases
  the conversation and runs a LangGraph graph: eligibility, admin commands, media, context, a loop of
  model and tools, guardrails, then either a hold for a human or a command in the outbox, and memory.
  Nothing is sent by the graph itself: a second worker (\<open>workers/outbox_drainer.py\<close>) takes commands out of
  the outbox and hands them to a provider adapter, with retries and a dead letter state; a third
  (\<open>workers/follow_up_scheduler.py\<close>) turns due follow-ups into commands. Operators decide holds and
  publish configurations over HTTP. The shared state is one Postgres database.

  \<^bold>\<open>Theories, from the bottom.\<close>

  \<^item> \<open>Prelude\<close>: Python values, strings, dictionaries, exceptions as \<open>Inl\<close>, table operations
    (\<open>insert_ignore\<close>), canonical UUIDs, calendar dates; the locale \<open>keyed_store\<close>. \<open>Hashing\<close>: SHA-256 on 32-bit
    words. \<open>Regex\<close>: the matcher behind \<open>re.search\<close> and \<open>re.sub\<close>, with the language of a pattern.
  \<^item> \<open>Contracts\<close>: \<open>contracts/*.py\<close>, the exception hierarchy, enumerations and records.
  \<^item> \<open>Tenancy\<close>: \<open>tenancy/*.py\<close>, \<open>security/guards.py\<close>. The resolver with its cache is a state of type
    \<open>TenantResolver\<close>; \<open>resolver_run\<close> is any sequence of its calls. Shown: bounded staleness, failing closed.
  \<^item> \<open>Eligibility\<close>: \<open>eligibility/*.py\<close>. Shown: the exact accepting condition, private content has no influence.
  \<^item> \<open>Ledger\<close>, \<open>Leases\<close>, \<open>Outbox\<close>: \<open>persistence/repositories/\<close> and \<open>persistence/services/\<close>. Tables are lists of
    rows or maps from keys to rows; a repository method is a function on its table. Locales \<open>dedup_ledger\<close>
    (receipts and outbox) and \<open>debounce_windows\<close>; the interleavings of lease acquisitions are the step
    relation \<open>lease_step\<close>, in which the select and the upsert of one acquisition are two steps. Shown: grants
    never overlap, keys stay unique, enqueueing is idempotent.
  \<^item> \<open>Webhook\<close>: the whole handler and its background task, \<open>messaging/publisher.py\<close>. Shown: one job per key over
    sequential deliveries, where jobs come from.
  \<^item> \<open>Provider\<close>, \<open>ChatwootAdapter\<close>, \<open>ChatwootClient\<close>: \<open>provider/*.py\<close>, \<open>provider/chatwoot/*.py\<close>. The adapter
    protocol is the locale \<open>provider_adapter\<close>, interpreted by the real and by the fake adapter. Risk classes are
    a linear order.
  \<^item> \<open>Scheduling\<close>: \<open>provider/scheduling/*.py\<close>, with a locale for readers and one for writers of calendars, each
    interpreted by the Google, Clinicorp and null variants. Shown: free slots against a reference count,
    an appointment is booked once.
  \<^item> \<open>FollowUp\<close>, \<open>Drainer\<close>, \<open>Workers\<close>: the queue, the polling loops and the start of the workers
    (\<open>workers/*.py\<close>, \<open>messaging/*.py\<close>, \<open>persistence/checkpointer.py\<close>). Shown: quiet hours, bounded attempts,
    the outcome of every drain attempt, that settled rows stay settled over any run of the loop.
  \<^item> \<open>ToolRegistry\<close>, \<open>Tools\<close>, \<open>Catalog\<close>: \<open>tools/*.py\<close> and \<open>tools/catalog/*.py\<close>. Shown: a call has an effect only
    when it is registered, active and approved for execution.
  \<^item> \<open>Guardrails\<close>, \<open>Redaction\<close>, \<open>Logging\<close>, \<open>CommandAuth\<close>: \<open>security/*.py\<close>, \<open>graph/nodes/guardrails.py\<close>,
    \<open>graph/nodes/command_assistant.py\<close>, \<open>observability/logging.py\<close>. Shown: the blocklist means what it says, no
    marker leaks, redaction is complete and a fixed point.
  \<^item> \<open>Memory\<close>, \<open>Hitl\<close>, \<open>ConfigPublishing\<close>, \<open>ConfigSchema\<close>: \<open>memory/*.py\<close>, the holds with their router, the
    publisher with both of its stores as interpretations of the locale \<open>config_publisher\<close>. Shown: erased items
    stay erased, a hold is decided once, publishing refines an append-only history with one active entry, a
    posted configuration is what is served after publication.
  \<^item> \<open>Media\<close>: \<open>media/subgraph.py\<close>; its three processors share the locale \<open>media_processor\<close>.
  \<^item> \<open>GraphNodes\<close>, \<open>Graph\<close>, \<open>Production\<close>, \<open>Chat\<close>: \<open>graph/*.py\<close>, \<open>graph/nodes/*.py\<close>, \<open>api/routers/chat.py\<close>. A
    node is a function from state and world to an exception or a new state, with the new world. Shown: what is sent was vetted, every
    invocation ends, a plain answer is delivered, an escalation is held, what the production wiring can do.
  \<^item> \<open>JobConsumer\<close>: the handling of one message. Shown: the graph runs under a lease.
  \<^item> \<open>RuntimeSettings\<close>, \<open>Startup\<close>: \<open>config/settings.py\<close>, \<open>llm/factory.py\<close>, \<open>persistence/database.py\<close>, \<open>api/app.py\<close>,
    \<open>api/routers/admin.py\<close>, \<open>persistence/seeds/seed_pilot.py\<close>. Shown: sessions are all or nothing, a degraded
    process refuses events, what the pilot seed does and does not achieve.
  \<^item> \<open>Schema\<close>: \<open>src/migrations/versions/*.py\<close> and \<open>persistence/models.py\<close>. A revision is a list of data definition
    statements run on a schema. Shown: every downgrade is the inverse of its upgrade, what the models and the
    migrated database disagree on, that the upserts are backed by constraints, which receipts do not fit.
  \<^item> \<open>Playground\<close>: the scenarios of \<open>src/pages/2_Webhooks.py\<close>, run through normalizer and eligibility rules.
  \<^item> this theory: properties that join the graph with the media subgraph and with the holds.

  \<^bold>\<open>Bounds.\<close> An invocation of the graph has fuel \<open>MAX_NODES = 15\<close>: the agent node stops calling tools after
  \<open>MAX_TOOL_ITERATIONS * 2\<close> counted steps, which is proved to end every run before the fuel does, and the
  limit of LangGraph (25 steps) is never reached. Polling loops, which run until a shutdown, are functions of the list of
  their rounds, so that a statement holds after any number of them. All other recursions terminate and are
  proved to. Time is an \<open>int\<close> of microseconds; Python integers are \<open>int\<close>; the words of SHA-256 have 32 bits.

  \<^bold>\<open>Text.\<close> A \<open>str\<close> is a list of code points below 256. Literals of the source outside that range (dashes,
  arrows) are transliterated; case mapping, accents and word boundaries follow Unicode on that range.

  \<^bold>\<open>Arguments of the model.\<close> What the code calls but does not define is a parameter: the language model, HTTP
  transports and streams, the OpenAI client, pypdf, pydantic's coercions, the parsers of JSON and ISO dates,
  signatures, clocks, fresh identifiers, environment variables, the processors of structlog, and which
  statements of the database or calls of the broker fail. Where a theorem relies on one, the reliance is a
  named predicate such as \<open>pydantic_laws\<close>, and its witness instantiates it.

  \<^bold>\<open>Not modelled.\<close> The counters of \<open>observability/metrics.py\<close>, which only forward to a library; the data shapes of
  \<open>contracts/audit.py\<close> and the unused ones of \<open>contracts/state.py\<close>, which no code reads; the server process
  and \<open>src/migrations/env.py\<close>, which hand over to uvicorn and alembic; the widgets of the Streamlit pages; the
  interleaving of coroutines inside one handler, except where the code guards against it (leases,
  holds, concurrent deliveries). Log statements are left out of the operations.
\<close>


definition sample_hold :: HitlHoldRecord where
  "sample_hold = \<lparr>hh_id = ''h'', hh_run_id = ''run'', hh_tenant_id = ''00000000-0000-4000-8000-000000000001'', hh_conversation_id = ''9'',
     hh_thread_id = ''run'', hh_reason = Some ''anti_loop'', hh_status = HS_PENDING, hh_resolved_by = None, hh_context_snapshot = [],
     hh_requested_at = 0, hh_resolved_at = None\<rparr>"


text \<open>C27: Every attachment of a message is accounted for. When the media node runs on the attachments that the webhook
  extracted and their content types are texts, it completes without an exception and stores one context per
  attachment, in order and under its reference, whatever the downloads and the model do; each context is
  complete with a text, or partial, unsupported or failed with a reason.\<close>

theorem media_all_accounted:
  assumes "ge_media_subgraph env = Some (media_subgraph me ms l)"
    and "dict_get_or (gs_metadata s) ''attachments'' (PList []) = PList (map PDict (attachment_jobs raw))"
    and "attachment_jobs raw \<noteq> []" and "\<forall>d\<in>set (attachment_jobs raw). \<exists>t. dict_get d ''content_type'' = PStr t"
  shows "\<exists>cs. media_understanding_node env s w = (Inr (stepped (s\<lparr>gs_media_processed := True,
       gs_metadata := AList.update ''media_contexts'' (PList (map (\<lambda>c. PDict (MediaContext_model_dump c)) cs)) (gs_metadata s)\<rparr>)), w) \<and>
    list_all2 (\<lambda>d c. context_ok (dict_get d ''ref'') (dict_type d) c) (attachment_jobs raw) cs"
proof -
  let ?jobs = "attachment_jobs raw"
  have job: "\<exists>r t. dict_ref d = PStr r \<and> dict_get d ''ref'' = PStr r \<and> dict_type d = PStr t" if "d \<in> set ?jobs" for d
  proof -
    obtain i a where "attachment_job i a = Some d" using \<open>d \<in> set ?jobs\<close> by (auto simp: attachment_jobs_def map_filter_def)
    then have "\<exists>r. dict_ref d = PStr r \<and> dict_get d ''ref'' = PStr r"
      by (auto simp: attachment_job_def Let_def dict_get_or_def dict_get_def split: pyval.splits if_splits)
    moreover obtain t where "dict_get d ''content_type'' = PStr t" using assms(4) \<open>d \<in> set ?jobs\<close> by blast
    ultimately show ?thesis by (auto simp: py_or_def)
  qed
  obtain cs where cs: "fst (m_map (process_dict me ms) (map PDict ?jobs) l) = Inr cs"
    using m_map_total [of "map PDict ?jobs" "process_dict me ms" l] process_dict_answers job by fastforce
  have "list_all2 answers_dict (map PDict ?jobs) cs"
    using m_ok_map [of "map PDict ?jobs" "call_ok ms (dict_urls (map PDict ?jobs))" answers_dict "process_dict me ms"]
      process_dict_ok cs unfolding m_ok_def by blast
  then have all: "list_all2 (\<lambda>d c. context_ok (dict_get d ''ref'') (dict_type d) c) ?jobs cs"
    using job by (auto simp: list_all2_conv_all_nth answers_dict_def) (metis nth_mem)
  have "media_subgraph me ms l (PList (map PDict ?jobs)) = Inr (map MediaContext_model_dump cs)"
    using cs by (simp add: media_subgraph_def MediaUnderstandingSubgraph_process_from_dicts_def py_iter_def m_bind_def m_lift_def)
  then show ?thesis using all assms(1-3)
    by (intro exI [of _ cs]) (simp add: media_understanding_node_def has_len_def comp_def)
qed

definition sample_raw :: "pyval list" where
  "sample_raw = [PDict [(''data_url'', PStr ''https://f/1''), (''content_type'', PStr ''text/plain''), (''file_type'', PStr ''file'')]]"

theorem media_all_accounted_witness:
  "\<exists>c s'. media_understanding_node
      ((sample_graph (sample_llm ''Oi'' []))\<lparr>ge_media_subgraph := Some (media_subgraph (sample_media_env None) sample_media [])\<rparr>)
      (fresh_state\<lparr>gs_metadata := [(''attachments'', PList (map PDict (attachment_jobs sample_raw)))]\<rparr>) sample_world = (Inr s', sample_world) \<and>
    map_of (gs_metadata s') ''media_contexts'' = Some (PList [PDict (MediaContext_model_dump c)])"
proof -
  let ?s = "fresh_state\<lparr>gs_metadata := [(''attachments'', PList (map PDict (attachment_jobs sample_raw)))]\<rparr>"
  have jobs: "\<exists>d. attachment_jobs sample_raw = [d] \<and> dict_get d ''content_type'' = PStr ''text/plain''"
    by (simp add: attachment_jobs_def sample_raw_def map_filter_def attachment_job_def dict_get_def dict_get_or_def py_or_def Let_def)
  have "\<exists>cs. media_understanding_node
      ((sample_graph (sample_llm ''Oi'' []))\<lparr>ge_media_subgraph := Some (media_subgraph (sample_media_env None) sample_media [])\<rparr>) ?s sample_world =
      (Inr (stepped (?s\<lparr>gs_media_processed := True, gs_metadata := AList.update ''media_contexts''
         (PList (map (\<lambda>c. PDict (MediaContext_model_dump c)) cs)) (gs_metadata ?s)\<rparr>)), sample_world) \<and>
      list_all2 (\<lambda>d c. context_ok (dict_get d ''ref'') (dict_type d) c) (attachment_jobs sample_raw) cs"
    by (rule media_all_accounted) (use jobs in \<open>auto simp: dict_get_or_def\<close>)
  then show ?thesis using jobs by (auto simp: update_conv' list_all2_Cons1) blast
qed

end
